(* ===== verification/Prelude.thy ===== *)
theory Prelude
  imports Complex_Main "HOL-Library.Word"
begin

text \<open>
  What every component shares: bytes, exceptions as values of a sum type, the
  sequencing of fallible steps, the numbers of the language, the UTF-8 encoding
  of strings, and the generic lemmas about them.

  A \<open>string\<close> (list of 8-bit characters) stands for a JavaScript string: one
  character is one UTF-16 code unit in the range U+0000 to U+00FF, so
  \<open>length\<close> is the \<open>length\<close> property of the JavaScript string.
\<close>

section \<open>Collections of facts\<close>

named_theorems result_simps \<open>unfolding of the result combinators\<close>
named_theorems emit_intros \<open>what an encoder step appends to the output\<close>
named_theorems field_defs \<open>field lists of the messages\<close>

section \<open>Exceptions and fallible steps\<close>

datatype exn =
    TypeError string
  | RangeError string
  | SyntaxError string
  | Error string

type_synonym byte = "8 word"
type_synonym 'a result = "exn + 'a"

definition bindE :: "'a result \<Rightarrow> ('a \<Rightarrow> 'b result) \<Rightarrow> 'b result" where
  "bindE m f = (case m of Inl e \<Rightarrow> Inl e | Inr x \<Rightarrow> f x)"

lemma bindE_simps [simp]:
  "bindE (Inl e) f = Inl e"
  "bindE (Inr x) f = f x"
  by (simp_all add: bindE_def)

lemma bindE_eq_Inr: "bindE m f = Inr y \<longleftrightarrow> (\<exists>x. m = Inr x \<and> f x = Inr y)"
  by (cases m) simp_all

lemma bindE_assoc: "bindE (bindE m f) g = bindE m (\<lambda>x. bindE (f x) g)"
  by (cases m) simp_all

text \<open>\<open>steps\<close> runs statements in order on a mutable object; the first exception stops it.\<close>

fun steps :: "('s \<Rightarrow> 's result) list \<Rightarrow> 's \<Rightarrow> 's result" where
  "steps [] s = Inr s"
| "steps (f # fs) s = bindE (f s) (steps fs)"

lemma steps_append: "steps (fs @ gs) s = bindE (steps fs s) (steps gs)"
proof (induction fs arbitrary: s)
  case Nil
  show ?case by simp
next
  case (Cons f fs)
  have "steps (fs @ gs) = (\<lambda>s. bindE (steps fs s) (steps gs))"
    using Cons.IH by blast
  then show ?case by (simp add: bindE_assoc)
qed

fun mapE :: "('a \<Rightarrow> 'b result) \<Rightarrow> 'a list \<Rightarrow> 'b list result" where
  "mapE f [] = Inr []"
| "mapE f (x # xs) = bindE (f x) (\<lambda>y. bindE (mapE f xs) (\<lambda>ys. Inr (y # ys)))"

lemma mapE_Inr: "(\<And>x. x \<in> set xs \<Longrightarrow> f x = Inr (g x)) \<Longrightarrow> mapE f xs = Inr (map g xs)"
  by (induction xs) simp_all

lemma mapE_length: "mapE f xs = Inr ys \<Longrightarrow> length ys = length xs"
  by (induction xs arbitrary: ys) (auto simp: bindE_eq_Inr)

fun foldE :: "('b \<Rightarrow> 'a \<Rightarrow> 'b result) \<Rightarrow> 'b \<Rightarrow> 'a list \<Rightarrow> 'b result" where
  "foldE f b [] = Inr b"
| "foldE f b (x # xs) = bindE (f b x) (\<lambda>b'. foldE f b' xs)"

lemma foldE_Inr:
  "(\<And>b x. x \<in> set xs \<Longrightarrow> f b x = Inr (g b x)) \<Longrightarrow> foldE f b xs = Inr (foldl g b xs)"
  by (induction xs arbitrary: b) simp_all

section \<open>Numbers\<close>

text \<open>
  A JavaScript number is a finite value or one of the three special values. The finite
  values are rationals: every double is one, and no operation of the modelled code
  rounds except the conversion of a 64-bit integer, which \<open>to_double\<close> makes explicit.
  The two zeros are one value (the code never tells them apart).
\<close>

datatype number = Fin rat | PInf | NInf | NaN

definition of_n :: "nat \<Rightarrow> number" where
  "of_n n = Fin (of_nat n)"

lemma of_n_inject [simp]: "of_n a = of_n b \<longleftrightarrow> a = b"
  by (simp add: of_n_def)

lemma of_n_0 [simp]:
  "of_n 0 = Fin 0" "of_n n = Fin 0 \<longleftrightarrow> n = 0" "Fin 0 = of_n n \<longleftrightarrow> n = 0"
  by (auto simp: of_n_def)

definition MAX_SAFE_INTEGER :: int where
  "MAX_SAFE_INTEGER = 9007199254740991"

definition MIN_SAFE_INTEGER :: int where
  "MIN_SAFE_INTEGER = - 9007199254740991"

lemma MAX_SAFE_INTEGER_nonneg [simp]: "0 \<le> MAX_SAFE_INTEGER"
  by (simp add: MAX_SAFE_INTEGER_def)

text \<open>\<open>Math.round\<close>: the nearest integer, halves upwards.\<close>

fun js_round :: "number \<Rightarrow> number" where
  "js_round (Fin q) = Fin (of_int \<lfloor>q + 1 / 2\<rfloor>)"
| "js_round x = x"

text \<open>The integer a finite number holds (0 for the special values).\<close>

fun num_nat :: "number \<Rightarrow> nat" where
  "num_nat (Fin q) = nat \<lfloor>q\<rfloor>"
| "num_nat _ = 0"

lemma num_nat_of_n [simp]: "num_nat (of_n n) = n"
  by (simp add: of_n_def)

lemma js_round_of_n [simp]: "js_round (of_n n) = of_n n"
proof -
  have "\<lfloor>of_nat n + 1 / 2 :: rat\<rfloor> = int n" by linarith
  then show ?thesis by (simp add: of_n_def)
qed

text \<open>A number that is an integer of at most \<open>b\<close> bits, as an unsigned field holds it.\<close>

definition is_uint :: "nat \<Rightarrow> number \<Rightarrow> bool" where
  "is_uint b x \<longleftrightarrow> x = of_n (num_nat x) \<and> num_nat x < 2 ^ b"

definition is_safe_uint :: "number \<Rightarrow> bool" where
  "is_safe_uint x \<longleftrightarrow> x = of_n (num_nat x) \<and> int (num_nat x) \<le> MAX_SAFE_INTEGER"

lemma is_uint_of_n [simp]: "is_uint b (of_n n) \<longleftrightarrow> n < 2 ^ b"
  by (simp add: is_uint_def)

lemma is_safe_uint_of_n [simp]: "is_safe_uint (of_n n) \<longleftrightarrow> int n \<le> MAX_SAFE_INTEGER"
  by (simp add: is_safe_uint_def)

lemma is_uintE: "is_uint b x \<Longrightarrow> (\<And>n. x = of_n n \<Longrightarrow> n < 2 ^ b \<Longrightarrow> P) \<Longrightarrow> P"
  by (auto simp: is_uint_def)

lemma is_safe_uintE:
  "is_safe_uint x \<Longrightarrow> (\<And>n. x = of_n n \<Longrightarrow> int n \<le> MAX_SAFE_INTEGER \<Longrightarrow> P) \<Longrightarrow> P"
  by (auto simp: is_safe_uint_def)

lemma is_safe_uint_64: "is_safe_uint x \<Longrightarrow> is_uint 64 x"
  by (auto simp: is_safe_uint_def is_uint_def MAX_SAFE_INTEGER_def)

section \<open>UTF-8\<close>

text \<open>\<open>TextEncoder\<close> on code units up to U+00FF: one byte below U+0080, two from there.\<close>

definition utf8_char :: "char \<Rightarrow> byte list" where
  "utf8_char c =
     (let n = (of_char c :: nat)
      in if n < 128 then [of_nat n] else [of_nat (192 + n div 64), of_nat (128 + n mod 64)])"

definition utf8 :: "string \<Rightarrow> byte list" where
  "utf8 s = concat (map utf8_char s)"

lemma utf8_simps [simp]:
  "utf8 [] = []"
  "utf8 (c # s) = utf8_char c @ utf8 s"
  by (simp_all add: utf8_def)

lemma utf8_append: "utf8 (s @ t) = utf8 s @ utf8 t"
  by (simp add: utf8_def)

lemma utf8_char_nonempty [simp]: "utf8_char c \<noteq> []"
  by (simp add: utf8_char_def Let_def)

lemma utf8_eq_Nil [simp]: "utf8 s = [] \<longleftrightarrow> s = []"
  by (cases s) simp_all

lemma utf8_length_bounds: "length s \<le> length (utf8 s)" "length (utf8 s) \<le> 2 * length s"
  by (induction s) (auto simp: utf8_char_def Let_def)

section \<open>Lists\<close>

lemma drop_append_exact: "drop k ys = xs @ zs \<Longrightarrow> drop (k + length xs) ys = zs"
  by (metis add.commute append_eq_conv_conj drop_drop)

end
