(* ===== verification/JsObject.thy ===== *)
theory JsObject
  imports Prelude
begin

text \<open>
  Plain JavaScript objects used as string-keyed dictionaries (the \<open>tags\<close> of an event,
  the objects \<open>toJSON\<close> builds). An object is the list of its own properties in the order
  \<open>Object.entries\<close> enumerates them: the array-index keys first, in ascending order, then
  the other keys in the order they were created. Assigning a primitive to the key
  \<open>__proto__\<close> reaches the setter of \<open>Object.prototype\<close>, which ignores it.
\<close>

section \<open>Decimal digits\<close>

definition is_digit :: "char \<Rightarrow> bool" where
  "is_digit c \<longleftrightarrow> 48 \<le> (of_char c :: nat) \<and> (of_char c :: nat) \<le> 57"

definition dec_val :: "string \<Rightarrow> nat" where
  "dec_val s = foldl (\<lambda>n c. 10 * n + (of_char c - 48)) 0 s"

fun nat_str :: "nat \<Rightarrow> string" where
  "nat_str n =
     (if n < 10 then [char_of (48 + n)] else nat_str (n div 10) @ [char_of (48 + n mod 10)])"

declare nat_str.simps [simp del]

lemma nat_str_nonempty [simp]: "nat_str n \<noteq> []"
  by (subst nat_str.simps) simp

lemma nat_str_digits: "\<forall>c \<in> set (nat_str n). is_digit c"
proof (induction n rule: nat_str.induct)
  case (1 n)
  have "is_digit (char_of (48 + n mod 10))"
    by (simp add: is_digit_def)
  moreover have "n < 10 \<Longrightarrow> is_digit (char_of (48 + n))"
    by (simp add: is_digit_def)
  ultimately show ?case
    using 1 by (subst nat_str.simps) auto
qed

lemma dec_val_append: "dec_val (s @ [c]) = 10 * dec_val s + (of_char c - 48)"
  by (simp add: dec_val_def)

lemma dec_val_nat_str [simp]: "dec_val (nat_str n) = n"
proof (induction n rule: nat_str.induct)
  case (1 n)
  show ?case
  proof (cases "n < 10")
    case True
    then show ?thesis by (simp add: nat_str.simps [of n] dec_val_def)
  next
    case False
    with 1 have "dec_val (nat_str (n div 10)) = n div 10" by simp
    with False show ?thesis
      by (simp add: nat_str.simps [of n] dec_val_append)
  qed
qed

section \<open>Property order\<close>

text \<open>An array index: a canonical decimal numeral below \<open>2 ^ 32 - 1\<close>.\<close>

definition array_index :: "string \<Rightarrow> nat option" where
  "array_index k =
     (if k \<noteq> [] \<and> list_all is_digit k \<and> (hd k = CHR ''0'' \<longrightarrow> length k = 1)
         \<and> dec_val k < 4294967295
      then Some (dec_val k) else None)"

definition key_before :: "string \<Rightarrow> string \<Rightarrow> bool" where
  "key_before j k =
     (case array_index j of
        None \<Rightarrow> False
      | Some m \<Rightarrow> (case array_index k of None \<Rightarrow> True | Some n \<Rightarrow> m < n))"

lemma key_before_irrefl [simp]: "\<not> key_before k k"
  by (simp add: key_before_def split: option.splits)

lemma key_before_asym: "key_before j k \<Longrightarrow> \<not> key_before k j"
  by (auto simp: key_before_def split: option.splits)

lemma key_before_trans: "key_before i j \<Longrightarrow> key_before j k \<Longrightarrow> key_before i k"
  by (auto simp: key_before_def split: option.splits)

lemma key_before_neg_trans:
  "\<not> key_before j i \<Longrightarrow> \<not> key_before k j \<Longrightarrow> \<not> key_before k i"
  by (auto simp: key_before_def split: option.splits)

section \<open>Assignment\<close>

type_synonym 'v jsobj = "(string \<times> 'v) list"

definition proto_key :: string where
  "proto_key = ''__proto__''"

fun obj_insert :: "string \<Rightarrow> 'v \<Rightarrow> 'v jsobj \<Rightarrow> 'v jsobj" where
  "obj_insert k v [] = [(k, v)]"
| "obj_insert k v ((k', v') # ps) =
     (if key_before k k' then (k, v) # (k', v') # ps else (k', v') # obj_insert k v ps)"

fun obj_replace :: "string \<Rightarrow> 'v \<Rightarrow> 'v jsobj \<Rightarrow> 'v jsobj" where
  "obj_replace k v [] = []"
| "obj_replace k v ((k', v') # ps) =
     (if k = k' then (k', v) # ps else (k', v') # obj_replace k v ps)"

definition obj_set :: "string \<Rightarrow> 'v \<Rightarrow> 'v jsobj \<Rightarrow> 'v jsobj" where
  "obj_set k v ps =
     (if k = proto_key then ps
      else if k \<in> fst ` set ps then obj_replace k v ps
      else obj_insert k v ps)"

abbreviation obj_get :: "'v jsobj \<Rightarrow> string \<Rightarrow> 'v option" where
  "obj_get \<equiv> map_of"

definition obj_ok :: "'v jsobj \<Rightarrow> bool" where
  "obj_ok ps \<longleftrightarrow> distinct (map fst ps) \<and> proto_key \<notin> fst ` set ps
     \<and> sorted_wrt (\<lambda>j k. \<not> key_before k j) (map fst ps)"

lemma obj_ok_Nil [simp]: "obj_ok []"
  by (simp add: obj_ok_def)

lemma set_obj_insert [simp]: "set (obj_insert k v ps) = insert (k, v) (set ps)"
  by (induction k v ps rule: obj_insert.induct) auto

lemma keys_obj_replace [simp]: "map fst (obj_replace k v ps) = map fst ps"
  by (induction k v ps rule: obj_replace.induct) auto

lemma obj_get_insert: "k \<notin> fst ` set ps \<Longrightarrow> obj_get (obj_insert k v ps) = (obj_get ps)(k \<mapsto> v)"
  by (induction k v ps rule: obj_insert.induct) (auto simp: fun_eq_iff)

lemma obj_get_replace: "k \<in> fst ` set ps \<Longrightarrow> obj_get (obj_replace k v ps) = (obj_get ps)(k \<mapsto> v)"
proof (induction k v ps rule: obj_replace.induct)
  case (1 k v)
  then show ?case by simp
next
  case (2 k v k' v' ps)
  then show ?case
    by (cases "k = k'") (simp_all add: fun_eq_iff)
qed

lemma distinct_obj_insert:
  "k \<notin> fst ` set ps \<Longrightarrow> distinct (map fst ps) \<Longrightarrow> distinct (map fst (obj_insert k v ps))"
  by (induction k v ps rule: obj_insert.induct) auto

lemma keys_obj_insert: "set (map fst (obj_insert k v ps)) = insert k (set (map fst ps))"
  by force

lemma sorted_obj_insert:
  "sorted_wrt (\<lambda>j k. \<not> key_before k j) (map fst ps)
   \<Longrightarrow> sorted_wrt (\<lambda>j k. \<not> key_before k j) (map fst (obj_insert k v ps))"
proof (induction k v ps rule: obj_insert.induct)
  case (1 k v)
  then show ?case by simp
next
  case (2 k v k' v' ps)
  show ?case
  proof (cases "key_before k k'")
    case True
    then have "\<not> key_before k' k" by (rule key_before_asym)
    with 2 True show ?thesis
      by (auto dest: key_before_trans)
  next
    case False
    with 2 show ?thesis by auto
  qed
qed

lemma obj_ok_set: "obj_ok ps \<Longrightarrow> obj_ok (obj_set k v ps)"
proof -
  assume ok: "obj_ok ps"
  have "k \<in> fst ` set ps \<Longrightarrow> fst ` set (obj_replace k v ps) = fst ` set ps"
    by (metis keys_obj_replace list.set_map)
  with ok show ?thesis
    by (auto simp: obj_ok_def obj_set_def distinct_obj_insert sorted_obj_insert)
qed

lemma obj_get_set:
  "obj_get (obj_set k v ps) = (if k = proto_key then obj_get ps else (obj_get ps)(k \<mapsto> v))"
  by (simp add: obj_set_def obj_get_insert obj_get_replace)

lemma obj_insert_last:
  "\<forall>k' \<in> fst ` set ps. \<not> key_before k k' \<Longrightarrow> obj_insert k v ps = ps @ [(k, v)]"
  by (induction k v ps rule: obj_insert.induct) auto

text \<open>Re-assigning the properties of an object in their order rebuilds the object.\<close>

definition obj_build :: "'v jsobj \<Rightarrow> (string \<times> 'v) list \<Rightarrow> 'v jsobj" where
  "obj_build = foldl (\<lambda>acc (k, v). obj_set k v acc)"

lemma obj_build_simps [simp]:
  "obj_build acc [] = acc"
  "obj_build acc ((k, v) # kvs) = obj_build (obj_set k v acc) kvs"
  by (simp_all add: obj_build_def)

lemma obj_build_append: "obj_build acc (xs @ ys) = obj_build (obj_build acc xs) ys"
  by (simp add: obj_build_def)

lemma obj_set_snoc: "obj_ok (ps @ [(k, v)]) \<Longrightarrow> obj_set k v ps = ps @ [(k, v)]"
  by (subst obj_set_def) (auto simp: obj_ok_def sorted_wrt_append intro!: obj_insert_last)

lemma obj_ok_butlast: "obj_ok (ps @ [p]) \<Longrightarrow> obj_ok ps"
  by (auto simp: obj_ok_def sorted_wrt_append)

lemma obj_build_id: "obj_ok ps \<Longrightarrow> obj_build [] ps = ps"
proof (induction ps rule: rev_induct)
  case Nil
  show ?case by simp
next
  case (snoc p ps)
  then have "obj_build [] ps = ps" by (blast intro: obj_ok_butlast)
  with snoc.prems show ?case
    by (cases p) (simp add: obj_build_append obj_set_snoc)
qed

section \<open>The dictionary interface\<close>

text \<open>
  What the message code relies on when it uses an object as a dictionary, whatever the
  order of the properties: assignment updates the lookup, except for the reserved keys.
\<close>

locale dictionary =
  fixes empty :: 'd
    and put :: "string \<Rightarrow> 'v \<Rightarrow> 'd \<Rightarrow> 'd"
    and get :: "'d \<Rightarrow> string \<Rightarrow> 'v option"
    and reserved :: "string set"
    and inv :: "'d \<Rightarrow> bool"
  assumes get_empty: "get empty = Map.empty"
    and inv_empty: "inv empty"
    and inv_put: "inv d \<Longrightarrow> inv (put k v d)"
    and get_put: "inv d \<Longrightarrow> k \<notin> reserved \<Longrightarrow> get (put k v d) = (get d)(k \<mapsto> v)"
    and put_reserved: "k \<in> reserved \<Longrightarrow> put k v d = d"
begin

abbreviation build :: "'d \<Rightarrow> (string \<times> 'v) list \<Rightarrow> 'd" where
  "build \<equiv> foldl (\<lambda>d (k, v). put k v d)"

lemma inv_build: "inv d \<Longrightarrow> inv (build d kvs)"
  by (induction kvs arbitrary: d) (auto simp: inv_put)

lemma get_build:
  "inv d \<Longrightarrow> fst ` set kvs \<inter> reserved = {} \<Longrightarrow> get (build d kvs) = get d ++ map_of (rev kvs)"
proof (induction kvs arbitrary: d)
  case Nil
  then show ?case by simp
next
  case (Cons p kvs)
  then show ?case
    by (cases p) (simp add: inv_put get_put map_add_upd)
qed

lemma get_build_last:
  "inv d \<Longrightarrow> fst ` set kvs \<inter> reserved = {} \<Longrightarrow> k \<notin> reserved \<Longrightarrow>
   get (build d (kvs @ [(k, v)])) k = Some v"
  by (simp add: get_put inv_build)

lemma get_build_notin: "inv d \<Longrightarrow> k \<notin> fst ` set kvs \<Longrightarrow> get (build d kvs) k = get d k"
proof (induction kvs arbitrary: d)
  case Nil
  then show ?case by simp
next
  case (Cons p kvs)
  then obtain j v where p: "p = (j, v)" "j \<noteq> k" by (cases p) auto
  from Cons.prems have "inv (put j v d)" by (simp add: inv_put)
  moreover from Cons.prems(1) p(2) have "get (put j v d) k = get d k"
    by (cases "j \<in> reserved") (simp_all add: get_put put_reserved)
  ultimately show ?case using Cons p(1) by simp
qed

end

interpretation jsobj: dictionary "[]" obj_set obj_get "{proto_key}" obj_ok
proof unfold_locales
  show "obj_get (obj_set k v d) = (obj_get d)(k \<mapsto> v)"
    if "k \<notin> {proto_key}" for d :: "'v jsobj" and k v
    using that by (simp add: obj_get_set)
qed (simp_all add: obj_ok_set, simp add: obj_set_def)

lemmas obj_get_build = jsobj.get_build [folded obj_build_def]
  and obj_ok_build = jsobj.inv_build [folded obj_build_def]
  and obj_get_build_notin = jsobj.get_build_notin [folded obj_build_def]

end
