(* ===== verification/JsValue.thy ===== *)
theory JsValue
  imports JsObject
begin

text \<open>
  The dynamically typed values that \<open>fromJSON\<close> reads and \<open>toJSON\<close> builds, with the
  language's conversions \<open>String(x)\<close> and \<open>Number(x)\<close>, and property access on \<open>any\<close>.
  A \<open>JObj\<close> lists its own properties in enumeration order (see \<open>JsObject\<close>).
\<close>

section \<open>Values\<close>

datatype jsval =
    JUndef
  | JNull
  | JBool bool
  | JNum number
  | JStr string
  | JBytes "byte list"
  | JArr "jsval list"
  | JObj "(string \<times> jsval) list"

text \<open>\<open>value !== null && value !== undefined\<close>\<close>

definition isSet :: "jsval \<Rightarrow> bool" where
  "isSet value = (value \<noteq> JNull \<and> value \<noteq> JUndef)"

text \<open>\<open>typeof value === "object" && value !== null\<close>\<close>

definition isObject :: "jsval \<Rightarrow> bool" where
  "isObject value =
     (case value of
        JArr _ \<Rightarrow> True
      | JObj _ \<Rightarrow> True
      | JBytes _ \<Rightarrow> True
      | _ \<Rightarrow> False)"

text \<open>
  \<open>object.k\<close> for a key \<open>k\<close> that no prototype of the language defines: \<open>undefined\<close> when
  the property is missing, an exception on \<open>null\<close> and \<open>undefined\<close>.
\<close>

definition get_prop :: "jsval \<Rightarrow> string \<Rightarrow> jsval result" where
  "get_prop v k =
     (case v of
        JUndef \<Rightarrow> Inl (TypeError ''Cannot read properties of undefined'')
      | JNull \<Rightarrow> Inl (TypeError ''Cannot read properties of null'')
      | JObj ps \<Rightarrow> Inr (case obj_get ps k of None \<Rightarrow> JUndef | Some x \<Rightarrow> x)
      | _ \<Rightarrow> Inr JUndef)"

text \<open>\<open>object?.k\<close>\<close>

definition get_prop_opt :: "jsval \<Rightarrow> string \<Rightarrow> jsval" where
  "get_prop_opt v k =
     (case v of JObj ps \<Rightarrow> (case obj_get ps k of None \<Rightarrow> JUndef | Some x \<Rightarrow> x) | _ \<Rightarrow> JUndef)"

lemma isSet_simps [simp]:
  "\<not> isSet JUndef" "\<not> isSet JNull" "isSet (JBool b)" "isSet (JNum x)" "isSet (JStr s)"
  "isSet (JBytes bs)" "isSet (JArr xs)" "isSet (JObj ps)"
  by (simp_all add: isSet_def)

lemma isObject_simps [simp]:
  "\<not> isObject JUndef" "\<not> isObject JNull" "\<not> isObject (JBool b)" "\<not> isObject (JNum x)"
  "\<not> isObject (JStr s)" "isObject (JBytes bs)" "isObject (JArr xs)" "isObject (JObj ps)"
  by (simp_all add: isObject_def)

lemma get_prop_simps [simp]:
  "get_prop (JObj ps) k = Inr (case obj_get ps k of None \<Rightarrow> JUndef | Some x \<Rightarrow> x)"
  "get_prop_opt (JObj ps) k = (case obj_get ps k of None \<Rightarrow> JUndef | Some x \<Rightarrow> x)"
  by (simp_all add: get_prop_def get_prop_opt_def)

lemma get_prop_no_object: "\<not> isSet v \<Longrightarrow> \<exists>m. get_prop v k = Inl (TypeError m)"
  by (auto simp: isSet_def get_prop_def)

lemma get_prop_isSet: "isSet v \<Longrightarrow> \<exists>x. get_prop v k = Inr x"
  by (cases v) (simp_all add: get_prop_def)

section \<open>The parts of the platform that stay parameters\<close>

text \<open>
  \<open>num_fmt\<close> formats the numbers that are not integers below \<open>10 ^ 21\<close>
  (\<open>Number.prototype.toString\<close>'s shortest digits). \<open>Buffer\<close> is Node's \<open>Buffer\<close>, which
  exists on some platforms only: its base64 decoder (\<open>Buffer.from(x, "base64")\<close> on a value of any
  type) and encoder.
\<close>

record buffer_api =
  from_base64 :: "jsval \<Rightarrow> byte list result"
  to_base64 :: "byte list \<Rightarrow> string"

record platform =
  num_fmt :: "rat \<Rightarrow> string"
  Buffer :: "buffer_api option"

section \<open>String(x)\<close>

definition int_str :: "int \<Rightarrow> string" where
  "int_str i = (if i < 0 then CHR ''-'' # nat_str (nat (- i)) else nat_str (nat i))"

fun num_str :: "platform \<Rightarrow> number \<Rightarrow> string" where
  "num_str P (Fin q) =
     (if of_int \<lfloor>q\<rfloor> = q \<and> \<bar>q\<bar> < 10 ^ 21 then int_str \<lfloor>q\<rfloor> else num_fmt P q)"
| "num_str P PInf = ''Infinity''"
| "num_str P NInf = ''-Infinity''"
| "num_str P NaN = ''NaN''"

text \<open>\<open>Array.prototype.join\<close> with commas.\<close>

fun join_commas :: "string list \<Rightarrow> string" where
  "join_commas [] = []"
| "join_commas [s] = s"
| "join_commas (s # t # ss) = s @ '','' @ join_commas (t # ss)"

text \<open>
  An object without an own \<open>toString\<close> prints as \<open>[object Object]\<close>; a JSON value stored
  under \<open>toString\<close> is not callable, and the conversion fails.
\<close>

fun js_String :: "platform \<Rightarrow> jsval \<Rightarrow> string result"
  and js_elems :: "platform \<Rightarrow> jsval list \<Rightarrow> string list result" where
  "js_String P JUndef = Inr ''undefined''"
| "js_String P JNull = Inr ''null''"
| "js_String P (JBool b) = Inr (if b then ''true'' else ''false'')"
| "js_String P (JNum x) = Inr (num_str P x)"
| "js_String P (JStr s) = Inr s"
| "js_String P (JBytes bs) = Inr (join_commas (map (\<lambda>b. nat_str (unat b)) bs))"
| "js_String P (JArr xs) = bindE (js_elems P xs) (\<lambda>ss. Inr (join_commas ss))"
| "js_String P (JObj ps) =
     (if obj_get ps ''toString'' = None then Inr ''[object Object]''
      else Inl (TypeError ''Cannot convert object to primitive value''))"
| "js_elems P [] = Inr []"
| "js_elems P (x # xs) =
     bindE (if isSet x then js_String P x else Inr '''')
       (\<lambda>s. bindE (js_elems P xs) (\<lambda>ss. Inr (s # ss)))"

section \<open>Number(x)\<close>

definition is_ws :: "char \<Rightarrow> bool" where
  "is_ws c \<longleftrightarrow> (of_char c :: nat) \<in> {9, 10, 11, 12, 13, 32, 160}"

definition trim :: "string \<Rightarrow> string" where
  "trim s = rev (dropWhile is_ws (rev (dropWhile is_ws s)))"

text \<open>Overflow of the double range to infinity; below it the exact value stands.\<close>

definition mk_number :: "rat \<Rightarrow> number" where
  "mk_number q =
     (if q \<ge> 2 ^ 1024 - 2 ^ 970 then PInf else if - q \<ge> 2 ^ 1024 - 2 ^ 970 then NInf else Fin q)"

definition digit_in :: "nat \<Rightarrow> char \<Rightarrow> nat option" where
  "digit_in b c =
     (let n = (of_char c :: nat);
          d = (if is_digit c then n - 48
               else if 97 \<le> n \<and> n \<le> 122 then n - 87
               else if 65 \<le> n \<and> n \<le> 90 then n - 55 else b)
      in if d < b then Some d else None)"

definition radix_val :: "nat \<Rightarrow> string \<Rightarrow> nat" where
  "radix_val b s = foldl (\<lambda>n c. b * n + (case digit_in b c of None \<Rightarrow> 0 | Some d \<Rightarrow> d)) 0 s"

definition radix_literal :: "nat \<Rightarrow> string \<Rightarrow> number" where
  "radix_literal b s =
     (if s \<noteq> [] \<and> list_all (\<lambda>c. digit_in b c \<noteq> None) s
      then mk_number (of_nat (radix_val b s)) else NaN)"

text \<open>The exponent part of a decimal literal; \<open>None\<close> when it is malformed.\<close>

definition exponent_of :: "string \<Rightarrow> int option" where
  "exponent_of s =
     (case s of
        [] \<Rightarrow> Some 0
      | c # t \<Rightarrow>
          if c \<noteq> CHR ''e'' \<and> c \<noteq> CHR ''E'' then None
          else
            let neg = (t \<noteq> [] \<and> hd t = CHR ''-'');
                ds = (if t \<noteq> [] \<and> (hd t = CHR ''-'' \<or> hd t = CHR ''+'') then tl t else t)
            in if ds \<noteq> [] \<and> list_all is_digit ds
               then Some (if neg then - int (dec_val ds) else int (dec_val ds))
               else None)"

definition scale10 :: "rat \<Rightarrow> int \<Rightarrow> rat" where
  "scale10 q e = (if 0 \<le> e then q * 10 ^ nat e else q / 10 ^ nat (- e))"

definition decimal_of :: "string \<Rightarrow> rat option" where
  "decimal_of s =
     (let ip = takeWhile is_digit s; r = dropWhile is_digit s;
          dot = (r \<noteq> [] \<and> hd r = CHR ''.'');
          fp = (if dot then takeWhile is_digit (tl r) else []);
          r2 = (if dot then dropWhile is_digit (tl r) else r)
      in if ip = [] \<and> fp = [] then None
         else map_option
           (\<lambda>e. scale10 (of_nat (dec_val (ip @ fp))) (e - int (length fp))) (exponent_of r2))"

definition signed_literal :: "bool \<Rightarrow> string \<Rightarrow> number" where
  "signed_literal neg s =
     (if s = ''Infinity'' then (if neg then NInf else PInf)
      else case decimal_of s of
             None \<Rightarrow> NaN
           | Some q \<Rightarrow> mk_number (if neg then - q else q))"

definition str_number :: "string \<Rightarrow> number" where
  "str_number s0 =
     (let s = trim s0; p = take 2 s
      in if s = [] then Fin 0
         else if p = ''0x'' \<or> p = ''0X'' then radix_literal 16 (drop 2 s)
         else if p = ''0o'' \<or> p = ''0O'' then radix_literal 8 (drop 2 s)
         else if p = ''0b'' \<or> p = ''0B'' then radix_literal 2 (drop 2 s)
         else if hd s = CHR ''-'' then signed_literal True (tl s)
         else if hd s = CHR ''+'' then signed_literal False (tl s)
         else signed_literal False s)"

definition js_Number :: "platform \<Rightarrow> jsval \<Rightarrow> number result" where
  "js_Number P v =
     (case v of
        JUndef \<Rightarrow> Inr NaN
      | JNull \<Rightarrow> Inr (Fin 0)
      | JBool b \<Rightarrow> Inr (if b then Fin 1 else Fin 0)
      | JNum x \<Rightarrow> Inr x
      | JStr s \<Rightarrow> Inr (str_number s)
      | _ \<Rightarrow> bindE (js_String P v) (\<lambda>s. Inr (str_number s)))"

lemma js_Number_simps [simp]:
  "js_Number P (JNum x) = Inr x"
  "js_Number P (JStr s) = Inr (str_number s)"
  by (simp_all add: js_Number_def)

section \<open>Enumeration\<close>

text \<open>\<open>Object.entries\<close> of an object: index keys for arrays, the own properties otherwise.\<close>

definition js_entries :: "jsval \<Rightarrow> (string \<times> jsval) list" where
  "js_entries v =
     (case v of
        JObj ps \<Rightarrow> ps
      | JArr xs \<Rightarrow> map (\<lambda>(i, x). (nat_str i, x)) (enumerate 0 xs)
      | JBytes bs \<Rightarrow> map (\<lambda>(i, b). (nat_str i, JNum (of_n (unat b)))) (enumerate 0 bs)
      | _ \<Rightarrow> [])"

definition is_array :: "jsval \<Rightarrow> bool" where
  "is_array v = (case v of JArr _ \<Rightarrow> True | _ \<Rightarrow> False)"

text \<open>\<open>Array.isArray(v) ? v.map(f) : []\<close>, for an \<open>f\<close> that may throw.\<close>

definition map_array :: "(jsval \<Rightarrow> 'a result) \<Rightarrow> jsval \<Rightarrow> 'a list result" where
  "map_array f v = (case v of JArr xs \<Rightarrow> mapE f xs | _ \<Rightarrow> Inr [])"

lemma map_array_JArr [simp]: "map_array f (JArr xs) = mapE f xs"
  by (simp add: map_array_def)

lemma map_array_JUndef [simp]: "map_array f JUndef = Inr []"
  by (simp add: map_array_def)

lemma mapE_js_String [simp]: "mapE (js_String P) (map JStr ss) = Inr ss"
  by (induction ss) simp_all

end
