(* ===== verification/Base64.thy ===== *)
theory Base64
  imports JsValue
begin

text \<open>
  \<open>bytesFromBase64\<close> and \<open>base64FromBytes\<close> of \<open>pubsub.ts\<close>, with the web platform's
  \<open>atob\<close> and \<open>btoa\<close> (forgiving base64 decode and encode) and Node's \<open>Buffer\<close> as a parameter.
\<close>

section \<open>The alphabet\<close>

definition b64_char :: "nat \<Rightarrow> char" where
  "b64_char n =
     (if n < 26 then char_of (65 + n)
      else if n < 52 then char_of (71 + n)
      else if n < 62 then char_of (n - 4)
      else if n = 62 then CHR ''+'' else CHR ''/'')"

definition b64_val :: "char \<Rightarrow> nat option" where
  "b64_val c =
     (let n = (of_char c :: nat)
      in if 65 \<le> n \<and> n \<le> 90 then Some (n - 65)
         else if 97 \<le> n \<and> n \<le> 122 then Some (n - 71)
         else if 48 \<le> n \<and> n \<le> 57 then Some (n + 4)
         else if n = 43 then Some 62
         else if n = 47 then Some 63
         else None)"

lemma b64_val_char [simp]: "n < 64 \<Longrightarrow> b64_val (b64_char n) = Some n"
  by (auto simp: b64_char_def b64_val_def Let_def)

lemma b64_val_lt: "b64_val c = Some n \<Longrightarrow> n < 64"
  by (auto simp: b64_val_def Let_def split: if_splits)

definition pad_char :: char where
  "pad_char = CHR ''=''"

lemma b64_val_pad [simp]: "b64_val pad_char = None"
  by (simp add: b64_val_def pad_char_def)

section \<open>Groups of six bits\<close>

fun sextets :: "byte list \<Rightarrow> nat list" where
  "sextets [] = []"
| "sextets [a] = [unat a div 4, unat a mod 4 * 16]"
| "sextets [a, b] = [unat a div 4, unat a mod 4 * 16 + unat b div 16, unat b mod 16 * 4]"
| "sextets (a # b # c # bs) =
     unat a div 4 # (unat a mod 4 * 16 + unat b div 16) # (unat b mod 16 * 4 + unat c div 64)
     # (unat c mod 64) # sextets bs"

fun unsextets :: "nat list \<Rightarrow> byte list" where
  "unsextets (p # q # r # s # ns) =
     of_nat (p * 4 + q div 16) # of_nat (q mod 16 * 16 + r div 4) # of_nat (r mod 4 * 64 + s)
     # unsextets ns"
| "unsextets [p, q, r] = [of_nat (p * 4 + q div 16), of_nat (q mod 16 * 16 + r div 4)]"
| "unsextets [p, q] = [of_nat (p * 4 + q div 16)]"
| "unsextets _ = []"

lemma unat_byte_lt: "unat (b :: byte) < 256"
proof -
  have "unat b < 2 ^ LENGTH(8)" by (rule unsigned_less)
  then show ?thesis by simp
qed

lemma unat_byte_mod [simp]: "unat (b :: byte) mod 256 = unat b"
  using unat_byte_lt [of b] by simp

lemma sextets_lt: "\<forall>n \<in> set (sextets bs). n < 64"
proof (induction bs rule: sextets.induct)
  case (2 a)
  with unat_byte_lt [of a] show ?case by auto
next
  case (3 a b)
  with unat_byte_lt [of a] unat_byte_lt [of b] show ?case by auto
next
  case (4 a b c bs)
  with unat_byte_lt [of a] unat_byte_lt [of b] unat_byte_lt [of c] show ?case by auto
qed simp

lemma sextet_split:
  assumes "b < 256" "c < (256 :: nat)"
  shows "a div 4 * 4 + (a mod 4 * 16 + b div 16) div 16 = a"
    and "(a mod 4 * 16 + b div 16) mod 16 * 16 + (b mod 16 * 4 + c div 64) div 4 = b"
    and "(b mod 16 * 4 + c div 64) mod 4 * 64 + c mod 64 = c"
proof -
  have b: "b div 16 < 16" and c: "c div 64 < 4" using assms by simp_all
  show "a div 4 * 4 + (a mod 4 * 16 + b div 16) div 16 = a"
    using b by simp
  show "(a mod 4 * 16 + b div 16) mod 16 * 16 + (b mod 16 * 4 + c div 64) div 4 = b"
    using b c by simp
  show "(b mod 16 * 4 + c div 64) mod 4 * 64 + c mod 64 = c"
    using c by simp
qed

lemma unsextets_sextets [simp]: "unsextets (sextets bs) = bs"
proof (induction bs rule: sextets.induct)
  case 1
  show ?case by simp
next
  case (2 a)
  show ?case
    using sextet_split(1) [of 0 0 "unat a"] by simp
next
  case (3 a b)
  show ?case
    using sextet_split(1,2) [of "unat b" 0 "unat a"] unat_byte_lt [of b]
    by simp
next
  case (4 a b c bs)
  then show ?case
    using sextet_split(1,2) [of "unat b" "unat c" "unat a"] sextet_split(3) [of "unat b" "unat c"] unat_byte_lt [of b] unat_byte_lt [of c]
    by (simp del: of_nat_add of_nat_mult)
qed

definition pad_len :: "byte list \<Rightarrow> nat" where
  "pad_len bs = (3 - length bs mod 3) mod 3"

lemma length_sextets: "length (sextets bs) + pad_len bs = 4 * ((length bs + 2) div 3)"
proof (induction bs rule: sextets.induct)
  case (4 a b c bs)
  have "pad_len (a # b # c # bs) = pad_len bs"
    by (simp add: pad_len_def)
  moreover have "(length (a # b # c # bs) + 2) div 3 = Suc ((length bs + 2) div 3)"
    by simp
  ultimately show ?case using 4 by (simp del: add_2_eq_Suc')
qed (simp_all add: pad_len_def)

section \<open>btoa and atob\<close>

definition b64_enc :: "byte list \<Rightarrow> string" where
  "b64_enc bs = map b64_char (sextets bs) @ replicate (pad_len bs) pad_char"

definition js_btoa :: "string \<Rightarrow> string" where
  "js_btoa s = b64_enc (map (\<lambda>c. of_nat (of_char c)) s)"

definition is_ascii_ws :: "char \<Rightarrow> bool" where
  "is_ascii_ws c \<longleftrightarrow> (of_char c :: nat) \<in> {9, 10, 12, 13, 32}"

definition strip_pad :: "string \<Rightarrow> string" where
  "strip_pad s =
     (if length s mod 4 \<noteq> 0 then s
      else if drop (length s - 2) s = [pad_char, pad_char] then take (length s - 2) s
      else if drop (length s - 1) s = [pad_char] then take (length s - 1) s
      else s)"

definition invalid_character :: exn where
  "invalid_character = Error ''InvalidCharacterError''"

definition js_atob :: "string \<Rightarrow> string result" where
  "js_atob s0 =
     (let s = strip_pad (filter (\<lambda>c. \<not> is_ascii_ws c) s0)
      in if length s mod 4 = 1 \<or> \<not> list_all (\<lambda>c. b64_val c \<noteq> None) s
         then Inl invalid_character
         else Inr (map (\<lambda>b. char_of (unat b)) (unsextets (map (\<lambda>c. the (b64_val c)) s))))"

text \<open>The binary string of a byte list, and back.\<close>

lemma char_of_byte [simp]: "(of_nat (of_char (char_of (unat b) :: char)) :: byte) = b"
  by simp

lemma b64_enc_no_ws: "filter (\<lambda>c. \<not> is_ascii_ws c) (b64_enc bs) = b64_enc bs"
proof -
  have "\<not> is_ascii_ws (b64_char n)" if "n < 64" for n
  proof
    assume "is_ascii_ws (b64_char n)"
    then have "b64_val (b64_char n) = None"
      by (auto simp: is_ascii_ws_def b64_val_def)
    with that show False by simp
  qed
  moreover have "\<not> is_ascii_ws pad_char"
    by (simp add: is_ascii_ws_def pad_char_def)
  ultimately show ?thesis
    using sextets_lt [of bs] by (auto simp: b64_enc_def filter_id_conv)
qed

lemma length_b64_enc: "length (b64_enc bs) = 4 * ((length bs + 2) div 3)"
  using length_sextets [of bs] by (simp add: b64_enc_def)

lemma b64_char_not_pad: "n < 64 \<Longrightarrow> b64_char n \<noteq> pad_char"
  using b64_val_char [of n] by (metis b64_val_pad option.distinct(1))

lemma sextets_last: "bs \<noteq> [] \<Longrightarrow> sextets bs \<noteq> []"
  by (cases bs rule: sextets.cases) simp_all

lemma strip_pad_append:
  assumes "length (xs @ replicate k pad_char) mod 4 = 0" "k \<le> 2" "pad_char \<notin> set xs"
    and "xs = [] \<Longrightarrow> k = 0"
  shows "strip_pad (xs @ replicate k pad_char) = xs"
proof -
  consider "k = 0" | "k = 1" | "k = 2" using assms(2) by linarith
  then show ?thesis
  proof cases
    case 1
    have "drop (length xs - 2) xs \<noteq> [pad_char, pad_char]" "drop (length xs - 1) xs \<noteq> [pad_char]"
      using assms(3) by (metis in_set_dropD list.set_intros(1))+
    with 1 show ?thesis by (simp add: strip_pad_def)
  next
    case 2
    with assms(4) have "xs \<noteq> []" by auto
    then obtain ys y where xs: "xs = ys @ [y]" by (metis rev_exhaust)
    with assms(3) have "y \<noteq> pad_char" by auto
    with assms(1) 2 xs show ?thesis by (simp add: strip_pad_def)
  next
    case 3
    with assms(1) show ?thesis by (simp add: strip_pad_def numeral_2_eq_2)
  qed
qed

lemma strip_pad_enc: "strip_pad (b64_enc bs) = map b64_char (sextets bs)"
  unfolding b64_enc_def
proof (rule strip_pad_append)
  show "length (map b64_char (sextets bs) @ replicate (pad_len bs) pad_char) mod 4 = 0"
    using length_b64_enc [of bs] by (simp add: b64_enc_def)
  show "pad_len bs \<le> 2"
    by (simp add: pad_len_def)
  show "pad_char \<notin> set (map b64_char (sextets bs))"
    using sextets_lt [of bs] b64_char_not_pad by fastforce
  show "pad_len bs = 0" if "map b64_char (sextets bs) = []"
    using that sextets_last [of bs] by (cases "bs = []") (auto simp: pad_len_def)
qed

lemma length_sextets_mod4: "length (sextets bs) mod 4 \<noteq> 1"
  by (induction bs rule: sextets.induct) simp_all

lemma atob_b64_enc: "js_atob (b64_enc bs) = Inr (map (\<lambda>b. char_of (unat b)) bs)"
proof -
  have "map (\<lambda>c. the (b64_val c)) (map b64_char (sextets bs)) = sextets bs"
    using sextets_lt [of bs] by (simp add: map_idI)
  moreover have "list_all (\<lambda>c. b64_val c \<noteq> None) (map b64_char (sextets bs))"
    using sextets_lt [of bs] by (auto simp: list_all_iff)
  ultimately show ?thesis
    using length_sextets_mod4 [of bs]
    by (simp add: js_atob_def Let_def b64_enc_no_ws strip_pad_enc)
qed

section \<open>bytesFromBase64 and base64FromBytes\<close>

text \<open>
  The argument of \<open>bytesFromBase64\<close> is declared a \<open>string\<close>, but \<open>fromJSON\<close> passes it a
  value of type \<open>any\<close>; \<open>atob\<close> converts what it gets to a string.
\<close>

definition bytesFromBase64 :: "platform \<Rightarrow> jsval \<Rightarrow> byte list result" where
  "bytesFromBase64 P b64 =
     (case Buffer P of
        Some B \<Rightarrow> from_base64 B b64
      | None \<Rightarrow>
          bindE (js_String P b64) (\<lambda>s.
          bindE (js_atob s) (\<lambda>bin. Inr (map (\<lambda>c. of_nat (of_char c)) bin))))"

definition base64FromBytes :: "platform \<Rightarrow> byte list \<Rightarrow> string" where
  "base64FromBytes P arr =
     (case Buffer P of
        Some B \<Rightarrow> to_base64 B arr
      | None \<Rightarrow> js_btoa (map (\<lambda>byte. char_of (unat byte)) arr))"

text \<open>
  What the code relies on in \<open>Buffer\<close>: it writes the standard alphabet with padding, and
  reads back what it writes.
\<close>

definition buffer_ok :: "platform \<Rightarrow> bool" where
  "buffer_ok P \<longleftrightarrow>
     (\<forall>B bs. Buffer P = Some B \<longrightarrow> to_base64 B bs = b64_enc bs \<and> from_base64 B (JStr (b64_enc bs)) = Inr bs)"

lemma base64FromBytes_eq: "buffer_ok P \<Longrightarrow> base64FromBytes P bs = b64_enc bs"
  by (auto simp: base64FromBytes_def buffer_ok_def js_btoa_def o_def comp_def split: option.splits)

lemma base64_inverse [simp]:
  "buffer_ok P \<Longrightarrow> bytesFromBase64 P (JStr (base64FromBytes P bs)) = Inr bs"
  by (auto simp: base64FromBytes_eq)
    (auto simp: bytesFromBase64_def buffer_ok_def atob_b64_enc o_def comp_def split: option.splits)

end
