(* ===== verification/Wire.thy ===== *)
theory Wire
  imports Base64
begin

text \<open>
  The interface to \<open>BinaryWriter\<close> and \<open>BinaryReader\<close> of the npm package
  \<open>@bufbuild/protobuf/wire\<close>, which is not part of the repository. Its operations are the
  fields of two records, arguments of every definition that uses them; what the message
  code relies on is the Protocol Buffers wire format, stated as the assumptions of the
  locales \<open>wire_writer\<close> and \<open>wire_reader\<close>. The theory also holds the decode loop,
  which every \<open>decode\<close> method of \<open>pubsub.ts\<close> repeats word for word.
\<close>

section \<open>The operations\<close>

record 'w writer_ops =
  w_new :: 'w
  w_uint32 :: "nat \<Rightarrow> 'w \<Rightarrow> 'w result"
  w_uint64 :: "number \<Rightarrow> 'w \<Rightarrow> 'w result"
  w_string :: "string \<Rightarrow> 'w \<Rightarrow> 'w result"
  w_bytes :: "byte list \<Rightarrow> 'w \<Rightarrow> 'w result"
  w_fork :: "'w \<Rightarrow> 'w result"
  w_join :: "'w \<Rightarrow> 'w result"
  w_finish :: "'w \<Rightarrow> byte list"

record 'r reader_ops =
  r_new :: "byte list \<Rightarrow> 'r"
  r_len :: "'r \<Rightarrow> nat"
  r_pos :: "'r \<Rightarrow> nat"
  r_uint32 :: "'r \<Rightarrow> (nat \<times> 'r) result"
  r_uint64 :: "'r \<Rightarrow> (nat \<times> 'r) result"
  r_string :: "'r \<Rightarrow> (string \<times> 'r) result"
  r_bytes :: "'r \<Rightarrow> (byte list \<times> 'r) result"
  r_skip :: "nat \<Rightarrow> 'r \<Rightarrow> 'r result"

text \<open>\<open>input: BinaryReader | Uint8Array\<close>\<close>

datatype 'r input = IReader 'r | IBytes "byte list"

section \<open>The wire format\<close>

fun varint :: "nat \<Rightarrow> byte list" where
  "varint n = (if n < 128 then [of_nat n] else of_nat (128 + n mod 128) # varint (n div 128))"

declare varint.simps [simp del]

definition delim :: "byte list \<Rightarrow> byte list" where
  "delim bs = varint (length bs) @ bs"

text \<open>
  A message on the wire is a list of numbered fields. \<open>Str\<close> and \<open>Msg\<close> are
  length-delimited fields whose bytes are a string and an embedded message.
\<close>

datatype wval =
    Varint nat
  | I64 "byte list"
  | Len "byte list"
  | Str string
  | Msg "wfield list"
  | I32 "byte list"
and wfield = F nat wval

fun wtype :: "wval \<Rightarrow> nat" where
  "wtype (Varint _) = 0"
| "wtype (I64 _) = 1"
| "wtype (I32 _) = 5"
| "wtype _ = 2"

primrec ser_val :: "wval \<Rightarrow> byte list" and ser_field :: "wfield \<Rightarrow> byte list" where
  "ser_val (Varint n) = varint n"
| "ser_val (I64 bs) = bs"
| "ser_val (Len bs) = delim bs"
| "ser_val (Str s) = delim (utf8 s)"
| "ser_val (Msg fs) = delim (concat (map ser_field fs))"
| "ser_val (I32 bs) = bs"
| "ser_field (F n v) = varint (8 * n + wtype v) @ ser_val v"

definition ser :: "wfield list \<Rightarrow> byte list" where
  "ser fs = concat (map ser_field fs)"

primrec val_ok :: "wval \<Rightarrow> bool" and field_ok :: "wfield \<Rightarrow> bool" where
  "val_ok (Varint n) \<longleftrightarrow> n < 2 ^ 64"
| "val_ok (I64 bs) \<longleftrightarrow> length bs = 8"
| "val_ok (Len bs) \<longleftrightarrow> length bs < 2 ^ 32"
| "val_ok (Str s) \<longleftrightarrow> length (utf8 s) < 2 ^ 32"
| "val_ok (Msg fs) \<longleftrightarrow> length (concat (map ser_field fs)) < 2 ^ 32 \<and> list_all field_ok fs"
| "val_ok (I32 bs) \<longleftrightarrow> length bs = 4"
| "field_ok (F n v) \<longleftrightarrow> 1 \<le> n \<and> n < 2 ^ 29 \<and> val_ok v"

lemma ser_simps [simp]:
  "ser [] = []"
  "ser (f # fs) = ser_field f @ ser fs"
  "ser (fs @ gs) = ser fs @ ser gs"
  by (simp_all add: ser_def)

lemma ser_val_Msg [simp]: "ser_val (Msg fs) = delim (ser fs)"
  by (simp add: ser_def)

lemma val_ok_Msg [simp]: "val_ok (Msg fs) \<longleftrightarrow> length (ser fs) < 2 ^ 32 \<and> list_all field_ok fs"
  by (simp add: ser_def)

declare ser_val.simps(5) [simp del] val_ok.simps(5) [simp del]

lemma varint_nonempty [simp]: "varint n \<noteq> []"
  by (subst varint.simps) simp

lemma varint_length_pos [simp]: "0 < length (varint n)"
  by simp

lemma length_delim: "length bs \<le> length (delim bs)"
  by (simp add: delim_def)

lemma ser_concat_map: "ser (concat (map f xs)) = concat (map (\<lambda>x. ser (f x)) xs)"
  by (induction xs) simp_all

lemma ser_map: "ser (map f xs) = concat (map (\<lambda>x. ser_field (f x)) xs)"
  by (simp add: ser_def comp_def)

lemma length_ser_val_member:
  "F n v \<in> set fs \<Longrightarrow> length (ser_val v) \<le> length (ser fs)"
  by (induction fs) auto

section \<open>Writing\<close>

text \<open>
  \<open>emits stk f bs\<close>: the writer step \<open>f\<close> succeeds and appends \<open>bs\<close> to the innermost open
  chunk; \<open>stk w\<close> is the stack of the chunks a writer has open, innermost first.
\<close>

definition emits :: "('w \<Rightarrow> byte list list) \<Rightarrow> ('w \<Rightarrow> 'w result) \<Rightarrow> byte list \<Rightarrow> bool" where
  "emits stk f bs \<longleftrightarrow>
     (\<forall>w b s. stk w = b # s \<longrightarrow> (\<exists>w'. f w = Inr w' \<and> stk w' = (b @ bs) # s))"

lemma emitsI:
  "(\<And>w b s. stk w = b # s \<Longrightarrow> \<exists>w'. f w = Inr w' \<and> stk w' = (b @ bs) # s) \<Longrightarrow> emits stk f bs"
  by (simp add: emits_def)

lemma emitsE:
  assumes "emits stk f bs" "stk w = b # s"
  obtains w' where "f w = Inr w'" "stk w' = (b @ bs) # s"
  using assms unfolding emits_def by blast

lemma emits_id [emit_intros]: "emits stk Inr []"
  by (simp add: emits_def)

lemma emits_Nil [emit_intros]: "emits stk (steps []) []"
  by (simp add: emits_def)

lemma emits_Cons [emit_intros]:
  "emits stk f x \<Longrightarrow> emits stk (steps fs) y \<Longrightarrow> emits stk (steps (f # fs)) (x @ y)"
  by (fastforce simp: emits_def)

lemma emits_map:
  "(\<And>v. v \<in> set vs \<Longrightarrow> emits stk (f v) (g v)) \<Longrightarrow>
   emits stk (steps (map f vs)) (concat (map g vs))"
  by (induction vs) (auto intro!: emit_intros)

lemma emits_cong: "emits stk f x \<Longrightarrow> x = y \<Longrightarrow> emits stk f y"
  by simp

text \<open>The documented behaviour of the writer.\<close>

locale wire_writer =
  fixes W :: "'w writer_ops"
    and stk :: "'w \<Rightarrow> byte list list"
  assumes stk_new: "stk (w_new W) = [[]]"
    and emits_uint32: "n < 2 ^ 32 \<Longrightarrow> emits stk (w_uint32 W n) (varint n)"
    and emits_uint64: "n < 2 ^ 64 \<Longrightarrow> emits stk (w_uint64 W (of_n n)) (varint n)"
    and uint64_invalid: "\<not> is_uint 64 x \<Longrightarrow> \<exists>e. w_uint64 W x w = Inl e"
    and emits_string: "length (utf8 s) < 2 ^ 32 \<Longrightarrow> emits stk (w_string W s) (delim (utf8 s))"
    and emits_bytes: "length bs < 2 ^ 32 \<Longrightarrow> emits stk (w_bytes W bs) (delim bs)"
    and fork_stk: "\<exists>w'. w_fork W w = Inr w' \<and> stk w' = [] # stk w"
    and join_stk: "stk w = b # c # outer \<Longrightarrow> length b < 2 ^ 32 \<Longrightarrow>
      \<exists>w'. w_join W w = Inr w' \<and> stk w' = (c @ delim b) # outer"
    and finish_stk: "stk w = [b] \<Longrightarrow> w_finish W w = b"
begin

lemma emits_embedded:
  assumes "emits stk enc bs" and "length bs < 2 ^ 32"
  shows "emits stk (steps [w_fork W, enc, w_join W]) (delim bs)"
proof (rule emitsI)
  fix w b s
  assume w: "stk w = b # s"
  obtain w1 where 1: "w_fork W w = Inr w1" "stk w1 = [] # b # s"
    using fork_stk [of w] w by auto
  obtain w2 where 2: "enc w1 = Inr w2" "stk w2 = bs # b # s"
    using emitsE [OF assms(1) 1(2)] by auto
  obtain w3 where "w_join W w2 = Inr w3" "stk w3 = (b @ delim bs) # s"
    using join_stk [OF 2(2) assms(2)] by auto
  with 1 2 show "\<exists>w'. steps [w_fork W, enc, w_join W] w = Inr w' \<and> stk w' = (b @ delim bs) # s"
    by simp
qed

text \<open>A tagged field: the tag, then the value.\<close>

lemma emits_tagged:
  assumes "emits stk (steps fs) (ser_val v)" and "t = 8 * n + wtype v" and "t < 2 ^ 32"
  shows "emits stk (steps (w_uint32 W t # fs)) (ser_field (F n v))"
  using emits_Cons [OF emits_uint32 [OF assms(3)] assms(1)] assms(2) by simp

lemma emits_single: "emits stk f x \<Longrightarrow> emits stk (steps [f]) x"
  using emits_Cons [OF _ emits_Nil, of stk f x] by simp

lemma emits_string_field:
  "length (utf8 s) < 2 ^ 32 \<Longrightarrow> t = 8 * n + 2 \<Longrightarrow> t < 2 ^ 32 \<Longrightarrow>
   emits stk (steps [w_uint32 W t, w_string W s]) (ser_field (F n (Str s)))"
  by (rule emits_tagged) (simp_all add: emits_single emits_string)

lemma emits_bytes_field:
  "length bs < 2 ^ 32 \<Longrightarrow> t = 8 * n + 2 \<Longrightarrow> t < 2 ^ 32 \<Longrightarrow>
   emits stk (steps [w_uint32 W t, w_bytes W bs]) (ser_field (F n (Len bs)))"
  by (rule emits_tagged) (simp_all add: emits_single emits_bytes)

lemma emits_uint64_field:
  "is_uint 64 x \<Longrightarrow> t = 8 * n \<Longrightarrow> t < 2 ^ 32 \<Longrightarrow>
   emits stk (steps [w_uint32 W t, w_uint64 W x]) (ser_field (F n (Varint (num_nat x))))"
  by (rule emits_tagged) (auto elim!: is_uintE intro!: emits_single emits_uint64)

lemma emits_msg_field:
  "emits stk enc (ser fs) \<Longrightarrow> length (ser fs) < 2 ^ 32 \<Longrightarrow> t = 8 * n + 2 \<Longrightarrow> t < 2 ^ 32 \<Longrightarrow>
   emits stk (steps [w_uint32 W t, w_fork W, enc, w_join W]) (ser_field (F n (Msg fs)))"
  by (rule emits_tagged) (simp_all add: emits_embedded)

text \<open>A whole message, written on a new writer and finished.\<close>

lemma emits_finish:
  assumes "emits stk enc bs"
  shows "\<exists>w. enc (w_new W) = Inr w \<and> w_finish W w = bs"
proof -
  obtain w where "enc (w_new W) = Inr w" "stk w = ([] @ bs) # []"
    using emitsE [OF assms stk_new] by auto
  then show ?thesis using finish_stk by auto
qed

lemma uint64_field_fails:
  assumes "\<not> is_uint 64 x"
  shows "\<exists>e. steps (w_uint32 W t # w_uint64 W x # fs) w = Inl e"
  using uint64_invalid [OF assms]
  by (cases "w_uint32 W t w") (auto, metis bindE_simps(1))

end

section \<open>The decode loop\<close>

text \<open>
  A case of the \<open>switch\<close> either ends in \<open>continue\<close>, with the new message and the reader
  behind the value, or in \<open>break\<close>. The outer \<open>option\<close> is \<open>None\<close> when the call does not
  return.
\<close>

datatype ('m, 'r) branch = Continue 'm 'r | Break

type_synonym ('m, 'r) cases = "nat \<Rightarrow> 'm \<Rightarrow> 'r \<Rightarrow> ('m, 'r) branch result option"

partial_function (option) decode_loop ::
  "'r reader_ops \<Rightarrow> ('m, 'r) cases \<Rightarrow> nat \<Rightarrow> 'm \<Rightarrow> 'r \<Rightarrow> ('m \<times> 'r) result option" where
  "decode_loop R cases end message reader =
     (if r_pos R reader < end then
        (case r_uint32 R reader of
           Inl e \<Rightarrow> Some (Inl e)
         | Inr (tag, reader) \<Rightarrow>
             (case cases tag message reader of
                None \<Rightarrow> None
              | Some (Inl e) \<Rightarrow> Some (Inl e)
              | Some (Inr (Continue message reader)) \<Rightarrow> decode_loop R cases end message reader
              | Some (Inr Break) \<Rightarrow>
                  (if tag mod 8 = 4 \<or> tag = 0 then Some (Inr (message, reader))
                   else (case r_skip R (tag mod 8) reader of
                           Inl e \<Rightarrow> Some (Inl e)
                         | Inr reader \<Rightarrow> decode_loop R cases end message reader))))
      else Some (Inr (message, reader)))"

definition decode_message ::
  "'r reader_ops \<Rightarrow> ('m, 'r) cases \<Rightarrow> 'm \<Rightarrow> 'r input \<Rightarrow> nat option \<Rightarrow> ('m \<times> 'r) result option" where
  "decode_message R cases base input len =
     (let reader = (case input of IReader r \<Rightarrow> r | IBytes b \<Rightarrow> r_new R b);
          end = (case len of None \<Rightarrow> r_len R reader | Some n \<Rightarrow> r_pos R reader + n)
      in decode_loop R cases end base reader)"

text \<open>The bodies of the cases: a scalar field, a 64-bit field, an embedded message.\<close>

definition no_case :: "('m, 'r) branch result option" where
  "no_case = Some (Inr Break)"

definition scalar_case ::
  "('a \<times> 'r) result \<Rightarrow> ('a \<Rightarrow> 'm) \<Rightarrow> ('m, 'r) branch result option" where
  "scalar_case res upd = Some (bindE res (\<lambda>(x, reader). Inr (Continue (upd x) reader)))"

definition scalar_caseE ::
  "('a \<times> 'r) result \<Rightarrow> ('a \<Rightarrow> 'm result) \<Rightarrow> ('m, 'r) branch result option" where
  "scalar_caseE res upd =
     Some (bindE res (\<lambda>(x, reader). bindE (upd x) (\<lambda>m. Inr (Continue m reader))))"

definition message_case ::
  "'r reader_ops \<Rightarrow> ('r input \<Rightarrow> nat option \<Rightarrow> ('a \<times> 'r) result option) \<Rightarrow> 'r \<Rightarrow> ('a \<Rightarrow> 'm)
   \<Rightarrow> ('m, 'r) branch result option" where
  "message_case R decode reader upd =
     (case r_uint32 R reader of
        Inl e \<Rightarrow> Some (Inl e)
      | Inr (len, reader) \<Rightarrow>
          (case decode (IReader reader) (Some len) of
             None \<Rightarrow> None
           | Some (Inl e) \<Rightarrow> Some (Inl e)
           | Some (Inr (x, reader)) \<Rightarrow> Some (Inr (Continue (upd x) reader))))"

lemma no_case_simps [simp]: "no_case = Some (Inr Break)"
  by (simp add: no_case_def)

section \<open>Reading\<close>

definition rest :: "'r reader_ops \<Rightarrow> ('r \<Rightarrow> byte list) \<Rightarrow> 'r \<Rightarrow> byte list" where
  "rest R buf r = drop (r_pos R r) (buf r)"

definition adv :: "'r reader_ops \<Rightarrow> ('r \<Rightarrow> byte list) \<Rightarrow> 'r \<Rightarrow> nat \<Rightarrow> 'r \<Rightarrow> bool" where
  "adv R buf r k r' \<longleftrightarrow> buf r' = buf r \<and> r_pos R r' = r_pos R r + k"

lemma adv_refl [simp]: "adv R buf r 0 r"
  by (simp add: adv_def)

lemma adv_trans: "adv R buf r j r' \<Longrightarrow> adv R buf r' k r'' \<Longrightarrow> adv R buf r (j + k) r''"
  by (simp add: adv_def)

lemma adv_pos: "adv R buf r k r' \<Longrightarrow> r_pos R r' = r_pos R r + k"
  by (simp add: adv_def)

lemma adv_rest: "adv R buf r (length xs) r' \<Longrightarrow> rest R buf r = xs @ ys \<Longrightarrow> rest R buf r' = ys"
  by (simp add: adv_def rest_def drop_append_exact)

text \<open>\<open>reads f r x k\<close>: the read \<open>f\<close> returns \<open>x\<close> and moves the reader by \<open>k\<close> bytes.\<close>

definition reads ::
  "'r reader_ops \<Rightarrow> ('r \<Rightarrow> byte list) \<Rightarrow> ('r \<Rightarrow> ('a \<times> 'r) result) \<Rightarrow> 'r \<Rightarrow> 'a \<Rightarrow> nat \<Rightarrow> bool" where
  "reads R buf f r x k \<longleftrightarrow> (\<exists>r'. f r = Inr (x, r') \<and> adv R buf r k r')"

lemma readsE:
  assumes "reads R buf f r x k"
  obtains r' where "f r = Inr (x, r')" "adv R buf r k r'"
  using assms by (auto simp: reads_def)

text \<open>Every read that succeeds moves forward; reading an integer takes at least one byte.\<close>

locale reader_progress =
  fixes R :: "'r reader_ops"
  assumes uint32_progress: "r_uint32 R r = Inr (n, r') \<Longrightarrow> r_pos R r < r_pos R r'"
    and uint64_progress: "r_uint64 R r = Inr (n, r') \<Longrightarrow> r_pos R r \<le> r_pos R r'"
    and string_progress: "r_string R r = Inr (s, r') \<Longrightarrow> r_pos R r \<le> r_pos R r'"
    and bytes_progress: "r_bytes R r = Inr (bs, r') \<Longrightarrow> r_pos R r \<le> r_pos R r'"
    and skip_progress: "r_skip R t r = Inr r' \<Longrightarrow> r_pos R r \<le> r_pos R r'"

text \<open>
  A total switch returns for every tag, and a case that continues never moves the reader
  back.
\<close>

definition total_cases :: "'r reader_ops \<Rightarrow> ('m, 'r) cases \<Rightarrow> bool" where
  "total_cases R cases \<longleftrightarrow>
     (\<forall>tag m r. cases tag m r \<noteq> None) \<and>
     (\<forall>tag m r m' r'. cases tag m r = Some (Inr (Continue m' r')) \<longrightarrow> r_pos R r \<le> r_pos R r')"

definition total_decode ::
  "'r reader_ops \<Rightarrow> ('r input \<Rightarrow> nat option \<Rightarrow> ('m \<times> 'r) result option) \<Rightarrow> bool" where
  "total_decode R dec \<longleftrightarrow>
     (\<forall>input len. dec input len \<noteq> None) \<and>
     (\<forall>r len m r'. dec (IReader r) len = Some (Inr (m, r')) \<longrightarrow> r_pos R r \<le> r_pos R r')"

context reader_progress begin

lemma decode_loop_total:
  assumes "total_cases R cases"
  shows "decode_loop R cases fin m r \<noteq> None \<and>
    (\<forall>m' r'. decode_loop R cases fin m r = Some (Inr (m', r')) \<longrightarrow> r_pos R r \<le> r_pos R r')"
proof (induction "fin - r_pos R r" arbitrary: m r rule: less_induct)
  case less
  show ?case
  proof (cases "r_pos R r < fin")
    case False
    then show ?thesis by (simp add: decode_loop.simps)
  next
    case True
    show ?thesis
    proof (cases "r_uint32 R r")
      case (Inl e)
      with True show ?thesis by (simp add: decode_loop.simps)
    next
      case (Inr p)
      obtain tag r1 where p: "p = (tag, r1)" by (cases p) auto
      have r1: "r_pos R r < r_pos R r1"
        using Inr p uint32_progress by simp
      have step: "decode_loop R cases fin m' r' \<noteq> None \<and> (\<forall>m'' r''.
          decode_loop R cases fin m' r' = Some (Inr (m'', r'')) \<longrightarrow> r_pos R r \<le> r_pos R r'')"
        if "r_pos R r1 \<le> r_pos R r'" for m' r'
      proof -
        have "fin - r_pos R r' < fin - r_pos R r" using that r1 True by linarith
        from less [OF this, of m'] show ?thesis using that r1
          by (meson le_trans less_imp_le order.trans)
      qed
      have "cases tag m r1 \<noteq> None"
        and cont: "\<And>m' r'. cases tag m r1 = Some (Inr (Continue m' r')) \<Longrightarrow> r_pos R r1 \<le> r_pos R r'"
        using assms by (auto simp: total_cases_def)
      then obtain res where res: "cases tag m r1 = Some res" by auto
      show ?thesis
      proof (cases res)
        case (Inl e)
        with True \<open>r_uint32 R r = Inr p\<close> p res show ?thesis by (simp add: decode_loop.simps [of R cases fin m r])
      next
        case (Inr b)
        show ?thesis
        proof (cases b)
          case (Continue m' r')
          with cont res Inr have "r_pos R r1 \<le> r_pos R r'" by simp
          from step [OF this] show ?thesis
            using True \<open>r_uint32 R r = Inr p\<close> p res Inr Continue
            by (simp add: decode_loop.simps [of R cases fin m r])
        next
          case Break
          show ?thesis
          proof (cases "r_skip R (tag mod 8) r1")
            case (Inr r2)
            then have "r_pos R r1 \<le> r_pos R r2" by (rule skip_progress)
            from step [OF this, of m] show ?thesis
              using True \<open>r_uint32 R r = Inr p\<close> p res \<open>res = Inr b\<close> Break r1 Inr
              by (simp add: decode_loop.simps [of R cases fin m r])
          qed (use True \<open>r_uint32 R r = Inr p\<close> p res Inr Break r1 in
               \<open>simp add: decode_loop.simps [of R cases fin m r]\<close>)
        qed
      qed
    qed
  qed
qed

lemma decode_message_total:
  "total_cases R cases \<Longrightarrow> total_decode R (decode_message R cases base)"
  using decode_loop_total [of cases]
  by (auto simp: total_decode_def decode_message_def Let_def)

lemma scalar_case_total [simp]:
  "\<exists>b. scalar_case res upd = Some b" "\<exists>b. scalar_caseE res updE = Some b"
  by (simp_all add: scalar_case_def scalar_caseE_def)

lemma scalar_case_pos:
  "scalar_case (f r) upd = Some (Inr (Continue m' r')) \<Longrightarrow>
   (\<And>x r'. f r = Inr (x, r') \<Longrightarrow> r_pos R r \<le> r_pos R r') \<Longrightarrow> r_pos R r \<le> r_pos R r'"
  by (cases "f r") (auto simp: scalar_case_def)

lemma scalar_caseE_pos:
  "scalar_caseE (f r) upd = Some (Inr (Continue m' r')) \<Longrightarrow>
   (\<And>x r'. f r = Inr (x, r') \<Longrightarrow> r_pos R r \<le> r_pos R r') \<Longrightarrow> r_pos R r \<le> r_pos R r'"
  by (cases "f r") (auto simp: scalar_caseE_def bindE_eq_Inr)

lemma message_case_total:
  assumes "total_decode R dec"
  shows "\<exists>b. message_case R dec r upd = Some b"
proof -
  have returns: "(dec (IReader b) (Some a) = None) = False" for b a
    using assms by (simp add: total_decode_def)
  show ?thesis
    by (simp add: message_case_def returns split: sum.splits option.splits prod.splits)
qed

lemma message_case_pos:
  assumes "total_decode R dec" "message_case R dec r upd = Some (Inr (Continue m' r'))"
  shows "r_pos R r \<le> r_pos R r'"
proof -
  obtain n r1 x where "r_uint32 R r = Inr (n, r1)" "dec (IReader r1) (Some n) = Some (Inr (x, r'))"
    using assms(2) by (auto simp: message_case_def split: sum.splits option.splits)
  then show ?thesis
    using assms(1) uint32_progress by (fastforce simp: total_decode_def)
qed

lemmas case_pos =
  scalar_case_pos [of "r_string R", OF _ string_progress]
  scalar_case_pos [of "r_bytes R", OF _ bytes_progress]
  scalar_caseE_pos [of "r_uint64 R", OF _ uint64_progress]
  message_case_pos

lemmas case_total = scalar_case_total message_case_total

end

section \<open>Decoding well-formed messages\<close>

text \<open>
  \<open>handles\<close>: a switch reads each acceptable field and merges it into the message, or leaves
  an unknown field to \<open>skip\<close>. \<open>decodes\<close>: a \<open>decode\<close> method computes \<open>sem fs\<close> from the
  bytes of the fields \<open>fs\<close>, on its own or embedded in a larger input.
\<close>

definition continues ::
  "'r reader_ops \<Rightarrow> ('r \<Rightarrow> byte list) \<Rightarrow> ('m, 'r) branch result option \<Rightarrow> 'r \<Rightarrow> nat \<Rightarrow> 'm \<Rightarrow> bool"
  where
  "continues R buf res r k m \<longleftrightarrow> (\<exists>r'. res = Some (Inr (Continue m r')) \<and> adv R buf r k r')"

lemma continues_Break [simp]: "\<not> continues R buf (Some (Inr Break)) r k m"
  by (simp add: continues_def)

definition handles ::
  "'r reader_ops \<Rightarrow> ('r \<Rightarrow> byte list) \<Rightarrow> (wfield \<Rightarrow> bool) \<Rightarrow> (wfield \<Rightarrow> 'm \<Rightarrow> 'm)
   \<Rightarrow> ('m, 'r) cases \<Rightarrow> bool" where
  "handles R buf ok merge cases \<longleftrightarrow>
     (\<forall>n v m r ys. field_ok (F n v) \<longrightarrow> ok (F n v) \<longrightarrow> rest R buf r = ser_val v @ ys \<longrightarrow>
        continues R buf (cases (8 * n + wtype v) m r) r (length (ser_val v)) (merge (F n v) m)
        \<or> (cases (8 * n + wtype v) m r = Some (Inr Break) \<and> merge (F n v) m = m))"

definition sem_fields :: "(wfield \<Rightarrow> 'm \<Rightarrow> 'm) \<Rightarrow> 'm \<Rightarrow> wfield list \<Rightarrow> 'm" where
  "sem_fields merge base fs = fold merge fs base"

definition decodes ::
  "'r reader_ops \<Rightarrow> ('r \<Rightarrow> byte list) \<Rightarrow> ('r input \<Rightarrow> nat option \<Rightarrow> ('m \<times> 'r) result option)
   \<Rightarrow> (wfield \<Rightarrow> bool) \<Rightarrow> (wfield list \<Rightarrow> 'm) \<Rightarrow> bool" where
  "decodes R buf dec ok sem \<longleftrightarrow>
     (\<forall>fs. list_all field_ok fs \<longrightarrow> list_all ok fs \<longrightarrow>
        (\<forall>r ys. rest R buf r = ser fs @ ys \<longrightarrow>
           (\<exists>r'. dec (IReader r) (Some (length (ser fs))) = Some (Inr (sem fs, r'))
                 \<and> adv R buf r (length (ser fs)) r'))
        \<and> (\<exists>r'. dec (IBytes (ser fs)) None = Some (Inr (sem fs, r'))))"

lemma handlesI:
  assumes "\<And>n v m r ys. field_ok (F n v) \<Longrightarrow> ok (F n v) \<Longrightarrow> rest R buf r = ser_val v @ ys \<Longrightarrow>
      continues R buf (cases (8 * n + wtype v) m r) r (length (ser_val v)) (merge (F n v) m)
        \<or> (cases (8 * n + wtype v) m r = Some (Inr Break) \<and> merge (F n v) m = m)"
  shows "handles R buf ok merge cases"
  using assms by (simp add: handles_def)

lemma wtype_le: "wtype v \<le> 5"
  by (cases v) simp_all

lemma wtype_neq: "wtype v \<noteq> 3" "wtype v \<noteq> 4"
  by (cases v; simp)+

lemma wtype_mod [simp]: "wtype v mod 8 = wtype v"
  using wtype_le [of v] by simp

lemma tag_simps [simp]:
  "(8 * n + wtype v) div 8 = n" "(8 * n + wtype v) mod 8 = wtype v"
  using wtype_le [of v] by simp_all

locale wire_reader = reader_progress R for R :: "'r reader_ops" +
  fixes buf :: "'r \<Rightarrow> byte list"
  assumes new_reader: "r_pos R (r_new R b) = 0" "buf (r_new R b) = b" "r_len R (r_new R b) = length b"
    and reads_uint32: "n < 2 ^ 32 \<Longrightarrow> rest R buf r = varint n @ ys \<Longrightarrow>
      reads R buf (r_uint32 R) r n (length (varint n))"
    and reads_uint64: "n < 2 ^ 64 \<Longrightarrow> rest R buf r = varint n @ ys \<Longrightarrow>
      reads R buf (r_uint64 R) r n (length (varint n))"
    and reads_string: "length (utf8 s) < 2 ^ 32 \<Longrightarrow> rest R buf r = delim (utf8 s) @ ys \<Longrightarrow>
      reads R buf (r_string R) r s (length (delim (utf8 s)))"
    and reads_bytes: "length b < 2 ^ 32 \<Longrightarrow> rest R buf r = delim b @ ys \<Longrightarrow>
      reads R buf (r_bytes R) r b (length (delim b))"
    and skip_field: "val_ok v \<Longrightarrow> rest R buf r = ser_val v @ ys \<Longrightarrow>
      \<exists>r'. r_skip R (wtype v) r = Inr r' \<and> adv R buf r (length (ser_val v)) r'"
begin

lemma decode_loop_fields:
  assumes "handles R buf ok merge cases"
  shows "list_all field_ok fs \<Longrightarrow> list_all ok fs \<Longrightarrow> rest R buf r = ser fs @ ys \<Longrightarrow>
    \<exists>r'. decode_loop R cases (r_pos R r + length (ser fs)) m r = Some (Inr (fold merge fs m, r'))
          \<and> adv R buf r (length (ser fs)) r'"
proof (induction fs arbitrary: m r)
  case Nil
  then show ?case by (auto simp: decode_loop.simps)
next
  case (Cons f fs)
  obtain n v where f: "f = F n v" by (cases f) auto
  let ?t = "8 * n + wtype v"
  define fin where fin: "fin = r_pos R r + length (ser (f # fs))"
  have ok: "field_ok (F n v)" "ok (F n v)" "val_ok v" "?t < 2 ^ 32" "n \<noteq> 0"
    using Cons.prems(1,2) f wtype_le [of v] by auto
  have in0: "rest R buf r = varint ?t @ ser_val v @ ser fs @ ys"
    using Cons.prems(3) f by simp
  obtain r1 where r1: "r_uint32 R r = Inr (?t, r1)" "adv R buf r (length (varint ?t)) r1"
    using readsE [OF reads_uint32 [OF ok(4) in0]] by blast
  from adv_rest [OF r1(2) in0] have in1: "rest R buf r1 = ser_val v @ ser fs @ ys" .
  have lt: "r_pos R r < fin"
    using f varint_length_pos [of ?t] by (simp add: fin del: varint_length_pos)
  have next_loop: "\<exists>r'. decode_loop R cases fin m' r2 = Some (Inr (fold merge fs m', r'))
        \<and> adv R buf r (length (ser (f # fs))) r'"
    if "adv R buf r1 (length (ser_val v)) r2" for r2 m'
  proof -
    have a: "adv R buf r (length (ser_field f)) r2"
      using adv_trans [OF r1(2) that] f by simp
    have "rest R buf r2 = ser fs @ ys" by (rule adv_rest [OF that in1])
    from Cons.IH [OF _ _ this, of m'] obtain r' where
      "decode_loop R cases (r_pos R r2 + length (ser fs)) m' r2 = Some (Inr (fold merge fs m', r'))"
      "adv R buf r2 (length (ser fs)) r'"
      using Cons.prems(1,2) by auto
    moreover have "r_pos R r2 + length (ser fs) = fin" using adv_pos [OF a] by (simp add: fin)
    ultimately show ?thesis using adv_trans [OF a] by auto
  qed
  from assms ok(1,2) in1 have
    "(\<exists>r'. cases ?t m r1 = Some (Inr (Continue (merge (F n v) m) r'))
        \<and> adv R buf r1 (length (ser_val v)) r')
     \<or> (cases ?t m r1 = Some (Inr Break) \<and> merge (F n v) m = m)"
    unfolding handles_def continues_def by blast
  then have "\<exists>r'. decode_loop R cases fin m r = Some (Inr (fold merge (f # fs) m, r'))
      \<and> adv R buf r (length (ser (f # fs))) r'"
  proof (elim disjE exE conjE)
    fix r2
    assume "cases ?t m r1 = Some (Inr (Continue (merge (F n v) m) r2))"
      and "adv R buf r1 (length (ser_val v)) r2"
    then show ?thesis
      using next_loop [of r2 "merge (F n v) m"] r1(1) lt f
      by (simp del: ser_simps add: decode_loop.simps [of R cases fin m r])
  next
    assume brk: "cases ?t m r1 = Some (Inr Break)" and same: "merge (F n v) m = m"
    obtain r2 where "r_skip R (wtype v) r1 = Inr r2" "adv R buf r1 (length (ser_val v)) r2"
      using skip_field [OF ok(3) in1] by blast
    then show ?thesis
      using next_loop [of r2 m] r1(1) lt f brk same ok(5) wtype_neq [of v]
      by (simp del: ser_simps add: decode_loop.simps [of R cases fin m r])
  qed
  then show ?case by (simp only: fin)
qed

lemma decodes_message:
  assumes "handles R buf ok merge cases"
  shows "decodes R buf (decode_message R cases base) ok (sem_fields merge base)"
  unfolding decodes_def sem_fields_def
proof (intro allI impI conjI)
  fix fs r ys
  assume fs: "list_all field_ok fs" "list_all ok fs"
  show "\<exists>r'. decode_message R cases base (IReader r) (Some (length (ser fs))) =
      Some (Inr (fold merge fs base, r')) \<and> adv R buf r (length (ser fs)) r'"
    if "rest R buf r = ser fs @ ys"
    using decode_loop_fields [OF assms fs that, of base] by (simp add: decode_message_def)
  have "rest R buf (r_new R (ser fs)) = ser fs @ []"
    by (simp add: rest_def new_reader)
  from decode_loop_fields [OF assms fs this, of base]
  show "\<exists>r'. decode_message R cases base (IBytes (ser fs)) None = Some (Inr (fold merge fs base, r'))"
    by (auto simp: decode_message_def new_reader)
qed

lemma scalar_case_reads:
  "reads R buf f r x k \<Longrightarrow> m = upd x \<Longrightarrow> continues R buf (scalar_case (f r) upd) r k m"
  by (auto elim!: readsE simp: scalar_case_def continues_def)

lemma string_case:
  "length (utf8 s) < 2 ^ 32 \<Longrightarrow> rest R buf r = delim (utf8 s) @ ys \<Longrightarrow> m = upd s \<Longrightarrow>
   continues R buf (scalar_case (r_string R r) upd) r (length (delim (utf8 s))) m"
  by (rule scalar_case_reads [OF reads_string])

lemma bytes_case:
  "length b < 2 ^ 32 \<Longrightarrow> rest R buf r = delim b @ ys \<Longrightarrow> m = upd b \<Longrightarrow>
   continues R buf (scalar_case (r_bytes R r) upd) r (length (delim b)) m"
  by (rule scalar_case_reads [OF reads_bytes])

lemma uint64_case:
  assumes "n < 2 ^ 64" "rest R buf r = varint n @ ys" "upd n = Inr m"
  shows "continues R buf (scalar_caseE (r_uint64 R r) upd) r (length (varint n)) m"
  using reads_uint64 [of n r ys] assms by (auto elim!: readsE simp: scalar_caseE_def continues_def)

lemma uint64_case_fails:
  assumes "n < 2 ^ 64" "rest R buf r = varint n @ ys" "upd n = Inl e"
  shows "scalar_caseE (r_uint64 R r) upd = Some (Inl e)"
  using reads_uint64 [of n r ys] assms by (auto elim!: readsE simp: scalar_caseE_def)

lemma embedded_case:
  assumes "decodes R buf dec ok sem" "length (ser fs) < 2 ^ 32" "list_all field_ok fs"
    and "list_all ok fs" and inp: "rest R buf r = delim (ser fs) @ ys" and m: "m = upd (sem fs)"
  shows "continues R buf (message_case R dec r upd) r (length (delim (ser fs))) m"
proof -
  have in0: "rest R buf r = varint (length (ser fs)) @ ser fs @ ys"
    using inp by (simp add: delim_def)
  from readsE [OF reads_uint32 [OF assms(2) in0]] obtain r1 where
    r1: "r_uint32 R r = Inr (length (ser fs), r1)" "adv R buf r (length (varint (length (ser fs)))) r1"
    by blast
  from adv_rest [OF r1(2) in0] have "rest R buf r1 = ser fs @ ys" .
  with assms(1,3,4) obtain r2 where
    "dec (IReader r1) (Some (length (ser fs))) = Some (Inr (sem fs, r2))"
    "adv R buf r1 (length (ser fs)) r2"
    unfolding decodes_def by blast
  with r1(1) adv_trans [OF r1(2)] show ?thesis
    by (auto simp: continues_def message_case_def delim_def m)
qed

end

locale wire = wire_writer W stk + wire_reader R buf
  for W :: "'w writer_ops" and stk and R :: "'r reader_ops" and buf

end
