(* ===== verification/WireFormat.thy ===== *)
theory WireFormat
  imports Wire
begin

text \<open>
  An executable writer and reader of the Protocol Buffers wire format that satisfy the
  interface of \<open>Wire\<close>: the instance the interface's locales are interpreted on, and the
  one concrete runs use. The writer is the stack of open chunks, the reader a buffer and a
  position.
\<close>

section \<open>Varints\<close>

fun take_varint :: "nat \<Rightarrow> byte list \<Rightarrow> (nat \<times> nat) option" where
  "take_varint 0 bs = None"
| "take_varint (Suc k) [] = None"
| "take_varint (Suc k) (b # bs) =
     (if unat b < 128 then Some (unat b, 1)
      else map_option (\<lambda>(v, n). (unat b - 128 + 128 * v, Suc n)) (take_varint k bs))"

lemma unat_of_nat_byte: "n < 256 \<Longrightarrow> unat (of_nat n :: byte) = n"
  by (simp add: unat_of_nat)

lemma take_varint_varint:
  "n < 128 ^ Suc k \<Longrightarrow> take_varint (Suc k) (varint n @ ys) = Some (n, length (varint n))"
proof (induction k arbitrary: n)
  case 0
  then show ?case by (simp add: varint.simps [of n] unat_of_nat_byte)
next
  case (Suc k)
  show ?case
  proof (cases "n < 128")
    case True
    then show ?thesis by (simp add: varint.simps [of n] unat_of_nat_byte)
  next
    case False
    have "n div 128 < 128 ^ Suc k"
      using Suc.prems by (simp add: less_mult_imp_div_less mult.commute)
    from Suc.IH [OF this] have
      "take_varint (Suc k) (varint (n div 128) @ ys) = Some (n div 128, length (varint (n div 128)))" .
    moreover have "unat (of_nat (128 + n mod 128) :: byte) = 128 + n mod 128"
      by (rule unat_of_nat_byte) simp
    moreover have "varint n = of_nat (128 + n mod 128) # varint (n div 128)"
      using False by (simp add: varint.simps [of n])
    ultimately show ?thesis
      by (simp del: of_nat_add)
  qed
qed

lemma take_varint_length: "take_varint k bs = Some (v, n) \<Longrightarrow> 0 < n \<and> n \<le> length bs"
  by (induction k bs arbitrary: v n rule: take_varint.induct) (fastforce split: if_splits)+

section \<open>UTF-8\<close>

fun utf8_dec :: "byte list \<Rightarrow> string" where
  "utf8_dec [] = []"
| "utf8_dec [b] = [char_of (unat b)]"
| "utf8_dec (b # c # bs) =
     (if unat b < 128 then char_of (unat b) # utf8_dec (c # bs)
      else char_of ((unat b - 192) * 64 + (unat c - 128)) # utf8_dec bs)"

lemma utf8_dec_Cons_low: "unat b < 128 \<Longrightarrow> utf8_dec (b # bs) = char_of (unat b) # utf8_dec bs"
  by (cases bs) simp_all

lemma utf8_dec_char: "utf8_dec (utf8_char c @ bs) = c # utf8_dec bs"
proof (cases "(of_char c :: nat) < 128")
  case True
  then have "unat (of_nat (of_char c) :: byte) = of_char c"
    by (simp add: unat_of_nat_byte)
  with True show ?thesis
    by (simp add: utf8_char_def utf8_dec_Cons_low)
next
  case False
  have lt: "(of_char c :: nat) < 256" by simp
  have "unat (of_nat (192 + of_char c div 64) :: byte) = 192 + of_char c div 64"
    using lt by (intro unat_of_nat_byte) linarith
  moreover have "unat (of_nat (128 + of_char c mod 64) :: byte) = 128 + of_char c mod 64"
    by (intro unat_of_nat_byte) simp
  ultimately show ?thesis using False
    by (simp add: utf8_char_def Let_def del: of_nat_add)
qed

lemma utf8_dec_utf8 [simp]: "utf8_dec (utf8 s) = s"
  by (induction s) (simp_all add: utf8_dec_char)

section \<open>The writer\<close>

definition put :: "byte list \<Rightarrow> byte list list \<Rightarrow> byte list list result" where
  "put bs w = (case w of [] \<Rightarrow> Inl (Error ''no open chunk'') | b # s \<Rightarrow> Inr ((b @ bs) # s))"

definition format_writer :: "byte list list writer_ops" where
  "format_writer =
     \<lparr>w_new = [[]],
      w_uint32 = (\<lambda>n w. if n < 2 ^ 32 then put (varint n) w else Inl (Error ''invalid uint32'')),
      w_uint64 = (\<lambda>x w. if is_uint 64 x then put (varint (num_nat x)) w
                        else Inl (Error ''invalid uint64'')),
      w_string = (\<lambda>s. put (delim (utf8 s))),
      w_bytes = (\<lambda>bs. put (delim bs)),
      w_fork = (\<lambda>w. Inr ([] # w)),
      w_join = (\<lambda>w. case w of
                      b # c # s \<Rightarrow> Inr ((c @ delim b) # s)
                    | _ \<Rightarrow> Inl (Error ''invalid state, fork stack empty'')),
      w_finish = (\<lambda>w. concat (rev w))\<rparr>"

interpretation format_writer: wire_writer format_writer "\<lambda>w. w"
  by unfold_locales (auto simp: format_writer_def emits_def put_def)

section \<open>The reader\<close>

type_synonym format_reader = "byte list \<times> nat"

definition eof :: exn where
  "eof = RangeError ''premature EOF''"

definition take_uint :: "nat \<Rightarrow> format_reader \<Rightarrow> (nat \<times> format_reader) result" where
  "take_uint bits r =
     (case take_varint 10 (drop (snd r) (fst r)) of
        None \<Rightarrow> Inl eof
      | Some (v, n) \<Rightarrow> Inr (v mod 2 ^ bits, (fst r, snd r + n)))"

definition take_bytes :: "nat \<Rightarrow> format_reader \<Rightarrow> (byte list \<times> format_reader) result" where
  "take_bytes n r =
     (if snd r + n \<le> length (fst r)
      then Inr (take n (drop (snd r) (fst r)), (fst r, snd r + n)) else Inl eof)"

definition take_delim :: "format_reader \<Rightarrow> (byte list \<times> format_reader) result" where
  "take_delim r = bindE (take_uint 32 r) (\<lambda>(n, r). take_bytes n r)"

definition format_reader :: "format_reader reader_ops" where
  "format_reader =
     \<lparr>r_new = (\<lambda>b. (b, 0)),
      r_len = (\<lambda>r. length (fst r)),
      r_pos = snd,
      r_uint32 = take_uint 32,
      r_uint64 = take_uint 64,
      r_string = (\<lambda>r. bindE (take_delim r) (\<lambda>(b, r). Inr (utf8_dec b, r))),
      r_bytes = take_delim,
      r_skip = (\<lambda>t r.
        if t = 0 then bindE (take_uint 64 r) (\<lambda>(_, r). Inr r)
        else if t = 1 then bindE (take_bytes 8 r) (\<lambda>(_, r). Inr r)
        else if t = 2 then bindE (take_delim r) (\<lambda>(_, r). Inr r)
        else if t = 5 then bindE (take_bytes 4 r) (\<lambda>(_, r). Inr r)
        else Inl (Error ''cant skip wire type''))\<rparr>"

lemma take_uint_varint:
  assumes "n < 2 ^ bits" "bits \<le> 64" "drop p b = varint n @ ys"
  shows "take_uint bits (b, p) = Inr (n, (b, p + length (varint n)))"
proof -
  have "(2 :: nat) ^ bits \<le> 2 ^ 64" by (rule power_increasing) (use assms(2) in simp_all)
  then have "n < 128 ^ Suc 9" using assms(1) by simp
  from take_varint_varint [OF this, of ys] assms show ?thesis
    by (simp add: take_uint_def)
qed

lemma take_bytes_append:
  assumes "drop p b = xs @ ys" "length xs = n" "p \<le> length b"
  shows "take_bytes n (b, p) = Inr (xs, (b, p + n))"
proof -
  have "length b - p = length xs + length ys"
    using arg_cong [OF assms(1), of length] by simp
  with assms show ?thesis by (simp add: take_bytes_def)
qed

lemma drop_eq_append_le:
  assumes "drop p b = xs @ ys" "xs \<noteq> []"
  shows "p + length xs \<le> length b"
proof -
  have "length b - p = length xs + length ys" "0 < length xs"
    using arg_cong [OF assms(1), of length] assms(2) by simp_all
  then show ?thesis by linarith
qed

lemma take_delim_delim:
  assumes "length xs < 2 ^ 32" "drop p b = delim xs @ ys"
  shows "take_delim (b, p) = Inr (xs, (b, p + length (delim xs)))"
proof -
  let ?v = "varint (length xs)"
  have d: "drop p b = ?v @ xs @ ys" using assms(2) by (simp add: delim_def)
  then have "take_uint 32 (b, p) = Inr (length xs, (b, p + length ?v))"
    using take_uint_varint [of "length xs" 32 p b "xs @ ys"] assms(1) by simp
  moreover have "take_bytes (length xs) (b, p + length ?v) = Inr (xs, (b, p + length ?v + length xs))"
    using drop_append_exact [OF d] drop_eq_append_le [OF d] by (intro take_bytes_append) auto
  ultimately show ?thesis by (simp add: take_delim_def delim_def)
qed

lemma take_uint_progress: "take_uint bits r = Inr (n, r') \<Longrightarrow> snd r < snd r'"
  by (auto simp: take_uint_def dest!: take_varint_length split: option.splits)

lemma take_bytes_progress: "take_bytes n r = Inr (b, r') \<Longrightarrow> snd r \<le> snd r'"
  by (auto simp: take_bytes_def split: if_splits)

lemma take_delim_progress: "take_delim r = Inr (b, r') \<Longrightarrow> snd r \<le> snd r'"
  by (fastforce simp: take_delim_def bindE_eq_Inr dest: take_uint_progress take_bytes_progress)

lemma take_skip_progress: "r_skip format_reader t r = Inr r' \<Longrightarrow> snd r \<le> snd r'"
  by (fastforce simp: format_reader_def bindE_eq_Inr split: if_splits
      dest: take_uint_progress take_bytes_progress take_delim_progress)

lemma format_skip:
  assumes "val_ok v" "drop p b = ser_val v @ ys"
  shows "r_skip format_reader (wtype v) (b, p) = Inr (b, p + length (ser_val v))"
proof (cases v)
  case (Varint n)
  with assms show ?thesis
    using take_uint_varint [of n 64 p b ys] by (simp add: format_reader_def)
next
  case (I64 bs)
  with assms drop_eq_append_le [of p b bs ys] have "p \<le> length b" by fastforce
  with I64 assms show ?thesis
    using take_bytes_append [of p b bs ys 8] by (simp add: format_reader_def)
next
  case (I32 bs)
  with assms drop_eq_append_le [of p b bs ys] have "p \<le> length b" by fastforce
  with I32 assms show ?thesis
    using take_bytes_append [of p b bs ys 4] by (simp add: format_reader_def)
next
  case (Len bs)
  with assms take_delim_delim [of bs p b ys] show ?thesis by (simp add: format_reader_def)
next
  case (Str s)
  with assms take_delim_delim [of "utf8 s" p b ys] show ?thesis by (simp add: format_reader_def)
next
  case (Msg fs)
  with assms take_delim_delim [of "ser fs" p b ys] show ?thesis by (simp add: format_reader_def)
qed

interpretation format_wire: wire format_writer "\<lambda>w. w" format_reader fst
proof unfold_locales
  fix r r' :: format_reader
  show "r_pos format_reader r < r_pos format_reader r'"
    if "r_uint32 format_reader r = Inr (n, r')" for n
    using that take_uint_progress by (simp add: format_reader_def)
  show "r_pos format_reader r \<le> r_pos format_reader r'"
    if "r_uint64 format_reader r = Inr (n, r')" for n
    using that take_uint_progress by (fastforce simp: format_reader_def)
  show "r_pos format_reader r \<le> r_pos format_reader r'"
    if "r_string format_reader r = Inr (s, r')" for s
    using that take_delim_progress by (fastforce simp: format_reader_def bindE_eq_Inr)
  show "r_pos format_reader r \<le> r_pos format_reader r'"
    if "r_bytes format_reader r = Inr (bs, r')" for bs
    using that take_delim_progress by (simp add: format_reader_def)
  show "r_pos format_reader r \<le> r_pos format_reader r'"
    if "r_skip format_reader t r = Inr r'" for t
    using that take_skip_progress by (simp add: format_reader_def)
next
  fix r :: format_reader and ys
  obtain b p where r: "r = (b, p)" by (cases r)
  show "reads format_reader fst (r_uint32 format_reader) r n (length (varint n))"
    if "n < 2 ^ 32" "rest format_reader fst r = varint n @ ys" for n
    using that take_uint_varint [of n 32 p b ys]
    by (simp add: r reads_def rest_def adv_def format_reader_def)
  show "reads format_reader fst (r_uint64 format_reader) r n (length (varint n))"
    if "n < 2 ^ 64" "rest format_reader fst r = varint n @ ys" for n
    using that take_uint_varint [of n 64 p b ys]
    by (simp add: r reads_def rest_def adv_def format_reader_def)
  show "reads format_reader fst (r_string format_reader) r s (length (delim (utf8 s)))"
    if "length (utf8 s) < 2 ^ 32" "rest format_reader fst r = delim (utf8 s) @ ys" for s
    using that take_delim_delim [of "utf8 s" p b ys]
    by (simp add: r reads_def rest_def adv_def format_reader_def)
  show "reads format_reader fst (r_bytes format_reader) r xs (length (delim xs))"
    if "length xs < 2 ^ 32" "rest format_reader fst r = delim xs @ ys" for xs
    using that take_delim_delim [of xs p b ys]
    by (simp add: r reads_def rest_def adv_def format_reader_def)
  show "\<exists>r'. r_skip format_reader (wtype v) r = Inr r' \<and> adv format_reader fst r (length (ser_val v)) r'"
    if "val_ok v" "rest format_reader fst r = ser_val v @ ys" for v
    using that format_skip [of v p b ys]
    by (simp add: r rest_def adv_def format_reader_def)
qed (simp_all add: format_reader_def)

text \<open>The instance, as a fact to discharge the interface's laws with.\<close>

lemma wire_format: "wire format_writer (\<lambda>w. w) format_reader fst"
  by (rule format_wire.wire_axioms)

lemma wire_format_writer: "wire_writer format_writer (\<lambda>w. w)"
  by (rule format_writer.wire_writer_axioms)

lemma wire_format_reader: "wire_reader format_reader fst"
  by (rule format_wire.wire_reader_axioms)

lemma wire_format_progress: "reader_progress format_reader"
  by (rule format_wire.reader_progress_axioms)

end
