(* ===== verification/PubsubTypes.thy ===== *)
theory PubsubTypes
  imports WireFormat
begin

text \<open>
  The message interfaces of \<open>pubsub.ts\<close>, one record per interface with the fields of the
  source (an interface without fields is a one-value datatype), and the \<open>createBase\<close>
  functions. A field \<open>x?: T | undefined\<close> is an \<open>option\<close>; the \<open>tags\<close> dictionary is an
  object of \<open>JsObject\<close>.
\<close>

section \<open>Interfaces\<close>

datatype JoinPublisher = JoinPublisher

record JoinPublisher_Request =
  linkIdOverride :: "string option"

record JoinPublisher_Response =
  error :: "string option"
  websocketUrl :: "string"

datatype JoinSubscriber = JoinSubscriber

record JoinSubscriber_Request =
  namespaceId :: "string option"

record JoinSubscriber_Response =
  error :: "string option"
  websocketUrl :: "string"

datatype PublishEvents = PublishEvents

record Event_V1_TagsEntry =
  key :: "string"
  "value" :: "string"

record Event_Log =
  lines :: "string list"
  index :: "number"

record Event_V1 =
  tags :: "string jsobj"
  harEntryJson :: "byte list"
  log :: "Event_Log option"

record Event =
  concreteV1 :: "Event_V1 option"

record PublishEvents_Request =
  events :: "Event list"

record PublishEvents_Response =
  error :: "string option"

record SetSubscriberConfig_V1_Call =
  revision :: "number"
  filters :: "string list"

record SetSubscriberConfig_V1_Result =
  revision :: "number"
  error :: "string option"

record SetSubscriberConfig_V1 =
  call :: "SetSubscriberConfig_V1_Call option"
  result :: "SetSubscriberConfig_V1_Result option"

record SetSubscriberConfig =
  concreteV1 :: "SetSubscriberConfig_V1 option"

record AnnounceStats_V1 =
  numPublishers :: "number"
  numSubscribers :: "number"

record AnnounceStats =
  concreteV1 :: "AnnounceStats_V1 option"

record Message_V1 =
  event :: "Event option"
  setSubscriberConfig :: "SetSubscriberConfig option"
  announceStats :: "AnnounceStats option"

record Message =
  concreteV1 :: "Message_V1 option"

section \<open>Base messages\<close>

definition createBaseJoinPublisher :: JoinPublisher where
  "createBaseJoinPublisher = JoinPublisher"

definition createBaseJoinPublisher_Request :: JoinPublisher_Request where
  "createBaseJoinPublisher_Request = \<lparr>JoinPublisher_Request.linkIdOverride = None\<rparr>"

definition createBaseJoinPublisher_Response :: JoinPublisher_Response where
  "createBaseJoinPublisher_Response = \<lparr>JoinPublisher_Response.error = None, JoinPublisher_Response.websocketUrl = ''''\<rparr>"

definition createBaseJoinSubscriber :: JoinSubscriber where
  "createBaseJoinSubscriber = JoinSubscriber"

definition createBaseJoinSubscriber_Request :: JoinSubscriber_Request where
  "createBaseJoinSubscriber_Request = \<lparr>JoinSubscriber_Request.namespaceId = None\<rparr>"

definition createBaseJoinSubscriber_Response :: JoinSubscriber_Response where
  "createBaseJoinSubscriber_Response = \<lparr>JoinSubscriber_Response.error = None, JoinSubscriber_Response.websocketUrl = ''''\<rparr>"

definition createBasePublishEvents :: PublishEvents where
  "createBasePublishEvents = PublishEvents"

definition createBaseEvent_V1_TagsEntry :: Event_V1_TagsEntry where
  "createBaseEvent_V1_TagsEntry = \<lparr>Event_V1_TagsEntry.key = '''', Event_V1_TagsEntry.value = ''''\<rparr>"

definition createBaseEvent_Log :: Event_Log where
  "createBaseEvent_Log = \<lparr>Event_Log.lines = [], Event_Log.index = Fin 0\<rparr>"

definition createBaseEvent_V1 :: Event_V1 where
  "createBaseEvent_V1 = \<lparr>Event_V1.tags = [], Event_V1.harEntryJson = [], Event_V1.log = None\<rparr>"

definition createBaseEvent :: Event where
  "createBaseEvent = \<lparr>Event.concreteV1 = None\<rparr>"

definition createBasePublishEvents_Request :: PublishEvents_Request where
  "createBasePublishEvents_Request = \<lparr>PublishEvents_Request.events = []\<rparr>"

definition createBasePublishEvents_Response :: PublishEvents_Response where
  "createBasePublishEvents_Response = \<lparr>PublishEvents_Response.error = None\<rparr>"

definition createBaseSetSubscriberConfig_V1_Call :: SetSubscriberConfig_V1_Call where
  "createBaseSetSubscriberConfig_V1_Call = \<lparr>SetSubscriberConfig_V1_Call.revision = Fin 0, SetSubscriberConfig_V1_Call.filters = []\<rparr>"

definition createBaseSetSubscriberConfig_V1_Result :: SetSubscriberConfig_V1_Result where
  "createBaseSetSubscriberConfig_V1_Result = \<lparr>SetSubscriberConfig_V1_Result.revision = Fin 0, SetSubscriberConfig_V1_Result.error = None\<rparr>"

definition createBaseSetSubscriberConfig_V1 :: SetSubscriberConfig_V1 where
  "createBaseSetSubscriberConfig_V1 = \<lparr>SetSubscriberConfig_V1.call = None, SetSubscriberConfig_V1.result = None\<rparr>"

definition createBaseSetSubscriberConfig :: SetSubscriberConfig where
  "createBaseSetSubscriberConfig = \<lparr>SetSubscriberConfig.concreteV1 = None\<rparr>"

definition createBaseAnnounceStats_V1 :: AnnounceStats_V1 where
  "createBaseAnnounceStats_V1 = \<lparr>AnnounceStats_V1.numPublishers = Fin 0, AnnounceStats_V1.numSubscribers = Fin 0\<rparr>"

definition createBaseAnnounceStats :: AnnounceStats where
  "createBaseAnnounceStats = \<lparr>AnnounceStats.concreteV1 = None\<rparr>"

definition createBaseMessage_V1 :: Message_V1 where
  "createBaseMessage_V1 = \<lparr>Message_V1.event = None, Message_V1.setSubscriberConfig = None, Message_V1.announceStats = None\<rparr>"

definition createBaseMessage :: Message where
  "createBaseMessage = \<lparr>Message.concreteV1 = None\<rparr>"

lemmas createBase_defs =
  createBaseJoinPublisher_def
  createBaseJoinPublisher_Request_def
  createBaseJoinPublisher_Response_def
  createBaseJoinSubscriber_def
  createBaseJoinSubscriber_Request_def
  createBaseJoinSubscriber_Response_def
  createBasePublishEvents_def
  createBaseEvent_V1_TagsEntry_def
  createBaseEvent_Log_def
  createBaseEvent_V1_def
  createBaseEvent_def
  createBasePublishEvents_Request_def
  createBasePublishEvents_Response_def
  createBaseSetSubscriberConfig_V1_Call_def
  createBaseSetSubscriberConfig_V1_Result_def
  createBaseSetSubscriberConfig_V1_def
  createBaseSetSubscriberConfig_def
  createBaseAnnounceStats_V1_def
  createBaseAnnounceStats_def
  createBaseMessage_V1_def
  createBaseMessage_def

end
