(* ===== verification/PubsubJson.thy ===== *)
theory PubsubJson
  imports PubsubTypes
begin

text \<open>
  The \<open>fromJSON\<close> and \<open>toJSON\<close> methods of \<open>pubsub.ts\<close>. \<open>fromJSON\<close> reads a value of type
  \<open>any\<close>, so it can throw: on \<open>null\<close> and \<open>undefined\<close>, and where a conversion throws.
\<close>

section \<open>Shapes of the readers\<close>

text \<open>\<open>isSet(object.k) ? f(object.k) : d\<close>\<close>

definition json_field :: "'a \<Rightarrow> (jsval \<Rightarrow> 'a result) \<Rightarrow> jsval \<Rightarrow> string \<Rightarrow> 'a result" where
  "json_field d f object k =
     bindE (get_prop object k) (\<lambda>x. if isSet x then f x else Inr d)"

text \<open>The same with \<open>undefined\<close> for \<open>d\<close>.\<close>

definition json_optional :: "(jsval \<Rightarrow> 'a result) \<Rightarrow> jsval \<Rightarrow> string \<Rightarrow> 'a option result" where
  "json_optional f = json_field None (\<lambda>x. bindE (f x) (\<lambda>y. Inr (Some y)))"

text \<open>\<open>Array.isArray(object?.k) ? object.k.map(f) : []\<close>\<close>

definition json_array :: "(jsval \<Rightarrow> 'a result) \<Rightarrow> jsval \<Rightarrow> string \<Rightarrow> 'a list result" where
  "json_array f object k = map_array f (get_prop_opt object k)"

text \<open>\<open>isObject(object.k) ? Object.entries(object.k).reduce(...) : {}\<close>\<close>

definition json_tags :: "platform \<Rightarrow> jsval \<Rightarrow> string \<Rightarrow> string jsobj result" where
  "json_tags P object k =
     bindE (get_prop object k) (\<lambda>t.
       if isObject t
       then foldE (\<lambda>acc (key, value). bindE (js_String P value) (\<lambda>s. Inr (obj_set key s acc)))
              [] (js_entries t)
       else Inr [])"

section \<open>fromJSON\<close>

definition JoinPublisher_fromJSON :: "platform \<Rightarrow> jsval \<Rightarrow> JoinPublisher result" where
  "JoinPublisher_fromJSON P object = Inr JoinPublisher"

definition JoinPublisher_Request_fromJSON :: "platform \<Rightarrow> jsval \<Rightarrow> JoinPublisher_Request result" where
  "JoinPublisher_Request_fromJSON P object =
     bindE (json_optional (js_String P) object ''linkIdOverride'') (\<lambda>linkIdOverride.
     Inr \<lparr>JoinPublisher_Request.linkIdOverride = linkIdOverride\<rparr>)"

definition JoinPublisher_Response_fromJSON :: "platform \<Rightarrow> jsval \<Rightarrow> JoinPublisher_Response result" where
  "JoinPublisher_Response_fromJSON P object =
     bindE (json_optional (js_String P) object ''error'') (\<lambda>error.
     bindE (json_field '''' (js_String P) object ''websocketUrl'') (\<lambda>websocketUrl.
     Inr \<lparr>JoinPublisher_Response.error = error, JoinPublisher_Response.websocketUrl = websocketUrl\<rparr>))"

definition JoinSubscriber_fromJSON :: "platform \<Rightarrow> jsval \<Rightarrow> JoinSubscriber result" where
  "JoinSubscriber_fromJSON P object = Inr JoinSubscriber"

definition JoinSubscriber_Request_fromJSON :: "platform \<Rightarrow> jsval \<Rightarrow> JoinSubscriber_Request result" where
  "JoinSubscriber_Request_fromJSON P object =
     bindE (json_optional (js_String P) object ''namespaceId'') (\<lambda>namespaceId.
     Inr \<lparr>JoinSubscriber_Request.namespaceId = namespaceId\<rparr>)"

definition JoinSubscriber_Response_fromJSON :: "platform \<Rightarrow> jsval \<Rightarrow> JoinSubscriber_Response result" where
  "JoinSubscriber_Response_fromJSON P object =
     bindE (json_optional (js_String P) object ''error'') (\<lambda>error.
     bindE (json_field '''' (js_String P) object ''websocketUrl'') (\<lambda>websocketUrl.
     Inr \<lparr>JoinSubscriber_Response.error = error, JoinSubscriber_Response.websocketUrl = websocketUrl\<rparr>))"

definition PublishEvents_fromJSON :: "platform \<Rightarrow> jsval \<Rightarrow> PublishEvents result" where
  "PublishEvents_fromJSON P object = Inr PublishEvents"

definition Event_V1_TagsEntry_fromJSON :: "platform \<Rightarrow> jsval \<Rightarrow> Event_V1_TagsEntry result" where
  "Event_V1_TagsEntry_fromJSON P object =
     bindE (json_field '''' (js_String P) object ''key'') (\<lambda>key.
     bindE (json_field '''' (js_String P) object ''value'') (\<lambda>value.
     Inr \<lparr>Event_V1_TagsEntry.key = key, Event_V1_TagsEntry.value = value\<rparr>))"

definition Event_Log_fromJSON :: "platform \<Rightarrow> jsval \<Rightarrow> Event_Log result" where
  "Event_Log_fromJSON P object =
     bindE (json_array (js_String P) object ''lines'') (\<lambda>lines.
     bindE (json_field (Fin 0) (js_Number P) object ''index'') (\<lambda>idx.
     Inr \<lparr>Event_Log.lines = lines, Event_Log.index = idx\<rparr>))"

definition Event_V1_fromJSON :: "platform \<Rightarrow> jsval \<Rightarrow> Event_V1 result" where
  "Event_V1_fromJSON P object =
     bindE (json_tags P object ''tags'') (\<lambda>tags.
     bindE (json_field [] (bytesFromBase64 P) object ''harEntryJson'') (\<lambda>harEntryJson.
     bindE (json_optional (Event_Log_fromJSON P) object ''log'') (\<lambda>lg.
     Inr \<lparr>Event_V1.tags = tags, Event_V1.harEntryJson = harEntryJson, Event_V1.log = lg\<rparr>)))"

definition Event_fromJSON :: "platform \<Rightarrow> jsval \<Rightarrow> Event result" where
  "Event_fromJSON P object =
     bindE (json_optional (Event_V1_fromJSON P) object ''concreteV1'') (\<lambda>concreteV1.
     Inr \<lparr>Event.concreteV1 = concreteV1\<rparr>)"

definition PublishEvents_Request_fromJSON :: "platform \<Rightarrow> jsval \<Rightarrow> PublishEvents_Request result" where
  "PublishEvents_Request_fromJSON P object =
     bindE (json_array (Event_fromJSON P) object ''events'') (\<lambda>events.
     Inr \<lparr>PublishEvents_Request.events = events\<rparr>)"

definition PublishEvents_Response_fromJSON :: "platform \<Rightarrow> jsval \<Rightarrow> PublishEvents_Response result" where
  "PublishEvents_Response_fromJSON P object =
     bindE (json_optional (js_String P) object ''error'') (\<lambda>error.
     Inr \<lparr>PublishEvents_Response.error = error\<rparr>)"

definition SetSubscriberConfig_V1_Call_fromJSON :: "platform \<Rightarrow> jsval \<Rightarrow> SetSubscriberConfig_V1_Call result" where
  "SetSubscriberConfig_V1_Call_fromJSON P object =
     bindE (json_field (Fin 0) (js_Number P) object ''revision'') (\<lambda>revision.
     bindE (json_array (js_String P) object ''filters'') (\<lambda>filters.
     Inr \<lparr>SetSubscriberConfig_V1_Call.revision = revision, SetSubscriberConfig_V1_Call.filters = filters\<rparr>))"

definition SetSubscriberConfig_V1_Result_fromJSON :: "platform \<Rightarrow> jsval \<Rightarrow> SetSubscriberConfig_V1_Result result" where
  "SetSubscriberConfig_V1_Result_fromJSON P object =
     bindE (json_field (Fin 0) (js_Number P) object ''revision'') (\<lambda>revision.
     bindE (json_optional (js_String P) object ''error'') (\<lambda>error.
     Inr \<lparr>SetSubscriberConfig_V1_Result.revision = revision, SetSubscriberConfig_V1_Result.error = error\<rparr>))"

definition SetSubscriberConfig_V1_fromJSON :: "platform \<Rightarrow> jsval \<Rightarrow> SetSubscriberConfig_V1 result" where
  "SetSubscriberConfig_V1_fromJSON P object =
     bindE (json_optional (SetSubscriberConfig_V1_Call_fromJSON P) object ''call'') (\<lambda>call.
     bindE (json_optional (SetSubscriberConfig_V1_Result_fromJSON P) object ''result'') (\<lambda>result.
     Inr \<lparr>SetSubscriberConfig_V1.call = call, SetSubscriberConfig_V1.result = result\<rparr>))"

definition SetSubscriberConfig_fromJSON :: "platform \<Rightarrow> jsval \<Rightarrow> SetSubscriberConfig result" where
  "SetSubscriberConfig_fromJSON P object =
     bindE (json_optional (SetSubscriberConfig_V1_fromJSON P) object ''concreteV1'') (\<lambda>concreteV1.
     Inr \<lparr>SetSubscriberConfig.concreteV1 = concreteV1\<rparr>)"

definition AnnounceStats_V1_fromJSON :: "platform \<Rightarrow> jsval \<Rightarrow> AnnounceStats_V1 result" where
  "AnnounceStats_V1_fromJSON P object =
     bindE (json_field (Fin 0) (js_Number P) object ''numPublishers'') (\<lambda>numPublishers.
     bindE (json_field (Fin 0) (js_Number P) object ''numSubscribers'') (\<lambda>numSubscribers.
     Inr \<lparr>AnnounceStats_V1.numPublishers = numPublishers, AnnounceStats_V1.numSubscribers = numSubscribers\<rparr>))"

definition AnnounceStats_fromJSON :: "platform \<Rightarrow> jsval \<Rightarrow> AnnounceStats result" where
  "AnnounceStats_fromJSON P object =
     bindE (json_optional (AnnounceStats_V1_fromJSON P) object ''concreteV1'') (\<lambda>concreteV1.
     Inr \<lparr>AnnounceStats.concreteV1 = concreteV1\<rparr>)"

definition Message_V1_fromJSON :: "platform \<Rightarrow> jsval \<Rightarrow> Message_V1 result" where
  "Message_V1_fromJSON P object =
     bindE (json_optional (Event_fromJSON P) object ''event'') (\<lambda>event.
     bindE (json_optional (SetSubscriberConfig_fromJSON P) object ''setSubscriberConfig'') (\<lambda>setSubscriberConfig.
     bindE (json_optional (AnnounceStats_fromJSON P) object ''announceStats'') (\<lambda>announceStats.
     Inr \<lparr>Message_V1.event = event, Message_V1.setSubscriberConfig = setSubscriberConfig, Message_V1.announceStats = announceStats\<rparr>)))"

definition Message_fromJSON :: "platform \<Rightarrow> jsval \<Rightarrow> Message result" where
  "Message_fromJSON P object =
     bindE (json_optional (Message_V1_fromJSON P) object ''concreteV1'') (\<lambda>concreteV1.
     Inr \<lparr>Message.concreteV1 = concreteV1\<rparr>)"

section \<open>toJSON\<close>

definition JoinPublisher_toJSON :: "platform \<Rightarrow> JoinPublisher \<Rightarrow> jsval" where
  "JoinPublisher_toJSON P message = JObj []"

definition JoinPublisher_Request_toJSON :: "platform \<Rightarrow> JoinPublisher_Request \<Rightarrow> jsval" where
  "JoinPublisher_Request_toJSON P message =
     (let obj = [];
          obj = (case JoinPublisher_Request.linkIdOverride message of None \<Rightarrow> obj | Some s \<Rightarrow> obj_set ''linkIdOverride'' (JStr s) obj)
      in JObj obj)"

definition JoinPublisher_Response_toJSON :: "platform \<Rightarrow> JoinPublisher_Response \<Rightarrow> jsval" where
  "JoinPublisher_Response_toJSON P message =
     (let obj = [];
          obj = (case JoinPublisher_Response.error message of None \<Rightarrow> obj | Some s \<Rightarrow> obj_set ''error'' (JStr s) obj);
          obj = (if JoinPublisher_Response.websocketUrl message \<noteq> '''' then obj_set ''websocketUrl'' (JStr (JoinPublisher_Response.websocketUrl message)) obj else obj)
      in JObj obj)"

definition JoinSubscriber_toJSON :: "platform \<Rightarrow> JoinSubscriber \<Rightarrow> jsval" where
  "JoinSubscriber_toJSON P message = JObj []"

definition JoinSubscriber_Request_toJSON :: "platform \<Rightarrow> JoinSubscriber_Request \<Rightarrow> jsval" where
  "JoinSubscriber_Request_toJSON P message =
     (let obj = [];
          obj = (case JoinSubscriber_Request.namespaceId message of None \<Rightarrow> obj | Some s \<Rightarrow> obj_set ''namespaceId'' (JStr s) obj)
      in JObj obj)"

definition JoinSubscriber_Response_toJSON :: "platform \<Rightarrow> JoinSubscriber_Response \<Rightarrow> jsval" where
  "JoinSubscriber_Response_toJSON P message =
     (let obj = [];
          obj = (case JoinSubscriber_Response.error message of None \<Rightarrow> obj | Some s \<Rightarrow> obj_set ''error'' (JStr s) obj);
          obj = (if JoinSubscriber_Response.websocketUrl message \<noteq> '''' then obj_set ''websocketUrl'' (JStr (JoinSubscriber_Response.websocketUrl message)) obj else obj)
      in JObj obj)"

definition PublishEvents_toJSON :: "platform \<Rightarrow> PublishEvents \<Rightarrow> jsval" where
  "PublishEvents_toJSON P message = JObj []"

definition Event_V1_TagsEntry_toJSON :: "platform \<Rightarrow> Event_V1_TagsEntry \<Rightarrow> jsval" where
  "Event_V1_TagsEntry_toJSON P message =
     (let obj = [];
          obj = (if Event_V1_TagsEntry.key message \<noteq> '''' then obj_set ''key'' (JStr (Event_V1_TagsEntry.key message)) obj else obj);
          obj = (if Event_V1_TagsEntry.value message \<noteq> '''' then obj_set ''value'' (JStr (Event_V1_TagsEntry.value message)) obj else obj)
      in JObj obj)"

definition Event_Log_toJSON :: "platform \<Rightarrow> Event_Log \<Rightarrow> jsval" where
  "Event_Log_toJSON P message =
     (let obj = [];
          obj = (if length (Event_Log.lines message) \<noteq> 0 then obj_set ''lines'' (JArr (map JStr (Event_Log.lines message))) obj else obj);
          obj = (if Event_Log.index message \<noteq> Fin 0 then obj_set ''index'' (JNum (js_round (Event_Log.index message))) obj else obj)
      in JObj obj)"

definition Event_V1_toJSON :: "platform \<Rightarrow> Event_V1 \<Rightarrow> jsval" where
  "Event_V1_toJSON P message =
     (let obj = [];
          obj = (let entries = Event_V1.tags message in
              if length entries > 0
              then obj_set ''tags'' (JObj (obj_build [] (map (\<lambda>(k, v). (k, JStr v)) entries))) obj
              else obj);
          obj = (if length (Event_V1.harEntryJson message) \<noteq> 0
              then obj_set ''harEntryJson'' (JStr (base64FromBytes P (Event_V1.harEntryJson message))) obj else obj);
          obj = (case Event_V1.log message of None \<Rightarrow> obj
             | Some v \<Rightarrow> obj_set ''log'' (Event_Log_toJSON P v) obj)
      in JObj obj)"

definition Event_toJSON :: "platform \<Rightarrow> Event \<Rightarrow> jsval" where
  "Event_toJSON P message =
     (let obj = [];
          obj = (case Event.concreteV1 message of None \<Rightarrow> obj
             | Some v \<Rightarrow> obj_set ''concreteV1'' (Event_V1_toJSON P v) obj)
      in JObj obj)"

definition PublishEvents_Request_toJSON :: "platform \<Rightarrow> PublishEvents_Request \<Rightarrow> jsval" where
  "PublishEvents_Request_toJSON P message =
     (let obj = [];
          obj = (if length (PublishEvents_Request.events message) \<noteq> 0
              then obj_set ''events'' (JArr (map (Event_toJSON P) (PublishEvents_Request.events message))) obj else obj)
      in JObj obj)"

definition PublishEvents_Response_toJSON :: "platform \<Rightarrow> PublishEvents_Response \<Rightarrow> jsval" where
  "PublishEvents_Response_toJSON P message =
     (let obj = [];
          obj = (case PublishEvents_Response.error message of None \<Rightarrow> obj | Some s \<Rightarrow> obj_set ''error'' (JStr s) obj)
      in JObj obj)"

definition SetSubscriberConfig_V1_Call_toJSON :: "platform \<Rightarrow> SetSubscriberConfig_V1_Call \<Rightarrow> jsval" where
  "SetSubscriberConfig_V1_Call_toJSON P message =
     (let obj = [];
          obj = (if SetSubscriberConfig_V1_Call.revision message \<noteq> Fin 0 then obj_set ''revision'' (JNum (js_round (SetSubscriberConfig_V1_Call.revision message))) obj else obj);
          obj = (if length (SetSubscriberConfig_V1_Call.filters message) \<noteq> 0 then obj_set ''filters'' (JArr (map JStr (SetSubscriberConfig_V1_Call.filters message))) obj else obj)
      in JObj obj)"

definition SetSubscriberConfig_V1_Result_toJSON :: "platform \<Rightarrow> SetSubscriberConfig_V1_Result \<Rightarrow> jsval" where
  "SetSubscriberConfig_V1_Result_toJSON P message =
     (let obj = [];
          obj = (if SetSubscriberConfig_V1_Result.revision message \<noteq> Fin 0 then obj_set ''revision'' (JNum (js_round (SetSubscriberConfig_V1_Result.revision message))) obj else obj);
          obj = (case SetSubscriberConfig_V1_Result.error message of None \<Rightarrow> obj | Some s \<Rightarrow> obj_set ''error'' (JStr s) obj)
      in JObj obj)"

definition SetSubscriberConfig_V1_toJSON :: "platform \<Rightarrow> SetSubscriberConfig_V1 \<Rightarrow> jsval" where
  "SetSubscriberConfig_V1_toJSON P message =
     (let obj = [];
          obj = (case SetSubscriberConfig_V1.call message of None \<Rightarrow> obj
             | Some v \<Rightarrow> obj_set ''call'' (SetSubscriberConfig_V1_Call_toJSON P v) obj);
          obj = (case SetSubscriberConfig_V1.result message of None \<Rightarrow> obj
             | Some v \<Rightarrow> obj_set ''result'' (SetSubscriberConfig_V1_Result_toJSON P v) obj)
      in JObj obj)"

definition SetSubscriberConfig_toJSON :: "platform \<Rightarrow> SetSubscriberConfig \<Rightarrow> jsval" where
  "SetSubscriberConfig_toJSON P message =
     (let obj = [];
          obj = (case SetSubscriberConfig.concreteV1 message of None \<Rightarrow> obj
             | Some v \<Rightarrow> obj_set ''concreteV1'' (SetSubscriberConfig_V1_toJSON P v) obj)
      in JObj obj)"

definition AnnounceStats_V1_toJSON :: "platform \<Rightarrow> AnnounceStats_V1 \<Rightarrow> jsval" where
  "AnnounceStats_V1_toJSON P message =
     (let obj = [];
          obj = (if AnnounceStats_V1.numPublishers message \<noteq> Fin 0 then obj_set ''numPublishers'' (JNum (js_round (AnnounceStats_V1.numPublishers message))) obj else obj);
          obj = (if AnnounceStats_V1.numSubscribers message \<noteq> Fin 0 then obj_set ''numSubscribers'' (JNum (js_round (AnnounceStats_V1.numSubscribers message))) obj else obj)
      in JObj obj)"

definition AnnounceStats_toJSON :: "platform \<Rightarrow> AnnounceStats \<Rightarrow> jsval" where
  "AnnounceStats_toJSON P message =
     (let obj = [];
          obj = (case AnnounceStats.concreteV1 message of None \<Rightarrow> obj
             | Some v \<Rightarrow> obj_set ''concreteV1'' (AnnounceStats_V1_toJSON P v) obj)
      in JObj obj)"

definition Message_V1_toJSON :: "platform \<Rightarrow> Message_V1 \<Rightarrow> jsval" where
  "Message_V1_toJSON P message =
     (let obj = [];
          obj = (case Message_V1.event message of None \<Rightarrow> obj
             | Some v \<Rightarrow> obj_set ''event'' (Event_toJSON P v) obj);
          obj = (case Message_V1.setSubscriberConfig message of None \<Rightarrow> obj
             | Some v \<Rightarrow> obj_set ''setSubscriberConfig'' (SetSubscriberConfig_toJSON P v) obj);
          obj = (case Message_V1.announceStats message of None \<Rightarrow> obj
             | Some v \<Rightarrow> obj_set ''announceStats'' (AnnounceStats_toJSON P v) obj)
      in JObj obj)"

definition Message_toJSON :: "platform \<Rightarrow> Message \<Rightarrow> jsval" where
  "Message_toJSON P message =
     (let obj = [];
          obj = (case Message.concreteV1 message of None \<Rightarrow> obj
             | Some v \<Rightarrow> obj_set ''concreteV1'' (Message_V1_toJSON P v) obj)
      in JObj obj)"

lemmas fromJSON_defs =
  JoinPublisher_fromJSON_def
  JoinPublisher_Request_fromJSON_def
  JoinPublisher_Response_fromJSON_def
  JoinSubscriber_fromJSON_def
  JoinSubscriber_Request_fromJSON_def
  JoinSubscriber_Response_fromJSON_def
  PublishEvents_fromJSON_def
  Event_V1_TagsEntry_fromJSON_def
  Event_Log_fromJSON_def
  Event_V1_fromJSON_def
  Event_fromJSON_def
  PublishEvents_Request_fromJSON_def
  PublishEvents_Response_fromJSON_def
  SetSubscriberConfig_V1_Call_fromJSON_def
  SetSubscriberConfig_V1_Result_fromJSON_def
  SetSubscriberConfig_V1_fromJSON_def
  SetSubscriberConfig_fromJSON_def
  AnnounceStats_V1_fromJSON_def
  AnnounceStats_fromJSON_def
  Message_V1_fromJSON_def
  Message_fromJSON_def

lemmas toJSON_defs =
  JoinPublisher_toJSON_def
  JoinPublisher_Request_toJSON_def
  JoinPublisher_Response_toJSON_def
  JoinSubscriber_toJSON_def
  JoinSubscriber_Request_toJSON_def
  JoinSubscriber_Response_toJSON_def
  PublishEvents_toJSON_def
  Event_V1_TagsEntry_toJSON_def
  Event_Log_toJSON_def
  Event_V1_toJSON_def
  Event_toJSON_def
  PublishEvents_Request_toJSON_def
  PublishEvents_Response_toJSON_def
  SetSubscriberConfig_V1_Call_toJSON_def
  SetSubscriberConfig_V1_Result_toJSON_def
  SetSubscriberConfig_V1_toJSON_def
  SetSubscriberConfig_toJSON_def
  AnnounceStats_V1_toJSON_def
  AnnounceStats_toJSON_def
  Message_V1_toJSON_def
  Message_toJSON_def

end
