(* ===== verification/PubsubEncode.thy ===== *)
theory PubsubEncode
  imports PubsubTypes
begin

text \<open>
  The \<open>encode\<close> methods of \<open>pubsub.ts\<close>. The writer is mutated in place by the source and
  threaded as a state here; \<open>writer.uint32(t).fork()\<close> and the final \<open>join()\<close> of an
  embedded message are the steps around the inner \<open>encode\<close>.
\<close>

definition JoinPublisher_encode :: "'w writer_ops \<Rightarrow> JoinPublisher \<Rightarrow> 'w \<Rightarrow> 'w result" where
  "JoinPublisher_encode W message = steps []"

definition JoinPublisher_Request_encode :: "'w writer_ops \<Rightarrow> JoinPublisher_Request \<Rightarrow> 'w \<Rightarrow> 'w result" where
  "JoinPublisher_Request_encode W message = steps
     [case JoinPublisher_Request.linkIdOverride message of None \<Rightarrow> Inr | Some s \<Rightarrow> steps [w_uint32 W 10, w_string W s]]"

definition JoinPublisher_Response_encode :: "'w writer_ops \<Rightarrow> JoinPublisher_Response \<Rightarrow> 'w \<Rightarrow> 'w result" where
  "JoinPublisher_Response_encode W message = steps
     [case JoinPublisher_Response.error message of None \<Rightarrow> Inr | Some s \<Rightarrow> steps [w_uint32 W 8002, w_string W s],
      if JoinPublisher_Response.websocketUrl message \<noteq> '''' then steps [w_uint32 W 10, w_string W (JoinPublisher_Response.websocketUrl message)] else Inr]"

definition JoinSubscriber_encode :: "'w writer_ops \<Rightarrow> JoinSubscriber \<Rightarrow> 'w \<Rightarrow> 'w result" where
  "JoinSubscriber_encode W message = steps []"

definition JoinSubscriber_Request_encode :: "'w writer_ops \<Rightarrow> JoinSubscriber_Request \<Rightarrow> 'w \<Rightarrow> 'w result" where
  "JoinSubscriber_Request_encode W message = steps
     [case JoinSubscriber_Request.namespaceId message of None \<Rightarrow> Inr | Some s \<Rightarrow> steps [w_uint32 W 10, w_string W s]]"

definition JoinSubscriber_Response_encode :: "'w writer_ops \<Rightarrow> JoinSubscriber_Response \<Rightarrow> 'w \<Rightarrow> 'w result" where
  "JoinSubscriber_Response_encode W message = steps
     [case JoinSubscriber_Response.error message of None \<Rightarrow> Inr | Some s \<Rightarrow> steps [w_uint32 W 8002, w_string W s],
      if JoinSubscriber_Response.websocketUrl message \<noteq> '''' then steps [w_uint32 W 10, w_string W (JoinSubscriber_Response.websocketUrl message)] else Inr]"

definition PublishEvents_encode :: "'w writer_ops \<Rightarrow> PublishEvents \<Rightarrow> 'w \<Rightarrow> 'w result" where
  "PublishEvents_encode W message = steps []"

definition Event_V1_TagsEntry_encode :: "'w writer_ops \<Rightarrow> Event_V1_TagsEntry \<Rightarrow> 'w \<Rightarrow> 'w result" where
  "Event_V1_TagsEntry_encode W message = steps
     [if Event_V1_TagsEntry.key message \<noteq> '''' then steps [w_uint32 W 10, w_string W (Event_V1_TagsEntry.key message)] else Inr,
      if Event_V1_TagsEntry.value message \<noteq> '''' then steps [w_uint32 W 18, w_string W (Event_V1_TagsEntry.value message)] else Inr]"

definition Event_Log_encode :: "'w writer_ops \<Rightarrow> Event_Log \<Rightarrow> 'w \<Rightarrow> 'w result" where
  "Event_Log_encode W message = steps
     [steps (map (\<lambda>v. steps [w_uint32 W 10, w_string W v]) (Event_Log.lines message)),
      if Event_Log.index message \<noteq> Fin 0 then steps [w_uint32 W 16, w_uint64 W (Event_Log.index message)] else Inr]"

definition Event_V1_encode :: "'w writer_ops \<Rightarrow> Event_V1 \<Rightarrow> 'w \<Rightarrow> 'w result" where
  "Event_V1_encode W message = steps
     [steps (map (\<lambda>(key, value). steps [w_uint32 W 10, w_fork W,
         Event_V1_TagsEntry_encode W \<lparr>Event_V1_TagsEntry.key = key, Event_V1_TagsEntry.value = value\<rparr>, w_join W])
         (Event_V1.tags message)),
      if length (Event_V1.harEntryJson message) \<noteq> 0 then steps [w_uint32 W 18, w_bytes W (Event_V1.harEntryJson message)] else Inr,
      case Event_V1.log message of None \<Rightarrow> Inr
        | Some v \<Rightarrow> steps [w_uint32 W 26, w_fork W, Event_Log_encode W v, w_join W]]"

definition Event_encode :: "'w writer_ops \<Rightarrow> Event \<Rightarrow> 'w \<Rightarrow> 'w result" where
  "Event_encode W message = steps
     [case Event.concreteV1 message of None \<Rightarrow> Inr
        | Some v \<Rightarrow> steps [w_uint32 W 10, w_fork W, Event_V1_encode W v, w_join W]]"

definition PublishEvents_Request_encode :: "'w writer_ops \<Rightarrow> PublishEvents_Request \<Rightarrow> 'w \<Rightarrow> 'w result" where
  "PublishEvents_Request_encode W message = steps
     [steps (map (\<lambda>v. steps [w_uint32 W 10, w_fork W, Event_encode W v, w_join W])
         (PublishEvents_Request.events message))]"

definition PublishEvents_Response_encode :: "'w writer_ops \<Rightarrow> PublishEvents_Response \<Rightarrow> 'w \<Rightarrow> 'w result" where
  "PublishEvents_Response_encode W message = steps
     [case PublishEvents_Response.error message of None \<Rightarrow> Inr | Some s \<Rightarrow> steps [w_uint32 W 8002, w_string W s]]"

definition SetSubscriberConfig_V1_Call_encode :: "'w writer_ops \<Rightarrow> SetSubscriberConfig_V1_Call \<Rightarrow> 'w \<Rightarrow> 'w result" where
  "SetSubscriberConfig_V1_Call_encode W message = steps
     [if SetSubscriberConfig_V1_Call.revision message \<noteq> Fin 0 then steps [w_uint32 W 8, w_uint64 W (SetSubscriberConfig_V1_Call.revision message)] else Inr,
      steps (map (\<lambda>v. steps [w_uint32 W 18, w_string W v]) (SetSubscriberConfig_V1_Call.filters message))]"

definition SetSubscriberConfig_V1_Result_encode :: "'w writer_ops \<Rightarrow> SetSubscriberConfig_V1_Result \<Rightarrow> 'w \<Rightarrow> 'w result" where
  "SetSubscriberConfig_V1_Result_encode W message = steps
     [if SetSubscriberConfig_V1_Result.revision message \<noteq> Fin 0 then steps [w_uint32 W 8, w_uint64 W (SetSubscriberConfig_V1_Result.revision message)] else Inr,
      case SetSubscriberConfig_V1_Result.error message of None \<Rightarrow> Inr | Some s \<Rightarrow> steps [w_uint32 W 18, w_string W s]]"

definition SetSubscriberConfig_V1_encode :: "'w writer_ops \<Rightarrow> SetSubscriberConfig_V1 \<Rightarrow> 'w \<Rightarrow> 'w result" where
  "SetSubscriberConfig_V1_encode W message = steps
     [case SetSubscriberConfig_V1.call message of None \<Rightarrow> Inr
        | Some v \<Rightarrow> steps [w_uint32 W 10, w_fork W, SetSubscriberConfig_V1_Call_encode W v, w_join W],
      case SetSubscriberConfig_V1.result message of None \<Rightarrow> Inr
        | Some v \<Rightarrow> steps [w_uint32 W 18, w_fork W, SetSubscriberConfig_V1_Result_encode W v, w_join W]]"

definition SetSubscriberConfig_encode :: "'w writer_ops \<Rightarrow> SetSubscriberConfig \<Rightarrow> 'w \<Rightarrow> 'w result" where
  "SetSubscriberConfig_encode W message = steps
     [case SetSubscriberConfig.concreteV1 message of None \<Rightarrow> Inr
        | Some v \<Rightarrow> steps [w_uint32 W 10, w_fork W, SetSubscriberConfig_V1_encode W v, w_join W]]"

definition AnnounceStats_V1_encode :: "'w writer_ops \<Rightarrow> AnnounceStats_V1 \<Rightarrow> 'w \<Rightarrow> 'w result" where
  "AnnounceStats_V1_encode W message = steps
     [if AnnounceStats_V1.numPublishers message \<noteq> Fin 0 then steps [w_uint32 W 8, w_uint64 W (AnnounceStats_V1.numPublishers message)] else Inr,
      if AnnounceStats_V1.numSubscribers message \<noteq> Fin 0 then steps [w_uint32 W 16, w_uint64 W (AnnounceStats_V1.numSubscribers message)] else Inr]"

definition AnnounceStats_encode :: "'w writer_ops \<Rightarrow> AnnounceStats \<Rightarrow> 'w \<Rightarrow> 'w result" where
  "AnnounceStats_encode W message = steps
     [case AnnounceStats.concreteV1 message of None \<Rightarrow> Inr
        | Some v \<Rightarrow> steps [w_uint32 W 10, w_fork W, AnnounceStats_V1_encode W v, w_join W]]"

definition Message_V1_encode :: "'w writer_ops \<Rightarrow> Message_V1 \<Rightarrow> 'w \<Rightarrow> 'w result" where
  "Message_V1_encode W message = steps
     [case Message_V1.event message of None \<Rightarrow> Inr
        | Some v \<Rightarrow> steps [w_uint32 W 10, w_fork W, Event_encode W v, w_join W],
      case Message_V1.setSubscriberConfig message of None \<Rightarrow> Inr
        | Some v \<Rightarrow> steps [w_uint32 W 18, w_fork W, SetSubscriberConfig_encode W v, w_join W],
      case Message_V1.announceStats message of None \<Rightarrow> Inr
        | Some v \<Rightarrow> steps [w_uint32 W 26, w_fork W, AnnounceStats_encode W v, w_join W]]"

definition Message_encode :: "'w writer_ops \<Rightarrow> Message \<Rightarrow> 'w \<Rightarrow> 'w result" where
  "Message_encode W message = steps
     [case Message.concreteV1 message of None \<Rightarrow> Inr
        | Some v \<Rightarrow> steps [w_uint32 W 10, w_fork W, Message_V1_encode W v, w_join W]]"

lemmas encode_defs =
  JoinPublisher_encode_def
  JoinPublisher_Request_encode_def
  JoinPublisher_Response_encode_def
  JoinSubscriber_encode_def
  JoinSubscriber_Request_encode_def
  JoinSubscriber_Response_encode_def
  PublishEvents_encode_def
  Event_V1_TagsEntry_encode_def
  Event_Log_encode_def
  Event_V1_encode_def
  Event_encode_def
  PublishEvents_Request_encode_def
  PublishEvents_Response_encode_def
  SetSubscriberConfig_V1_Call_encode_def
  SetSubscriberConfig_V1_Result_encode_def
  SetSubscriberConfig_V1_encode_def
  SetSubscriberConfig_encode_def
  AnnounceStats_V1_encode_def
  AnnounceStats_encode_def
  Message_V1_encode_def
  Message_encode_def

end
