(* ===== verification/LongNumber.thy ===== *)
theory LongNumber
  imports Prelude
begin

text \<open>
  \<open>longToNumber\<close> of \<open>pubsub.ts\<close>: the conversion of a 64-bit integer, which the reader
  returns as a value with a decimal \<open>toString\<close>, to a JavaScript number. \<open>Number\<close> of an
  integer literal rounds to the nearest double, ties to the even significand.
\<close>

section \<open>Rounding to a double\<close>

fun bit_len :: "nat \<Rightarrow> nat" where
  "bit_len n = (if n = 0 then 0 else Suc (bit_len (n div 2)))"

declare bit_len.simps [simp del]

definition round_even :: "nat \<Rightarrow> nat \<Rightarrow> nat" where
  "round_even n e =
     (let q = n div 2 ^ e; r = n mod 2 ^ e
      in if 2 * r > 2 ^ e \<or> (2 * r = 2 ^ e \<and> odd q) then q + 1 else q)"

definition to_double_nat :: "nat \<Rightarrow> nat" where
  "to_double_nat n =
     (let b = bit_len n
      in if b \<le> 53 then n else round_even n (b - 53) * 2 ^ (b - 53))"

definition to_double :: "int \<Rightarrow> int" where
  "to_double i = (if i < 0 then - int (to_double_nat (nat (- i))) else int (to_double_nat (nat i)))"

definition longToNumber :: "int \<Rightarrow> number result" where
  "longToNumber int64 =
     (let num = to_double int64
      in if num > MAX_SAFE_INTEGER
         then Inl (Error ''Value is larger than Number.MAX_SAFE_INTEGER'')
         else if num < MIN_SAFE_INTEGER
         then Inl (Error ''Value is smaller than Number.MIN_SAFE_INTEGER'')
         else Inr (Fin (of_int num)))"

section \<open>The safe range\<close>

lemma bit_len_bounds: "n \<noteq> 0 \<Longrightarrow> 2 ^ (bit_len n - 1) \<le> n \<and> n < 2 ^ bit_len n"
proof (induction n rule: bit_len.induct)
  case (1 n)
  show ?case
  proof (cases "n div 2 = 0")
    case True
    with 1 have "n = 1" by auto
    then show ?thesis by (simp add: bit_len.simps [of "Suc 0"] bit_len.simps [of 0])
  next
    case False
    with 1 have IH: "2 ^ (bit_len (n div 2) - 1) \<le> n div 2" "n div 2 < 2 ^ bit_len (n div 2)"
      by auto
    have b: "bit_len n = Suc (bit_len (n div 2))" and "bit_len (n div 2) \<noteq> 0"
      using 1 False by (simp_all add: bit_len.simps [of n] bit_len.simps [of "n div 2"])
    then obtain k where k: "bit_len (n div 2) = Suc k" by (cases "bit_len (n div 2)") auto
    from IH k show ?thesis by (auto simp: b)
  qed
qed

lemma bit_len_small: "n < 2 ^ k \<Longrightarrow> bit_len n \<le> k"
proof (cases "n = 0")
  case False
  assume "n < 2 ^ k"
  with bit_len_bounds [OF False] have "2 ^ (bit_len n - 1) < (2 :: nat) ^ k"
    by linarith
  then have "bit_len n - 1 < k" by simp
  then show ?thesis by linarith
qed (simp add: bit_len.simps)

lemma to_double_nat_exact: "n < 2 ^ 53 \<Longrightarrow> to_double_nat n = n"
  using bit_len_small [of n 53] by (simp add: to_double_nat_def Let_def)

lemma to_double_nat_large: "2 ^ 53 \<le> n \<Longrightarrow> 2 ^ 53 \<le> to_double_nat n"
proof -
  assume n: "2 ^ 53 \<le> n"
  then have "n \<noteq> 0" by auto
  define e where "e = bit_len n - 53"
  have "(2 :: nat) ^ 53 < 2 ^ bit_len n"
    using bit_len_bounds [OF \<open>n \<noteq> 0\<close>] n by linarith
  then have "53 < bit_len n" by (rule power_less_imp_less_exp [rotated]) simp
  then have e: "bit_len n = e + 53" "0 < e" by (simp_all add: e_def)
  then have "2 ^ (52 + e) \<le> n"
    using bit_len_bounds [OF \<open>n \<noteq> 0\<close>] by simp
  then have "2 ^ 52 \<le> n div 2 ^ e"
    by (simp add: power_add less_eq_div_iff_mult_less_eq)
  then have "2 ^ 52 \<le> round_even n e"
    by (simp add: round_even_def Let_def)
  moreover have "(2 :: nat) ^ 1 \<le> 2 ^ e"
    by (rule power_increasing) (use e in simp_all)
  ultimately have "2 ^ 52 * 2 ^ 1 \<le> round_even n e * 2 ^ e"
    by (intro mult_le_mono) simp_all
  with e show ?thesis by (simp add: to_double_nat_def Let_def)
qed

lemma to_double_safe:
  "\<bar>i\<bar> \<le> MAX_SAFE_INTEGER \<Longrightarrow> to_double i = i"
  by (auto simp: to_double_def to_double_nat_exact MAX_SAFE_INTEGER_def)

lemma to_double_above: "MAX_SAFE_INTEGER < i \<Longrightarrow> MAX_SAFE_INTEGER < to_double i"
proof -
  assume i: "MAX_SAFE_INTEGER < i"
  then have "2 ^ 53 \<le> nat i" by (simp add: MAX_SAFE_INTEGER_def)
  from to_double_nat_large [OF this] i show ?thesis
    by (simp add: to_double_def MAX_SAFE_INTEGER_def)
qed

lemma to_double_below: "i < MIN_SAFE_INTEGER \<Longrightarrow> to_double i < MIN_SAFE_INTEGER"
proof -
  assume i: "i < MIN_SAFE_INTEGER"
  then have "2 ^ 53 \<le> nat (- i)" by (simp add: MIN_SAFE_INTEGER_def)
  from to_double_nat_large [OF this] i show ?thesis
    by (simp add: to_double_def MIN_SAFE_INTEGER_def)
qed

lemma longToNumber_cases:
  "longToNumber i =
     (if i > MAX_SAFE_INTEGER then Inl (Error ''Value is larger than Number.MAX_SAFE_INTEGER'')
      else if i < MIN_SAFE_INTEGER
      then Inl (Error ''Value is smaller than Number.MIN_SAFE_INTEGER'')
      else Inr (Fin (of_int i)))"
proof -
  consider "MAX_SAFE_INTEGER < i" | "i < MIN_SAFE_INTEGER" | "\<bar>i\<bar> \<le> MAX_SAFE_INTEGER"
    by (force simp: MAX_SAFE_INTEGER_def MIN_SAFE_INTEGER_def)
  then show ?thesis
    by cases (use to_double_above [of i] to_double_below [of i] to_double_safe [of i] in
        \<open>auto simp: longToNumber_def Let_def MAX_SAFE_INTEGER_def MIN_SAFE_INTEGER_def\<close>)
qed

lemma longToNumber_of_n:
  "int n \<le> MAX_SAFE_INTEGER \<Longrightarrow> longToNumber (int n) = Inr (of_n n)"
  by (simp add: longToNumber_cases MIN_SAFE_INTEGER_def of_n_def)

lemma longToNumber_too_large:
  "MAX_SAFE_INTEGER < int n \<Longrightarrow>
   longToNumber (int n) = Inl (Error ''Value is larger than Number.MAX_SAFE_INTEGER'')"
  by (simp add: longToNumber_cases)

end
