(* ===== verification/PubsubDecode.thy ===== *)
theory PubsubDecode
  imports PubsubTypes LongNumber
begin

text \<open>
  The \<open>decode\<close> methods of \<open>pubsub.ts\<close>: for each message the \<open>switch\<close> on the field
  number of a tag, and the method itself, which runs the shared loop of \<open>Wire\<close> on it.
\<close>

definition JoinPublisher_cases :: "'r reader_ops \<Rightarrow> (JoinPublisher, 'r) cases" where
  "JoinPublisher_cases R tag message reader = no_case"

definition JoinPublisher_decode ::
  "'r reader_ops \<Rightarrow> 'r input \<Rightarrow> nat option \<Rightarrow> (JoinPublisher \<times> 'r) result option" where
  "JoinPublisher_decode R = decode_message R (JoinPublisher_cases R) createBaseJoinPublisher"

definition JoinPublisher_Request_cases :: "'r reader_ops \<Rightarrow> (JoinPublisher_Request, 'r) cases" where
  "JoinPublisher_Request_cases R tag message reader =
     (if tag div 8 = 1 then
          (if tag \<noteq> 10 then no_case
           else scalar_case (r_string R reader) (\<lambda>s. message\<lparr>JoinPublisher_Request.linkIdOverride := Some s\<rparr>))
      else no_case)"

definition JoinPublisher_Request_decode ::
  "'r reader_ops \<Rightarrow> 'r input \<Rightarrow> nat option \<Rightarrow> (JoinPublisher_Request \<times> 'r) result option" where
  "JoinPublisher_Request_decode R = decode_message R (JoinPublisher_Request_cases R) createBaseJoinPublisher_Request"

definition JoinPublisher_Response_cases :: "'r reader_ops \<Rightarrow> (JoinPublisher_Response, 'r) cases" where
  "JoinPublisher_Response_cases R tag message reader =
     (if tag div 8 = 1000 then
          (if tag \<noteq> 8002 then no_case
           else scalar_case (r_string R reader) (\<lambda>s. message\<lparr>JoinPublisher_Response.error := Some s\<rparr>))
      else if tag div 8 = 1 then
          (if tag \<noteq> 10 then no_case
           else scalar_case (r_string R reader) (\<lambda>s. message\<lparr>JoinPublisher_Response.websocketUrl := s\<rparr>))
      else no_case)"

definition JoinPublisher_Response_decode ::
  "'r reader_ops \<Rightarrow> 'r input \<Rightarrow> nat option \<Rightarrow> (JoinPublisher_Response \<times> 'r) result option" where
  "JoinPublisher_Response_decode R = decode_message R (JoinPublisher_Response_cases R) createBaseJoinPublisher_Response"

definition JoinSubscriber_cases :: "'r reader_ops \<Rightarrow> (JoinSubscriber, 'r) cases" where
  "JoinSubscriber_cases R tag message reader = no_case"

definition JoinSubscriber_decode ::
  "'r reader_ops \<Rightarrow> 'r input \<Rightarrow> nat option \<Rightarrow> (JoinSubscriber \<times> 'r) result option" where
  "JoinSubscriber_decode R = decode_message R (JoinSubscriber_cases R) createBaseJoinSubscriber"

definition JoinSubscriber_Request_cases :: "'r reader_ops \<Rightarrow> (JoinSubscriber_Request, 'r) cases" where
  "JoinSubscriber_Request_cases R tag message reader =
     (if tag div 8 = 1 then
          (if tag \<noteq> 10 then no_case
           else scalar_case (r_string R reader) (\<lambda>s. message\<lparr>JoinSubscriber_Request.namespaceId := Some s\<rparr>))
      else no_case)"

definition JoinSubscriber_Request_decode ::
  "'r reader_ops \<Rightarrow> 'r input \<Rightarrow> nat option \<Rightarrow> (JoinSubscriber_Request \<times> 'r) result option" where
  "JoinSubscriber_Request_decode R = decode_message R (JoinSubscriber_Request_cases R) createBaseJoinSubscriber_Request"

definition JoinSubscriber_Response_cases :: "'r reader_ops \<Rightarrow> (JoinSubscriber_Response, 'r) cases" where
  "JoinSubscriber_Response_cases R tag message reader =
     (if tag div 8 = 1000 then
          (if tag \<noteq> 8002 then no_case
           else scalar_case (r_string R reader) (\<lambda>s. message\<lparr>JoinSubscriber_Response.error := Some s\<rparr>))
      else if tag div 8 = 1 then
          (if tag \<noteq> 10 then no_case
           else scalar_case (r_string R reader) (\<lambda>s. message\<lparr>JoinSubscriber_Response.websocketUrl := s\<rparr>))
      else no_case)"

definition JoinSubscriber_Response_decode ::
  "'r reader_ops \<Rightarrow> 'r input \<Rightarrow> nat option \<Rightarrow> (JoinSubscriber_Response \<times> 'r) result option" where
  "JoinSubscriber_Response_decode R = decode_message R (JoinSubscriber_Response_cases R) createBaseJoinSubscriber_Response"

definition PublishEvents_cases :: "'r reader_ops \<Rightarrow> (PublishEvents, 'r) cases" where
  "PublishEvents_cases R tag message reader = no_case"

definition PublishEvents_decode ::
  "'r reader_ops \<Rightarrow> 'r input \<Rightarrow> nat option \<Rightarrow> (PublishEvents \<times> 'r) result option" where
  "PublishEvents_decode R = decode_message R (PublishEvents_cases R) createBasePublishEvents"

definition Event_V1_TagsEntry_cases :: "'r reader_ops \<Rightarrow> (Event_V1_TagsEntry, 'r) cases" where
  "Event_V1_TagsEntry_cases R tag message reader =
     (if tag div 8 = 1 then
          (if tag \<noteq> 10 then no_case
           else scalar_case (r_string R reader) (\<lambda>s. message\<lparr>Event_V1_TagsEntry.key := s\<rparr>))
      else if tag div 8 = 2 then
          (if tag \<noteq> 18 then no_case
           else scalar_case (r_string R reader) (\<lambda>s. message\<lparr>Event_V1_TagsEntry.value := s\<rparr>))
      else no_case)"

definition Event_V1_TagsEntry_decode ::
  "'r reader_ops \<Rightarrow> 'r input \<Rightarrow> nat option \<Rightarrow> (Event_V1_TagsEntry \<times> 'r) result option" where
  "Event_V1_TagsEntry_decode R = decode_message R (Event_V1_TagsEntry_cases R) createBaseEvent_V1_TagsEntry"

definition Event_Log_cases :: "'r reader_ops \<Rightarrow> (Event_Log, 'r) cases" where
  "Event_Log_cases R tag message reader =
     (if tag div 8 = 1 then
          (if tag \<noteq> 10 then no_case
           else scalar_case (r_string R reader)
             (\<lambda>s. message\<lparr>Event_Log.lines := Event_Log.lines message @ [s]\<rparr>))
      else if tag div 8 = 2 then
          (if tag \<noteq> 16 then no_case
           else scalar_caseE (r_uint64 R reader)
             (\<lambda>n. bindE (longToNumber (int n)) (\<lambda>x. Inr (message\<lparr>Event_Log.index := x\<rparr>))))
      else no_case)"

definition Event_Log_decode ::
  "'r reader_ops \<Rightarrow> 'r input \<Rightarrow> nat option \<Rightarrow> (Event_Log \<times> 'r) result option" where
  "Event_Log_decode R = decode_message R (Event_Log_cases R) createBaseEvent_Log"

definition Event_V1_cases :: "'r reader_ops \<Rightarrow> (Event_V1, 'r) cases" where
  "Event_V1_cases R tag message reader =
     (if tag div 8 = 1 then
          (if tag \<noteq> 10 then no_case
           else message_case R (Event_V1_TagsEntry_decode R) reader (\<lambda>entry1.
             message\<lparr>Event_V1.tags :=
               obj_set (Event_V1_TagsEntry.key entry1) (Event_V1_TagsEntry.value entry1) (Event_V1.tags message)\<rparr>))
      else if tag div 8 = 2 then
          (if tag \<noteq> 18 then no_case
           else scalar_case (r_bytes R reader) (\<lambda>b. message\<lparr>Event_V1.harEntryJson := b\<rparr>))
      else if tag div 8 = 3 then
          (if tag \<noteq> 26 then no_case
           else message_case R (Event_Log_decode R) reader (\<lambda>v. message\<lparr>Event_V1.log := Some v\<rparr>))
      else no_case)"

definition Event_V1_decode ::
  "'r reader_ops \<Rightarrow> 'r input \<Rightarrow> nat option \<Rightarrow> (Event_V1 \<times> 'r) result option" where
  "Event_V1_decode R = decode_message R (Event_V1_cases R) createBaseEvent_V1"

definition Event_cases :: "'r reader_ops \<Rightarrow> (Event, 'r) cases" where
  "Event_cases R tag message reader =
     (if tag div 8 = 1 then
          (if tag \<noteq> 10 then no_case
           else message_case R (Event_V1_decode R) reader (\<lambda>v. message\<lparr>Event.concreteV1 := Some v\<rparr>))
      else no_case)"

definition Event_decode ::
  "'r reader_ops \<Rightarrow> 'r input \<Rightarrow> nat option \<Rightarrow> (Event \<times> 'r) result option" where
  "Event_decode R = decode_message R (Event_cases R) createBaseEvent"

definition PublishEvents_Request_cases :: "'r reader_ops \<Rightarrow> (PublishEvents_Request, 'r) cases" where
  "PublishEvents_Request_cases R tag message reader =
     (if tag div 8 = 1 then
          (if tag \<noteq> 10 then no_case
           else message_case R (Event_decode R) reader
             (\<lambda>v. message\<lparr>PublishEvents_Request.events := PublishEvents_Request.events message @ [v]\<rparr>))
      else no_case)"

definition PublishEvents_Request_decode ::
  "'r reader_ops \<Rightarrow> 'r input \<Rightarrow> nat option \<Rightarrow> (PublishEvents_Request \<times> 'r) result option" where
  "PublishEvents_Request_decode R = decode_message R (PublishEvents_Request_cases R) createBasePublishEvents_Request"

definition PublishEvents_Response_cases :: "'r reader_ops \<Rightarrow> (PublishEvents_Response, 'r) cases" where
  "PublishEvents_Response_cases R tag message reader =
     (if tag div 8 = 1000 then
          (if tag \<noteq> 8002 then no_case
           else scalar_case (r_string R reader) (\<lambda>s. message\<lparr>PublishEvents_Response.error := Some s\<rparr>))
      else no_case)"

definition PublishEvents_Response_decode ::
  "'r reader_ops \<Rightarrow> 'r input \<Rightarrow> nat option \<Rightarrow> (PublishEvents_Response \<times> 'r) result option" where
  "PublishEvents_Response_decode R = decode_message R (PublishEvents_Response_cases R) createBasePublishEvents_Response"

definition SetSubscriberConfig_V1_Call_cases :: "'r reader_ops \<Rightarrow> (SetSubscriberConfig_V1_Call, 'r) cases" where
  "SetSubscriberConfig_V1_Call_cases R tag message reader =
     (if tag div 8 = 1 then
          (if tag \<noteq> 8 then no_case
           else scalar_caseE (r_uint64 R reader)
             (\<lambda>n. bindE (longToNumber (int n)) (\<lambda>x. Inr (message\<lparr>SetSubscriberConfig_V1_Call.revision := x\<rparr>))))
      else if tag div 8 = 2 then
          (if tag \<noteq> 18 then no_case
           else scalar_case (r_string R reader)
             (\<lambda>s. message\<lparr>SetSubscriberConfig_V1_Call.filters := SetSubscriberConfig_V1_Call.filters message @ [s]\<rparr>))
      else no_case)"

definition SetSubscriberConfig_V1_Call_decode ::
  "'r reader_ops \<Rightarrow> 'r input \<Rightarrow> nat option \<Rightarrow> (SetSubscriberConfig_V1_Call \<times> 'r) result option" where
  "SetSubscriberConfig_V1_Call_decode R = decode_message R (SetSubscriberConfig_V1_Call_cases R) createBaseSetSubscriberConfig_V1_Call"

definition SetSubscriberConfig_V1_Result_cases :: "'r reader_ops \<Rightarrow> (SetSubscriberConfig_V1_Result, 'r) cases" where
  "SetSubscriberConfig_V1_Result_cases R tag message reader =
     (if tag div 8 = 1 then
          (if tag \<noteq> 8 then no_case
           else scalar_caseE (r_uint64 R reader)
             (\<lambda>n. bindE (longToNumber (int n)) (\<lambda>x. Inr (message\<lparr>SetSubscriberConfig_V1_Result.revision := x\<rparr>))))
      else if tag div 8 = 2 then
          (if tag \<noteq> 18 then no_case
           else scalar_case (r_string R reader) (\<lambda>s. message\<lparr>SetSubscriberConfig_V1_Result.error := Some s\<rparr>))
      else no_case)"

definition SetSubscriberConfig_V1_Result_decode ::
  "'r reader_ops \<Rightarrow> 'r input \<Rightarrow> nat option \<Rightarrow> (SetSubscriberConfig_V1_Result \<times> 'r) result option" where
  "SetSubscriberConfig_V1_Result_decode R = decode_message R (SetSubscriberConfig_V1_Result_cases R) createBaseSetSubscriberConfig_V1_Result"

definition SetSubscriberConfig_V1_cases :: "'r reader_ops \<Rightarrow> (SetSubscriberConfig_V1, 'r) cases" where
  "SetSubscriberConfig_V1_cases R tag message reader =
     (if tag div 8 = 1 then
          (if tag \<noteq> 10 then no_case
           else message_case R (SetSubscriberConfig_V1_Call_decode R) reader (\<lambda>v. message\<lparr>SetSubscriberConfig_V1.call := Some v\<rparr>))
      else if tag div 8 = 2 then
          (if tag \<noteq> 18 then no_case
           else message_case R (SetSubscriberConfig_V1_Result_decode R) reader (\<lambda>v. message\<lparr>SetSubscriberConfig_V1.result := Some v\<rparr>))
      else no_case)"

definition SetSubscriberConfig_V1_decode ::
  "'r reader_ops \<Rightarrow> 'r input \<Rightarrow> nat option \<Rightarrow> (SetSubscriberConfig_V1 \<times> 'r) result option" where
  "SetSubscriberConfig_V1_decode R = decode_message R (SetSubscriberConfig_V1_cases R) createBaseSetSubscriberConfig_V1"

definition SetSubscriberConfig_cases :: "'r reader_ops \<Rightarrow> (SetSubscriberConfig, 'r) cases" where
  "SetSubscriberConfig_cases R tag message reader =
     (if tag div 8 = 1 then
          (if tag \<noteq> 10 then no_case
           else message_case R (SetSubscriberConfig_V1_decode R) reader (\<lambda>v. message\<lparr>SetSubscriberConfig.concreteV1 := Some v\<rparr>))
      else no_case)"

definition SetSubscriberConfig_decode ::
  "'r reader_ops \<Rightarrow> 'r input \<Rightarrow> nat option \<Rightarrow> (SetSubscriberConfig \<times> 'r) result option" where
  "SetSubscriberConfig_decode R = decode_message R (SetSubscriberConfig_cases R) createBaseSetSubscriberConfig"

definition AnnounceStats_V1_cases :: "'r reader_ops \<Rightarrow> (AnnounceStats_V1, 'r) cases" where
  "AnnounceStats_V1_cases R tag message reader =
     (if tag div 8 = 1 then
          (if tag \<noteq> 8 then no_case
           else scalar_caseE (r_uint64 R reader)
             (\<lambda>n. bindE (longToNumber (int n)) (\<lambda>x. Inr (message\<lparr>AnnounceStats_V1.numPublishers := x\<rparr>))))
      else if tag div 8 = 2 then
          (if tag \<noteq> 16 then no_case
           else scalar_caseE (r_uint64 R reader)
             (\<lambda>n. bindE (longToNumber (int n)) (\<lambda>x. Inr (message\<lparr>AnnounceStats_V1.numSubscribers := x\<rparr>))))
      else no_case)"

definition AnnounceStats_V1_decode ::
  "'r reader_ops \<Rightarrow> 'r input \<Rightarrow> nat option \<Rightarrow> (AnnounceStats_V1 \<times> 'r) result option" where
  "AnnounceStats_V1_decode R = decode_message R (AnnounceStats_V1_cases R) createBaseAnnounceStats_V1"

definition AnnounceStats_cases :: "'r reader_ops \<Rightarrow> (AnnounceStats, 'r) cases" where
  "AnnounceStats_cases R tag message reader =
     (if tag div 8 = 1 then
          (if tag \<noteq> 10 then no_case
           else message_case R (AnnounceStats_V1_decode R) reader (\<lambda>v. message\<lparr>AnnounceStats.concreteV1 := Some v\<rparr>))
      else no_case)"

definition AnnounceStats_decode ::
  "'r reader_ops \<Rightarrow> 'r input \<Rightarrow> nat option \<Rightarrow> (AnnounceStats \<times> 'r) result option" where
  "AnnounceStats_decode R = decode_message R (AnnounceStats_cases R) createBaseAnnounceStats"

definition Message_V1_cases :: "'r reader_ops \<Rightarrow> (Message_V1, 'r) cases" where
  "Message_V1_cases R tag message reader =
     (if tag div 8 = 1 then
          (if tag \<noteq> 10 then no_case
           else message_case R (Event_decode R) reader (\<lambda>v. message\<lparr>Message_V1.event := Some v\<rparr>))
      else if tag div 8 = 2 then
          (if tag \<noteq> 18 then no_case
           else message_case R (SetSubscriberConfig_decode R) reader (\<lambda>v. message\<lparr>Message_V1.setSubscriberConfig := Some v\<rparr>))
      else if tag div 8 = 3 then
          (if tag \<noteq> 26 then no_case
           else message_case R (AnnounceStats_decode R) reader (\<lambda>v. message\<lparr>Message_V1.announceStats := Some v\<rparr>))
      else no_case)"

definition Message_V1_decode ::
  "'r reader_ops \<Rightarrow> 'r input \<Rightarrow> nat option \<Rightarrow> (Message_V1 \<times> 'r) result option" where
  "Message_V1_decode R = decode_message R (Message_V1_cases R) createBaseMessage_V1"

definition Message_cases :: "'r reader_ops \<Rightarrow> (Message, 'r) cases" where
  "Message_cases R tag message reader =
     (if tag div 8 = 1 then
          (if tag \<noteq> 10 then no_case
           else message_case R (Message_V1_decode R) reader (\<lambda>v. message\<lparr>Message.concreteV1 := Some v\<rparr>))
      else no_case)"

definition Message_decode ::
  "'r reader_ops \<Rightarrow> 'r input \<Rightarrow> nat option \<Rightarrow> (Message \<times> 'r) result option" where
  "Message_decode R = decode_message R (Message_cases R) createBaseMessage"

lemmas cases_defs =
  JoinPublisher_cases_def
  JoinPublisher_Request_cases_def
  JoinPublisher_Response_cases_def
  JoinSubscriber_cases_def
  JoinSubscriber_Request_cases_def
  JoinSubscriber_Response_cases_def
  PublishEvents_cases_def
  Event_V1_TagsEntry_cases_def
  Event_Log_cases_def
  Event_V1_cases_def
  Event_cases_def
  PublishEvents_Request_cases_def
  PublishEvents_Response_cases_def
  SetSubscriberConfig_V1_Call_cases_def
  SetSubscriberConfig_V1_Result_cases_def
  SetSubscriberConfig_V1_cases_def
  SetSubscriberConfig_cases_def
  AnnounceStats_V1_cases_def
  AnnounceStats_cases_def
  Message_V1_cases_def
  Message_cases_def

lemmas decode_defs =
  JoinPublisher_decode_def
  JoinPublisher_Request_decode_def
  JoinPublisher_Response_decode_def
  JoinSubscriber_decode_def
  JoinSubscriber_Request_decode_def
  JoinSubscriber_Response_decode_def
  PublishEvents_decode_def
  Event_V1_TagsEntry_decode_def
  Event_Log_decode_def
  Event_V1_decode_def
  Event_decode_def
  PublishEvents_Request_decode_def
  PublishEvents_Response_decode_def
  SetSubscriberConfig_V1_Call_decode_def
  SetSubscriberConfig_V1_Result_decode_def
  SetSubscriberConfig_V1_decode_def
  SetSubscriberConfig_decode_def
  AnnounceStats_V1_decode_def
  AnnounceStats_decode_def
  Message_V1_decode_def
  Message_decode_def

end
