(* ===== verification/PubsubPartial.thy ===== *)
theory PubsubPartial
  imports PubsubTypes
begin

text \<open>
  The \<open>fromPartial\<close> and \<open>create\<close> methods of \<open>pubsub.ts\<close>. \<open>DeepPartial\<close> makes every field
  of a message optional, at every level: one record of optional fields per interface,
  where \<open>None\<close> is a field that is missing, \<open>undefined\<close> or \<open>null\<close>. The \<open>empty\<close> values
  stand for the object literal without fields.
\<close>

text \<open>\<open>x ?? d\<close>\<close>

definition nullish :: "'a option \<Rightarrow> 'a \<Rightarrow> 'a" where
  "nullish x d = (case x of None \<Rightarrow> d | Some y \<Rightarrow> y)"

lemma nullish_simps [simp]: "nullish None d = d" "nullish (Some y) d = y"
  by (simp_all add: nullish_def)

section \<open>Partial messages\<close>

record JoinPublisher_Request_Partial =
  linkIdOverride :: "string option"

record JoinPublisher_Response_Partial =
  error :: "string option"
  websocketUrl :: "string option"

record JoinSubscriber_Request_Partial =
  namespaceId :: "string option"

record JoinSubscriber_Response_Partial =
  error :: "string option"
  websocketUrl :: "string option"

record Event_V1_TagsEntry_Partial =
  key :: "string option"
  "value" :: "string option"

record Event_Log_Partial =
  lines :: "string list option"
  index :: "number option"

record Event_V1_Partial =
  tags :: "(string \<times> string option) list option"
  harEntryJson :: "byte list option"
  log :: "Event_Log_Partial option"

record Event_Partial =
  concreteV1 :: "Event_V1_Partial option"

record PublishEvents_Request_Partial =
  events :: "Event_Partial list option"

record PublishEvents_Response_Partial =
  error :: "string option"

record SetSubscriberConfig_V1_Call_Partial =
  revision :: "number option"
  filters :: "string list option"

record SetSubscriberConfig_V1_Result_Partial =
  revision :: "number option"
  error :: "string option"

record SetSubscriberConfig_V1_Partial =
  call :: "SetSubscriberConfig_V1_Call_Partial option"
  result :: "SetSubscriberConfig_V1_Result_Partial option"

record SetSubscriberConfig_Partial =
  concreteV1 :: "SetSubscriberConfig_V1_Partial option"

record AnnounceStats_V1_Partial =
  numPublishers :: "number option"
  numSubscribers :: "number option"

record AnnounceStats_Partial =
  concreteV1 :: "AnnounceStats_V1_Partial option"

record Message_V1_Partial =
  event :: "Event_Partial option"
  setSubscriberConfig :: "SetSubscriberConfig_Partial option"
  announceStats :: "AnnounceStats_Partial option"

record Message_Partial =
  concreteV1 :: "Message_V1_Partial option"

section \<open>The empty partial messages\<close>

definition empty_JoinPublisher :: JoinPublisher where
  "empty_JoinPublisher = JoinPublisher"

definition empty_JoinPublisher_Request :: JoinPublisher_Request_Partial where
  "empty_JoinPublisher_Request = \<lparr>JoinPublisher_Request_Partial.linkIdOverride = None\<rparr>"

definition empty_JoinPublisher_Response :: JoinPublisher_Response_Partial where
  "empty_JoinPublisher_Response = \<lparr>JoinPublisher_Response_Partial.error = None, JoinPublisher_Response_Partial.websocketUrl = None\<rparr>"

definition empty_JoinSubscriber :: JoinSubscriber where
  "empty_JoinSubscriber = JoinSubscriber"

definition empty_JoinSubscriber_Request :: JoinSubscriber_Request_Partial where
  "empty_JoinSubscriber_Request = \<lparr>JoinSubscriber_Request_Partial.namespaceId = None\<rparr>"

definition empty_JoinSubscriber_Response :: JoinSubscriber_Response_Partial where
  "empty_JoinSubscriber_Response = \<lparr>JoinSubscriber_Response_Partial.error = None, JoinSubscriber_Response_Partial.websocketUrl = None\<rparr>"

definition empty_PublishEvents :: PublishEvents where
  "empty_PublishEvents = PublishEvents"

definition empty_Event_V1_TagsEntry :: Event_V1_TagsEntry_Partial where
  "empty_Event_V1_TagsEntry = \<lparr>Event_V1_TagsEntry_Partial.key = None, Event_V1_TagsEntry_Partial.value = None\<rparr>"

definition empty_Event_Log :: Event_Log_Partial where
  "empty_Event_Log = \<lparr>Event_Log_Partial.lines = None, Event_Log_Partial.index = None\<rparr>"

definition empty_Event_V1 :: Event_V1_Partial where
  "empty_Event_V1 = \<lparr>Event_V1_Partial.tags = None, Event_V1_Partial.harEntryJson = None, Event_V1_Partial.log = None\<rparr>"

definition empty_Event :: Event_Partial where
  "empty_Event = \<lparr>Event_Partial.concreteV1 = None\<rparr>"

definition empty_PublishEvents_Request :: PublishEvents_Request_Partial where
  "empty_PublishEvents_Request = \<lparr>PublishEvents_Request_Partial.events = None\<rparr>"

definition empty_PublishEvents_Response :: PublishEvents_Response_Partial where
  "empty_PublishEvents_Response = \<lparr>PublishEvents_Response_Partial.error = None\<rparr>"

definition empty_SetSubscriberConfig_V1_Call :: SetSubscriberConfig_V1_Call_Partial where
  "empty_SetSubscriberConfig_V1_Call = \<lparr>SetSubscriberConfig_V1_Call_Partial.revision = None, SetSubscriberConfig_V1_Call_Partial.filters = None\<rparr>"

definition empty_SetSubscriberConfig_V1_Result :: SetSubscriberConfig_V1_Result_Partial where
  "empty_SetSubscriberConfig_V1_Result = \<lparr>SetSubscriberConfig_V1_Result_Partial.revision = None, SetSubscriberConfig_V1_Result_Partial.error = None\<rparr>"

definition empty_SetSubscriberConfig_V1 :: SetSubscriberConfig_V1_Partial where
  "empty_SetSubscriberConfig_V1 = \<lparr>SetSubscriberConfig_V1_Partial.call = None, SetSubscriberConfig_V1_Partial.result = None\<rparr>"

definition empty_SetSubscriberConfig :: SetSubscriberConfig_Partial where
  "empty_SetSubscriberConfig = \<lparr>SetSubscriberConfig_Partial.concreteV1 = None\<rparr>"

definition empty_AnnounceStats_V1 :: AnnounceStats_V1_Partial where
  "empty_AnnounceStats_V1 = \<lparr>AnnounceStats_V1_Partial.numPublishers = None, AnnounceStats_V1_Partial.numSubscribers = None\<rparr>"

definition empty_AnnounceStats :: AnnounceStats_Partial where
  "empty_AnnounceStats = \<lparr>AnnounceStats_Partial.concreteV1 = None\<rparr>"

definition empty_Message_V1 :: Message_V1_Partial where
  "empty_Message_V1 = \<lparr>Message_V1_Partial.event = None, Message_V1_Partial.setSubscriberConfig = None, Message_V1_Partial.announceStats = None\<rparr>"

definition empty_Message :: Message_Partial where
  "empty_Message = \<lparr>Message_Partial.concreteV1 = None\<rparr>"

section \<open>fromPartial and create\<close>

definition JoinPublisher_fromPartial :: "JoinPublisher \<Rightarrow> JoinPublisher" where
  "JoinPublisher_fromPartial object = createBaseJoinPublisher"

definition JoinPublisher_create :: "JoinPublisher option \<Rightarrow> JoinPublisher" where
  "JoinPublisher_create base = JoinPublisher_fromPartial (nullish base empty_JoinPublisher)"

definition JoinPublisher_Request_fromPartial :: "JoinPublisher_Request_Partial \<Rightarrow> JoinPublisher_Request" where
  "JoinPublisher_Request_fromPartial object = createBaseJoinPublisher_Request
     \<lparr>JoinPublisher_Request.linkIdOverride := JoinPublisher_Request_Partial.linkIdOverride object\<rparr>"

definition JoinPublisher_Request_create :: "JoinPublisher_Request_Partial option \<Rightarrow> JoinPublisher_Request" where
  "JoinPublisher_Request_create base = JoinPublisher_Request_fromPartial (nullish base empty_JoinPublisher_Request)"

definition JoinPublisher_Response_fromPartial :: "JoinPublisher_Response_Partial \<Rightarrow> JoinPublisher_Response" where
  "JoinPublisher_Response_fromPartial object = createBaseJoinPublisher_Response
     \<lparr>JoinPublisher_Response.error := JoinPublisher_Response_Partial.error object,
      JoinPublisher_Response.websocketUrl := nullish (JoinPublisher_Response_Partial.websocketUrl object) ''''\<rparr>"

definition JoinPublisher_Response_create :: "JoinPublisher_Response_Partial option \<Rightarrow> JoinPublisher_Response" where
  "JoinPublisher_Response_create base = JoinPublisher_Response_fromPartial (nullish base empty_JoinPublisher_Response)"

definition JoinSubscriber_fromPartial :: "JoinSubscriber \<Rightarrow> JoinSubscriber" where
  "JoinSubscriber_fromPartial object = createBaseJoinSubscriber"

definition JoinSubscriber_create :: "JoinSubscriber option \<Rightarrow> JoinSubscriber" where
  "JoinSubscriber_create base = JoinSubscriber_fromPartial (nullish base empty_JoinSubscriber)"

definition JoinSubscriber_Request_fromPartial :: "JoinSubscriber_Request_Partial \<Rightarrow> JoinSubscriber_Request" where
  "JoinSubscriber_Request_fromPartial object = createBaseJoinSubscriber_Request
     \<lparr>JoinSubscriber_Request.namespaceId := JoinSubscriber_Request_Partial.namespaceId object\<rparr>"

definition JoinSubscriber_Request_create :: "JoinSubscriber_Request_Partial option \<Rightarrow> JoinSubscriber_Request" where
  "JoinSubscriber_Request_create base = JoinSubscriber_Request_fromPartial (nullish base empty_JoinSubscriber_Request)"

definition JoinSubscriber_Response_fromPartial :: "JoinSubscriber_Response_Partial \<Rightarrow> JoinSubscriber_Response" where
  "JoinSubscriber_Response_fromPartial object = createBaseJoinSubscriber_Response
     \<lparr>JoinSubscriber_Response.error := JoinSubscriber_Response_Partial.error object,
      JoinSubscriber_Response.websocketUrl := nullish (JoinSubscriber_Response_Partial.websocketUrl object) ''''\<rparr>"

definition JoinSubscriber_Response_create :: "JoinSubscriber_Response_Partial option \<Rightarrow> JoinSubscriber_Response" where
  "JoinSubscriber_Response_create base = JoinSubscriber_Response_fromPartial (nullish base empty_JoinSubscriber_Response)"

definition PublishEvents_fromPartial :: "PublishEvents \<Rightarrow> PublishEvents" where
  "PublishEvents_fromPartial object = createBasePublishEvents"

definition PublishEvents_create :: "PublishEvents option \<Rightarrow> PublishEvents" where
  "PublishEvents_create base = PublishEvents_fromPartial (nullish base empty_PublishEvents)"

definition Event_V1_TagsEntry_fromPartial :: "Event_V1_TagsEntry_Partial \<Rightarrow> Event_V1_TagsEntry" where
  "Event_V1_TagsEntry_fromPartial object = createBaseEvent_V1_TagsEntry
     \<lparr>Event_V1_TagsEntry.key := nullish (Event_V1_TagsEntry_Partial.key object) '''',
      Event_V1_TagsEntry.value := nullish (Event_V1_TagsEntry_Partial.value object) ''''\<rparr>"

definition Event_V1_TagsEntry_create :: "Event_V1_TagsEntry_Partial option \<Rightarrow> Event_V1_TagsEntry" where
  "Event_V1_TagsEntry_create base = Event_V1_TagsEntry_fromPartial (nullish base empty_Event_V1_TagsEntry)"

definition Event_Log_fromPartial :: "Event_Log_Partial \<Rightarrow> Event_Log" where
  "Event_Log_fromPartial object = createBaseEvent_Log
     \<lparr>Event_Log.lines := nullish (map_option (map (\<lambda>e. e)) (Event_Log_Partial.lines object)) [],
      Event_Log.index := nullish (Event_Log_Partial.index object) (Fin 0)\<rparr>"

definition Event_Log_create :: "Event_Log_Partial option \<Rightarrow> Event_Log" where
  "Event_Log_create base = Event_Log_fromPartial (nullish base empty_Event_Log)"

definition Event_V1_fromPartial :: "Event_V1_Partial \<Rightarrow> Event_V1" where
  "Event_V1_fromPartial object = createBaseEvent_V1
     \<lparr>Event_V1.tags := foldl (\<lambda>acc (key, value). case value of None \<Rightarrow> acc | Some s \<Rightarrow> obj_set key s acc)
           [] (nullish (Event_V1_Partial.tags object) []),
      Event_V1.harEntryJson := nullish (Event_V1_Partial.harEntryJson object) [],
      Event_V1.log := map_option Event_Log_fromPartial (Event_V1_Partial.log object)\<rparr>"

definition Event_V1_create :: "Event_V1_Partial option \<Rightarrow> Event_V1" where
  "Event_V1_create base = Event_V1_fromPartial (nullish base empty_Event_V1)"

definition Event_fromPartial :: "Event_Partial \<Rightarrow> Event" where
  "Event_fromPartial object = createBaseEvent
     \<lparr>Event.concreteV1 := map_option Event_V1_fromPartial (Event_Partial.concreteV1 object)\<rparr>"

definition Event_create :: "Event_Partial option \<Rightarrow> Event" where
  "Event_create base = Event_fromPartial (nullish base empty_Event)"

definition PublishEvents_Request_fromPartial :: "PublishEvents_Request_Partial \<Rightarrow> PublishEvents_Request" where
  "PublishEvents_Request_fromPartial object = createBasePublishEvents_Request
     \<lparr>PublishEvents_Request.events := nullish (map_option (map Event_fromPartial) (PublishEvents_Request_Partial.events object)) []\<rparr>"

definition PublishEvents_Request_create :: "PublishEvents_Request_Partial option \<Rightarrow> PublishEvents_Request" where
  "PublishEvents_Request_create base = PublishEvents_Request_fromPartial (nullish base empty_PublishEvents_Request)"

definition PublishEvents_Response_fromPartial :: "PublishEvents_Response_Partial \<Rightarrow> PublishEvents_Response" where
  "PublishEvents_Response_fromPartial object = createBasePublishEvents_Response
     \<lparr>PublishEvents_Response.error := PublishEvents_Response_Partial.error object\<rparr>"

definition PublishEvents_Response_create :: "PublishEvents_Response_Partial option \<Rightarrow> PublishEvents_Response" where
  "PublishEvents_Response_create base = PublishEvents_Response_fromPartial (nullish base empty_PublishEvents_Response)"

definition SetSubscriberConfig_V1_Call_fromPartial :: "SetSubscriberConfig_V1_Call_Partial \<Rightarrow> SetSubscriberConfig_V1_Call" where
  "SetSubscriberConfig_V1_Call_fromPartial object = createBaseSetSubscriberConfig_V1_Call
     \<lparr>SetSubscriberConfig_V1_Call.revision := nullish (SetSubscriberConfig_V1_Call_Partial.revision object) (Fin 0),
      SetSubscriberConfig_V1_Call.filters := nullish (map_option (map (\<lambda>e. e)) (SetSubscriberConfig_V1_Call_Partial.filters object)) []\<rparr>"

definition SetSubscriberConfig_V1_Call_create :: "SetSubscriberConfig_V1_Call_Partial option \<Rightarrow> SetSubscriberConfig_V1_Call" where
  "SetSubscriberConfig_V1_Call_create base = SetSubscriberConfig_V1_Call_fromPartial (nullish base empty_SetSubscriberConfig_V1_Call)"

definition SetSubscriberConfig_V1_Result_fromPartial :: "SetSubscriberConfig_V1_Result_Partial \<Rightarrow> SetSubscriberConfig_V1_Result" where
  "SetSubscriberConfig_V1_Result_fromPartial object = createBaseSetSubscriberConfig_V1_Result
     \<lparr>SetSubscriberConfig_V1_Result.revision := nullish (SetSubscriberConfig_V1_Result_Partial.revision object) (Fin 0),
      SetSubscriberConfig_V1_Result.error := SetSubscriberConfig_V1_Result_Partial.error object\<rparr>"

definition SetSubscriberConfig_V1_Result_create :: "SetSubscriberConfig_V1_Result_Partial option \<Rightarrow> SetSubscriberConfig_V1_Result" where
  "SetSubscriberConfig_V1_Result_create base = SetSubscriberConfig_V1_Result_fromPartial (nullish base empty_SetSubscriberConfig_V1_Result)"

definition SetSubscriberConfig_V1_fromPartial :: "SetSubscriberConfig_V1_Partial \<Rightarrow> SetSubscriberConfig_V1" where
  "SetSubscriberConfig_V1_fromPartial object = createBaseSetSubscriberConfig_V1
     \<lparr>SetSubscriberConfig_V1.call := map_option SetSubscriberConfig_V1_Call_fromPartial (SetSubscriberConfig_V1_Partial.call object),
      SetSubscriberConfig_V1.result := map_option SetSubscriberConfig_V1_Result_fromPartial (SetSubscriberConfig_V1_Partial.result object)\<rparr>"

definition SetSubscriberConfig_V1_create :: "SetSubscriberConfig_V1_Partial option \<Rightarrow> SetSubscriberConfig_V1" where
  "SetSubscriberConfig_V1_create base = SetSubscriberConfig_V1_fromPartial (nullish base empty_SetSubscriberConfig_V1)"

definition SetSubscriberConfig_fromPartial :: "SetSubscriberConfig_Partial \<Rightarrow> SetSubscriberConfig" where
  "SetSubscriberConfig_fromPartial object = createBaseSetSubscriberConfig
     \<lparr>SetSubscriberConfig.concreteV1 := map_option SetSubscriberConfig_V1_fromPartial (SetSubscriberConfig_Partial.concreteV1 object)\<rparr>"

definition SetSubscriberConfig_create :: "SetSubscriberConfig_Partial option \<Rightarrow> SetSubscriberConfig" where
  "SetSubscriberConfig_create base = SetSubscriberConfig_fromPartial (nullish base empty_SetSubscriberConfig)"

definition AnnounceStats_V1_fromPartial :: "AnnounceStats_V1_Partial \<Rightarrow> AnnounceStats_V1" where
  "AnnounceStats_V1_fromPartial object = createBaseAnnounceStats_V1
     \<lparr>AnnounceStats_V1.numPublishers := nullish (AnnounceStats_V1_Partial.numPublishers object) (Fin 0),
      AnnounceStats_V1.numSubscribers := nullish (AnnounceStats_V1_Partial.numSubscribers object) (Fin 0)\<rparr>"

definition AnnounceStats_V1_create :: "AnnounceStats_V1_Partial option \<Rightarrow> AnnounceStats_V1" where
  "AnnounceStats_V1_create base = AnnounceStats_V1_fromPartial (nullish base empty_AnnounceStats_V1)"

definition AnnounceStats_fromPartial :: "AnnounceStats_Partial \<Rightarrow> AnnounceStats" where
  "AnnounceStats_fromPartial object = createBaseAnnounceStats
     \<lparr>AnnounceStats.concreteV1 := map_option AnnounceStats_V1_fromPartial (AnnounceStats_Partial.concreteV1 object)\<rparr>"

definition AnnounceStats_create :: "AnnounceStats_Partial option \<Rightarrow> AnnounceStats" where
  "AnnounceStats_create base = AnnounceStats_fromPartial (nullish base empty_AnnounceStats)"

definition Message_V1_fromPartial :: "Message_V1_Partial \<Rightarrow> Message_V1" where
  "Message_V1_fromPartial object = createBaseMessage_V1
     \<lparr>Message_V1.event := map_option Event_fromPartial (Message_V1_Partial.event object),
      Message_V1.setSubscriberConfig := map_option SetSubscriberConfig_fromPartial (Message_V1_Partial.setSubscriberConfig object),
      Message_V1.announceStats := map_option AnnounceStats_fromPartial (Message_V1_Partial.announceStats object)\<rparr>"

definition Message_V1_create :: "Message_V1_Partial option \<Rightarrow> Message_V1" where
  "Message_V1_create base = Message_V1_fromPartial (nullish base empty_Message_V1)"

definition Message_fromPartial :: "Message_Partial \<Rightarrow> Message" where
  "Message_fromPartial object = createBaseMessage
     \<lparr>Message.concreteV1 := map_option Message_V1_fromPartial (Message_Partial.concreteV1 object)\<rparr>"

definition Message_create :: "Message_Partial option \<Rightarrow> Message" where
  "Message_create base = Message_fromPartial (nullish base empty_Message)"

lemmas fromPartial_defs =
  JoinPublisher_fromPartial_def
  JoinPublisher_Request_fromPartial_def
  JoinPublisher_Response_fromPartial_def
  JoinSubscriber_fromPartial_def
  JoinSubscriber_Request_fromPartial_def
  JoinSubscriber_Response_fromPartial_def
  PublishEvents_fromPartial_def
  Event_V1_TagsEntry_fromPartial_def
  Event_Log_fromPartial_def
  Event_V1_fromPartial_def
  Event_fromPartial_def
  PublishEvents_Request_fromPartial_def
  PublishEvents_Response_fromPartial_def
  SetSubscriberConfig_V1_Call_fromPartial_def
  SetSubscriberConfig_V1_Result_fromPartial_def
  SetSubscriberConfig_V1_fromPartial_def
  SetSubscriberConfig_fromPartial_def
  AnnounceStats_V1_fromPartial_def
  AnnounceStats_fromPartial_def
  Message_V1_fromPartial_def
  Message_fromPartial_def

lemmas empty_defs =
  empty_JoinPublisher_def
  empty_JoinPublisher_Request_def
  empty_JoinPublisher_Response_def
  empty_JoinSubscriber_def
  empty_JoinSubscriber_Request_def
  empty_JoinSubscriber_Response_def
  empty_PublishEvents_def
  empty_Event_V1_TagsEntry_def
  empty_Event_Log_def
  empty_Event_V1_def
  empty_Event_def
  empty_PublishEvents_Request_def
  empty_PublishEvents_Response_def
  empty_SetSubscriberConfig_V1_Call_def
  empty_SetSubscriberConfig_V1_Result_def
  empty_SetSubscriberConfig_V1_def
  empty_SetSubscriberConfig_def
  empty_AnnounceStats_V1_def
  empty_AnnounceStats_def
  empty_Message_V1_def
  empty_Message_def

lemmas create_defs =
  JoinPublisher_create_def
  JoinPublisher_Request_create_def
  JoinPublisher_Response_create_def
  JoinSubscriber_create_def
  JoinSubscriber_Request_create_def
  JoinSubscriber_Response_create_def
  PublishEvents_create_def
  Event_V1_TagsEntry_create_def
  Event_Log_create_def
  Event_V1_create_def
  Event_create_def
  PublishEvents_Request_create_def
  PublishEvents_Response_create_def
  SetSubscriberConfig_V1_Call_create_def
  SetSubscriberConfig_V1_Result_create_def
  SetSubscriberConfig_V1_create_def
  SetSubscriberConfig_create_def
  AnnounceStats_V1_create_def
  AnnounceStats_create_def
  Message_V1_create_def
  Message_create_def

end
