(* ===== verification/PubsubApi.thy ===== *)
theory PubsubApi
  imports PubsubEncode PubsubDecode PubsubJson PubsubPartial
begin

text \<open>
  The exported message objects. \<open>MessageFns\<close> is the interface they implement; each object
  bundles the six methods of its message, with the default arguments of the source
  (\<open>writer = new BinaryWriter()\<close>). The two copies of \<open>pubsub.ts\<close> (of the Next.js and
  the Cloudflare package) are the same file: the methods are mapped to the first copy and
  the objects, which contain them, to the second.
\<close>

text \<open>\<open>p = d\<close>: a parameter with a default value.\<close>

definition default_arg :: "'a \<Rightarrow> 'a option \<Rightarrow> 'a" where
  "default_arg d p = (case p of None \<Rightarrow> d | Some x \<Rightarrow> x)"

lemma default_arg_simps [simp]: "default_arg d None = d" "default_arg d (Some x) = x"
  by (simp_all add: default_arg_def)

record ('m, 'p, 'w, 'r) MessageFns =
  encode :: "'m \<Rightarrow> 'w option \<Rightarrow> 'w result"
  decode :: "'r input \<Rightarrow> nat option \<Rightarrow> ('m \<times> 'r) result option"
  fromJSON :: "jsval \<Rightarrow> 'm result"
  toJSON :: "'m \<Rightarrow> jsval"
  create :: "'p option \<Rightarrow> 'm"
  fromPartial :: "'p \<Rightarrow> 'm"

definition JoinPublisher_fns ::
  "'w writer_ops \<Rightarrow> 'r reader_ops \<Rightarrow> platform \<Rightarrow> (JoinPublisher, JoinPublisher, 'w, 'r) MessageFns" where
  "JoinPublisher_fns W R P =
     \<lparr>encode = (\<lambda>message writer. JoinPublisher_encode W message (default_arg (w_new W) writer)),
      decode = JoinPublisher_decode R,
      fromJSON = JoinPublisher_fromJSON P,
      toJSON = JoinPublisher_toJSON P,
      create = JoinPublisher_create,
      fromPartial = JoinPublisher_fromPartial\<rparr>"

definition JoinPublisher_Request_fns ::
  "'w writer_ops \<Rightarrow> 'r reader_ops \<Rightarrow> platform \<Rightarrow> (JoinPublisher_Request, JoinPublisher_Request_Partial, 'w, 'r) MessageFns" where
  "JoinPublisher_Request_fns W R P =
     \<lparr>encode = (\<lambda>message writer. JoinPublisher_Request_encode W message (default_arg (w_new W) writer)),
      decode = JoinPublisher_Request_decode R,
      fromJSON = JoinPublisher_Request_fromJSON P,
      toJSON = JoinPublisher_Request_toJSON P,
      create = JoinPublisher_Request_create,
      fromPartial = JoinPublisher_Request_fromPartial\<rparr>"

definition JoinPublisher_Response_fns ::
  "'w writer_ops \<Rightarrow> 'r reader_ops \<Rightarrow> platform \<Rightarrow> (JoinPublisher_Response, JoinPublisher_Response_Partial, 'w, 'r) MessageFns" where
  "JoinPublisher_Response_fns W R P =
     \<lparr>encode = (\<lambda>message writer. JoinPublisher_Response_encode W message (default_arg (w_new W) writer)),
      decode = JoinPublisher_Response_decode R,
      fromJSON = JoinPublisher_Response_fromJSON P,
      toJSON = JoinPublisher_Response_toJSON P,
      create = JoinPublisher_Response_create,
      fromPartial = JoinPublisher_Response_fromPartial\<rparr>"

definition JoinSubscriber_fns ::
  "'w writer_ops \<Rightarrow> 'r reader_ops \<Rightarrow> platform \<Rightarrow> (JoinSubscriber, JoinSubscriber, 'w, 'r) MessageFns" where
  "JoinSubscriber_fns W R P =
     \<lparr>encode = (\<lambda>message writer. JoinSubscriber_encode W message (default_arg (w_new W) writer)),
      decode = JoinSubscriber_decode R,
      fromJSON = JoinSubscriber_fromJSON P,
      toJSON = JoinSubscriber_toJSON P,
      create = JoinSubscriber_create,
      fromPartial = JoinSubscriber_fromPartial\<rparr>"

definition JoinSubscriber_Request_fns ::
  "'w writer_ops \<Rightarrow> 'r reader_ops \<Rightarrow> platform \<Rightarrow> (JoinSubscriber_Request, JoinSubscriber_Request_Partial, 'w, 'r) MessageFns" where
  "JoinSubscriber_Request_fns W R P =
     \<lparr>encode = (\<lambda>message writer. JoinSubscriber_Request_encode W message (default_arg (w_new W) writer)),
      decode = JoinSubscriber_Request_decode R,
      fromJSON = JoinSubscriber_Request_fromJSON P,
      toJSON = JoinSubscriber_Request_toJSON P,
      create = JoinSubscriber_Request_create,
      fromPartial = JoinSubscriber_Request_fromPartial\<rparr>"

definition JoinSubscriber_Response_fns ::
  "'w writer_ops \<Rightarrow> 'r reader_ops \<Rightarrow> platform \<Rightarrow> (JoinSubscriber_Response, JoinSubscriber_Response_Partial, 'w, 'r) MessageFns" where
  "JoinSubscriber_Response_fns W R P =
     \<lparr>encode = (\<lambda>message writer. JoinSubscriber_Response_encode W message (default_arg (w_new W) writer)),
      decode = JoinSubscriber_Response_decode R,
      fromJSON = JoinSubscriber_Response_fromJSON P,
      toJSON = JoinSubscriber_Response_toJSON P,
      create = JoinSubscriber_Response_create,
      fromPartial = JoinSubscriber_Response_fromPartial\<rparr>"

definition PublishEvents_fns ::
  "'w writer_ops \<Rightarrow> 'r reader_ops \<Rightarrow> platform \<Rightarrow> (PublishEvents, PublishEvents, 'w, 'r) MessageFns" where
  "PublishEvents_fns W R P =
     \<lparr>encode = (\<lambda>message writer. PublishEvents_encode W message (default_arg (w_new W) writer)),
      decode = PublishEvents_decode R,
      fromJSON = PublishEvents_fromJSON P,
      toJSON = PublishEvents_toJSON P,
      create = PublishEvents_create,
      fromPartial = PublishEvents_fromPartial\<rparr>"

definition Event_V1_TagsEntry_fns ::
  "'w writer_ops \<Rightarrow> 'r reader_ops \<Rightarrow> platform \<Rightarrow> (Event_V1_TagsEntry, Event_V1_TagsEntry_Partial, 'w, 'r) MessageFns" where
  "Event_V1_TagsEntry_fns W R P =
     \<lparr>encode = (\<lambda>message writer. Event_V1_TagsEntry_encode W message (default_arg (w_new W) writer)),
      decode = Event_V1_TagsEntry_decode R,
      fromJSON = Event_V1_TagsEntry_fromJSON P,
      toJSON = Event_V1_TagsEntry_toJSON P,
      create = Event_V1_TagsEntry_create,
      fromPartial = Event_V1_TagsEntry_fromPartial\<rparr>"

definition Event_Log_fns ::
  "'w writer_ops \<Rightarrow> 'r reader_ops \<Rightarrow> platform \<Rightarrow> (Event_Log, Event_Log_Partial, 'w, 'r) MessageFns" where
  "Event_Log_fns W R P =
     \<lparr>encode = (\<lambda>message writer. Event_Log_encode W message (default_arg (w_new W) writer)),
      decode = Event_Log_decode R,
      fromJSON = Event_Log_fromJSON P,
      toJSON = Event_Log_toJSON P,
      create = Event_Log_create,
      fromPartial = Event_Log_fromPartial\<rparr>"

definition Event_V1_fns ::
  "'w writer_ops \<Rightarrow> 'r reader_ops \<Rightarrow> platform \<Rightarrow> (Event_V1, Event_V1_Partial, 'w, 'r) MessageFns" where
  "Event_V1_fns W R P =
     \<lparr>encode = (\<lambda>message writer. Event_V1_encode W message (default_arg (w_new W) writer)),
      decode = Event_V1_decode R,
      fromJSON = Event_V1_fromJSON P,
      toJSON = Event_V1_toJSON P,
      create = Event_V1_create,
      fromPartial = Event_V1_fromPartial\<rparr>"

definition Event_fns ::
  "'w writer_ops \<Rightarrow> 'r reader_ops \<Rightarrow> platform \<Rightarrow> (Event, Event_Partial, 'w, 'r) MessageFns" where
  "Event_fns W R P =
     \<lparr>encode = (\<lambda>message writer. Event_encode W message (default_arg (w_new W) writer)),
      decode = Event_decode R,
      fromJSON = Event_fromJSON P,
      toJSON = Event_toJSON P,
      create = Event_create,
      fromPartial = Event_fromPartial\<rparr>"

definition PublishEvents_Request_fns ::
  "'w writer_ops \<Rightarrow> 'r reader_ops \<Rightarrow> platform \<Rightarrow> (PublishEvents_Request, PublishEvents_Request_Partial, 'w, 'r) MessageFns" where
  "PublishEvents_Request_fns W R P =
     \<lparr>encode = (\<lambda>message writer. PublishEvents_Request_encode W message (default_arg (w_new W) writer)),
      decode = PublishEvents_Request_decode R,
      fromJSON = PublishEvents_Request_fromJSON P,
      toJSON = PublishEvents_Request_toJSON P,
      create = PublishEvents_Request_create,
      fromPartial = PublishEvents_Request_fromPartial\<rparr>"

definition PublishEvents_Response_fns ::
  "'w writer_ops \<Rightarrow> 'r reader_ops \<Rightarrow> platform \<Rightarrow> (PublishEvents_Response, PublishEvents_Response_Partial, 'w, 'r) MessageFns" where
  "PublishEvents_Response_fns W R P =
     \<lparr>encode = (\<lambda>message writer. PublishEvents_Response_encode W message (default_arg (w_new W) writer)),
      decode = PublishEvents_Response_decode R,
      fromJSON = PublishEvents_Response_fromJSON P,
      toJSON = PublishEvents_Response_toJSON P,
      create = PublishEvents_Response_create,
      fromPartial = PublishEvents_Response_fromPartial\<rparr>"

definition SetSubscriberConfig_V1_Call_fns ::
  "'w writer_ops \<Rightarrow> 'r reader_ops \<Rightarrow> platform \<Rightarrow> (SetSubscriberConfig_V1_Call, SetSubscriberConfig_V1_Call_Partial, 'w, 'r) MessageFns" where
  "SetSubscriberConfig_V1_Call_fns W R P =
     \<lparr>encode = (\<lambda>message writer. SetSubscriberConfig_V1_Call_encode W message (default_arg (w_new W) writer)),
      decode = SetSubscriberConfig_V1_Call_decode R,
      fromJSON = SetSubscriberConfig_V1_Call_fromJSON P,
      toJSON = SetSubscriberConfig_V1_Call_toJSON P,
      create = SetSubscriberConfig_V1_Call_create,
      fromPartial = SetSubscriberConfig_V1_Call_fromPartial\<rparr>"

definition SetSubscriberConfig_V1_Result_fns ::
  "'w writer_ops \<Rightarrow> 'r reader_ops \<Rightarrow> platform \<Rightarrow> (SetSubscriberConfig_V1_Result, SetSubscriberConfig_V1_Result_Partial, 'w, 'r) MessageFns" where
  "SetSubscriberConfig_V1_Result_fns W R P =
     \<lparr>encode = (\<lambda>message writer. SetSubscriberConfig_V1_Result_encode W message (default_arg (w_new W) writer)),
      decode = SetSubscriberConfig_V1_Result_decode R,
      fromJSON = SetSubscriberConfig_V1_Result_fromJSON P,
      toJSON = SetSubscriberConfig_V1_Result_toJSON P,
      create = SetSubscriberConfig_V1_Result_create,
      fromPartial = SetSubscriberConfig_V1_Result_fromPartial\<rparr>"

definition SetSubscriberConfig_V1_fns ::
  "'w writer_ops \<Rightarrow> 'r reader_ops \<Rightarrow> platform \<Rightarrow> (SetSubscriberConfig_V1, SetSubscriberConfig_V1_Partial, 'w, 'r) MessageFns" where
  "SetSubscriberConfig_V1_fns W R P =
     \<lparr>encode = (\<lambda>message writer. SetSubscriberConfig_V1_encode W message (default_arg (w_new W) writer)),
      decode = SetSubscriberConfig_V1_decode R,
      fromJSON = SetSubscriberConfig_V1_fromJSON P,
      toJSON = SetSubscriberConfig_V1_toJSON P,
      create = SetSubscriberConfig_V1_create,
      fromPartial = SetSubscriberConfig_V1_fromPartial\<rparr>"

definition SetSubscriberConfig_fns ::
  "'w writer_ops \<Rightarrow> 'r reader_ops \<Rightarrow> platform \<Rightarrow> (SetSubscriberConfig, SetSubscriberConfig_Partial, 'w, 'r) MessageFns" where
  "SetSubscriberConfig_fns W R P =
     \<lparr>encode = (\<lambda>message writer. SetSubscriberConfig_encode W message (default_arg (w_new W) writer)),
      decode = SetSubscriberConfig_decode R,
      fromJSON = SetSubscriberConfig_fromJSON P,
      toJSON = SetSubscriberConfig_toJSON P,
      create = SetSubscriberConfig_create,
      fromPartial = SetSubscriberConfig_fromPartial\<rparr>"

definition AnnounceStats_V1_fns ::
  "'w writer_ops \<Rightarrow> 'r reader_ops \<Rightarrow> platform \<Rightarrow> (AnnounceStats_V1, AnnounceStats_V1_Partial, 'w, 'r) MessageFns" where
  "AnnounceStats_V1_fns W R P =
     \<lparr>encode = (\<lambda>message writer. AnnounceStats_V1_encode W message (default_arg (w_new W) writer)),
      decode = AnnounceStats_V1_decode R,
      fromJSON = AnnounceStats_V1_fromJSON P,
      toJSON = AnnounceStats_V1_toJSON P,
      create = AnnounceStats_V1_create,
      fromPartial = AnnounceStats_V1_fromPartial\<rparr>"

definition AnnounceStats_fns ::
  "'w writer_ops \<Rightarrow> 'r reader_ops \<Rightarrow> platform \<Rightarrow> (AnnounceStats, AnnounceStats_Partial, 'w, 'r) MessageFns" where
  "AnnounceStats_fns W R P =
     \<lparr>encode = (\<lambda>message writer. AnnounceStats_encode W message (default_arg (w_new W) writer)),
      decode = AnnounceStats_decode R,
      fromJSON = AnnounceStats_fromJSON P,
      toJSON = AnnounceStats_toJSON P,
      create = AnnounceStats_create,
      fromPartial = AnnounceStats_fromPartial\<rparr>"

definition Message_V1_fns ::
  "'w writer_ops \<Rightarrow> 'r reader_ops \<Rightarrow> platform \<Rightarrow> (Message_V1, Message_V1_Partial, 'w, 'r) MessageFns" where
  "Message_V1_fns W R P =
     \<lparr>encode = (\<lambda>message writer. Message_V1_encode W message (default_arg (w_new W) writer)),
      decode = Message_V1_decode R,
      fromJSON = Message_V1_fromJSON P,
      toJSON = Message_V1_toJSON P,
      create = Message_V1_create,
      fromPartial = Message_V1_fromPartial\<rparr>"

definition Message_fns ::
  "'w writer_ops \<Rightarrow> 'r reader_ops \<Rightarrow> platform \<Rightarrow> (Message, Message_Partial, 'w, 'r) MessageFns" where
  "Message_fns W R P =
     \<lparr>encode = (\<lambda>message writer. Message_encode W message (default_arg (w_new W) writer)),
      decode = Message_decode R,
      fromJSON = Message_fromJSON P,
      toJSON = Message_toJSON P,
      create = Message_create,
      fromPartial = Message_fromPartial\<rparr>"

lemmas fns_defs =
  JoinPublisher_fns_def
  JoinPublisher_Request_fns_def
  JoinPublisher_Response_fns_def
  JoinSubscriber_fns_def
  JoinSubscriber_Request_fns_def
  JoinSubscriber_Response_fns_def
  PublishEvents_fns_def
  Event_V1_TagsEntry_fns_def
  Event_Log_fns_def
  Event_V1_fns_def
  Event_fns_def
  PublishEvents_Request_fns_def
  PublishEvents_Response_fns_def
  SetSubscriberConfig_V1_Call_fns_def
  SetSubscriberConfig_V1_Result_fns_def
  SetSubscriberConfig_V1_fns_def
  SetSubscriberConfig_fns_def
  AnnounceStats_V1_fns_def
  AnnounceStats_fns_def
  Message_V1_fns_def
  Message_fns_def

end
