(* ===== verification/MessageCodec.thy ===== *)
theory MessageCodec
  imports PubsubApi
begin

text \<open>
  The contract between a message's \<open>encode\<close> and \<open>decode\<close>, stated once for all messages:
  the kinds of fields the generated code distinguishes, what each kind puts on the wire,
  and the locale \<open>message_codec\<close>, whose lemmas (round trip, injectivity, embedding, unknown
  fields, merging of concatenated messages) every message inherits by a \<open>sublocale\<close> of
  \<open>wire\<close>.
\<close>

section \<open>Kinds of fields\<close>

definition opt_str :: "nat \<Rightarrow> string option \<Rightarrow> wfield list" where
  "opt_str n x = (case x of None \<Rightarrow> [] | Some s \<Rightarrow> [F n (Str s)])"

definition def_str :: "nat \<Rightarrow> string \<Rightarrow> wfield list" where
  "def_str n s = (if s \<noteq> '''' then [F n (Str s)] else [])"

definition def_num :: "nat \<Rightarrow> number \<Rightarrow> wfield list" where
  "def_num n x = (if x \<noteq> Fin 0 then [F n (Varint (num_nat x))] else [])"

definition def_bytes :: "nat \<Rightarrow> byte list \<Rightarrow> wfield list" where
  "def_bytes n b = (if length b \<noteq> 0 then [F n (Len b)] else [])"

definition rep_str :: "nat \<Rightarrow> string list \<Rightarrow> wfield list" where
  "rep_str n = map (\<lambda>s. F n (Str s))"

definition opt_msg :: "nat \<Rightarrow> ('m \<Rightarrow> wfield list) \<Rightarrow> 'm option \<Rightarrow> wfield list" where
  "opt_msg n flds x = (case x of None \<Rightarrow> [] | Some v \<Rightarrow> [F n (Msg (flds v))])"

definition rep_msg :: "nat \<Rightarrow> ('m \<Rightarrow> wfield list) \<Rightarrow> 'm list \<Rightarrow> wfield list" where
  "rep_msg n flds = map (\<lambda>v. F n (Msg (flds v)))"

lemmas kind_defs = opt_str_def def_str_def def_num_def def_bytes_def rep_str_def opt_msg_def rep_msg_def

text \<open>A value of wire type 2 that a string, or an embedded message, can be read from.\<close>

fun str_val :: "wval \<Rightarrow> bool" where
  "str_val (Len _) = False"
| "str_val (Msg _) = False"
| "str_val _ = True"

fun bytes_val :: "wval \<Rightarrow> bool" where
  "bytes_val (Str _) = False"
| "bytes_val (Msg _) = False"
| "bytes_val _ = True"

fun num_val :: "wval \<Rightarrow> bool" where
  "num_val (Varint n) = (int n \<le> MAX_SAFE_INTEGER)"
| "num_val _ = True"

fun msg_val :: "(wfield \<Rightarrow> bool) \<Rightarrow> wval \<Rightarrow> bool" where
  "msg_val accepts (Msg fs) = list_all accepts fs"
| "msg_val accepts (Len _) = False"
| "msg_val accepts (Str _) = False"
| "msg_val accepts _ = True"

lemma msg_val_mono [fundef_cong]: "(\<And>f. accepts f = accepts' f) \<Longrightarrow> v = v' \<Longrightarrow> msg_val accepts v = msg_val accepts' v'"
  by (cases v) (auto simp: list_all_iff)

lemma ser_single: "ser [f] = ser_field f"
  by simp

lemma length_ser_single: "length (ser_field (F n v)) < k \<Longrightarrow> length (ser_val v) < k"
  by simp

section \<open>What the encoder emits for each kind\<close>

context wire_writer begin

lemma emits_fields_Nil: "emits stk (steps []) (ser (concat []))"
  by (simp add: emits_Nil)

lemma emits_fields_Cons:
  "emits stk f (ser A) \<Longrightarrow> emits stk (steps fs) (ser (concat As)) \<Longrightarrow>
   emits stk (steps (f # fs)) (ser (concat (A # As)))"
  using emits_Cons [of stk f "ser A" fs "ser (concat As)"] by simp

lemma emits_id_fields: "emits stk Inr (ser [])"
  by (simp add: emits_id)

lemma emits_one: "emits stk f (ser_field x) \<Longrightarrow> emits stk f (ser [x])"
  by simp

lemma delim_bound: "length (delim b) < k \<Longrightarrow> length b < k"
  using length_delim [of b] by linarith

lemma emits_str1:
  assumes "t = 8 * n + 2" "t < 2 ^ 32" "length (ser [F n (Str s)]) < 2 ^ 32"
  shows "emits stk (steps [w_uint32 W t, w_string W s]) (ser [F n (Str s)])"
  unfolding ser_single
proof (rule emits_string_field [OF _ assms(1,2)])
  show "length (utf8 s) < 2 ^ 32" by (rule delim_bound) (use assms(3) in simp)
qed

lemma emits_bytes1:
  assumes "t = 8 * n + 2" "t < 2 ^ 32" "length (ser [F n (Len b)]) < 2 ^ 32"
  shows "emits stk (steps [w_uint32 W t, w_bytes W b]) (ser [F n (Len b)])"
  unfolding ser_single
proof (rule emits_bytes_field [OF _ assms(1,2)])
  show "length b < 2 ^ 32" by (rule delim_bound) (use assms(3) in simp)
qed

lemma emits_msg1:
  assumes "length (ser fs) < 2 ^ 32 \<Longrightarrow> emits stk enc (ser fs)"
    and "t = 8 * n + 2" "t < 2 ^ 32" "length (ser [F n (Msg fs)]) < 2 ^ 32"
  shows "emits stk (steps [w_uint32 W t, w_fork W, enc, w_join W]) (ser [F n (Msg fs)])"
  unfolding ser_single
proof -
  have "length (ser fs) < 2 ^ 32" by (rule delim_bound) (use assms(4) in simp)
  from emits_msg_field [OF assms(1) this assms(2,3)] this
  show "emits stk (steps [w_uint32 W t, w_fork W, enc, w_join W]) (ser_field (F n (Msg fs)))"
    by blast
qed

lemma emits_opt_str:
  "t = 8 * n + 2 \<Longrightarrow> t < 2 ^ 32 \<Longrightarrow> length (ser (opt_str n x)) < 2 ^ 32 \<Longrightarrow>
   emits stk (case x of None \<Rightarrow> Inr | Some s \<Rightarrow> steps [w_uint32 W t, w_string W s]) (ser (opt_str n x))"
  unfolding opt_str_def by (cases x) (simp_all only: option.case emits_id_fields emits_str1)

lemma emits_def_str:
  "t = 8 * n + 2 \<Longrightarrow> t < 2 ^ 32 \<Longrightarrow> length (ser (def_str n x)) < 2 ^ 32 \<Longrightarrow>
   emits stk (if x \<noteq> '''' then steps [w_uint32 W t, w_string W x] else Inr) (ser (def_str n x))"
  unfolding def_str_def
  by (cases "x \<noteq> ''''") (simp_all only: if_True if_False simp_thms emits_id_fields emits_str1)

lemma emits_def_num:
  "t = 8 * n \<Longrightarrow> t < 2 ^ 32 \<Longrightarrow> is_uint 64 x \<Longrightarrow>
   emits stk (if x \<noteq> Fin 0 then steps [w_uint32 W t, w_uint64 W x] else Inr) (ser (def_num n x))"
  unfolding def_num_def
  by (cases "x \<noteq> Fin 0")
    (simp_all only: if_True if_False simp_thms emits_id_fields ser_single emits_uint64_field)

lemma emits_def_bytes:
  "t = 8 * n + 2 \<Longrightarrow> t < 2 ^ 32 \<Longrightarrow> length (ser (def_bytes n b)) < 2 ^ 32 \<Longrightarrow>
   emits stk (if length b \<noteq> 0 then steps [w_uint32 W t, w_bytes W b] else Inr) (ser (def_bytes n b))"
  unfolding def_bytes_def
  by (cases "length b \<noteq> 0") (simp_all only: if_True if_False simp_thms emits_id_fields emits_bytes1)

lemma emits_opt_msg:
  assumes "\<And>v. x = Some v \<Longrightarrow> length (ser (flds v)) < 2 ^ 32 \<Longrightarrow> emits stk (enc v) (ser (flds v))"
    and "t = 8 * n + 2" "t < 2 ^ 32" "length (ser (opt_msg n flds x)) < 2 ^ 32"
  shows "emits stk (case x of None \<Rightarrow> Inr | Some v \<Rightarrow> steps [w_uint32 W t, w_fork W, enc v, w_join W])
    (ser (opt_msg n flds x))"
  using assms(4) unfolding opt_msg_def
  by (cases x) (simp_all only: option.case emits_id_fields emits_msg1 [OF assms(1) assms(2,3)])

lemma length_concat_le: "x \<in> set xs \<Longrightarrow> length (f x) \<le> length (concat (map f xs))"
  by (induction xs) auto

lemma emits_map_fields:
  assumes "length (ser (map f vs)) < 2 ^ 32"
    and "\<And>v. v \<in> set vs \<Longrightarrow> length (ser [f v]) < 2 ^ 32 \<Longrightarrow> emits stk (g v) (ser [f v])"
  shows "emits stk (steps (map g vs)) (ser (map f vs))"
  unfolding ser_map
proof (rule emits_map)
  fix v assume v: "v \<in> set vs"
  have "length (ser_field (f v)) \<le> length (ser (map f vs))"
    unfolding ser_map by (rule length_concat_le [OF v])
  with assms(1) have "length (ser [f v]) < 2 ^ 32" by (simp only: ser_single le_less_trans)
  from assms(2) [OF v this] show "emits stk (g v) (ser_field (f v))" by (simp only: ser_single)
qed

lemma emits_rep_str:
  "t = 8 * n + 2 \<Longrightarrow> t < 2 ^ 32 \<Longrightarrow> length (ser (rep_str n ss)) < 2 ^ 32 \<Longrightarrow>
   emits stk (steps (map (\<lambda>v. steps [w_uint32 W t, w_string W v]) ss)) (ser (rep_str n ss))"
  unfolding rep_str_def by (rule emits_map_fields) (simp_all only: emits_str1)

lemma emits_rep_msg:
  assumes "\<And>v. v \<in> set vs \<Longrightarrow> length (ser (flds v)) < 2 ^ 32 \<Longrightarrow> emits stk (enc v) (ser (flds v))"
    and "t = 8 * n + 2" "t < 2 ^ 32" "length (ser (rep_msg n flds vs)) < 2 ^ 32"
  shows "emits stk (steps (map (\<lambda>v. steps [w_uint32 W t, w_fork W, enc v, w_join W]) vs))
    (ser (rep_msg n flds vs))"
  using assms(4) unfolding rep_msg_def
  by (rule emits_map_fields) (rule emits_msg1 [OF assms(1) assms(2,3)])

lemmas emits_kinds =
  emits_fields_Nil emits_fields_Cons emits_opt_str emits_def_str emits_def_num emits_def_bytes
  emits_rep_str emits_opt_msg emits_rep_msg

end

section \<open>Steps that always fail\<close>

definition fails :: "('w \<Rightarrow> 'w result) \<Rightarrow> bool" where
  "fails f \<longleftrightarrow> (\<forall>w. \<exists>e. f w = Inl e)"

lemma fails_steps: "f \<in> set fs \<Longrightarrow> fails f \<Longrightarrow> fails (steps fs)"
proof (induction fs)
  case (Cons g fs)
  show ?case
    unfolding fails_def
  proof
    fix w
    show "\<exists>e. steps (g # fs) w = Inl e"
    proof (cases "g w")
      case (Inr w')
      with Cons.prems(2) have "f \<noteq> g" by (metis fails_def sum.distinct(1))
      with Cons.prems have "fails (steps fs)" using Cons.IH by auto
      with Inr show ?thesis by (simp add: fails_def)
    qed simp
  qed
qed simp

lemma fails_hd: "fails f \<Longrightarrow> fails (steps (f # fs))"
  by (rule fails_steps [of f]) simp_all

lemma fails_tl: "fails (steps fs) \<Longrightarrow> fails (steps (f # fs))"
  by (auto simp: fails_def) (metis bindE_simps obj_sumE)

lemma fails_steps_opt:
  "\<not> pred_option P x \<Longrightarrow> (\<And>v. \<not> P v \<Longrightarrow> fails (enc v)) \<Longrightarrow>
   fails (case x of None \<Rightarrow> Inr | Some v \<Rightarrow> steps [f, g, enc v, h])"
  by (cases x) (auto intro: fails_steps)

lemma fails_steps_rep:
  assumes "\<not> list_all P vs" and "\<And>v. \<not> P v \<Longrightarrow> fails (enc v)"
  shows "fails (steps (map (\<lambda>v. steps [f, g, enc v, h]) vs))"
proof -
  obtain v where "v \<in> set vs" "\<not> P v" using assms(1) by (auto simp: list_all_iff)
  have "fails (steps [f, g, enc v, h])"
    by (rule fails_steps [of "enc v"]) (simp_all add: assms(2) \<open>\<not> P v\<close>)
  then show ?thesis
    by (rule fails_steps [rotated]) (use \<open>v \<in> set vs\<close> in simp)
qed

context wire_writer begin

lemma fails_uint64: "\<not> is_uint 64 x \<Longrightarrow>
  fails (if x \<noteq> Fin 0 then steps [w_uint32 W t, w_uint64 W x] else Inr)"
proof -
  assume x: "\<not> is_uint 64 x"
  then have "x \<noteq> Fin 0" using is_uint_of_n [of 64 0] by (auto simp: of_n_def)
  moreover have "fails (w_uint64 W x)" using uint64_invalid [OF x] by (simp add: fails_def)
  ultimately show ?thesis by (auto intro: fails_steps)
qed

end

section \<open>Well-formedness of what is emitted\<close>

lemma delim_size: "length (delim b) < k \<Longrightarrow> length b < k"
  using length_delim [of b] by linarith

lemma valid_concat_Nil: "list_all field_ok (concat [])"
  by simp

lemma valid_concat_Cons:
  "list_all field_ok A \<Longrightarrow> list_all field_ok (concat As) \<Longrightarrow> list_all field_ok (concat (A # As))"
  by simp

lemma valid_opt_str:
  "1 \<le> n \<Longrightarrow> n < 2 ^ 29 \<Longrightarrow> length (ser (opt_str n x)) < 2 ^ 32 \<Longrightarrow> list_all field_ok (opt_str n x)"
  by (auto simp: opt_str_def intro: delim_size split: option.splits)

lemma valid_def_str:
  "1 \<le> n \<Longrightarrow> n < 2 ^ 29 \<Longrightarrow> length (ser (def_str n x)) < 2 ^ 32 \<Longrightarrow> list_all field_ok (def_str n x)"
  by (auto simp: def_str_def intro: delim_size)

lemma valid_def_num:
  "1 \<le> n \<Longrightarrow> n < 2 ^ 29 \<Longrightarrow> is_uint 64 x \<Longrightarrow> list_all field_ok (def_num n x)"
  by (auto simp: def_num_def is_uint_def)

lemma valid_def_bytes:
  "1 \<le> n \<Longrightarrow> n < 2 ^ 29 \<Longrightarrow> length (ser (def_bytes n x)) < 2 ^ 32 \<Longrightarrow> list_all field_ok (def_bytes n x)"
  by (auto simp: def_bytes_def intro: delim_size)

lemma valid_map_fields:
  assumes "length (ser (map f vs)) < 2 ^ 32"
    and "\<And>v. v \<in> set vs \<Longrightarrow> length (ser [f v]) < 2 ^ 32 \<Longrightarrow> field_ok (f v)"
  shows "list_all field_ok (map f vs)"
  unfolding list_all_iff
proof
  fix g assume "g \<in> set (map f vs)"
  then obtain v where v: "v \<in> set vs" "g = f v" by auto
  have "length (ser [f v]) \<le> length (ser (map f vs))"
    using v(1) by (induction vs) auto
  with assms v show "field_ok g" by (simp only: le_less_trans)
qed

lemma valid_rep_str:
  "1 \<le> n \<Longrightarrow> n < 2 ^ 29 \<Longrightarrow> length (ser (rep_str n ss)) < 2 ^ 32 \<Longrightarrow> list_all field_ok (rep_str n ss)"
  unfolding rep_str_def by (rule valid_map_fields) (auto intro: delim_size)

lemma valid_msg:
  assumes "length (ser fs) < 2 ^ 32 \<Longrightarrow> list_all field_ok fs"
    and "1 \<le> n" "n < 2 ^ 29" "length (ser [F n (Msg fs)]) < 2 ^ 32"
  shows "field_ok (F n (Msg fs))"
proof -
  have "length (ser fs) < 2 ^ 32" by (rule delim_size) (use assms(4) in simp)
  with assms show ?thesis by simp
qed

lemma valid_opt_msg:
  assumes "\<And>v. x = Some v \<Longrightarrow> length (ser (flds v)) < 2 ^ 32 \<Longrightarrow> list_all field_ok (flds v)"
    and "1 \<le> n" "n < 2 ^ 29" "length (ser (opt_msg n flds x)) < 2 ^ 32"
  shows "list_all field_ok (opt_msg n flds x)"
  using assms(4) valid_msg [OF assms(1) assms(2,3)]
  by (cases x) (simp_all only: opt_msg_def option.case list.pred_inject simp_thms)

lemma valid_rep_msg:
  assumes "\<And>v. v \<in> set vs \<Longrightarrow> length (ser (flds v)) < 2 ^ 32 \<Longrightarrow> list_all field_ok (flds v)"
    and "1 \<le> n" "n < 2 ^ 29" "length (ser (rep_msg n flds vs)) < 2 ^ 32"
  shows "list_all field_ok (rep_msg n flds vs)"
  using assms(4) unfolding rep_msg_def
  by (rule valid_map_fields) (rule valid_msg [OF assms(1) assms(2,3)])

lemmas valid_kinds =
  valid_concat_Nil valid_concat_Cons valid_opt_str valid_def_str valid_def_num valid_def_bytes
  valid_rep_str valid_opt_msg valid_rep_msg

section \<open>The contract\<close>

locale message_codec = wire W stk R buf
  for W :: "'w writer_ops" and stk and R :: "'r reader_ops" and buf +
  fixes enc :: "'m \<Rightarrow> 'w \<Rightarrow> 'w result"
    and dec :: "'r input \<Rightarrow> nat option \<Rightarrow> ('m \<times> 'r) result option"
    and flds :: "'m \<Rightarrow> wfield list"
    and accepts :: "wfield \<Rightarrow> bool"
    and merge :: "wfield \<Rightarrow> 'm \<Rightarrow> 'm"
    and base :: 'm
    and wf :: "'m \<Rightarrow> bool"
  assumes enc_emits: "wf m \<Longrightarrow> length (ser (flds m)) < 2 ^ 32 \<Longrightarrow> emits stk (enc m) (ser (flds m))"
    and dec_decodes: "decodes R buf dec accepts (sem_fields merge base)"
    and flds_valid: "wf m \<Longrightarrow> length (ser (flds m)) < 2 ^ 32 \<Longrightarrow> list_all field_ok (flds m)"
    and flds_accepted: "wf m \<Longrightarrow> list_all accepts (flds m)"
    and flds_sem: "wf m \<Longrightarrow> sem_fields merge base (flds m) = m"
begin

lemma encodes:
  "wf m \<Longrightarrow> length (ser (flds m)) < 2 ^ 32 \<Longrightarrow>
   \<exists>w. enc m (w_new W) = Inr w \<and> w_finish W w = ser (flds m)"
  by (rule emits_finish [OF enc_emits])

lemma decode_fields:
  "list_all field_ok fs \<Longrightarrow> list_all accepts fs \<Longrightarrow>
   \<exists>r. dec (IBytes (ser fs)) None = Some (Inr (fold merge fs base, r))"
  using dec_decodes unfolding decodes_def sem_fields_def by blast

theorem roundtrip:
  assumes "wf m" "length (ser (flds m)) < 2 ^ 32"
  shows "\<exists>w r. enc m (w_new W) = Inr w \<and> dec (IBytes (w_finish W w)) None = Some (Inr (m, r))"
proof -
  obtain w where "enc m (w_new W) = Inr w" "w_finish W w = ser (flds m)"
    using encodes [OF assms] by blast
  then show ?thesis
    using decode_fields [OF flds_valid [OF assms] flds_accepted [OF assms(1)]] flds_sem [OF assms(1)]
    by (auto simp: sem_fields_def)
qed

text \<open>A message embedded in a larger input is read to its end and no further.\<close>

theorem embedded:
  assumes "wf m" "length (ser (flds m)) < 2 ^ 32" "rest R buf r = ser (flds m) @ ys"
  shows "\<exists>r'. dec (IReader r) (Some (length (ser (flds m)))) = Some (Inr (m, r'))
    \<and> rest R buf r' = ys"
proof -
  have "\<exists>r'. dec (IReader r) (Some (length (ser (flds m)))) =
      Some (Inr (sem_fields merge base (flds m), r')) \<and> adv R buf r (length (ser (flds m))) r'"
    using dec_decodes flds_valid [OF assms(1,2)] flds_accepted [OF assms(1)] assms(3)
    unfolding decodes_def by blast
  then show ?thesis
    unfolding flds_sem [OF assms(1)] using adv_rest [OF _ assms(3)] by blast
qed

theorem injective:
  assumes "wf m" "length (ser (flds m)) < 2 ^ 32" "wf m'" "length (ser (flds m')) < 2 ^ 32"
    and "enc m (w_new W) = Inr w" "enc m' (w_new W) = Inr w'" "w_finish W w = w_finish W w'"
  shows "m = m'"
proof -
  obtain r r' where "dec (IBytes (w_finish W w)) None = Some (Inr (m, r))"
    and "dec (IBytes (w_finish W w')) None = Some (Inr (m', r'))"
    using roundtrip [OF assms(1,2)] roundtrip [OF assms(3,4)] assms(5,6) by auto
  then show ?thesis using assms(7) by simp
qed

text \<open>Fields the message does not know, anywhere among its own, do not change the result.\<close>

lemma fold_merge_filter:
  "\<forall>f \<in> set fs. \<not> p f \<longrightarrow> (\<forall>m. merge f m = m) \<Longrightarrow> fold merge fs m = fold merge (filter p fs) m"
  by (induction fs arbitrary: m) auto

theorem unknown_fields:
  assumes "wf m" "list_all field_ok fs" "filter p fs = flds m"
    and unknown: "\<And>f. f \<in> set fs \<Longrightarrow> \<not> p f \<Longrightarrow> accepts f \<and> (\<forall>m. merge f m = m)"
  shows "\<exists>r. dec (IBytes (ser fs)) None = Some (Inr (m, r))"
proof -
  have "accepts f" if "f \<in> set fs" for f
  proof (cases "p f")
    case True
    with that have "f \<in> set (filter p fs)" by simp
    then have "f \<in> set (flds m)" by (simp only: assms(3))
    with flds_accepted [OF assms(1)] show ?thesis by (simp add: list_all_iff)
  qed (use unknown that in blast)
  then have "list_all accepts fs" by (simp add: list_all_iff)
  moreover have "fold merge fs base = m"
    using fold_merge_filter [of fs p base] unknown assms(3) flds_sem [OF assms(1)]
    by (simp add: sem_fields_def)
  ultimately show ?thesis using decode_fields [OF assms(2)] by auto
qed

text \<open>Concatenated encodings decode to the first message with the second merged into it.\<close>

theorem concatenation:
  assumes "wf m" "length (ser (flds m)) < 2 ^ 32" "wf m'" "length (ser (flds m')) < 2 ^ 32"
  shows "\<exists>r. dec (IBytes (ser (flds m) @ ser (flds m'))) None =
    Some (Inr (fold merge (flds m') m, r))"
  using decode_fields [of "flds m @ flds m'"] flds_valid flds_accepted flds_sem [OF assms(1)] assms
  by (simp add: sem_fields_def)

end

end
