(* ===== verification/PubsubFields.thy ===== *)
theory PubsubFields
  imports MessageCodec
begin

text \<open>
  What each message of \<open>pubsub.proto\<close> is on the wire: the list of its fields, by the numbers
  of the \<open>.proto\<close> file, and the proofs that \<open>encode\<close> emits exactly these fields. The fields
  of a message are defined when its integers fit 64 bits (\<open>enc_ok\<close>); \<open>encode\<close> fails on
  every other message.
\<close>

section \<open>Fields of the messages\<close>

definition JoinPublisher_fields :: "JoinPublisher \<Rightarrow> wfield list" where
  "JoinPublisher_fields message =
     concat []"

definition JoinPublisher_Request_fields :: "JoinPublisher_Request \<Rightarrow> wfield list" where
  "JoinPublisher_Request_fields message =
     concat [opt_str 1 (JoinPublisher_Request.linkIdOverride message)]"

definition JoinPublisher_Response_fields :: "JoinPublisher_Response \<Rightarrow> wfield list" where
  "JoinPublisher_Response_fields message =
     concat [opt_str 1000 (JoinPublisher_Response.error message),
      def_str 1 (JoinPublisher_Response.websocketUrl message)]"

definition JoinSubscriber_fields :: "JoinSubscriber \<Rightarrow> wfield list" where
  "JoinSubscriber_fields message =
     concat []"

definition JoinSubscriber_Request_fields :: "JoinSubscriber_Request \<Rightarrow> wfield list" where
  "JoinSubscriber_Request_fields message =
     concat [opt_str 1 (JoinSubscriber_Request.namespaceId message)]"

definition JoinSubscriber_Response_fields :: "JoinSubscriber_Response \<Rightarrow> wfield list" where
  "JoinSubscriber_Response_fields message =
     concat [opt_str 1000 (JoinSubscriber_Response.error message),
      def_str 1 (JoinSubscriber_Response.websocketUrl message)]"

definition PublishEvents_fields :: "PublishEvents \<Rightarrow> wfield list" where
  "PublishEvents_fields message =
     concat []"

definition Event_V1_TagsEntry_fields :: "Event_V1_TagsEntry \<Rightarrow> wfield list" where
  "Event_V1_TagsEntry_fields message =
     concat [def_str 1 (Event_V1_TagsEntry.key message),
      def_str 2 (Event_V1_TagsEntry.value message)]"

definition Event_Log_fields :: "Event_Log \<Rightarrow> wfield list" where
  "Event_Log_fields message =
     concat [rep_str 1 (Event_Log.lines message),
      def_num 2 (Event_Log.index message)]"

definition Event_V1_fields :: "Event_V1 \<Rightarrow> wfield list" where
  "Event_V1_fields message =
     concat [rep_msg 1 (\<lambda>p. Event_V1_TagsEntry_fields \<lparr>Event_V1_TagsEntry.key = fst p, Event_V1_TagsEntry.value = snd p\<rparr>)
        (Event_V1.tags message),
      def_bytes 2 (Event_V1.harEntryJson message),
      opt_msg 3 Event_Log_fields (Event_V1.log message)]"

definition Event_fields :: "Event \<Rightarrow> wfield list" where
  "Event_fields message =
     concat [opt_msg 1 Event_V1_fields (Event.concreteV1 message)]"

definition PublishEvents_Request_fields :: "PublishEvents_Request \<Rightarrow> wfield list" where
  "PublishEvents_Request_fields message =
     concat [rep_msg 1 Event_fields (PublishEvents_Request.events message)]"

definition PublishEvents_Response_fields :: "PublishEvents_Response \<Rightarrow> wfield list" where
  "PublishEvents_Response_fields message =
     concat [opt_str 1000 (PublishEvents_Response.error message)]"

definition SetSubscriberConfig_V1_Call_fields :: "SetSubscriberConfig_V1_Call \<Rightarrow> wfield list" where
  "SetSubscriberConfig_V1_Call_fields message =
     concat [def_num 1 (SetSubscriberConfig_V1_Call.revision message),
      rep_str 2 (SetSubscriberConfig_V1_Call.filters message)]"

definition SetSubscriberConfig_V1_Result_fields :: "SetSubscriberConfig_V1_Result \<Rightarrow> wfield list" where
  "SetSubscriberConfig_V1_Result_fields message =
     concat [def_num 1 (SetSubscriberConfig_V1_Result.revision message),
      opt_str 2 (SetSubscriberConfig_V1_Result.error message)]"

definition SetSubscriberConfig_V1_fields :: "SetSubscriberConfig_V1 \<Rightarrow> wfield list" where
  "SetSubscriberConfig_V1_fields message =
     concat [opt_msg 1 SetSubscriberConfig_V1_Call_fields (SetSubscriberConfig_V1.call message),
      opt_msg 2 SetSubscriberConfig_V1_Result_fields (SetSubscriberConfig_V1.result message)]"

definition SetSubscriberConfig_fields :: "SetSubscriberConfig \<Rightarrow> wfield list" where
  "SetSubscriberConfig_fields message =
     concat [opt_msg 1 SetSubscriberConfig_V1_fields (SetSubscriberConfig.concreteV1 message)]"

definition AnnounceStats_V1_fields :: "AnnounceStats_V1 \<Rightarrow> wfield list" where
  "AnnounceStats_V1_fields message =
     concat [def_num 1 (AnnounceStats_V1.numPublishers message),
      def_num 2 (AnnounceStats_V1.numSubscribers message)]"

definition AnnounceStats_fields :: "AnnounceStats \<Rightarrow> wfield list" where
  "AnnounceStats_fields message =
     concat [opt_msg 1 AnnounceStats_V1_fields (AnnounceStats.concreteV1 message)]"

definition Message_V1_fields :: "Message_V1 \<Rightarrow> wfield list" where
  "Message_V1_fields message =
     concat [opt_msg 1 Event_fields (Message_V1.event message),
      opt_msg 2 SetSubscriberConfig_fields (Message_V1.setSubscriberConfig message),
      opt_msg 3 AnnounceStats_fields (Message_V1.announceStats message)]"

definition Message_fields :: "Message \<Rightarrow> wfield list" where
  "Message_fields message =
     concat [opt_msg 1 Message_V1_fields (Message.concreteV1 message)]"

section \<open>Messages that can be encoded\<close>

definition Event_Log_enc_ok :: "Event_Log \<Rightarrow> bool" where
  "Event_Log_enc_ok message \<longleftrightarrow>
     is_uint 64 (Event_Log.index message)"

definition Event_V1_enc_ok :: "Event_V1 \<Rightarrow> bool" where
  "Event_V1_enc_ok message \<longleftrightarrow>
     pred_option Event_Log_enc_ok (Event_V1.log message)"

definition Event_enc_ok :: "Event \<Rightarrow> bool" where
  "Event_enc_ok message \<longleftrightarrow>
     pred_option Event_V1_enc_ok (Event.concreteV1 message)"

definition PublishEvents_Request_enc_ok :: "PublishEvents_Request \<Rightarrow> bool" where
  "PublishEvents_Request_enc_ok message \<longleftrightarrow>
     list_all Event_enc_ok (PublishEvents_Request.events message)"

definition SetSubscriberConfig_V1_Call_enc_ok :: "SetSubscriberConfig_V1_Call \<Rightarrow> bool" where
  "SetSubscriberConfig_V1_Call_enc_ok message \<longleftrightarrow>
     is_uint 64 (SetSubscriberConfig_V1_Call.revision message)"

definition SetSubscriberConfig_V1_Result_enc_ok :: "SetSubscriberConfig_V1_Result \<Rightarrow> bool" where
  "SetSubscriberConfig_V1_Result_enc_ok message \<longleftrightarrow>
     is_uint 64 (SetSubscriberConfig_V1_Result.revision message)"

definition SetSubscriberConfig_V1_enc_ok :: "SetSubscriberConfig_V1 \<Rightarrow> bool" where
  "SetSubscriberConfig_V1_enc_ok message \<longleftrightarrow>
     pred_option SetSubscriberConfig_V1_Call_enc_ok (SetSubscriberConfig_V1.call message) \<and>
     pred_option SetSubscriberConfig_V1_Result_enc_ok (SetSubscriberConfig_V1.result message)"

definition SetSubscriberConfig_enc_ok :: "SetSubscriberConfig \<Rightarrow> bool" where
  "SetSubscriberConfig_enc_ok message \<longleftrightarrow>
     pred_option SetSubscriberConfig_V1_enc_ok (SetSubscriberConfig.concreteV1 message)"

definition AnnounceStats_V1_enc_ok :: "AnnounceStats_V1 \<Rightarrow> bool" where
  "AnnounceStats_V1_enc_ok message \<longleftrightarrow>
     is_uint 64 (AnnounceStats_V1.numPublishers message) \<and>
     is_uint 64 (AnnounceStats_V1.numSubscribers message)"

definition AnnounceStats_enc_ok :: "AnnounceStats \<Rightarrow> bool" where
  "AnnounceStats_enc_ok message \<longleftrightarrow>
     pred_option AnnounceStats_V1_enc_ok (AnnounceStats.concreteV1 message)"

definition Message_V1_enc_ok :: "Message_V1 \<Rightarrow> bool" where
  "Message_V1_enc_ok message \<longleftrightarrow>
     pred_option Event_enc_ok (Message_V1.event message) \<and>
     pred_option SetSubscriberConfig_enc_ok (Message_V1.setSubscriberConfig message) \<and>
     pred_option AnnounceStats_enc_ok (Message_V1.announceStats message)"

definition Message_enc_ok :: "Message \<Rightarrow> bool" where
  "Message_enc_ok message \<longleftrightarrow>
     pred_option Message_V1_enc_ok (Message.concreteV1 message)"

lemmas fields_defs =
  JoinPublisher_fields_def
  JoinPublisher_Request_fields_def
  JoinPublisher_Response_fields_def
  JoinSubscriber_fields_def
  JoinSubscriber_Request_fields_def
  JoinSubscriber_Response_fields_def
  PublishEvents_fields_def
  Event_V1_TagsEntry_fields_def
  Event_Log_fields_def
  Event_V1_fields_def
  Event_fields_def
  PublishEvents_Request_fields_def
  PublishEvents_Response_fields_def
  SetSubscriberConfig_V1_Call_fields_def
  SetSubscriberConfig_V1_Result_fields_def
  SetSubscriberConfig_V1_fields_def
  SetSubscriberConfig_fields_def
  AnnounceStats_V1_fields_def
  AnnounceStats_fields_def
  Message_V1_fields_def
  Message_fields_def

lemmas enc_ok_defs =
  Event_Log_enc_ok_def
  Event_V1_enc_ok_def
  Event_enc_ok_def
  PublishEvents_Request_enc_ok_def
  SetSubscriberConfig_V1_Call_enc_ok_def
  SetSubscriberConfig_V1_Result_enc_ok_def
  SetSubscriberConfig_V1_enc_ok_def
  SetSubscriberConfig_enc_ok_def
  AnnounceStats_V1_enc_ok_def
  AnnounceStats_enc_ok_def
  Message_V1_enc_ok_def
  Message_enc_ok_def

section \<open>encode emits the fields\<close>

context wire_writer begin

lemma JoinPublisher_emits: "length (ser (JoinPublisher_fields message)) < 2 ^ 32 \<Longrightarrow>
   emits stk (JoinPublisher_encode W message) (ser (JoinPublisher_fields message))"
  unfolding JoinPublisher_encode_def JoinPublisher_fields_def
  by (intro emits_kinds;
      auto)

lemma JoinPublisher_Request_emits: "length (ser (JoinPublisher_Request_fields message)) < 2 ^ 32 \<Longrightarrow>
   emits stk (JoinPublisher_Request_encode W message) (ser (JoinPublisher_Request_fields message))"
  unfolding JoinPublisher_Request_encode_def JoinPublisher_Request_fields_def
  by (intro emits_kinds;
      auto)

lemma JoinPublisher_Response_emits: "length (ser (JoinPublisher_Response_fields message)) < 2 ^ 32 \<Longrightarrow>
   emits stk (JoinPublisher_Response_encode W message) (ser (JoinPublisher_Response_fields message))"
  unfolding JoinPublisher_Response_encode_def JoinPublisher_Response_fields_def
  by (intro emits_kinds;
      auto)

lemma JoinSubscriber_emits: "length (ser (JoinSubscriber_fields message)) < 2 ^ 32 \<Longrightarrow>
   emits stk (JoinSubscriber_encode W message) (ser (JoinSubscriber_fields message))"
  unfolding JoinSubscriber_encode_def JoinSubscriber_fields_def
  by (intro emits_kinds;
      auto)

lemma JoinSubscriber_Request_emits: "length (ser (JoinSubscriber_Request_fields message)) < 2 ^ 32 \<Longrightarrow>
   emits stk (JoinSubscriber_Request_encode W message) (ser (JoinSubscriber_Request_fields message))"
  unfolding JoinSubscriber_Request_encode_def JoinSubscriber_Request_fields_def
  by (intro emits_kinds;
      auto)

lemma JoinSubscriber_Response_emits: "length (ser (JoinSubscriber_Response_fields message)) < 2 ^ 32 \<Longrightarrow>
   emits stk (JoinSubscriber_Response_encode W message) (ser (JoinSubscriber_Response_fields message))"
  unfolding JoinSubscriber_Response_encode_def JoinSubscriber_Response_fields_def
  by (intro emits_kinds;
      auto)

lemma PublishEvents_emits: "length (ser (PublishEvents_fields message)) < 2 ^ 32 \<Longrightarrow>
   emits stk (PublishEvents_encode W message) (ser (PublishEvents_fields message))"
  unfolding PublishEvents_encode_def PublishEvents_fields_def
  by (intro emits_kinds;
      auto)

lemma Event_V1_TagsEntry_emits: "length (ser (Event_V1_TagsEntry_fields message)) < 2 ^ 32 \<Longrightarrow>
   emits stk (Event_V1_TagsEntry_encode W message) (ser (Event_V1_TagsEntry_fields message))"
  unfolding Event_V1_TagsEntry_encode_def Event_V1_TagsEntry_fields_def
  by (intro emits_kinds;
      auto)

lemma Event_Log_emits: "Event_Log_enc_ok message \<Longrightarrow> length (ser (Event_Log_fields message)) < 2 ^ 32 \<Longrightarrow>
   emits stk (Event_Log_encode W message) (ser (Event_Log_fields message))"
  unfolding Event_Log_encode_def Event_Log_fields_def
  by (intro emits_kinds;
      auto simp: Event_Log_enc_ok_def pred_option_def list_all_iff)

lemma Event_V1_emits: "Event_V1_enc_ok message \<Longrightarrow> length (ser (Event_V1_fields message)) < 2 ^ 32 \<Longrightarrow>
   emits stk (Event_V1_encode W message) (ser (Event_V1_fields message))"
  unfolding Event_V1_encode_def Event_V1_fields_def case_prod_unfold
  by (intro emits_kinds Event_V1_TagsEntry_emits Event_Log_emits;
      auto simp: Event_V1_enc_ok_def pred_option_def list_all_iff)

lemma Event_emits: "Event_enc_ok message \<Longrightarrow> length (ser (Event_fields message)) < 2 ^ 32 \<Longrightarrow>
   emits stk (Event_encode W message) (ser (Event_fields message))"
  unfolding Event_encode_def Event_fields_def
  by (intro emits_kinds Event_V1_emits;
      auto simp: Event_enc_ok_def pred_option_def list_all_iff)

lemma PublishEvents_Request_emits: "PublishEvents_Request_enc_ok message \<Longrightarrow> length (ser (PublishEvents_Request_fields message)) < 2 ^ 32 \<Longrightarrow>
   emits stk (PublishEvents_Request_encode W message) (ser (PublishEvents_Request_fields message))"
  unfolding PublishEvents_Request_encode_def PublishEvents_Request_fields_def
  by (intro emits_kinds Event_emits;
      auto simp: PublishEvents_Request_enc_ok_def pred_option_def list_all_iff)

lemma PublishEvents_Response_emits: "length (ser (PublishEvents_Response_fields message)) < 2 ^ 32 \<Longrightarrow>
   emits stk (PublishEvents_Response_encode W message) (ser (PublishEvents_Response_fields message))"
  unfolding PublishEvents_Response_encode_def PublishEvents_Response_fields_def
  by (intro emits_kinds;
      auto)

lemma SetSubscriberConfig_V1_Call_emits: "SetSubscriberConfig_V1_Call_enc_ok message \<Longrightarrow> length (ser (SetSubscriberConfig_V1_Call_fields message)) < 2 ^ 32 \<Longrightarrow>
   emits stk (SetSubscriberConfig_V1_Call_encode W message) (ser (SetSubscriberConfig_V1_Call_fields message))"
  unfolding SetSubscriberConfig_V1_Call_encode_def SetSubscriberConfig_V1_Call_fields_def
  by (intro emits_kinds;
      auto simp: SetSubscriberConfig_V1_Call_enc_ok_def pred_option_def list_all_iff)

lemma SetSubscriberConfig_V1_Result_emits: "SetSubscriberConfig_V1_Result_enc_ok message \<Longrightarrow> length (ser (SetSubscriberConfig_V1_Result_fields message)) < 2 ^ 32 \<Longrightarrow>
   emits stk (SetSubscriberConfig_V1_Result_encode W message) (ser (SetSubscriberConfig_V1_Result_fields message))"
  unfolding SetSubscriberConfig_V1_Result_encode_def SetSubscriberConfig_V1_Result_fields_def
  by (intro emits_kinds;
      auto simp: SetSubscriberConfig_V1_Result_enc_ok_def pred_option_def list_all_iff)

lemma SetSubscriberConfig_V1_emits: "SetSubscriberConfig_V1_enc_ok message \<Longrightarrow> length (ser (SetSubscriberConfig_V1_fields message)) < 2 ^ 32 \<Longrightarrow>
   emits stk (SetSubscriberConfig_V1_encode W message) (ser (SetSubscriberConfig_V1_fields message))"
  unfolding SetSubscriberConfig_V1_encode_def SetSubscriberConfig_V1_fields_def
  by (intro emits_kinds SetSubscriberConfig_V1_Call_emits SetSubscriberConfig_V1_Result_emits;
      auto simp: SetSubscriberConfig_V1_enc_ok_def pred_option_def list_all_iff)

lemma SetSubscriberConfig_emits: "SetSubscriberConfig_enc_ok message \<Longrightarrow> length (ser (SetSubscriberConfig_fields message)) < 2 ^ 32 \<Longrightarrow>
   emits stk (SetSubscriberConfig_encode W message) (ser (SetSubscriberConfig_fields message))"
  unfolding SetSubscriberConfig_encode_def SetSubscriberConfig_fields_def
  by (intro emits_kinds SetSubscriberConfig_V1_emits;
      auto simp: SetSubscriberConfig_enc_ok_def pred_option_def list_all_iff)

lemma AnnounceStats_V1_emits: "AnnounceStats_V1_enc_ok message \<Longrightarrow> length (ser (AnnounceStats_V1_fields message)) < 2 ^ 32 \<Longrightarrow>
   emits stk (AnnounceStats_V1_encode W message) (ser (AnnounceStats_V1_fields message))"
  unfolding AnnounceStats_V1_encode_def AnnounceStats_V1_fields_def
  by (intro emits_kinds;
      auto simp: AnnounceStats_V1_enc_ok_def pred_option_def list_all_iff)

lemma AnnounceStats_emits: "AnnounceStats_enc_ok message \<Longrightarrow> length (ser (AnnounceStats_fields message)) < 2 ^ 32 \<Longrightarrow>
   emits stk (AnnounceStats_encode W message) (ser (AnnounceStats_fields message))"
  unfolding AnnounceStats_encode_def AnnounceStats_fields_def
  by (intro emits_kinds AnnounceStats_V1_emits;
      auto simp: AnnounceStats_enc_ok_def pred_option_def list_all_iff)

lemma Message_V1_emits: "Message_V1_enc_ok message \<Longrightarrow> length (ser (Message_V1_fields message)) < 2 ^ 32 \<Longrightarrow>
   emits stk (Message_V1_encode W message) (ser (Message_V1_fields message))"
  unfolding Message_V1_encode_def Message_V1_fields_def
  by (intro emits_kinds Event_emits SetSubscriberConfig_emits AnnounceStats_emits;
      auto simp: Message_V1_enc_ok_def pred_option_def list_all_iff)

lemma Message_emits: "Message_enc_ok message \<Longrightarrow> length (ser (Message_fields message)) < 2 ^ 32 \<Longrightarrow>
   emits stk (Message_encode W message) (ser (Message_fields message))"
  unfolding Message_encode_def Message_fields_def
  by (intro emits_kinds Message_V1_emits;
      auto simp: Message_enc_ok_def pred_option_def list_all_iff)

lemma Event_Log_fails: "\<not> Event_Log_enc_ok message \<Longrightarrow> fails (Event_Log_encode W message)"
  unfolding Event_Log_encode_def Event_Log_enc_ok_def de_Morgan_conj
  by (rule fails_tl, rule fails_hd, erule fails_uint64)

lemma Event_V1_fails: "\<not> Event_V1_enc_ok message \<Longrightarrow> fails (Event_V1_encode W message)"
  unfolding Event_V1_encode_def Event_V1_enc_ok_def de_Morgan_conj
  by (rule fails_tl, rule fails_tl, rule fails_hd, erule fails_steps_opt [OF _ Event_Log_fails], assumption)

lemma Event_fails: "\<not> Event_enc_ok message \<Longrightarrow> fails (Event_encode W message)"
  unfolding Event_encode_def Event_enc_ok_def de_Morgan_conj
  by (rule fails_hd, erule fails_steps_opt [OF _ Event_V1_fails], assumption)

lemma PublishEvents_Request_fails: "\<not> PublishEvents_Request_enc_ok message \<Longrightarrow> fails (PublishEvents_Request_encode W message)"
  unfolding PublishEvents_Request_encode_def PublishEvents_Request_enc_ok_def de_Morgan_conj
  by (rule fails_hd, erule fails_steps_rep [OF _ Event_fails], assumption)

lemma SetSubscriberConfig_V1_Call_fails: "\<not> SetSubscriberConfig_V1_Call_enc_ok message \<Longrightarrow> fails (SetSubscriberConfig_V1_Call_encode W message)"
  unfolding SetSubscriberConfig_V1_Call_encode_def SetSubscriberConfig_V1_Call_enc_ok_def de_Morgan_conj
  by (rule fails_hd, erule fails_uint64)

lemma SetSubscriberConfig_V1_Result_fails: "\<not> SetSubscriberConfig_V1_Result_enc_ok message \<Longrightarrow> fails (SetSubscriberConfig_V1_Result_encode W message)"
  unfolding SetSubscriberConfig_V1_Result_encode_def SetSubscriberConfig_V1_Result_enc_ok_def de_Morgan_conj
  by (rule fails_hd, erule fails_uint64)

lemma SetSubscriberConfig_V1_fails: "\<not> SetSubscriberConfig_V1_enc_ok message \<Longrightarrow> fails (SetSubscriberConfig_V1_encode W message)"
  unfolding SetSubscriberConfig_V1_encode_def SetSubscriberConfig_V1_enc_ok_def de_Morgan_conj
  by (elim disjE, rule fails_hd, erule fails_steps_opt [OF _ SetSubscriberConfig_V1_Call_fails], assumption,
      rule fails_tl, rule fails_hd, erule fails_steps_opt [OF _ SetSubscriberConfig_V1_Result_fails], assumption)

lemma SetSubscriberConfig_fails: "\<not> SetSubscriberConfig_enc_ok message \<Longrightarrow> fails (SetSubscriberConfig_encode W message)"
  unfolding SetSubscriberConfig_encode_def SetSubscriberConfig_enc_ok_def de_Morgan_conj
  by (rule fails_hd, erule fails_steps_opt [OF _ SetSubscriberConfig_V1_fails], assumption)

lemma AnnounceStats_V1_fails: "\<not> AnnounceStats_V1_enc_ok message \<Longrightarrow> fails (AnnounceStats_V1_encode W message)"
  unfolding AnnounceStats_V1_encode_def AnnounceStats_V1_enc_ok_def de_Morgan_conj
  by (elim disjE, rule fails_hd, erule fails_uint64,
      rule fails_tl, rule fails_hd, erule fails_uint64)

lemma AnnounceStats_fails: "\<not> AnnounceStats_enc_ok message \<Longrightarrow> fails (AnnounceStats_encode W message)"
  unfolding AnnounceStats_encode_def AnnounceStats_enc_ok_def de_Morgan_conj
  by (rule fails_hd, erule fails_steps_opt [OF _ AnnounceStats_V1_fails], assumption)

lemma Message_V1_fails: "\<not> Message_V1_enc_ok message \<Longrightarrow> fails (Message_V1_encode W message)"
  unfolding Message_V1_encode_def Message_V1_enc_ok_def de_Morgan_conj
  by (elim disjE, rule fails_hd, erule fails_steps_opt [OF _ Event_fails], assumption,
      rule fails_tl, rule fails_hd, erule fails_steps_opt [OF _ SetSubscriberConfig_fails], assumption,
      rule fails_tl, rule fails_tl, rule fails_hd, erule fails_steps_opt [OF _ AnnounceStats_fails], assumption)

lemma Message_fails: "\<not> Message_enc_ok message \<Longrightarrow> fails (Message_encode W message)"
  unfolding Message_encode_def Message_enc_ok_def de_Morgan_conj
  by (rule fails_hd, erule fails_steps_opt [OF _ Message_V1_fails], assumption)

end

end
