(* ===== verification/PubsubMerge.thy ===== *)
theory PubsubMerge
  imports PubsubFields
begin

text \<open>
  What \<open>decode\<close> does with the fields of a message: \<open>merge\<close> puts one field into a message
  (a field of another number or another wire type is ignored), and \<open>accepts\<close> is the
  condition under which a field can be read at all: a string field holds UTF-8, an integer
  is within the safe range, an embedded message holds acceptable fields.
\<close>

section \<open>Merging one field\<close>

definition JoinPublisher_merge :: "wfield \<Rightarrow> JoinPublisher \<Rightarrow> JoinPublisher" where
  "JoinPublisher_merge f message = (case f of F n v \<Rightarrow>
     message)"

definition JoinPublisher_accepts :: "wfield \<Rightarrow> bool" where
  "JoinPublisher_accepts f = (case f of F n v \<Rightarrow>
     True)"

definition JoinPublisher_Request_merge :: "wfield \<Rightarrow> JoinPublisher_Request \<Rightarrow> JoinPublisher_Request" where
  "JoinPublisher_Request_merge f message = (case f of F n v \<Rightarrow>
     if n = 1 then (case v of Str s \<Rightarrow> message\<lparr>JoinPublisher_Request.linkIdOverride := Some s\<rparr> | _ \<Rightarrow> message)
     else message)"

definition JoinPublisher_Request_accepts :: "wfield \<Rightarrow> bool" where
  "JoinPublisher_Request_accepts f = (case f of F n v \<Rightarrow>
     if n = 1 then str_val v
     else True)"

definition JoinPublisher_Response_merge :: "wfield \<Rightarrow> JoinPublisher_Response \<Rightarrow> JoinPublisher_Response" where
  "JoinPublisher_Response_merge f message = (case f of F n v \<Rightarrow>
     if n = 1000 then (case v of Str s \<Rightarrow> message\<lparr>JoinPublisher_Response.error := Some s\<rparr> | _ \<Rightarrow> message)
     else if n = 1 then (case v of Str s \<Rightarrow> message\<lparr>JoinPublisher_Response.websocketUrl := s\<rparr> | _ \<Rightarrow> message)
     else message)"

definition JoinPublisher_Response_accepts :: "wfield \<Rightarrow> bool" where
  "JoinPublisher_Response_accepts f = (case f of F n v \<Rightarrow>
     if n = 1000 then str_val v
     else if n = 1 then str_val v
     else True)"

definition JoinSubscriber_merge :: "wfield \<Rightarrow> JoinSubscriber \<Rightarrow> JoinSubscriber" where
  "JoinSubscriber_merge f message = (case f of F n v \<Rightarrow>
     message)"

definition JoinSubscriber_accepts :: "wfield \<Rightarrow> bool" where
  "JoinSubscriber_accepts f = (case f of F n v \<Rightarrow>
     True)"

definition JoinSubscriber_Request_merge :: "wfield \<Rightarrow> JoinSubscriber_Request \<Rightarrow> JoinSubscriber_Request" where
  "JoinSubscriber_Request_merge f message = (case f of F n v \<Rightarrow>
     if n = 1 then (case v of Str s \<Rightarrow> message\<lparr>JoinSubscriber_Request.namespaceId := Some s\<rparr> | _ \<Rightarrow> message)
     else message)"

definition JoinSubscriber_Request_accepts :: "wfield \<Rightarrow> bool" where
  "JoinSubscriber_Request_accepts f = (case f of F n v \<Rightarrow>
     if n = 1 then str_val v
     else True)"

definition JoinSubscriber_Response_merge :: "wfield \<Rightarrow> JoinSubscriber_Response \<Rightarrow> JoinSubscriber_Response" where
  "JoinSubscriber_Response_merge f message = (case f of F n v \<Rightarrow>
     if n = 1000 then (case v of Str s \<Rightarrow> message\<lparr>JoinSubscriber_Response.error := Some s\<rparr> | _ \<Rightarrow> message)
     else if n = 1 then (case v of Str s \<Rightarrow> message\<lparr>JoinSubscriber_Response.websocketUrl := s\<rparr> | _ \<Rightarrow> message)
     else message)"

definition JoinSubscriber_Response_accepts :: "wfield \<Rightarrow> bool" where
  "JoinSubscriber_Response_accepts f = (case f of F n v \<Rightarrow>
     if n = 1000 then str_val v
     else if n = 1 then str_val v
     else True)"

definition PublishEvents_merge :: "wfield \<Rightarrow> PublishEvents \<Rightarrow> PublishEvents" where
  "PublishEvents_merge f message = (case f of F n v \<Rightarrow>
     message)"

definition PublishEvents_accepts :: "wfield \<Rightarrow> bool" where
  "PublishEvents_accepts f = (case f of F n v \<Rightarrow>
     True)"

definition Event_V1_TagsEntry_merge :: "wfield \<Rightarrow> Event_V1_TagsEntry \<Rightarrow> Event_V1_TagsEntry" where
  "Event_V1_TagsEntry_merge f message = (case f of F n v \<Rightarrow>
     if n = 1 then (case v of Str s \<Rightarrow> message\<lparr>Event_V1_TagsEntry.key := s\<rparr> | _ \<Rightarrow> message)
     else if n = 2 then (case v of Str s \<Rightarrow> message\<lparr>Event_V1_TagsEntry.value := s\<rparr> | _ \<Rightarrow> message)
     else message)"

definition Event_V1_TagsEntry_accepts :: "wfield \<Rightarrow> bool" where
  "Event_V1_TagsEntry_accepts f = (case f of F n v \<Rightarrow>
     if n = 1 then str_val v
     else if n = 2 then str_val v
     else True)"

definition Event_Log_merge :: "wfield \<Rightarrow> Event_Log \<Rightarrow> Event_Log" where
  "Event_Log_merge f message = (case f of F n v \<Rightarrow>
     if n = 1 then (case v of Str s \<Rightarrow> message\<lparr>Event_Log.lines := Event_Log.lines message @ [s]\<rparr> | _ \<Rightarrow> message)
     else if n = 2 then (case v of Varint x \<Rightarrow> message\<lparr>Event_Log.index := of_n x\<rparr> | _ \<Rightarrow> message)
     else message)"

definition Event_Log_accepts :: "wfield \<Rightarrow> bool" where
  "Event_Log_accepts f = (case f of F n v \<Rightarrow>
     if n = 1 then str_val v
     else if n = 2 then num_val v
     else True)"

definition Event_V1_merge :: "wfield \<Rightarrow> Event_V1 \<Rightarrow> Event_V1" where
  "Event_V1_merge f message = (case f of F n v \<Rightarrow>
     if n = 1 then (case v of
          Msg fs \<Rightarrow> (let entry1 = sem_fields Event_V1_TagsEntry_merge createBaseEvent_V1_TagsEntry fs in
          message\<lparr>Event_V1.tags := obj_set (Event_V1_TagsEntry.key entry1) (Event_V1_TagsEntry.value entry1) (Event_V1.tags message)\<rparr>)
        | _ \<Rightarrow> message)
     else if n = 2 then (case v of Len b \<Rightarrow> message\<lparr>Event_V1.harEntryJson := b\<rparr> | _ \<Rightarrow> message)
     else if n = 3 then (case v of
          Msg fs \<Rightarrow> message\<lparr>Event_V1.log := Some (sem_fields Event_Log_merge createBaseEvent_Log fs)\<rparr>
        | _ \<Rightarrow> message)
     else message)"

definition Event_V1_accepts :: "wfield \<Rightarrow> bool" where
  "Event_V1_accepts f = (case f of F n v \<Rightarrow>
     if n = 1 then msg_val Event_V1_TagsEntry_accepts v
     else if n = 2 then bytes_val v
     else if n = 3 then msg_val Event_Log_accepts v
     else True)"

definition Event_merge :: "wfield \<Rightarrow> Event \<Rightarrow> Event" where
  "Event_merge f message = (case f of F n v \<Rightarrow>
     if n = 1 then (case v of
          Msg fs \<Rightarrow> message\<lparr>Event.concreteV1 := Some (sem_fields Event_V1_merge createBaseEvent_V1 fs)\<rparr>
        | _ \<Rightarrow> message)
     else message)"

definition Event_accepts :: "wfield \<Rightarrow> bool" where
  "Event_accepts f = (case f of F n v \<Rightarrow>
     if n = 1 then msg_val Event_V1_accepts v
     else True)"

definition PublishEvents_Request_merge :: "wfield \<Rightarrow> PublishEvents_Request \<Rightarrow> PublishEvents_Request" where
  "PublishEvents_Request_merge f message = (case f of F n v \<Rightarrow>
     if n = 1 then (case v of
          Msg fs \<Rightarrow> message\<lparr>PublishEvents_Request.events := PublishEvents_Request.events message @ [sem_fields Event_merge createBaseEvent fs]\<rparr>
        | _ \<Rightarrow> message)
     else message)"

definition PublishEvents_Request_accepts :: "wfield \<Rightarrow> bool" where
  "PublishEvents_Request_accepts f = (case f of F n v \<Rightarrow>
     if n = 1 then msg_val Event_accepts v
     else True)"

definition PublishEvents_Response_merge :: "wfield \<Rightarrow> PublishEvents_Response \<Rightarrow> PublishEvents_Response" where
  "PublishEvents_Response_merge f message = (case f of F n v \<Rightarrow>
     if n = 1000 then (case v of Str s \<Rightarrow> message\<lparr>PublishEvents_Response.error := Some s\<rparr> | _ \<Rightarrow> message)
     else message)"

definition PublishEvents_Response_accepts :: "wfield \<Rightarrow> bool" where
  "PublishEvents_Response_accepts f = (case f of F n v \<Rightarrow>
     if n = 1000 then str_val v
     else True)"

definition SetSubscriberConfig_V1_Call_merge :: "wfield \<Rightarrow> SetSubscriberConfig_V1_Call \<Rightarrow> SetSubscriberConfig_V1_Call" where
  "SetSubscriberConfig_V1_Call_merge f message = (case f of F n v \<Rightarrow>
     if n = 1 then (case v of Varint x \<Rightarrow> message\<lparr>SetSubscriberConfig_V1_Call.revision := of_n x\<rparr> | _ \<Rightarrow> message)
     else if n = 2 then (case v of Str s \<Rightarrow> message\<lparr>SetSubscriberConfig_V1_Call.filters := SetSubscriberConfig_V1_Call.filters message @ [s]\<rparr> | _ \<Rightarrow> message)
     else message)"

definition SetSubscriberConfig_V1_Call_accepts :: "wfield \<Rightarrow> bool" where
  "SetSubscriberConfig_V1_Call_accepts f = (case f of F n v \<Rightarrow>
     if n = 1 then num_val v
     else if n = 2 then str_val v
     else True)"

definition SetSubscriberConfig_V1_Result_merge :: "wfield \<Rightarrow> SetSubscriberConfig_V1_Result \<Rightarrow> SetSubscriberConfig_V1_Result" where
  "SetSubscriberConfig_V1_Result_merge f message = (case f of F n v \<Rightarrow>
     if n = 1 then (case v of Varint x \<Rightarrow> message\<lparr>SetSubscriberConfig_V1_Result.revision := of_n x\<rparr> | _ \<Rightarrow> message)
     else if n = 2 then (case v of Str s \<Rightarrow> message\<lparr>SetSubscriberConfig_V1_Result.error := Some s\<rparr> | _ \<Rightarrow> message)
     else message)"

definition SetSubscriberConfig_V1_Result_accepts :: "wfield \<Rightarrow> bool" where
  "SetSubscriberConfig_V1_Result_accepts f = (case f of F n v \<Rightarrow>
     if n = 1 then num_val v
     else if n = 2 then str_val v
     else True)"

definition SetSubscriberConfig_V1_merge :: "wfield \<Rightarrow> SetSubscriberConfig_V1 \<Rightarrow> SetSubscriberConfig_V1" where
  "SetSubscriberConfig_V1_merge f message = (case f of F n v \<Rightarrow>
     if n = 1 then (case v of
          Msg fs \<Rightarrow> message\<lparr>SetSubscriberConfig_V1.call := Some (sem_fields SetSubscriberConfig_V1_Call_merge createBaseSetSubscriberConfig_V1_Call fs)\<rparr>
        | _ \<Rightarrow> message)
     else if n = 2 then (case v of
          Msg fs \<Rightarrow> message\<lparr>SetSubscriberConfig_V1.result := Some (sem_fields SetSubscriberConfig_V1_Result_merge createBaseSetSubscriberConfig_V1_Result fs)\<rparr>
        | _ \<Rightarrow> message)
     else message)"

definition SetSubscriberConfig_V1_accepts :: "wfield \<Rightarrow> bool" where
  "SetSubscriberConfig_V1_accepts f = (case f of F n v \<Rightarrow>
     if n = 1 then msg_val SetSubscriberConfig_V1_Call_accepts v
     else if n = 2 then msg_val SetSubscriberConfig_V1_Result_accepts v
     else True)"

definition SetSubscriberConfig_merge :: "wfield \<Rightarrow> SetSubscriberConfig \<Rightarrow> SetSubscriberConfig" where
  "SetSubscriberConfig_merge f message = (case f of F n v \<Rightarrow>
     if n = 1 then (case v of
          Msg fs \<Rightarrow> message\<lparr>SetSubscriberConfig.concreteV1 := Some (sem_fields SetSubscriberConfig_V1_merge createBaseSetSubscriberConfig_V1 fs)\<rparr>
        | _ \<Rightarrow> message)
     else message)"

definition SetSubscriberConfig_accepts :: "wfield \<Rightarrow> bool" where
  "SetSubscriberConfig_accepts f = (case f of F n v \<Rightarrow>
     if n = 1 then msg_val SetSubscriberConfig_V1_accepts v
     else True)"

definition AnnounceStats_V1_merge :: "wfield \<Rightarrow> AnnounceStats_V1 \<Rightarrow> AnnounceStats_V1" where
  "AnnounceStats_V1_merge f message = (case f of F n v \<Rightarrow>
     if n = 1 then (case v of Varint x \<Rightarrow> message\<lparr>AnnounceStats_V1.numPublishers := of_n x\<rparr> | _ \<Rightarrow> message)
     else if n = 2 then (case v of Varint x \<Rightarrow> message\<lparr>AnnounceStats_V1.numSubscribers := of_n x\<rparr> | _ \<Rightarrow> message)
     else message)"

definition AnnounceStats_V1_accepts :: "wfield \<Rightarrow> bool" where
  "AnnounceStats_V1_accepts f = (case f of F n v \<Rightarrow>
     if n = 1 then num_val v
     else if n = 2 then num_val v
     else True)"

definition AnnounceStats_merge :: "wfield \<Rightarrow> AnnounceStats \<Rightarrow> AnnounceStats" where
  "AnnounceStats_merge f message = (case f of F n v \<Rightarrow>
     if n = 1 then (case v of
          Msg fs \<Rightarrow> message\<lparr>AnnounceStats.concreteV1 := Some (sem_fields AnnounceStats_V1_merge createBaseAnnounceStats_V1 fs)\<rparr>
        | _ \<Rightarrow> message)
     else message)"

definition AnnounceStats_accepts :: "wfield \<Rightarrow> bool" where
  "AnnounceStats_accepts f = (case f of F n v \<Rightarrow>
     if n = 1 then msg_val AnnounceStats_V1_accepts v
     else True)"

definition Message_V1_merge :: "wfield \<Rightarrow> Message_V1 \<Rightarrow> Message_V1" where
  "Message_V1_merge f message = (case f of F n v \<Rightarrow>
     if n = 1 then (case v of
          Msg fs \<Rightarrow> message\<lparr>Message_V1.event := Some (sem_fields Event_merge createBaseEvent fs)\<rparr>
        | _ \<Rightarrow> message)
     else if n = 2 then (case v of
          Msg fs \<Rightarrow> message\<lparr>Message_V1.setSubscriberConfig := Some (sem_fields SetSubscriberConfig_merge createBaseSetSubscriberConfig fs)\<rparr>
        | _ \<Rightarrow> message)
     else if n = 3 then (case v of
          Msg fs \<Rightarrow> message\<lparr>Message_V1.announceStats := Some (sem_fields AnnounceStats_merge createBaseAnnounceStats fs)\<rparr>
        | _ \<Rightarrow> message)
     else message)"

definition Message_V1_accepts :: "wfield \<Rightarrow> bool" where
  "Message_V1_accepts f = (case f of F n v \<Rightarrow>
     if n = 1 then msg_val Event_accepts v
     else if n = 2 then msg_val SetSubscriberConfig_accepts v
     else if n = 3 then msg_val AnnounceStats_accepts v
     else True)"

definition Message_merge :: "wfield \<Rightarrow> Message \<Rightarrow> Message" where
  "Message_merge f message = (case f of F n v \<Rightarrow>
     if n = 1 then (case v of
          Msg fs \<Rightarrow> message\<lparr>Message.concreteV1 := Some (sem_fields Message_V1_merge createBaseMessage_V1 fs)\<rparr>
        | _ \<Rightarrow> message)
     else message)"

definition Message_accepts :: "wfield \<Rightarrow> bool" where
  "Message_accepts f = (case f of F n v \<Rightarrow>
     if n = 1 then msg_val Message_V1_accepts v
     else True)"

lemmas merge_defs =
  JoinPublisher_merge_def
  JoinPublisher_Request_merge_def
  JoinPublisher_Response_merge_def
  JoinSubscriber_merge_def
  JoinSubscriber_Request_merge_def
  JoinSubscriber_Response_merge_def
  PublishEvents_merge_def
  Event_V1_TagsEntry_merge_def
  Event_Log_merge_def
  Event_V1_merge_def
  Event_merge_def
  PublishEvents_Request_merge_def
  PublishEvents_Response_merge_def
  SetSubscriberConfig_V1_Call_merge_def
  SetSubscriberConfig_V1_Result_merge_def
  SetSubscriberConfig_V1_merge_def
  SetSubscriberConfig_merge_def
  AnnounceStats_V1_merge_def
  AnnounceStats_merge_def
  Message_V1_merge_def
  Message_merge_def

lemmas accepts_defs =
  JoinPublisher_accepts_def
  JoinPublisher_Request_accepts_def
  JoinPublisher_Response_accepts_def
  JoinSubscriber_accepts_def
  JoinSubscriber_Request_accepts_def
  JoinSubscriber_Response_accepts_def
  PublishEvents_accepts_def
  Event_V1_TagsEntry_accepts_def
  Event_Log_accepts_def
  Event_V1_accepts_def
  Event_accepts_def
  PublishEvents_Request_accepts_def
  PublishEvents_Response_accepts_def
  SetSubscriberConfig_V1_Call_accepts_def
  SetSubscriberConfig_V1_Result_accepts_def
  SetSubscriberConfig_V1_accepts_def
  SetSubscriberConfig_accepts_def
  AnnounceStats_V1_accepts_def
  AnnounceStats_accepts_def
  Message_V1_accepts_def
  Message_accepts_def

section \<open>The switches handle the fields\<close>

context wire_reader begin

lemmas read_cases = string_case bytes_case uint64_case

lemmas handles_simps = continues_Break no_case_simps longToNumber_of_n sem_fields_def

lemma JoinPublisher_handles: "handles R buf JoinPublisher_accepts JoinPublisher_merge (JoinPublisher_cases R)"
proof (rule handlesI)
  fix n v m r ys
  assume "field_ok (F n v)" "JoinPublisher_accepts (F n v)" "rest R buf r = ser_val v @ ys"
  then show "continues R buf (JoinPublisher_cases R (8 * n + wtype v) m r) r (length (ser_val v)) (JoinPublisher_merge (F n v) m) \<or>
    (JoinPublisher_cases R (8 * n + wtype v) m r = Some (Inr Break) \<and> JoinPublisher_merge (F n v) m = m)"
    by (cases v)
      (auto simp: JoinPublisher_cases_def JoinPublisher_accepts_def JoinPublisher_merge_def longToNumber_of_n Let_def
         intro!: read_cases split: if_splits)
qed

lemma JoinPublisher_decodes:
  "decodes R buf (JoinPublisher_decode R) JoinPublisher_accepts (sem_fields JoinPublisher_merge createBaseJoinPublisher)"
  unfolding JoinPublisher_decode_def by (rule decodes_message [OF JoinPublisher_handles])

lemma JoinPublisher_Request_handles: "handles R buf JoinPublisher_Request_accepts JoinPublisher_Request_merge (JoinPublisher_Request_cases R)"
proof (rule handlesI)
  fix n v m r ys
  assume "field_ok (F n v)" "JoinPublisher_Request_accepts (F n v)" "rest R buf r = ser_val v @ ys"
  then show "continues R buf (JoinPublisher_Request_cases R (8 * n + wtype v) m r) r (length (ser_val v)) (JoinPublisher_Request_merge (F n v) m) \<or>
    (JoinPublisher_Request_cases R (8 * n + wtype v) m r = Some (Inr Break) \<and> JoinPublisher_Request_merge (F n v) m = m)"
    by (cases v)
      (auto simp: JoinPublisher_Request_cases_def JoinPublisher_Request_accepts_def JoinPublisher_Request_merge_def longToNumber_of_n Let_def
         intro!: read_cases split: if_splits)
qed

lemma JoinPublisher_Request_decodes:
  "decodes R buf (JoinPublisher_Request_decode R) JoinPublisher_Request_accepts (sem_fields JoinPublisher_Request_merge createBaseJoinPublisher_Request)"
  unfolding JoinPublisher_Request_decode_def by (rule decodes_message [OF JoinPublisher_Request_handles])

lemma JoinPublisher_Response_handles: "handles R buf JoinPublisher_Response_accepts JoinPublisher_Response_merge (JoinPublisher_Response_cases R)"
proof (rule handlesI)
  fix n v m r ys
  assume "field_ok (F n v)" "JoinPublisher_Response_accepts (F n v)" "rest R buf r = ser_val v @ ys"
  then show "continues R buf (JoinPublisher_Response_cases R (8 * n + wtype v) m r) r (length (ser_val v)) (JoinPublisher_Response_merge (F n v) m) \<or>
    (JoinPublisher_Response_cases R (8 * n + wtype v) m r = Some (Inr Break) \<and> JoinPublisher_Response_merge (F n v) m = m)"
    by (cases v)
      (auto simp: JoinPublisher_Response_cases_def JoinPublisher_Response_accepts_def JoinPublisher_Response_merge_def longToNumber_of_n Let_def
         intro!: read_cases split: if_splits)
qed

lemma JoinPublisher_Response_decodes:
  "decodes R buf (JoinPublisher_Response_decode R) JoinPublisher_Response_accepts (sem_fields JoinPublisher_Response_merge createBaseJoinPublisher_Response)"
  unfolding JoinPublisher_Response_decode_def by (rule decodes_message [OF JoinPublisher_Response_handles])

lemma JoinSubscriber_handles: "handles R buf JoinSubscriber_accepts JoinSubscriber_merge (JoinSubscriber_cases R)"
proof (rule handlesI)
  fix n v m r ys
  assume "field_ok (F n v)" "JoinSubscriber_accepts (F n v)" "rest R buf r = ser_val v @ ys"
  then show "continues R buf (JoinSubscriber_cases R (8 * n + wtype v) m r) r (length (ser_val v)) (JoinSubscriber_merge (F n v) m) \<or>
    (JoinSubscriber_cases R (8 * n + wtype v) m r = Some (Inr Break) \<and> JoinSubscriber_merge (F n v) m = m)"
    by (cases v)
      (auto simp: JoinSubscriber_cases_def JoinSubscriber_accepts_def JoinSubscriber_merge_def longToNumber_of_n Let_def
         intro!: read_cases split: if_splits)
qed

lemma JoinSubscriber_decodes:
  "decodes R buf (JoinSubscriber_decode R) JoinSubscriber_accepts (sem_fields JoinSubscriber_merge createBaseJoinSubscriber)"
  unfolding JoinSubscriber_decode_def by (rule decodes_message [OF JoinSubscriber_handles])

lemma JoinSubscriber_Request_handles: "handles R buf JoinSubscriber_Request_accepts JoinSubscriber_Request_merge (JoinSubscriber_Request_cases R)"
proof (rule handlesI)
  fix n v m r ys
  assume "field_ok (F n v)" "JoinSubscriber_Request_accepts (F n v)" "rest R buf r = ser_val v @ ys"
  then show "continues R buf (JoinSubscriber_Request_cases R (8 * n + wtype v) m r) r (length (ser_val v)) (JoinSubscriber_Request_merge (F n v) m) \<or>
    (JoinSubscriber_Request_cases R (8 * n + wtype v) m r = Some (Inr Break) \<and> JoinSubscriber_Request_merge (F n v) m = m)"
    by (cases v)
      (auto simp: JoinSubscriber_Request_cases_def JoinSubscriber_Request_accepts_def JoinSubscriber_Request_merge_def longToNumber_of_n Let_def
         intro!: read_cases split: if_splits)
qed

lemma JoinSubscriber_Request_decodes:
  "decodes R buf (JoinSubscriber_Request_decode R) JoinSubscriber_Request_accepts (sem_fields JoinSubscriber_Request_merge createBaseJoinSubscriber_Request)"
  unfolding JoinSubscriber_Request_decode_def by (rule decodes_message [OF JoinSubscriber_Request_handles])

lemma JoinSubscriber_Response_handles: "handles R buf JoinSubscriber_Response_accepts JoinSubscriber_Response_merge (JoinSubscriber_Response_cases R)"
proof (rule handlesI)
  fix n v m r ys
  assume "field_ok (F n v)" "JoinSubscriber_Response_accepts (F n v)" "rest R buf r = ser_val v @ ys"
  then show "continues R buf (JoinSubscriber_Response_cases R (8 * n + wtype v) m r) r (length (ser_val v)) (JoinSubscriber_Response_merge (F n v) m) \<or>
    (JoinSubscriber_Response_cases R (8 * n + wtype v) m r = Some (Inr Break) \<and> JoinSubscriber_Response_merge (F n v) m = m)"
    by (cases v)
      (auto simp: JoinSubscriber_Response_cases_def JoinSubscriber_Response_accepts_def JoinSubscriber_Response_merge_def longToNumber_of_n Let_def
         intro!: read_cases split: if_splits)
qed

lemma JoinSubscriber_Response_decodes:
  "decodes R buf (JoinSubscriber_Response_decode R) JoinSubscriber_Response_accepts (sem_fields JoinSubscriber_Response_merge createBaseJoinSubscriber_Response)"
  unfolding JoinSubscriber_Response_decode_def by (rule decodes_message [OF JoinSubscriber_Response_handles])

lemma PublishEvents_handles: "handles R buf PublishEvents_accepts PublishEvents_merge (PublishEvents_cases R)"
proof (rule handlesI)
  fix n v m r ys
  assume "field_ok (F n v)" "PublishEvents_accepts (F n v)" "rest R buf r = ser_val v @ ys"
  then show "continues R buf (PublishEvents_cases R (8 * n + wtype v) m r) r (length (ser_val v)) (PublishEvents_merge (F n v) m) \<or>
    (PublishEvents_cases R (8 * n + wtype v) m r = Some (Inr Break) \<and> PublishEvents_merge (F n v) m = m)"
    by (cases v)
      (auto simp: PublishEvents_cases_def PublishEvents_accepts_def PublishEvents_merge_def longToNumber_of_n Let_def
         intro!: read_cases split: if_splits)
qed

lemma PublishEvents_decodes:
  "decodes R buf (PublishEvents_decode R) PublishEvents_accepts (sem_fields PublishEvents_merge createBasePublishEvents)"
  unfolding PublishEvents_decode_def by (rule decodes_message [OF PublishEvents_handles])

lemma Event_V1_TagsEntry_handles: "handles R buf Event_V1_TagsEntry_accepts Event_V1_TagsEntry_merge (Event_V1_TagsEntry_cases R)"
proof (rule handlesI)
  fix n v m r ys
  assume "field_ok (F n v)" "Event_V1_TagsEntry_accepts (F n v)" "rest R buf r = ser_val v @ ys"
  then show "continues R buf (Event_V1_TagsEntry_cases R (8 * n + wtype v) m r) r (length (ser_val v)) (Event_V1_TagsEntry_merge (F n v) m) \<or>
    (Event_V1_TagsEntry_cases R (8 * n + wtype v) m r = Some (Inr Break) \<and> Event_V1_TagsEntry_merge (F n v) m = m)"
    by (cases v)
      (auto simp: Event_V1_TagsEntry_cases_def Event_V1_TagsEntry_accepts_def Event_V1_TagsEntry_merge_def longToNumber_of_n Let_def
         intro!: read_cases split: if_splits)
qed

lemma Event_V1_TagsEntry_decodes:
  "decodes R buf (Event_V1_TagsEntry_decode R) Event_V1_TagsEntry_accepts (sem_fields Event_V1_TagsEntry_merge createBaseEvent_V1_TagsEntry)"
  unfolding Event_V1_TagsEntry_decode_def by (rule decodes_message [OF Event_V1_TagsEntry_handles])

lemma Event_Log_handles: "handles R buf Event_Log_accepts Event_Log_merge (Event_Log_cases R)"
proof (rule handlesI)
  fix n v m r ys
  assume "field_ok (F n v)" "Event_Log_accepts (F n v)" "rest R buf r = ser_val v @ ys"
  then show "continues R buf (Event_Log_cases R (8 * n + wtype v) m r) r (length (ser_val v)) (Event_Log_merge (F n v) m) \<or>
    (Event_Log_cases R (8 * n + wtype v) m r = Some (Inr Break) \<and> Event_Log_merge (F n v) m = m)"
    by (cases v)
      (auto simp: Event_Log_cases_def Event_Log_accepts_def Event_Log_merge_def longToNumber_of_n Let_def
         intro!: read_cases split: if_splits)
qed

lemma Event_Log_decodes:
  "decodes R buf (Event_Log_decode R) Event_Log_accepts (sem_fields Event_Log_merge createBaseEvent_Log)"
  unfolding Event_Log_decode_def by (rule decodes_message [OF Event_Log_handles])

lemma Event_V1_handles: "handles R buf Event_V1_accepts Event_V1_merge (Event_V1_cases R)"
proof (rule handlesI)
  fix n v m r ys
  assume "field_ok (F n v)" "Event_V1_accepts (F n v)" "rest R buf r = ser_val v @ ys"
  then show "continues R buf (Event_V1_cases R (8 * n + wtype v) m r) r (length (ser_val v)) (Event_V1_merge (F n v) m) \<or>
    (Event_V1_cases R (8 * n + wtype v) m r = Some (Inr Break) \<and> Event_V1_merge (F n v) m = m)"
    by (cases v)
      (auto simp: Event_V1_cases_def Event_V1_accepts_def Event_V1_merge_def longToNumber_of_n Let_def
         intro!: read_cases embedded_case [OF Event_V1_TagsEntry_decodes] embedded_case [OF Event_Log_decodes] split: if_splits)
qed

lemma Event_V1_decodes:
  "decodes R buf (Event_V1_decode R) Event_V1_accepts (sem_fields Event_V1_merge createBaseEvent_V1)"
  unfolding Event_V1_decode_def by (rule decodes_message [OF Event_V1_handles])

lemma Event_handles: "handles R buf Event_accepts Event_merge (Event_cases R)"
proof (rule handlesI)
  fix n v m r ys
  assume "field_ok (F n v)" "Event_accepts (F n v)" "rest R buf r = ser_val v @ ys"
  then show "continues R buf (Event_cases R (8 * n + wtype v) m r) r (length (ser_val v)) (Event_merge (F n v) m) \<or>
    (Event_cases R (8 * n + wtype v) m r = Some (Inr Break) \<and> Event_merge (F n v) m = m)"
    by (cases v)
      (auto simp: Event_cases_def Event_accepts_def Event_merge_def longToNumber_of_n Let_def
         intro!: read_cases embedded_case [OF Event_V1_decodes] split: if_splits)
qed

lemma Event_decodes:
  "decodes R buf (Event_decode R) Event_accepts (sem_fields Event_merge createBaseEvent)"
  unfolding Event_decode_def by (rule decodes_message [OF Event_handles])

lemma PublishEvents_Request_handles: "handles R buf PublishEvents_Request_accepts PublishEvents_Request_merge (PublishEvents_Request_cases R)"
proof (rule handlesI)
  fix n v m r ys
  assume "field_ok (F n v)" "PublishEvents_Request_accepts (F n v)" "rest R buf r = ser_val v @ ys"
  then show "continues R buf (PublishEvents_Request_cases R (8 * n + wtype v) m r) r (length (ser_val v)) (PublishEvents_Request_merge (F n v) m) \<or>
    (PublishEvents_Request_cases R (8 * n + wtype v) m r = Some (Inr Break) \<and> PublishEvents_Request_merge (F n v) m = m)"
    by (cases v)
      (auto simp: PublishEvents_Request_cases_def PublishEvents_Request_accepts_def PublishEvents_Request_merge_def longToNumber_of_n Let_def
         intro!: read_cases embedded_case [OF Event_decodes] split: if_splits)
qed

lemma PublishEvents_Request_decodes:
  "decodes R buf (PublishEvents_Request_decode R) PublishEvents_Request_accepts (sem_fields PublishEvents_Request_merge createBasePublishEvents_Request)"
  unfolding PublishEvents_Request_decode_def by (rule decodes_message [OF PublishEvents_Request_handles])

lemma PublishEvents_Response_handles: "handles R buf PublishEvents_Response_accepts PublishEvents_Response_merge (PublishEvents_Response_cases R)"
proof (rule handlesI)
  fix n v m r ys
  assume "field_ok (F n v)" "PublishEvents_Response_accepts (F n v)" "rest R buf r = ser_val v @ ys"
  then show "continues R buf (PublishEvents_Response_cases R (8 * n + wtype v) m r) r (length (ser_val v)) (PublishEvents_Response_merge (F n v) m) \<or>
    (PublishEvents_Response_cases R (8 * n + wtype v) m r = Some (Inr Break) \<and> PublishEvents_Response_merge (F n v) m = m)"
    by (cases v)
      (auto simp: PublishEvents_Response_cases_def PublishEvents_Response_accepts_def PublishEvents_Response_merge_def longToNumber_of_n Let_def
         intro!: read_cases split: if_splits)
qed

lemma PublishEvents_Response_decodes:
  "decodes R buf (PublishEvents_Response_decode R) PublishEvents_Response_accepts (sem_fields PublishEvents_Response_merge createBasePublishEvents_Response)"
  unfolding PublishEvents_Response_decode_def by (rule decodes_message [OF PublishEvents_Response_handles])

lemma SetSubscriberConfig_V1_Call_handles: "handles R buf SetSubscriberConfig_V1_Call_accepts SetSubscriberConfig_V1_Call_merge (SetSubscriberConfig_V1_Call_cases R)"
proof (rule handlesI)
  fix n v m r ys
  assume "field_ok (F n v)" "SetSubscriberConfig_V1_Call_accepts (F n v)" "rest R buf r = ser_val v @ ys"
  then show "continues R buf (SetSubscriberConfig_V1_Call_cases R (8 * n + wtype v) m r) r (length (ser_val v)) (SetSubscriberConfig_V1_Call_merge (F n v) m) \<or>
    (SetSubscriberConfig_V1_Call_cases R (8 * n + wtype v) m r = Some (Inr Break) \<and> SetSubscriberConfig_V1_Call_merge (F n v) m = m)"
    by (cases v)
      (auto simp: SetSubscriberConfig_V1_Call_cases_def SetSubscriberConfig_V1_Call_accepts_def SetSubscriberConfig_V1_Call_merge_def longToNumber_of_n Let_def
         intro!: read_cases split: if_splits)
qed

lemma SetSubscriberConfig_V1_Call_decodes:
  "decodes R buf (SetSubscriberConfig_V1_Call_decode R) SetSubscriberConfig_V1_Call_accepts (sem_fields SetSubscriberConfig_V1_Call_merge createBaseSetSubscriberConfig_V1_Call)"
  unfolding SetSubscriberConfig_V1_Call_decode_def by (rule decodes_message [OF SetSubscriberConfig_V1_Call_handles])

lemma SetSubscriberConfig_V1_Result_handles: "handles R buf SetSubscriberConfig_V1_Result_accepts SetSubscriberConfig_V1_Result_merge (SetSubscriberConfig_V1_Result_cases R)"
proof (rule handlesI)
  fix n v m r ys
  assume "field_ok (F n v)" "SetSubscriberConfig_V1_Result_accepts (F n v)" "rest R buf r = ser_val v @ ys"
  then show "continues R buf (SetSubscriberConfig_V1_Result_cases R (8 * n + wtype v) m r) r (length (ser_val v)) (SetSubscriberConfig_V1_Result_merge (F n v) m) \<or>
    (SetSubscriberConfig_V1_Result_cases R (8 * n + wtype v) m r = Some (Inr Break) \<and> SetSubscriberConfig_V1_Result_merge (F n v) m = m)"
    by (cases v)
      (auto simp: SetSubscriberConfig_V1_Result_cases_def SetSubscriberConfig_V1_Result_accepts_def SetSubscriberConfig_V1_Result_merge_def longToNumber_of_n Let_def
         intro!: read_cases split: if_splits)
qed

lemma SetSubscriberConfig_V1_Result_decodes:
  "decodes R buf (SetSubscriberConfig_V1_Result_decode R) SetSubscriberConfig_V1_Result_accepts (sem_fields SetSubscriberConfig_V1_Result_merge createBaseSetSubscriberConfig_V1_Result)"
  unfolding SetSubscriberConfig_V1_Result_decode_def by (rule decodes_message [OF SetSubscriberConfig_V1_Result_handles])

lemma SetSubscriberConfig_V1_handles: "handles R buf SetSubscriberConfig_V1_accepts SetSubscriberConfig_V1_merge (SetSubscriberConfig_V1_cases R)"
proof (rule handlesI)
  fix n v m r ys
  assume "field_ok (F n v)" "SetSubscriberConfig_V1_accepts (F n v)" "rest R buf r = ser_val v @ ys"
  then show "continues R buf (SetSubscriberConfig_V1_cases R (8 * n + wtype v) m r) r (length (ser_val v)) (SetSubscriberConfig_V1_merge (F n v) m) \<or>
    (SetSubscriberConfig_V1_cases R (8 * n + wtype v) m r = Some (Inr Break) \<and> SetSubscriberConfig_V1_merge (F n v) m = m)"
    by (cases v)
      (auto simp: SetSubscriberConfig_V1_cases_def SetSubscriberConfig_V1_accepts_def SetSubscriberConfig_V1_merge_def longToNumber_of_n Let_def
         intro!: read_cases embedded_case [OF SetSubscriberConfig_V1_Call_decodes] embedded_case [OF SetSubscriberConfig_V1_Result_decodes] split: if_splits)
qed

lemma SetSubscriberConfig_V1_decodes:
  "decodes R buf (SetSubscriberConfig_V1_decode R) SetSubscriberConfig_V1_accepts (sem_fields SetSubscriberConfig_V1_merge createBaseSetSubscriberConfig_V1)"
  unfolding SetSubscriberConfig_V1_decode_def by (rule decodes_message [OF SetSubscriberConfig_V1_handles])

lemma SetSubscriberConfig_handles: "handles R buf SetSubscriberConfig_accepts SetSubscriberConfig_merge (SetSubscriberConfig_cases R)"
proof (rule handlesI)
  fix n v m r ys
  assume "field_ok (F n v)" "SetSubscriberConfig_accepts (F n v)" "rest R buf r = ser_val v @ ys"
  then show "continues R buf (SetSubscriberConfig_cases R (8 * n + wtype v) m r) r (length (ser_val v)) (SetSubscriberConfig_merge (F n v) m) \<or>
    (SetSubscriberConfig_cases R (8 * n + wtype v) m r = Some (Inr Break) \<and> SetSubscriberConfig_merge (F n v) m = m)"
    by (cases v)
      (auto simp: SetSubscriberConfig_cases_def SetSubscriberConfig_accepts_def SetSubscriberConfig_merge_def longToNumber_of_n Let_def
         intro!: read_cases embedded_case [OF SetSubscriberConfig_V1_decodes] split: if_splits)
qed

lemma SetSubscriberConfig_decodes:
  "decodes R buf (SetSubscriberConfig_decode R) SetSubscriberConfig_accepts (sem_fields SetSubscriberConfig_merge createBaseSetSubscriberConfig)"
  unfolding SetSubscriberConfig_decode_def by (rule decodes_message [OF SetSubscriberConfig_handles])

lemma AnnounceStats_V1_handles: "handles R buf AnnounceStats_V1_accepts AnnounceStats_V1_merge (AnnounceStats_V1_cases R)"
proof (rule handlesI)
  fix n v m r ys
  assume "field_ok (F n v)" "AnnounceStats_V1_accepts (F n v)" "rest R buf r = ser_val v @ ys"
  then show "continues R buf (AnnounceStats_V1_cases R (8 * n + wtype v) m r) r (length (ser_val v)) (AnnounceStats_V1_merge (F n v) m) \<or>
    (AnnounceStats_V1_cases R (8 * n + wtype v) m r = Some (Inr Break) \<and> AnnounceStats_V1_merge (F n v) m = m)"
    by (cases v)
      (auto simp: AnnounceStats_V1_cases_def AnnounceStats_V1_accepts_def AnnounceStats_V1_merge_def longToNumber_of_n Let_def
         intro!: read_cases split: if_splits)
qed

lemma AnnounceStats_V1_decodes:
  "decodes R buf (AnnounceStats_V1_decode R) AnnounceStats_V1_accepts (sem_fields AnnounceStats_V1_merge createBaseAnnounceStats_V1)"
  unfolding AnnounceStats_V1_decode_def by (rule decodes_message [OF AnnounceStats_V1_handles])

lemma AnnounceStats_handles: "handles R buf AnnounceStats_accepts AnnounceStats_merge (AnnounceStats_cases R)"
proof (rule handlesI)
  fix n v m r ys
  assume "field_ok (F n v)" "AnnounceStats_accepts (F n v)" "rest R buf r = ser_val v @ ys"
  then show "continues R buf (AnnounceStats_cases R (8 * n + wtype v) m r) r (length (ser_val v)) (AnnounceStats_merge (F n v) m) \<or>
    (AnnounceStats_cases R (8 * n + wtype v) m r = Some (Inr Break) \<and> AnnounceStats_merge (F n v) m = m)"
    by (cases v)
      (auto simp: AnnounceStats_cases_def AnnounceStats_accepts_def AnnounceStats_merge_def longToNumber_of_n Let_def
         intro!: read_cases embedded_case [OF AnnounceStats_V1_decodes] split: if_splits)
qed

lemma AnnounceStats_decodes:
  "decodes R buf (AnnounceStats_decode R) AnnounceStats_accepts (sem_fields AnnounceStats_merge createBaseAnnounceStats)"
  unfolding AnnounceStats_decode_def by (rule decodes_message [OF AnnounceStats_handles])

lemma Message_V1_handles: "handles R buf Message_V1_accepts Message_V1_merge (Message_V1_cases R)"
proof (rule handlesI)
  fix n v m r ys
  assume "field_ok (F n v)" "Message_V1_accepts (F n v)" "rest R buf r = ser_val v @ ys"
  then show "continues R buf (Message_V1_cases R (8 * n + wtype v) m r) r (length (ser_val v)) (Message_V1_merge (F n v) m) \<or>
    (Message_V1_cases R (8 * n + wtype v) m r = Some (Inr Break) \<and> Message_V1_merge (F n v) m = m)"
    by (cases v)
      (auto simp: Message_V1_cases_def Message_V1_accepts_def Message_V1_merge_def longToNumber_of_n Let_def
         intro!: read_cases embedded_case [OF Event_decodes] embedded_case [OF SetSubscriberConfig_decodes] embedded_case [OF AnnounceStats_decodes] split: if_splits)
qed

lemma Message_V1_decodes:
  "decodes R buf (Message_V1_decode R) Message_V1_accepts (sem_fields Message_V1_merge createBaseMessage_V1)"
  unfolding Message_V1_decode_def by (rule decodes_message [OF Message_V1_handles])

lemma Message_handles: "handles R buf Message_accepts Message_merge (Message_cases R)"
proof (rule handlesI)
  fix n v m r ys
  assume "field_ok (F n v)" "Message_accepts (F n v)" "rest R buf r = ser_val v @ ys"
  then show "continues R buf (Message_cases R (8 * n + wtype v) m r) r (length (ser_val v)) (Message_merge (F n v) m) \<or>
    (Message_cases R (8 * n + wtype v) m r = Some (Inr Break) \<and> Message_merge (F n v) m = m)"
    by (cases v)
      (auto simp: Message_cases_def Message_accepts_def Message_merge_def longToNumber_of_n Let_def
         intro!: read_cases embedded_case [OF Message_V1_decodes] split: if_splits)
qed

lemma Message_decodes:
  "decodes R buf (Message_decode R) Message_accepts (sem_fields Message_merge createBaseMessage)"
  unfolding Message_decode_def by (rule decodes_message [OF Message_handles])

end

end
