(* ===== verification/PubsubCodec.thy ===== *)
theory PubsubCodec
  imports PubsubMerge
begin

text \<open>
  Every message of \<open>pubsub.ts\<close> satisfies the contract \<open>message_codec\<close>. A message is
  well-formed (\<open>wf\<close>) when its integers are safe integers and its \<open>tags\<close> are an object
  the language can hold (distinct keys in property order, no \<open>__proto__\<close>).
\<close>

section \<open>Well-formed messages\<close>

definition Event_Log_wf :: "Event_Log \<Rightarrow> bool" where
  "Event_Log_wf message \<longleftrightarrow>
     is_safe_uint (Event_Log.index message)"

definition Event_V1_wf :: "Event_V1 \<Rightarrow> bool" where
  "Event_V1_wf message \<longleftrightarrow>
     obj_ok (Event_V1.tags message) \<and>
     pred_option Event_Log_wf (Event_V1.log message)"

definition Event_wf :: "Event \<Rightarrow> bool" where
  "Event_wf message \<longleftrightarrow>
     pred_option Event_V1_wf (Event.concreteV1 message)"

definition PublishEvents_Request_wf :: "PublishEvents_Request \<Rightarrow> bool" where
  "PublishEvents_Request_wf message \<longleftrightarrow>
     list_all Event_wf (PublishEvents_Request.events message)"

definition SetSubscriberConfig_V1_Call_wf :: "SetSubscriberConfig_V1_Call \<Rightarrow> bool" where
  "SetSubscriberConfig_V1_Call_wf message \<longleftrightarrow>
     is_safe_uint (SetSubscriberConfig_V1_Call.revision message)"

definition SetSubscriberConfig_V1_Result_wf :: "SetSubscriberConfig_V1_Result \<Rightarrow> bool" where
  "SetSubscriberConfig_V1_Result_wf message \<longleftrightarrow>
     is_safe_uint (SetSubscriberConfig_V1_Result.revision message)"

definition SetSubscriberConfig_V1_wf :: "SetSubscriberConfig_V1 \<Rightarrow> bool" where
  "SetSubscriberConfig_V1_wf message \<longleftrightarrow>
     pred_option SetSubscriberConfig_V1_Call_wf (SetSubscriberConfig_V1.call message) \<and>
     pred_option SetSubscriberConfig_V1_Result_wf (SetSubscriberConfig_V1.result message)"

definition SetSubscriberConfig_wf :: "SetSubscriberConfig \<Rightarrow> bool" where
  "SetSubscriberConfig_wf message \<longleftrightarrow>
     pred_option SetSubscriberConfig_V1_wf (SetSubscriberConfig.concreteV1 message)"

definition AnnounceStats_V1_wf :: "AnnounceStats_V1 \<Rightarrow> bool" where
  "AnnounceStats_V1_wf message \<longleftrightarrow>
     is_safe_uint (AnnounceStats_V1.numPublishers message) \<and>
     is_safe_uint (AnnounceStats_V1.numSubscribers message)"

definition AnnounceStats_wf :: "AnnounceStats \<Rightarrow> bool" where
  "AnnounceStats_wf message \<longleftrightarrow>
     pred_option AnnounceStats_V1_wf (AnnounceStats.concreteV1 message)"

definition Message_V1_wf :: "Message_V1 \<Rightarrow> bool" where
  "Message_V1_wf message \<longleftrightarrow>
     pred_option Event_wf (Message_V1.event message) \<and>
     pred_option SetSubscriberConfig_wf (Message_V1.setSubscriberConfig message) \<and>
     pred_option AnnounceStats_wf (Message_V1.announceStats message)"

definition Message_wf :: "Message \<Rightarrow> bool" where
  "Message_wf message \<longleftrightarrow>
     pred_option Message_V1_wf (Message.concreteV1 message)"

lemmas wf_defs =
  Event_Log_wf_def
  Event_V1_wf_def
  Event_wf_def
  PublishEvents_Request_wf_def
  SetSubscriberConfig_V1_Call_wf_def
  SetSubscriberConfig_V1_Result_wf_def
  SetSubscriberConfig_V1_wf_def
  SetSubscriberConfig_wf_def
  AnnounceStats_V1_wf_def
  AnnounceStats_wf_def
  Message_V1_wf_def
  Message_wf_def

lemma Event_Log_wf_enc_ok: "Event_Log_wf message \<Longrightarrow> Event_Log_enc_ok message"
  by (auto simp: Event_Log_wf_def Event_Log_enc_ok_def pred_option_def list_all_iff is_safe_uint_64 )

lemma Event_V1_wf_enc_ok: "Event_V1_wf message \<Longrightarrow> Event_V1_enc_ok message"
  by (auto simp: Event_V1_wf_def Event_V1_enc_ok_def pred_option_def list_all_iff is_safe_uint_64 Event_Log_wf_enc_ok)

lemma Event_wf_enc_ok: "Event_wf message \<Longrightarrow> Event_enc_ok message"
  by (auto simp: Event_wf_def Event_enc_ok_def pred_option_def list_all_iff is_safe_uint_64 Event_V1_wf_enc_ok)

lemma PublishEvents_Request_wf_enc_ok: "PublishEvents_Request_wf message \<Longrightarrow> PublishEvents_Request_enc_ok message"
  by (auto simp: PublishEvents_Request_wf_def PublishEvents_Request_enc_ok_def pred_option_def list_all_iff is_safe_uint_64 Event_wf_enc_ok)

lemma SetSubscriberConfig_V1_Call_wf_enc_ok: "SetSubscriberConfig_V1_Call_wf message \<Longrightarrow> SetSubscriberConfig_V1_Call_enc_ok message"
  by (auto simp: SetSubscriberConfig_V1_Call_wf_def SetSubscriberConfig_V1_Call_enc_ok_def pred_option_def list_all_iff is_safe_uint_64 )

lemma SetSubscriberConfig_V1_Result_wf_enc_ok: "SetSubscriberConfig_V1_Result_wf message \<Longrightarrow> SetSubscriberConfig_V1_Result_enc_ok message"
  by (auto simp: SetSubscriberConfig_V1_Result_wf_def SetSubscriberConfig_V1_Result_enc_ok_def pred_option_def list_all_iff is_safe_uint_64 )

lemma SetSubscriberConfig_V1_wf_enc_ok: "SetSubscriberConfig_V1_wf message \<Longrightarrow> SetSubscriberConfig_V1_enc_ok message"
  by (auto simp: SetSubscriberConfig_V1_wf_def SetSubscriberConfig_V1_enc_ok_def pred_option_def list_all_iff is_safe_uint_64 SetSubscriberConfig_V1_Call_wf_enc_ok SetSubscriberConfig_V1_Result_wf_enc_ok)

lemma SetSubscriberConfig_wf_enc_ok: "SetSubscriberConfig_wf message \<Longrightarrow> SetSubscriberConfig_enc_ok message"
  by (auto simp: SetSubscriberConfig_wf_def SetSubscriberConfig_enc_ok_def pred_option_def list_all_iff is_safe_uint_64 SetSubscriberConfig_V1_wf_enc_ok)

lemma AnnounceStats_V1_wf_enc_ok: "AnnounceStats_V1_wf message \<Longrightarrow> AnnounceStats_V1_enc_ok message"
  by (auto simp: AnnounceStats_V1_wf_def AnnounceStats_V1_enc_ok_def pred_option_def list_all_iff is_safe_uint_64 )

lemma AnnounceStats_wf_enc_ok: "AnnounceStats_wf message \<Longrightarrow> AnnounceStats_enc_ok message"
  by (auto simp: AnnounceStats_wf_def AnnounceStats_enc_ok_def pred_option_def list_all_iff is_safe_uint_64 AnnounceStats_V1_wf_enc_ok)

lemma Message_V1_wf_enc_ok: "Message_V1_wf message \<Longrightarrow> Message_V1_enc_ok message"
  by (auto simp: Message_V1_wf_def Message_V1_enc_ok_def pred_option_def list_all_iff is_safe_uint_64 Event_wf_enc_ok SetSubscriberConfig_wf_enc_ok AnnounceStats_wf_enc_ok)

lemma Message_wf_enc_ok: "Message_wf message \<Longrightarrow> Message_enc_ok message"
  by (auto simp: Message_wf_def Message_enc_ok_def pred_option_def list_all_iff is_safe_uint_64 Message_V1_wf_enc_ok)

section \<open>The fields are valid and acceptable\<close>

lemma JoinPublisher_valid:
  "length (ser (JoinPublisher_fields message)) < 2 ^ 32 \<Longrightarrow>
   list_all field_ok (JoinPublisher_fields message)"
  unfolding JoinPublisher_fields_def
  by (intro valid_kinds;
      auto)

lemma JoinPublisher_Request_valid:
  "length (ser (JoinPublisher_Request_fields message)) < 2 ^ 32 \<Longrightarrow>
   list_all field_ok (JoinPublisher_Request_fields message)"
  unfolding JoinPublisher_Request_fields_def
  by (intro valid_kinds;
      auto)

lemma JoinPublisher_Response_valid:
  "length (ser (JoinPublisher_Response_fields message)) < 2 ^ 32 \<Longrightarrow>
   list_all field_ok (JoinPublisher_Response_fields message)"
  unfolding JoinPublisher_Response_fields_def
  by (intro valid_kinds;
      auto)

lemma JoinSubscriber_valid:
  "length (ser (JoinSubscriber_fields message)) < 2 ^ 32 \<Longrightarrow>
   list_all field_ok (JoinSubscriber_fields message)"
  unfolding JoinSubscriber_fields_def
  by (intro valid_kinds;
      auto)

lemma JoinSubscriber_Request_valid:
  "length (ser (JoinSubscriber_Request_fields message)) < 2 ^ 32 \<Longrightarrow>
   list_all field_ok (JoinSubscriber_Request_fields message)"
  unfolding JoinSubscriber_Request_fields_def
  by (intro valid_kinds;
      auto)

lemma JoinSubscriber_Response_valid:
  "length (ser (JoinSubscriber_Response_fields message)) < 2 ^ 32 \<Longrightarrow>
   list_all field_ok (JoinSubscriber_Response_fields message)"
  unfolding JoinSubscriber_Response_fields_def
  by (intro valid_kinds;
      auto)

lemma PublishEvents_valid:
  "length (ser (PublishEvents_fields message)) < 2 ^ 32 \<Longrightarrow>
   list_all field_ok (PublishEvents_fields message)"
  unfolding PublishEvents_fields_def
  by (intro valid_kinds;
      auto)

lemma Event_V1_TagsEntry_valid:
  "length (ser (Event_V1_TagsEntry_fields message)) < 2 ^ 32 \<Longrightarrow>
   list_all field_ok (Event_V1_TagsEntry_fields message)"
  unfolding Event_V1_TagsEntry_fields_def
  by (intro valid_kinds;
      auto)

lemma Event_Log_valid:
  "Event_Log_enc_ok message \<Longrightarrow> length (ser (Event_Log_fields message)) < 2 ^ 32 \<Longrightarrow>
   list_all field_ok (Event_Log_fields message)"
  unfolding Event_Log_fields_def
  by (intro valid_kinds;
      auto simp: Event_Log_enc_ok_def pred_option_def list_all_iff)

lemma Event_V1_valid:
  "Event_V1_enc_ok message \<Longrightarrow> length (ser (Event_V1_fields message)) < 2 ^ 32 \<Longrightarrow>
   list_all field_ok (Event_V1_fields message)"
  unfolding Event_V1_fields_def
  by (intro valid_kinds Event_V1_TagsEntry_valid Event_Log_valid;
      auto simp: Event_V1_enc_ok_def pred_option_def list_all_iff)

lemma Event_valid:
  "Event_enc_ok message \<Longrightarrow> length (ser (Event_fields message)) < 2 ^ 32 \<Longrightarrow>
   list_all field_ok (Event_fields message)"
  unfolding Event_fields_def
  by (intro valid_kinds Event_V1_valid;
      auto simp: Event_enc_ok_def pred_option_def list_all_iff)

lemma PublishEvents_Request_valid:
  "PublishEvents_Request_enc_ok message \<Longrightarrow> length (ser (PublishEvents_Request_fields message)) < 2 ^ 32 \<Longrightarrow>
   list_all field_ok (PublishEvents_Request_fields message)"
  unfolding PublishEvents_Request_fields_def
  by (intro valid_kinds Event_valid;
      auto simp: PublishEvents_Request_enc_ok_def pred_option_def list_all_iff)

lemma PublishEvents_Response_valid:
  "length (ser (PublishEvents_Response_fields message)) < 2 ^ 32 \<Longrightarrow>
   list_all field_ok (PublishEvents_Response_fields message)"
  unfolding PublishEvents_Response_fields_def
  by (intro valid_kinds;
      auto)

lemma SetSubscriberConfig_V1_Call_valid:
  "SetSubscriberConfig_V1_Call_enc_ok message \<Longrightarrow> length (ser (SetSubscriberConfig_V1_Call_fields message)) < 2 ^ 32 \<Longrightarrow>
   list_all field_ok (SetSubscriberConfig_V1_Call_fields message)"
  unfolding SetSubscriberConfig_V1_Call_fields_def
  by (intro valid_kinds;
      auto simp: SetSubscriberConfig_V1_Call_enc_ok_def pred_option_def list_all_iff)

lemma SetSubscriberConfig_V1_Result_valid:
  "SetSubscriberConfig_V1_Result_enc_ok message \<Longrightarrow> length (ser (SetSubscriberConfig_V1_Result_fields message)) < 2 ^ 32 \<Longrightarrow>
   list_all field_ok (SetSubscriberConfig_V1_Result_fields message)"
  unfolding SetSubscriberConfig_V1_Result_fields_def
  by (intro valid_kinds;
      auto simp: SetSubscriberConfig_V1_Result_enc_ok_def pred_option_def list_all_iff)

lemma SetSubscriberConfig_V1_valid:
  "SetSubscriberConfig_V1_enc_ok message \<Longrightarrow> length (ser (SetSubscriberConfig_V1_fields message)) < 2 ^ 32 \<Longrightarrow>
   list_all field_ok (SetSubscriberConfig_V1_fields message)"
  unfolding SetSubscriberConfig_V1_fields_def
  by (intro valid_kinds SetSubscriberConfig_V1_Call_valid SetSubscriberConfig_V1_Result_valid;
      auto simp: SetSubscriberConfig_V1_enc_ok_def pred_option_def list_all_iff)

lemma SetSubscriberConfig_valid:
  "SetSubscriberConfig_enc_ok message \<Longrightarrow> length (ser (SetSubscriberConfig_fields message)) < 2 ^ 32 \<Longrightarrow>
   list_all field_ok (SetSubscriberConfig_fields message)"
  unfolding SetSubscriberConfig_fields_def
  by (intro valid_kinds SetSubscriberConfig_V1_valid;
      auto simp: SetSubscriberConfig_enc_ok_def pred_option_def list_all_iff)

lemma AnnounceStats_V1_valid:
  "AnnounceStats_V1_enc_ok message \<Longrightarrow> length (ser (AnnounceStats_V1_fields message)) < 2 ^ 32 \<Longrightarrow>
   list_all field_ok (AnnounceStats_V1_fields message)"
  unfolding AnnounceStats_V1_fields_def
  by (intro valid_kinds;
      auto simp: AnnounceStats_V1_enc_ok_def pred_option_def list_all_iff)

lemma AnnounceStats_valid:
  "AnnounceStats_enc_ok message \<Longrightarrow> length (ser (AnnounceStats_fields message)) < 2 ^ 32 \<Longrightarrow>
   list_all field_ok (AnnounceStats_fields message)"
  unfolding AnnounceStats_fields_def
  by (intro valid_kinds AnnounceStats_V1_valid;
      auto simp: AnnounceStats_enc_ok_def pred_option_def list_all_iff)

lemma Message_V1_valid:
  "Message_V1_enc_ok message \<Longrightarrow> length (ser (Message_V1_fields message)) < 2 ^ 32 \<Longrightarrow>
   list_all field_ok (Message_V1_fields message)"
  unfolding Message_V1_fields_def
  by (intro valid_kinds Event_valid SetSubscriberConfig_valid AnnounceStats_valid;
      auto simp: Message_V1_enc_ok_def pred_option_def list_all_iff)

lemma Message_valid:
  "Message_enc_ok message \<Longrightarrow> length (ser (Message_fields message)) < 2 ^ 32 \<Longrightarrow>
   list_all field_ok (Message_fields message)"
  unfolding Message_fields_def
  by (intro valid_kinds Message_V1_valid;
      auto simp: Message_enc_ok_def pred_option_def list_all_iff)

lemma JoinPublisher_accepted: "list_all JoinPublisher_accepts (JoinPublisher_fields message)"
  by (auto simp: JoinPublisher_fields_def JoinPublisher_accepts_def kind_defs
      split: option.splits)

lemma JoinPublisher_Request_accepted: "list_all JoinPublisher_Request_accepts (JoinPublisher_Request_fields message)"
  by (auto simp: JoinPublisher_Request_fields_def JoinPublisher_Request_accepts_def kind_defs
      split: option.splits)

lemma JoinPublisher_Response_accepted: "list_all JoinPublisher_Response_accepts (JoinPublisher_Response_fields message)"
  by (auto simp: JoinPublisher_Response_fields_def JoinPublisher_Response_accepts_def kind_defs
      split: option.splits)

lemma JoinSubscriber_accepted: "list_all JoinSubscriber_accepts (JoinSubscriber_fields message)"
  by (auto simp: JoinSubscriber_fields_def JoinSubscriber_accepts_def kind_defs
      split: option.splits)

lemma JoinSubscriber_Request_accepted: "list_all JoinSubscriber_Request_accepts (JoinSubscriber_Request_fields message)"
  by (auto simp: JoinSubscriber_Request_fields_def JoinSubscriber_Request_accepts_def kind_defs
      split: option.splits)

lemma JoinSubscriber_Response_accepted: "list_all JoinSubscriber_Response_accepts (JoinSubscriber_Response_fields message)"
  by (auto simp: JoinSubscriber_Response_fields_def JoinSubscriber_Response_accepts_def kind_defs
      split: option.splits)

lemma PublishEvents_accepted: "list_all PublishEvents_accepts (PublishEvents_fields message)"
  by (auto simp: PublishEvents_fields_def PublishEvents_accepts_def kind_defs
      split: option.splits)

lemma Event_V1_TagsEntry_accepted: "list_all Event_V1_TagsEntry_accepts (Event_V1_TagsEntry_fields message)"
  by (auto simp: Event_V1_TagsEntry_fields_def Event_V1_TagsEntry_accepts_def kind_defs
      split: option.splits)

lemma Event_Log_accepted: "Event_Log_wf message \<Longrightarrow> list_all Event_Log_accepts (Event_Log_fields message)"
  by (auto simp: Event_Log_fields_def Event_Log_accepts_def kind_defs Event_Log_wf_def list.pred_map comp_def list.pred_True
      elim!: is_safe_uintE
      split: option.splits)

lemma Event_V1_accepted: "Event_V1_wf message \<Longrightarrow> list_all Event_V1_accepts (Event_V1_fields message)"
  by (auto simp: Event_V1_fields_def Event_V1_accepts_def kind_defs Event_V1_wf_def list.pred_map comp_def Event_V1_TagsEntry_accepted Event_Log_accepted list.pred_True
      split: option.splits)

lemma Event_accepted: "Event_wf message \<Longrightarrow> list_all Event_accepts (Event_fields message)"
  by (auto simp: Event_fields_def Event_accepts_def kind_defs Event_wf_def Event_V1_accepted
      split: option.splits)

lemma PublishEvents_Request_accepted: "PublishEvents_Request_wf message \<Longrightarrow> list_all PublishEvents_Request_accepts (PublishEvents_Request_fields message)"
  by (auto simp: PublishEvents_Request_fields_def PublishEvents_Request_accepts_def kind_defs PublishEvents_Request_wf_def list.pred_map comp_def list_all_iff Event_accepted [unfolded list_all_iff, rule_format]
      split: option.splits)

lemma PublishEvents_Response_accepted: "list_all PublishEvents_Response_accepts (PublishEvents_Response_fields message)"
  by (auto simp: PublishEvents_Response_fields_def PublishEvents_Response_accepts_def kind_defs
      split: option.splits)

lemma SetSubscriberConfig_V1_Call_accepted: "SetSubscriberConfig_V1_Call_wf message \<Longrightarrow> list_all SetSubscriberConfig_V1_Call_accepts (SetSubscriberConfig_V1_Call_fields message)"
  by (auto simp: SetSubscriberConfig_V1_Call_fields_def SetSubscriberConfig_V1_Call_accepts_def kind_defs SetSubscriberConfig_V1_Call_wf_def list.pred_map comp_def list.pred_True
      elim!: is_safe_uintE
      split: option.splits)

lemma SetSubscriberConfig_V1_Result_accepted: "SetSubscriberConfig_V1_Result_wf message \<Longrightarrow> list_all SetSubscriberConfig_V1_Result_accepts (SetSubscriberConfig_V1_Result_fields message)"
  by (auto simp: SetSubscriberConfig_V1_Result_fields_def SetSubscriberConfig_V1_Result_accepts_def kind_defs SetSubscriberConfig_V1_Result_wf_def
      elim!: is_safe_uintE
      split: option.splits)

lemma SetSubscriberConfig_V1_accepted: "SetSubscriberConfig_V1_wf message \<Longrightarrow> list_all SetSubscriberConfig_V1_accepts (SetSubscriberConfig_V1_fields message)"
  by (auto simp: SetSubscriberConfig_V1_fields_def SetSubscriberConfig_V1_accepts_def kind_defs SetSubscriberConfig_V1_wf_def SetSubscriberConfig_V1_Call_accepted SetSubscriberConfig_V1_Result_accepted
      split: option.splits)

lemma SetSubscriberConfig_accepted: "SetSubscriberConfig_wf message \<Longrightarrow> list_all SetSubscriberConfig_accepts (SetSubscriberConfig_fields message)"
  by (auto simp: SetSubscriberConfig_fields_def SetSubscriberConfig_accepts_def kind_defs SetSubscriberConfig_wf_def SetSubscriberConfig_V1_accepted
      split: option.splits)

lemma AnnounceStats_V1_accepted: "AnnounceStats_V1_wf message \<Longrightarrow> list_all AnnounceStats_V1_accepts (AnnounceStats_V1_fields message)"
  by (auto simp: AnnounceStats_V1_fields_def AnnounceStats_V1_accepts_def kind_defs AnnounceStats_V1_wf_def
      elim!: is_safe_uintE
      split: option.splits)

lemma AnnounceStats_accepted: "AnnounceStats_wf message \<Longrightarrow> list_all AnnounceStats_accepts (AnnounceStats_fields message)"
  by (auto simp: AnnounceStats_fields_def AnnounceStats_accepts_def kind_defs AnnounceStats_wf_def AnnounceStats_V1_accepted
      split: option.splits)

lemma Message_V1_accepted: "Message_V1_wf message \<Longrightarrow> list_all Message_V1_accepts (Message_V1_fields message)"
  by (auto simp: Message_V1_fields_def Message_V1_accepts_def kind_defs Message_V1_wf_def Event_accepted SetSubscriberConfig_accepted AnnounceStats_accepted
      split: option.splits)

lemma Message_accepted: "Message_wf message \<Longrightarrow> list_all Message_accepts (Message_fields message)"
  by (auto simp: Message_fields_def Message_accepts_def kind_defs Message_wf_def Message_V1_accepted
      split: option.splits)

section \<open>Merging the fields of a message gives the message\<close>

lemma JoinPublisher_sem: "sem_fields JoinPublisher_merge createBaseJoinPublisher (JoinPublisher_fields message) = message"
  by (cases message) (simp add: sem_fields_def JoinPublisher_fields_def createBaseJoinPublisher_def)

lemma JoinPublisher_Request_sem: "sem_fields JoinPublisher_Request_merge createBaseJoinPublisher_Request (JoinPublisher_Request_fields message) = message"
  by (cases message)
    (auto simp: sem_fields_def JoinPublisher_Request_fields_def createBaseJoinPublisher_Request_def JoinPublisher_Request_merge_def opt_str_def 
      split: option.splits)

lemma JoinPublisher_Response_sem: "sem_fields JoinPublisher_Response_merge createBaseJoinPublisher_Response (JoinPublisher_Response_fields message) = message"
  by (cases message)
    (auto simp: sem_fields_def JoinPublisher_Response_fields_def createBaseJoinPublisher_Response_def JoinPublisher_Response_merge_def opt_str_def def_str_def 
      split: option.splits)

lemma JoinSubscriber_sem: "sem_fields JoinSubscriber_merge createBaseJoinSubscriber (JoinSubscriber_fields message) = message"
  by (cases message) (simp add: sem_fields_def JoinSubscriber_fields_def createBaseJoinSubscriber_def)

lemma JoinSubscriber_Request_sem: "sem_fields JoinSubscriber_Request_merge createBaseJoinSubscriber_Request (JoinSubscriber_Request_fields message) = message"
  by (cases message)
    (auto simp: sem_fields_def JoinSubscriber_Request_fields_def createBaseJoinSubscriber_Request_def JoinSubscriber_Request_merge_def opt_str_def 
      split: option.splits)

lemma JoinSubscriber_Response_sem: "sem_fields JoinSubscriber_Response_merge createBaseJoinSubscriber_Response (JoinSubscriber_Response_fields message) = message"
  by (cases message)
    (auto simp: sem_fields_def JoinSubscriber_Response_fields_def createBaseJoinSubscriber_Response_def JoinSubscriber_Response_merge_def opt_str_def def_str_def 
      split: option.splits)

lemma PublishEvents_sem: "sem_fields PublishEvents_merge createBasePublishEvents (PublishEvents_fields message) = message"
  by (cases message) (simp add: sem_fields_def PublishEvents_fields_def createBasePublishEvents_def)

lemma Event_V1_TagsEntry_sem: "sem_fields Event_V1_TagsEntry_merge createBaseEvent_V1_TagsEntry (Event_V1_TagsEntry_fields message) = message"
  by (cases message)
    (auto simp: sem_fields_def Event_V1_TagsEntry_fields_def createBaseEvent_V1_TagsEntry_def Event_V1_TagsEntry_merge_def def_str_def 
      split: option.splits)

lemma Event_Log_merge_lines:
  "fold Event_Log_merge (rep_str 1 ss) message =
   message\<lparr>Event_Log.lines := Event_Log.lines message @ ss\<rparr>"
  by (induction ss arbitrary: message) (simp_all add: rep_str_def Event_Log_merge_def)

lemma Event_Log_sem: "Event_Log_wf message \<Longrightarrow> sem_fields Event_Log_merge createBaseEvent_Log (Event_Log_fields message) = message"
  by (cases message)
    (auto simp: sem_fields_def Event_Log_fields_def createBaseEvent_Log_def Event_Log_merge_lines [unfolded One_nat_def] Event_Log_merge_def def_num_def Event_Log_wf_def 
      elim!: is_safe_uintE split: option.splits)

lemma Event_V1_merge_tags:
  "fold Event_V1_merge (rep_msg 1 (\<lambda>p. Event_V1_TagsEntry_fields \<lparr>Event_V1_TagsEntry.key = fst p, Event_V1_TagsEntry.value = snd p\<rparr>) kvs) message =
   message\<lparr>Event_V1.tags := obj_build (Event_V1.tags message) kvs\<rparr>"
  by (induction kvs arbitrary: message)
    (auto simp: rep_msg_def Event_V1_merge_def Event_V1_TagsEntry_sem obj_build_def split: prod.splits)

lemma Event_V1_sem: "Event_V1_wf message \<Longrightarrow> sem_fields Event_V1_merge createBaseEvent_V1 (Event_V1_fields message) = message"
  by (cases message)
    (auto simp: sem_fields_def Event_V1_fields_def createBaseEvent_V1_def Event_V1_merge_tags [unfolded One_nat_def] Event_V1_merge_def def_bytes_def opt_msg_def Event_V1_wf_def obj_build_id Event_V1_TagsEntry_sem [unfolded sem_fields_def] Event_Log_sem [unfolded sem_fields_def]
      split: option.splits)

lemma Event_sem: "Event_wf message \<Longrightarrow> sem_fields Event_merge createBaseEvent (Event_fields message) = message"
  by (cases message)
    (auto simp: sem_fields_def Event_fields_def createBaseEvent_def Event_merge_def opt_msg_def Event_wf_def Event_V1_sem [unfolded sem_fields_def]
      split: option.splits)

lemma PublishEvents_Request_merge_events:
  "list_all Event_wf vs \<Longrightarrow> fold PublishEvents_Request_merge (rep_msg 1 Event_fields vs) message =
   message\<lparr>PublishEvents_Request.events := PublishEvents_Request.events message @ vs\<rparr>"
  by (induction vs arbitrary: message) (simp_all add: rep_msg_def PublishEvents_Request_merge_def Event_sem)

lemma PublishEvents_Request_sem: "PublishEvents_Request_wf message \<Longrightarrow> sem_fields PublishEvents_Request_merge createBasePublishEvents_Request (PublishEvents_Request_fields message) = message"
  by (cases message)
    (auto simp: sem_fields_def PublishEvents_Request_fields_def createBasePublishEvents_Request_def PublishEvents_Request_merge_events [unfolded One_nat_def] PublishEvents_Request_merge_def  PublishEvents_Request_wf_def Event_sem [unfolded sem_fields_def]
      split: option.splits)

lemma PublishEvents_Response_sem: "sem_fields PublishEvents_Response_merge createBasePublishEvents_Response (PublishEvents_Response_fields message) = message"
  by (cases message)
    (auto simp: sem_fields_def PublishEvents_Response_fields_def createBasePublishEvents_Response_def PublishEvents_Response_merge_def opt_str_def 
      split: option.splits)

lemma SetSubscriberConfig_V1_Call_merge_filters:
  "fold SetSubscriberConfig_V1_Call_merge (rep_str 2 ss) message =
   message\<lparr>SetSubscriberConfig_V1_Call.filters := SetSubscriberConfig_V1_Call.filters message @ ss\<rparr>"
  by (induction ss arbitrary: message) (simp_all add: rep_str_def SetSubscriberConfig_V1_Call_merge_def)

lemma SetSubscriberConfig_V1_Call_sem: "SetSubscriberConfig_V1_Call_wf message \<Longrightarrow> sem_fields SetSubscriberConfig_V1_Call_merge createBaseSetSubscriberConfig_V1_Call (SetSubscriberConfig_V1_Call_fields message) = message"
  by (cases message)
    (auto simp: sem_fields_def SetSubscriberConfig_V1_Call_fields_def createBaseSetSubscriberConfig_V1_Call_def SetSubscriberConfig_V1_Call_merge_filters [unfolded One_nat_def] SetSubscriberConfig_V1_Call_merge_def def_num_def SetSubscriberConfig_V1_Call_wf_def 
      elim!: is_safe_uintE split: option.splits)

lemma SetSubscriberConfig_V1_Result_sem: "SetSubscriberConfig_V1_Result_wf message \<Longrightarrow> sem_fields SetSubscriberConfig_V1_Result_merge createBaseSetSubscriberConfig_V1_Result (SetSubscriberConfig_V1_Result_fields message) = message"
  by (cases message)
    (auto simp: sem_fields_def SetSubscriberConfig_V1_Result_fields_def createBaseSetSubscriberConfig_V1_Result_def SetSubscriberConfig_V1_Result_merge_def def_num_def opt_str_def SetSubscriberConfig_V1_Result_wf_def 
      elim!: is_safe_uintE split: option.splits)

lemma SetSubscriberConfig_V1_sem: "SetSubscriberConfig_V1_wf message \<Longrightarrow> sem_fields SetSubscriberConfig_V1_merge createBaseSetSubscriberConfig_V1 (SetSubscriberConfig_V1_fields message) = message"
  by (cases message)
    (auto simp: sem_fields_def SetSubscriberConfig_V1_fields_def createBaseSetSubscriberConfig_V1_def SetSubscriberConfig_V1_merge_def opt_msg_def SetSubscriberConfig_V1_wf_def SetSubscriberConfig_V1_Call_sem [unfolded sem_fields_def] SetSubscriberConfig_V1_Result_sem [unfolded sem_fields_def]
      split: option.splits)

lemma SetSubscriberConfig_sem: "SetSubscriberConfig_wf message \<Longrightarrow> sem_fields SetSubscriberConfig_merge createBaseSetSubscriberConfig (SetSubscriberConfig_fields message) = message"
  by (cases message)
    (auto simp: sem_fields_def SetSubscriberConfig_fields_def createBaseSetSubscriberConfig_def SetSubscriberConfig_merge_def opt_msg_def SetSubscriberConfig_wf_def SetSubscriberConfig_V1_sem [unfolded sem_fields_def]
      split: option.splits)

lemma AnnounceStats_V1_sem: "AnnounceStats_V1_wf message \<Longrightarrow> sem_fields AnnounceStats_V1_merge createBaseAnnounceStats_V1 (AnnounceStats_V1_fields message) = message"
  by (cases message)
    (auto simp: sem_fields_def AnnounceStats_V1_fields_def createBaseAnnounceStats_V1_def AnnounceStats_V1_merge_def def_num_def AnnounceStats_V1_wf_def 
      elim!: is_safe_uintE split: option.splits)

lemma AnnounceStats_sem: "AnnounceStats_wf message \<Longrightarrow> sem_fields AnnounceStats_merge createBaseAnnounceStats (AnnounceStats_fields message) = message"
  by (cases message)
    (auto simp: sem_fields_def AnnounceStats_fields_def createBaseAnnounceStats_def AnnounceStats_merge_def opt_msg_def AnnounceStats_wf_def AnnounceStats_V1_sem [unfolded sem_fields_def]
      split: option.splits)

lemma Message_V1_sem: "Message_V1_wf message \<Longrightarrow> sem_fields Message_V1_merge createBaseMessage_V1 (Message_V1_fields message) = message"
  by (cases message)
    (auto simp: sem_fields_def Message_V1_fields_def createBaseMessage_V1_def Message_V1_merge_def opt_msg_def Message_V1_wf_def Event_sem [unfolded sem_fields_def] SetSubscriberConfig_sem [unfolded sem_fields_def] AnnounceStats_sem [unfolded sem_fields_def]
      split: option.splits)

lemma Message_sem: "Message_wf message \<Longrightarrow> sem_fields Message_merge createBaseMessage (Message_fields message) = message"
  by (cases message)
    (auto simp: sem_fields_def Message_fields_def createBaseMessage_def Message_merge_def opt_msg_def Message_wf_def Message_V1_sem [unfolded sem_fields_def]
      split: option.splits)

section \<open>The codecs\<close>

sublocale wire \<subseteq> JoinPublisher_codec: message_codec W stk R buf "JoinPublisher_encode W" "JoinPublisher_decode R"
    JoinPublisher_fields JoinPublisher_accepts JoinPublisher_merge createBaseJoinPublisher "\<lambda>_. True"
  by unfold_locales
    (simp_all add: JoinPublisher_emits JoinPublisher_decodes JoinPublisher_valid JoinPublisher_accepted JoinPublisher_sem)

sublocale wire \<subseteq> JoinPublisher_Request_codec: message_codec W stk R buf "JoinPublisher_Request_encode W" "JoinPublisher_Request_decode R"
    JoinPublisher_Request_fields JoinPublisher_Request_accepts JoinPublisher_Request_merge createBaseJoinPublisher_Request "\<lambda>_. True"
  by unfold_locales
    (simp_all add: JoinPublisher_Request_emits JoinPublisher_Request_decodes JoinPublisher_Request_valid JoinPublisher_Request_accepted JoinPublisher_Request_sem)

sublocale wire \<subseteq> JoinPublisher_Response_codec: message_codec W stk R buf "JoinPublisher_Response_encode W" "JoinPublisher_Response_decode R"
    JoinPublisher_Response_fields JoinPublisher_Response_accepts JoinPublisher_Response_merge createBaseJoinPublisher_Response "\<lambda>_. True"
  by unfold_locales
    (simp_all add: JoinPublisher_Response_emits JoinPublisher_Response_decodes JoinPublisher_Response_valid JoinPublisher_Response_accepted JoinPublisher_Response_sem)

sublocale wire \<subseteq> JoinSubscriber_codec: message_codec W stk R buf "JoinSubscriber_encode W" "JoinSubscriber_decode R"
    JoinSubscriber_fields JoinSubscriber_accepts JoinSubscriber_merge createBaseJoinSubscriber "\<lambda>_. True"
  by unfold_locales
    (simp_all add: JoinSubscriber_emits JoinSubscriber_decodes JoinSubscriber_valid JoinSubscriber_accepted JoinSubscriber_sem)

sublocale wire \<subseteq> JoinSubscriber_Request_codec: message_codec W stk R buf "JoinSubscriber_Request_encode W" "JoinSubscriber_Request_decode R"
    JoinSubscriber_Request_fields JoinSubscriber_Request_accepts JoinSubscriber_Request_merge createBaseJoinSubscriber_Request "\<lambda>_. True"
  by unfold_locales
    (simp_all add: JoinSubscriber_Request_emits JoinSubscriber_Request_decodes JoinSubscriber_Request_valid JoinSubscriber_Request_accepted JoinSubscriber_Request_sem)

sublocale wire \<subseteq> JoinSubscriber_Response_codec: message_codec W stk R buf "JoinSubscriber_Response_encode W" "JoinSubscriber_Response_decode R"
    JoinSubscriber_Response_fields JoinSubscriber_Response_accepts JoinSubscriber_Response_merge createBaseJoinSubscriber_Response "\<lambda>_. True"
  by unfold_locales
    (simp_all add: JoinSubscriber_Response_emits JoinSubscriber_Response_decodes JoinSubscriber_Response_valid JoinSubscriber_Response_accepted JoinSubscriber_Response_sem)

sublocale wire \<subseteq> PublishEvents_codec: message_codec W stk R buf "PublishEvents_encode W" "PublishEvents_decode R"
    PublishEvents_fields PublishEvents_accepts PublishEvents_merge createBasePublishEvents "\<lambda>_. True"
  by unfold_locales
    (simp_all add: PublishEvents_emits PublishEvents_decodes PublishEvents_valid PublishEvents_accepted PublishEvents_sem)

sublocale wire \<subseteq> Event_V1_TagsEntry_codec: message_codec W stk R buf "Event_V1_TagsEntry_encode W" "Event_V1_TagsEntry_decode R"
    Event_V1_TagsEntry_fields Event_V1_TagsEntry_accepts Event_V1_TagsEntry_merge createBaseEvent_V1_TagsEntry "\<lambda>_. True"
  by unfold_locales
    (simp_all add: Event_V1_TagsEntry_emits Event_V1_TagsEntry_decodes Event_V1_TagsEntry_valid Event_V1_TagsEntry_accepted Event_V1_TagsEntry_sem)

sublocale wire \<subseteq> Event_Log_codec: message_codec W stk R buf "Event_Log_encode W" "Event_Log_decode R"
    Event_Log_fields Event_Log_accepts Event_Log_merge createBaseEvent_Log Event_Log_wf
  by unfold_locales
    (simp_all add: Event_Log_wf_enc_ok Event_Log_emits Event_Log_decodes Event_Log_valid Event_Log_accepted Event_Log_sem)

sublocale wire \<subseteq> Event_V1_codec: message_codec W stk R buf "Event_V1_encode W" "Event_V1_decode R"
    Event_V1_fields Event_V1_accepts Event_V1_merge createBaseEvent_V1 Event_V1_wf
  by unfold_locales
    (simp_all add: Event_V1_wf_enc_ok Event_V1_emits Event_V1_decodes Event_V1_valid Event_V1_accepted Event_V1_sem)

sublocale wire \<subseteq> Event_codec: message_codec W stk R buf "Event_encode W" "Event_decode R"
    Event_fields Event_accepts Event_merge createBaseEvent Event_wf
  by unfold_locales
    (simp_all add: Event_wf_enc_ok Event_emits Event_decodes Event_valid Event_accepted Event_sem)

sublocale wire \<subseteq> PublishEvents_Request_codec: message_codec W stk R buf "PublishEvents_Request_encode W" "PublishEvents_Request_decode R"
    PublishEvents_Request_fields PublishEvents_Request_accepts PublishEvents_Request_merge createBasePublishEvents_Request PublishEvents_Request_wf
  by unfold_locales
    (simp_all add: PublishEvents_Request_wf_enc_ok PublishEvents_Request_emits PublishEvents_Request_decodes PublishEvents_Request_valid PublishEvents_Request_accepted PublishEvents_Request_sem)

sublocale wire \<subseteq> PublishEvents_Response_codec: message_codec W stk R buf "PublishEvents_Response_encode W" "PublishEvents_Response_decode R"
    PublishEvents_Response_fields PublishEvents_Response_accepts PublishEvents_Response_merge createBasePublishEvents_Response "\<lambda>_. True"
  by unfold_locales
    (simp_all add: PublishEvents_Response_emits PublishEvents_Response_decodes PublishEvents_Response_valid PublishEvents_Response_accepted PublishEvents_Response_sem)

sublocale wire \<subseteq> SetSubscriberConfig_V1_Call_codec: message_codec W stk R buf "SetSubscriberConfig_V1_Call_encode W" "SetSubscriberConfig_V1_Call_decode R"
    SetSubscriberConfig_V1_Call_fields SetSubscriberConfig_V1_Call_accepts SetSubscriberConfig_V1_Call_merge createBaseSetSubscriberConfig_V1_Call SetSubscriberConfig_V1_Call_wf
  by unfold_locales
    (simp_all add: SetSubscriberConfig_V1_Call_wf_enc_ok SetSubscriberConfig_V1_Call_emits SetSubscriberConfig_V1_Call_decodes SetSubscriberConfig_V1_Call_valid SetSubscriberConfig_V1_Call_accepted SetSubscriberConfig_V1_Call_sem)

sublocale wire \<subseteq> SetSubscriberConfig_V1_Result_codec: message_codec W stk R buf "SetSubscriberConfig_V1_Result_encode W" "SetSubscriberConfig_V1_Result_decode R"
    SetSubscriberConfig_V1_Result_fields SetSubscriberConfig_V1_Result_accepts SetSubscriberConfig_V1_Result_merge createBaseSetSubscriberConfig_V1_Result SetSubscriberConfig_V1_Result_wf
  by unfold_locales
    (simp_all add: SetSubscriberConfig_V1_Result_wf_enc_ok SetSubscriberConfig_V1_Result_emits SetSubscriberConfig_V1_Result_decodes SetSubscriberConfig_V1_Result_valid SetSubscriberConfig_V1_Result_accepted SetSubscriberConfig_V1_Result_sem)

sublocale wire \<subseteq> SetSubscriberConfig_V1_codec: message_codec W stk R buf "SetSubscriberConfig_V1_encode W" "SetSubscriberConfig_V1_decode R"
    SetSubscriberConfig_V1_fields SetSubscriberConfig_V1_accepts SetSubscriberConfig_V1_merge createBaseSetSubscriberConfig_V1 SetSubscriberConfig_V1_wf
  by unfold_locales
    (simp_all add: SetSubscriberConfig_V1_wf_enc_ok SetSubscriberConfig_V1_emits SetSubscriberConfig_V1_decodes SetSubscriberConfig_V1_valid SetSubscriberConfig_V1_accepted SetSubscriberConfig_V1_sem)

sublocale wire \<subseteq> SetSubscriberConfig_codec: message_codec W stk R buf "SetSubscriberConfig_encode W" "SetSubscriberConfig_decode R"
    SetSubscriberConfig_fields SetSubscriberConfig_accepts SetSubscriberConfig_merge createBaseSetSubscriberConfig SetSubscriberConfig_wf
  by unfold_locales
    (simp_all add: SetSubscriberConfig_wf_enc_ok SetSubscriberConfig_emits SetSubscriberConfig_decodes SetSubscriberConfig_valid SetSubscriberConfig_accepted SetSubscriberConfig_sem)

sublocale wire \<subseteq> AnnounceStats_V1_codec: message_codec W stk R buf "AnnounceStats_V1_encode W" "AnnounceStats_V1_decode R"
    AnnounceStats_V1_fields AnnounceStats_V1_accepts AnnounceStats_V1_merge createBaseAnnounceStats_V1 AnnounceStats_V1_wf
  by unfold_locales
    (simp_all add: AnnounceStats_V1_wf_enc_ok AnnounceStats_V1_emits AnnounceStats_V1_decodes AnnounceStats_V1_valid AnnounceStats_V1_accepted AnnounceStats_V1_sem)

sublocale wire \<subseteq> AnnounceStats_codec: message_codec W stk R buf "AnnounceStats_encode W" "AnnounceStats_decode R"
    AnnounceStats_fields AnnounceStats_accepts AnnounceStats_merge createBaseAnnounceStats AnnounceStats_wf
  by unfold_locales
    (simp_all add: AnnounceStats_wf_enc_ok AnnounceStats_emits AnnounceStats_decodes AnnounceStats_valid AnnounceStats_accepted AnnounceStats_sem)

sublocale wire \<subseteq> Message_V1_codec: message_codec W stk R buf "Message_V1_encode W" "Message_V1_decode R"
    Message_V1_fields Message_V1_accepts Message_V1_merge createBaseMessage_V1 Message_V1_wf
  by unfold_locales
    (simp_all add: Message_V1_wf_enc_ok Message_V1_emits Message_V1_decodes Message_V1_valid Message_V1_accepted Message_V1_sem)

sublocale wire \<subseteq> Message_codec: message_codec W stk R buf "Message_encode W" "Message_decode R"
    Message_fields Message_accepts Message_merge createBaseMessage Message_wf
  by unfold_locales
    (simp_all add: Message_wf_enc_ok Message_emits Message_decodes Message_valid Message_accepted Message_sem)

text \<open>The contracts, as facts for use outside the locale.\<close>

context wire begin

lemmas JoinPublisher_contract = JoinPublisher_codec.message_codec_axioms
lemmas JoinPublisher_Request_contract = JoinPublisher_Request_codec.message_codec_axioms
lemmas JoinPublisher_Response_contract = JoinPublisher_Response_codec.message_codec_axioms
lemmas JoinSubscriber_contract = JoinSubscriber_codec.message_codec_axioms
lemmas JoinSubscriber_Request_contract = JoinSubscriber_Request_codec.message_codec_axioms
lemmas JoinSubscriber_Response_contract = JoinSubscriber_Response_codec.message_codec_axioms
lemmas PublishEvents_contract = PublishEvents_codec.message_codec_axioms
lemmas Event_V1_TagsEntry_contract = Event_V1_TagsEntry_codec.message_codec_axioms
lemmas Event_Log_contract = Event_Log_codec.message_codec_axioms
lemmas Event_V1_contract = Event_V1_codec.message_codec_axioms
lemmas Event_contract = Event_codec.message_codec_axioms
lemmas PublishEvents_Request_contract = PublishEvents_Request_codec.message_codec_axioms
lemmas PublishEvents_Response_contract = PublishEvents_Response_codec.message_codec_axioms
lemmas SetSubscriberConfig_V1_Call_contract = SetSubscriberConfig_V1_Call_codec.message_codec_axioms
lemmas SetSubscriberConfig_V1_Result_contract = SetSubscriberConfig_V1_Result_codec.message_codec_axioms
lemmas SetSubscriberConfig_V1_contract = SetSubscriberConfig_V1_codec.message_codec_axioms
lemmas SetSubscriberConfig_contract = SetSubscriberConfig_codec.message_codec_axioms
lemmas AnnounceStats_V1_contract = AnnounceStats_V1_codec.message_codec_axioms
lemmas AnnounceStats_contract = AnnounceStats_codec.message_codec_axioms
lemmas Message_V1_contract = Message_V1_codec.message_codec_axioms
lemmas Message_contract = Message_codec.message_codec_axioms

end

end
