(* ===== verification/PubsubJsonCodec.thy ===== *)
theory PubsubJsonCodec
  imports PubsubJson PubsubCodec
begin

text \<open>
  \<open>fromJSON\<close> reads back what \<open>toJSON\<close> writes, for every message: the contract
  \<open>json_codec\<close> and its interpretations.
\<close>

section \<open>The contract\<close>

locale json_codec =
  fixes to_json :: "'m \<Rightarrow> jsval"
    and from_json :: "jsval \<Rightarrow> 'm result"
    and wf :: "'m \<Rightarrow> bool"
  assumes to_json_object: "\<exists>ps. to_json m = JObj ps"
    and from_to: "wf m \<Longrightarrow> from_json (to_json m) = Inr m"
begin

lemma isSet_to_json [simp]: "isSet (to_json m)"
  using to_json_object [of m] by auto

lemma from_to_list: "list_all wf ms \<Longrightarrow> mapE from_json (map to_json ms) = Inr ms"
  by (induction ms) (simp_all add: from_to)

lemma from_to_optional:
  "pred_option wf x \<Longrightarrow> obj_get ps k = map_option to_json x \<Longrightarrow>
   json_optional from_json (JObj ps) k = Inr x"
  by (cases x) (simp_all add: json_optional_def json_field_def from_to)

lemma to_json_inject: "wf m \<Longrightarrow> wf m' \<Longrightarrow> to_json m = to_json m' \<longleftrightarrow> m = m'"
  by (metis from_to sum.inject(2))

end

section \<open>Reading single fields\<close>

lemma json_field_simps:
  "json_field d f (JObj ps) k =
     (case obj_get ps k of None \<Rightarrow> Inr d | Some x \<Rightarrow> if isSet x then f x else Inr d)"
  by (simp add: json_field_def split: option.splits)

lemma json_optional_simps:
  "json_optional f (JObj ps) k =
     (case obj_get ps k of
        None \<Rightarrow> Inr None
      | Some x \<Rightarrow> if isSet x then bindE (f x) (\<lambda>y. Inr (Some y)) else Inr None)"
  by (simp add: json_optional_def json_field_def split: option.splits)

lemma json_array_simps:
  "json_array f (JObj ps) k =
     (case obj_get ps k of None \<Rightarrow> Inr [] | Some x \<Rightarrow> map_array f x)"
  by (simp add: json_array_def split: option.splits)

lemma obj_ok_map: "obj_ok (map (\<lambda>(k, v). (k, f v)) ps) \<longleftrightarrow> obj_ok ps"
proof -
  have "map fst (map (\<lambda>(k, v). (k, f v)) ps) = map fst ps"
    by (induction ps) auto
  moreover from this have "fst ` set (map (\<lambda>(k, v). (k, f v)) ps) = fst ` set ps"
    by (metis list.set_map)
  ultimately show ?thesis by (simp only: obj_ok_def)
qed

lemma foldE_tags:
  "foldE (\<lambda>acc (key, value). bindE (js_String P value) (\<lambda>s. Inr (obj_set key s acc))) acc
     (map (\<lambda>(k, v). (k, JStr v)) kvs) = Inr (obj_build acc kvs)"
  by (induction kvs arbitrary: acc) auto

lemma json_tags_JObj:
  "obj_ok ts \<Longrightarrow> obj_get ps k = Some (JObj (obj_build [] (map (\<lambda>(k, v). (k, JStr v)) ts))) \<Longrightarrow>
   json_tags P (JObj ps) k = Inr ts"
  by (simp add: json_tags_def obj_build_id obj_ok_map js_entries_def foldE_tags)

lemma json_tags_None: "obj_get ps k = None \<Longrightarrow> json_tags P (JObj ps) k = Inr []"
  by (simp add: json_tags_def)

lemmas json_reads =
  json_field_simps json_optional_simps json_array_simps obj_get_set proto_key_def Let_def

section \<open>The messages\<close>

lemma JoinPublisher_toJSON_object: "\<exists>ps. JoinPublisher_toJSON P message = JObj ps"
  by (simp add: JoinPublisher_toJSON_def Let_def)

lemma JoinPublisher_isSet [simp]: "isSet (JoinPublisher_toJSON P message)"
  by (simp add: JoinPublisher_toJSON_def Let_def)

lemma JoinPublisher_json:
  "JoinPublisher_fromJSON P (JoinPublisher_toJSON P message) = Inr message"
  by (cases message) (simp add: JoinPublisher_fromJSON_def)

lemma JoinPublisher_Request_toJSON_object: "\<exists>ps. JoinPublisher_Request_toJSON P message = JObj ps"
  by (simp add: JoinPublisher_Request_toJSON_def Let_def)

lemma JoinPublisher_Request_isSet [simp]: "isSet (JoinPublisher_Request_toJSON P message)"
  by (simp add: JoinPublisher_Request_toJSON_def Let_def)

lemma JoinPublisher_Request_json:
  "JoinPublisher_Request_fromJSON P (JoinPublisher_Request_toJSON P message) = Inr message"
  by (cases message)
    (auto simp: JoinPublisher_Request_fromJSON_def JoinPublisher_Request_toJSON_def json_reads 
      split: option.splits)

lemma JoinPublisher_Response_toJSON_object: "\<exists>ps. JoinPublisher_Response_toJSON P message = JObj ps"
  by (simp add: JoinPublisher_Response_toJSON_def Let_def)

lemma JoinPublisher_Response_isSet [simp]: "isSet (JoinPublisher_Response_toJSON P message)"
  by (simp add: JoinPublisher_Response_toJSON_def Let_def)

lemma JoinPublisher_Response_json:
  "JoinPublisher_Response_fromJSON P (JoinPublisher_Response_toJSON P message) = Inr message"
  by (cases message)
    (auto simp: JoinPublisher_Response_fromJSON_def JoinPublisher_Response_toJSON_def json_reads 
      split: option.splits)

lemma JoinSubscriber_toJSON_object: "\<exists>ps. JoinSubscriber_toJSON P message = JObj ps"
  by (simp add: JoinSubscriber_toJSON_def Let_def)

lemma JoinSubscriber_isSet [simp]: "isSet (JoinSubscriber_toJSON P message)"
  by (simp add: JoinSubscriber_toJSON_def Let_def)

lemma JoinSubscriber_json:
  "JoinSubscriber_fromJSON P (JoinSubscriber_toJSON P message) = Inr message"
  by (cases message) (simp add: JoinSubscriber_fromJSON_def)

lemma JoinSubscriber_Request_toJSON_object: "\<exists>ps. JoinSubscriber_Request_toJSON P message = JObj ps"
  by (simp add: JoinSubscriber_Request_toJSON_def Let_def)

lemma JoinSubscriber_Request_isSet [simp]: "isSet (JoinSubscriber_Request_toJSON P message)"
  by (simp add: JoinSubscriber_Request_toJSON_def Let_def)

lemma JoinSubscriber_Request_json:
  "JoinSubscriber_Request_fromJSON P (JoinSubscriber_Request_toJSON P message) = Inr message"
  by (cases message)
    (auto simp: JoinSubscriber_Request_fromJSON_def JoinSubscriber_Request_toJSON_def json_reads 
      split: option.splits)

lemma JoinSubscriber_Response_toJSON_object: "\<exists>ps. JoinSubscriber_Response_toJSON P message = JObj ps"
  by (simp add: JoinSubscriber_Response_toJSON_def Let_def)

lemma JoinSubscriber_Response_isSet [simp]: "isSet (JoinSubscriber_Response_toJSON P message)"
  by (simp add: JoinSubscriber_Response_toJSON_def Let_def)

lemma JoinSubscriber_Response_json:
  "JoinSubscriber_Response_fromJSON P (JoinSubscriber_Response_toJSON P message) = Inr message"
  by (cases message)
    (auto simp: JoinSubscriber_Response_fromJSON_def JoinSubscriber_Response_toJSON_def json_reads 
      split: option.splits)

lemma PublishEvents_toJSON_object: "\<exists>ps. PublishEvents_toJSON P message = JObj ps"
  by (simp add: PublishEvents_toJSON_def Let_def)

lemma PublishEvents_isSet [simp]: "isSet (PublishEvents_toJSON P message)"
  by (simp add: PublishEvents_toJSON_def Let_def)

lemma PublishEvents_json:
  "PublishEvents_fromJSON P (PublishEvents_toJSON P message) = Inr message"
  by (cases message) (simp add: PublishEvents_fromJSON_def)

lemma Event_V1_TagsEntry_toJSON_object: "\<exists>ps. Event_V1_TagsEntry_toJSON P message = JObj ps"
  by (simp add: Event_V1_TagsEntry_toJSON_def Let_def)

lemma Event_V1_TagsEntry_isSet [simp]: "isSet (Event_V1_TagsEntry_toJSON P message)"
  by (simp add: Event_V1_TagsEntry_toJSON_def Let_def)

lemma Event_V1_TagsEntry_json:
  "Event_V1_TagsEntry_fromJSON P (Event_V1_TagsEntry_toJSON P message) = Inr message"
  by (cases message)
    (auto simp: Event_V1_TagsEntry_fromJSON_def Event_V1_TagsEntry_toJSON_def json_reads 
      split: option.splits)

lemma Event_Log_toJSON_object: "\<exists>ps. Event_Log_toJSON P message = JObj ps"
  by (simp add: Event_Log_toJSON_def Let_def)

lemma Event_Log_isSet [simp]: "isSet (Event_Log_toJSON P message)"
  by (simp add: Event_Log_toJSON_def Let_def)

lemma Event_Log_json:
  "Event_Log_wf message \<Longrightarrow> Event_Log_fromJSON P (Event_Log_toJSON P message) = Inr message"
  by (cases message)
    (auto simp: Event_Log_fromJSON_def Event_Log_toJSON_def json_reads Event_Log_wf_def 
      elim!: is_safe_uintE split: option.splits)

lemma Event_V1_toJSON_object: "\<exists>ps. Event_V1_toJSON P message = JObj ps"
  by (simp add: Event_V1_toJSON_def Let_def)

lemma Event_V1_isSet [simp]: "isSet (Event_V1_toJSON P message)"
  by (simp add: Event_V1_toJSON_def Let_def)

lemma Event_V1_json:
  "buffer_ok P \<Longrightarrow> Event_V1_wf message \<Longrightarrow> Event_V1_fromJSON P (Event_V1_toJSON P message) = Inr message"
  by (cases message)
    (auto simp: Event_V1_fromJSON_def Event_V1_toJSON_def json_reads Event_V1_wf_def json_tags_JObj json_tags_None Event_Log_json
      split: option.splits)

lemma Event_toJSON_object: "\<exists>ps. Event_toJSON P message = JObj ps"
  by (simp add: Event_toJSON_def Let_def)

lemma Event_isSet [simp]: "isSet (Event_toJSON P message)"
  by (simp add: Event_toJSON_def Let_def)

lemma Event_json:
  "buffer_ok P \<Longrightarrow> Event_wf message \<Longrightarrow> Event_fromJSON P (Event_toJSON P message) = Inr message"
  by (cases message)
    (auto simp: Event_fromJSON_def Event_toJSON_def json_reads Event_wf_def Event_V1_json
      split: option.splits)

lemma PublishEvents_Request_toJSON_object: "\<exists>ps. PublishEvents_Request_toJSON P message = JObj ps"
  by (simp add: PublishEvents_Request_toJSON_def Let_def)

lemma PublishEvents_Request_isSet [simp]: "isSet (PublishEvents_Request_toJSON P message)"
  by (simp add: PublishEvents_Request_toJSON_def Let_def)

lemma mapE_PublishEvents_Request:
  "buffer_ok P \<Longrightarrow> list_all Event_wf vs \<Longrightarrow> mapE (Event_fromJSON P) (map (Event_toJSON P) vs) = Inr vs"
  by (induction vs) (simp_all add: Event_json)

lemma PublishEvents_Request_json:
  "buffer_ok P \<Longrightarrow> PublishEvents_Request_wf message \<Longrightarrow> PublishEvents_Request_fromJSON P (PublishEvents_Request_toJSON P message) = Inr message"
  by (cases message)
    (auto simp: PublishEvents_Request_fromJSON_def PublishEvents_Request_toJSON_def json_reads PublishEvents_Request_wf_def Event_json mapE_PublishEvents_Request
      split: option.splits)

lemma PublishEvents_Response_toJSON_object: "\<exists>ps. PublishEvents_Response_toJSON P message = JObj ps"
  by (simp add: PublishEvents_Response_toJSON_def Let_def)

lemma PublishEvents_Response_isSet [simp]: "isSet (PublishEvents_Response_toJSON P message)"
  by (simp add: PublishEvents_Response_toJSON_def Let_def)

lemma PublishEvents_Response_json:
  "PublishEvents_Response_fromJSON P (PublishEvents_Response_toJSON P message) = Inr message"
  by (cases message)
    (auto simp: PublishEvents_Response_fromJSON_def PublishEvents_Response_toJSON_def json_reads 
      split: option.splits)

lemma SetSubscriberConfig_V1_Call_toJSON_object: "\<exists>ps. SetSubscriberConfig_V1_Call_toJSON P message = JObj ps"
  by (simp add: SetSubscriberConfig_V1_Call_toJSON_def Let_def)

lemma SetSubscriberConfig_V1_Call_isSet [simp]: "isSet (SetSubscriberConfig_V1_Call_toJSON P message)"
  by (simp add: SetSubscriberConfig_V1_Call_toJSON_def Let_def)

lemma SetSubscriberConfig_V1_Call_json:
  "SetSubscriberConfig_V1_Call_wf message \<Longrightarrow> SetSubscriberConfig_V1_Call_fromJSON P (SetSubscriberConfig_V1_Call_toJSON P message) = Inr message"
  by (cases message)
    (auto simp: SetSubscriberConfig_V1_Call_fromJSON_def SetSubscriberConfig_V1_Call_toJSON_def json_reads SetSubscriberConfig_V1_Call_wf_def 
      elim!: is_safe_uintE split: option.splits)

lemma SetSubscriberConfig_V1_Result_toJSON_object: "\<exists>ps. SetSubscriberConfig_V1_Result_toJSON P message = JObj ps"
  by (simp add: SetSubscriberConfig_V1_Result_toJSON_def Let_def)

lemma SetSubscriberConfig_V1_Result_isSet [simp]: "isSet (SetSubscriberConfig_V1_Result_toJSON P message)"
  by (simp add: SetSubscriberConfig_V1_Result_toJSON_def Let_def)

lemma SetSubscriberConfig_V1_Result_json:
  "SetSubscriberConfig_V1_Result_wf message \<Longrightarrow> SetSubscriberConfig_V1_Result_fromJSON P (SetSubscriberConfig_V1_Result_toJSON P message) = Inr message"
  by (cases message)
    (auto simp: SetSubscriberConfig_V1_Result_fromJSON_def SetSubscriberConfig_V1_Result_toJSON_def json_reads SetSubscriberConfig_V1_Result_wf_def 
      elim!: is_safe_uintE split: option.splits)

lemma SetSubscriberConfig_V1_toJSON_object: "\<exists>ps. SetSubscriberConfig_V1_toJSON P message = JObj ps"
  by (simp add: SetSubscriberConfig_V1_toJSON_def Let_def)

lemma SetSubscriberConfig_V1_isSet [simp]: "isSet (SetSubscriberConfig_V1_toJSON P message)"
  by (simp add: SetSubscriberConfig_V1_toJSON_def Let_def)

lemma SetSubscriberConfig_V1_json:
  "SetSubscriberConfig_V1_wf message \<Longrightarrow> SetSubscriberConfig_V1_fromJSON P (SetSubscriberConfig_V1_toJSON P message) = Inr message"
  by (cases message)
    (auto simp: SetSubscriberConfig_V1_fromJSON_def SetSubscriberConfig_V1_toJSON_def json_reads SetSubscriberConfig_V1_wf_def SetSubscriberConfig_V1_Call_json SetSubscriberConfig_V1_Result_json
      split: option.splits)

lemma SetSubscriberConfig_toJSON_object: "\<exists>ps. SetSubscriberConfig_toJSON P message = JObj ps"
  by (simp add: SetSubscriberConfig_toJSON_def Let_def)

lemma SetSubscriberConfig_isSet [simp]: "isSet (SetSubscriberConfig_toJSON P message)"
  by (simp add: SetSubscriberConfig_toJSON_def Let_def)

lemma SetSubscriberConfig_json:
  "SetSubscriberConfig_wf message \<Longrightarrow> SetSubscriberConfig_fromJSON P (SetSubscriberConfig_toJSON P message) = Inr message"
  by (cases message)
    (auto simp: SetSubscriberConfig_fromJSON_def SetSubscriberConfig_toJSON_def json_reads SetSubscriberConfig_wf_def SetSubscriberConfig_V1_json
      split: option.splits)

lemma AnnounceStats_V1_toJSON_object: "\<exists>ps. AnnounceStats_V1_toJSON P message = JObj ps"
  by (simp add: AnnounceStats_V1_toJSON_def Let_def)

lemma AnnounceStats_V1_isSet [simp]: "isSet (AnnounceStats_V1_toJSON P message)"
  by (simp add: AnnounceStats_V1_toJSON_def Let_def)

lemma AnnounceStats_V1_json:
  "AnnounceStats_V1_wf message \<Longrightarrow> AnnounceStats_V1_fromJSON P (AnnounceStats_V1_toJSON P message) = Inr message"
  by (cases message)
    (auto simp: AnnounceStats_V1_fromJSON_def AnnounceStats_V1_toJSON_def json_reads AnnounceStats_V1_wf_def 
      elim!: is_safe_uintE split: option.splits)

lemma AnnounceStats_toJSON_object: "\<exists>ps. AnnounceStats_toJSON P message = JObj ps"
  by (simp add: AnnounceStats_toJSON_def Let_def)

lemma AnnounceStats_isSet [simp]: "isSet (AnnounceStats_toJSON P message)"
  by (simp add: AnnounceStats_toJSON_def Let_def)

lemma AnnounceStats_json:
  "AnnounceStats_wf message \<Longrightarrow> AnnounceStats_fromJSON P (AnnounceStats_toJSON P message) = Inr message"
  by (cases message)
    (auto simp: AnnounceStats_fromJSON_def AnnounceStats_toJSON_def json_reads AnnounceStats_wf_def AnnounceStats_V1_json
      split: option.splits)

lemma Message_V1_toJSON_object: "\<exists>ps. Message_V1_toJSON P message = JObj ps"
  by (simp add: Message_V1_toJSON_def Let_def)

lemma Message_V1_isSet [simp]: "isSet (Message_V1_toJSON P message)"
  by (simp add: Message_V1_toJSON_def Let_def)

lemma Message_V1_json:
  "buffer_ok P \<Longrightarrow> Message_V1_wf message \<Longrightarrow> Message_V1_fromJSON P (Message_V1_toJSON P message) = Inr message"
  by (cases message)
    (auto simp: Message_V1_fromJSON_def Message_V1_toJSON_def json_reads Message_V1_wf_def Event_json SetSubscriberConfig_json AnnounceStats_json
      split: option.splits)

lemma Message_toJSON_object: "\<exists>ps. Message_toJSON P message = JObj ps"
  by (simp add: Message_toJSON_def Let_def)

lemma Message_isSet [simp]: "isSet (Message_toJSON P message)"
  by (simp add: Message_toJSON_def Let_def)

lemma Message_json:
  "buffer_ok P \<Longrightarrow> Message_wf message \<Longrightarrow> Message_fromJSON P (Message_toJSON P message) = Inr message"
  by (cases message)
    (auto simp: Message_fromJSON_def Message_toJSON_def json_reads Message_wf_def Message_V1_json
      split: option.splits)

interpretation JoinPublisher_json_codec: json_codec "JoinPublisher_toJSON P" "JoinPublisher_fromJSON P" "\<lambda>_. True" for P
  by unfold_locales (simp_all add: JoinPublisher_toJSON_object JoinPublisher_json)

interpretation JoinPublisher_Request_json_codec: json_codec "JoinPublisher_Request_toJSON P" "JoinPublisher_Request_fromJSON P" "\<lambda>_. True" for P
  by unfold_locales (simp_all add: JoinPublisher_Request_toJSON_object JoinPublisher_Request_json)

interpretation JoinPublisher_Response_json_codec: json_codec "JoinPublisher_Response_toJSON P" "JoinPublisher_Response_fromJSON P" "\<lambda>_. True" for P
  by unfold_locales (simp_all add: JoinPublisher_Response_toJSON_object JoinPublisher_Response_json)

interpretation JoinSubscriber_json_codec: json_codec "JoinSubscriber_toJSON P" "JoinSubscriber_fromJSON P" "\<lambda>_. True" for P
  by unfold_locales (simp_all add: JoinSubscriber_toJSON_object JoinSubscriber_json)

interpretation JoinSubscriber_Request_json_codec: json_codec "JoinSubscriber_Request_toJSON P" "JoinSubscriber_Request_fromJSON P" "\<lambda>_. True" for P
  by unfold_locales (simp_all add: JoinSubscriber_Request_toJSON_object JoinSubscriber_Request_json)

interpretation JoinSubscriber_Response_json_codec: json_codec "JoinSubscriber_Response_toJSON P" "JoinSubscriber_Response_fromJSON P" "\<lambda>_. True" for P
  by unfold_locales (simp_all add: JoinSubscriber_Response_toJSON_object JoinSubscriber_Response_json)

interpretation PublishEvents_json_codec: json_codec "PublishEvents_toJSON P" "PublishEvents_fromJSON P" "\<lambda>_. True" for P
  by unfold_locales (simp_all add: PublishEvents_toJSON_object PublishEvents_json)

interpretation Event_V1_TagsEntry_json_codec: json_codec "Event_V1_TagsEntry_toJSON P" "Event_V1_TagsEntry_fromJSON P" "\<lambda>_. True" for P
  by unfold_locales (simp_all add: Event_V1_TagsEntry_toJSON_object Event_V1_TagsEntry_json)

interpretation Event_Log_json_codec: json_codec "Event_Log_toJSON P" "Event_Log_fromJSON P" "Event_Log_wf" for P
  by unfold_locales (simp_all add: Event_Log_toJSON_object Event_Log_json)

interpretation Event_V1_json_codec: json_codec "Event_V1_toJSON P" "Event_V1_fromJSON P" "\<lambda>m. buffer_ok P \<and> Event_V1_wf m" for P
  by unfold_locales (simp_all add: Event_V1_toJSON_object Event_V1_json)

interpretation Event_json_codec: json_codec "Event_toJSON P" "Event_fromJSON P" "\<lambda>m. buffer_ok P \<and> Event_wf m" for P
  by unfold_locales (simp_all add: Event_toJSON_object Event_json)

interpretation PublishEvents_Request_json_codec: json_codec "PublishEvents_Request_toJSON P" "PublishEvents_Request_fromJSON P" "\<lambda>m. buffer_ok P \<and> PublishEvents_Request_wf m" for P
  by unfold_locales (simp_all add: PublishEvents_Request_toJSON_object PublishEvents_Request_json)

interpretation PublishEvents_Response_json_codec: json_codec "PublishEvents_Response_toJSON P" "PublishEvents_Response_fromJSON P" "\<lambda>_. True" for P
  by unfold_locales (simp_all add: PublishEvents_Response_toJSON_object PublishEvents_Response_json)

interpretation SetSubscriberConfig_V1_Call_json_codec: json_codec "SetSubscriberConfig_V1_Call_toJSON P" "SetSubscriberConfig_V1_Call_fromJSON P" "SetSubscriberConfig_V1_Call_wf" for P
  by unfold_locales (simp_all add: SetSubscriberConfig_V1_Call_toJSON_object SetSubscriberConfig_V1_Call_json)

interpretation SetSubscriberConfig_V1_Result_json_codec: json_codec "SetSubscriberConfig_V1_Result_toJSON P" "SetSubscriberConfig_V1_Result_fromJSON P" "SetSubscriberConfig_V1_Result_wf" for P
  by unfold_locales (simp_all add: SetSubscriberConfig_V1_Result_toJSON_object SetSubscriberConfig_V1_Result_json)

interpretation SetSubscriberConfig_V1_json_codec: json_codec "SetSubscriberConfig_V1_toJSON P" "SetSubscriberConfig_V1_fromJSON P" "SetSubscriberConfig_V1_wf" for P
  by unfold_locales (simp_all add: SetSubscriberConfig_V1_toJSON_object SetSubscriberConfig_V1_json)

interpretation SetSubscriberConfig_json_codec: json_codec "SetSubscriberConfig_toJSON P" "SetSubscriberConfig_fromJSON P" "SetSubscriberConfig_wf" for P
  by unfold_locales (simp_all add: SetSubscriberConfig_toJSON_object SetSubscriberConfig_json)

interpretation AnnounceStats_V1_json_codec: json_codec "AnnounceStats_V1_toJSON P" "AnnounceStats_V1_fromJSON P" "AnnounceStats_V1_wf" for P
  by unfold_locales (simp_all add: AnnounceStats_V1_toJSON_object AnnounceStats_V1_json)

interpretation AnnounceStats_json_codec: json_codec "AnnounceStats_toJSON P" "AnnounceStats_fromJSON P" "AnnounceStats_wf" for P
  by unfold_locales (simp_all add: AnnounceStats_toJSON_object AnnounceStats_json)

interpretation Message_V1_json_codec: json_codec "Message_V1_toJSON P" "Message_V1_fromJSON P" "\<lambda>m. buffer_ok P \<and> Message_V1_wf m" for P
  by unfold_locales (simp_all add: Message_V1_toJSON_object Message_V1_json)

interpretation Message_json_codec: json_codec "Message_toJSON P" "Message_fromJSON P" "\<lambda>m. buffer_ok P \<and> Message_wf m" for P
  by unfold_locales (simp_all add: Message_toJSON_object Message_json)

end
