(* ===== verification/PubsubPartialCodec.thy ===== *)
theory PubsubPartialCodec
  imports PubsubPartial PubsubCodec
begin

text \<open>
  \<open>fromPartial\<close> on a message with all its fields is the identity, \<open>create\<close> without an
  argument gives the base message, and the decode loop of every message returns.
\<close>

section \<open>Messages as partial messages\<close>

definition JoinPublisher_Request_partial :: "JoinPublisher_Request \<Rightarrow> JoinPublisher_Request_Partial" where
  "JoinPublisher_Request_partial message =
     \<lparr>JoinPublisher_Request_Partial.linkIdOverride = JoinPublisher_Request.linkIdOverride message\<rparr>"

definition JoinPublisher_Response_partial :: "JoinPublisher_Response \<Rightarrow> JoinPublisher_Response_Partial" where
  "JoinPublisher_Response_partial message =
     \<lparr>JoinPublisher_Response_Partial.error = JoinPublisher_Response.error message,
      JoinPublisher_Response_Partial.websocketUrl = Some (JoinPublisher_Response.websocketUrl message)\<rparr>"

definition JoinSubscriber_Request_partial :: "JoinSubscriber_Request \<Rightarrow> JoinSubscriber_Request_Partial" where
  "JoinSubscriber_Request_partial message =
     \<lparr>JoinSubscriber_Request_Partial.namespaceId = JoinSubscriber_Request.namespaceId message\<rparr>"

definition JoinSubscriber_Response_partial :: "JoinSubscriber_Response \<Rightarrow> JoinSubscriber_Response_Partial" where
  "JoinSubscriber_Response_partial message =
     \<lparr>JoinSubscriber_Response_Partial.error = JoinSubscriber_Response.error message,
      JoinSubscriber_Response_Partial.websocketUrl = Some (JoinSubscriber_Response.websocketUrl message)\<rparr>"

definition Event_V1_TagsEntry_partial :: "Event_V1_TagsEntry \<Rightarrow> Event_V1_TagsEntry_Partial" where
  "Event_V1_TagsEntry_partial message =
     \<lparr>Event_V1_TagsEntry_Partial.key = Some (Event_V1_TagsEntry.key message),
      Event_V1_TagsEntry_Partial.value = Some (Event_V1_TagsEntry.value message)\<rparr>"

definition Event_Log_partial :: "Event_Log \<Rightarrow> Event_Log_Partial" where
  "Event_Log_partial message =
     \<lparr>Event_Log_Partial.lines = Some (Event_Log.lines message),
      Event_Log_Partial.index = Some (Event_Log.index message)\<rparr>"

definition Event_V1_partial :: "Event_V1 \<Rightarrow> Event_V1_Partial" where
  "Event_V1_partial message =
     \<lparr>Event_V1_Partial.tags = Some (map (\<lambda>(k, v). (k, Some v)) (Event_V1.tags message)),
      Event_V1_Partial.harEntryJson = Some (Event_V1.harEntryJson message),
      Event_V1_Partial.log = map_option Event_Log_partial (Event_V1.log message)\<rparr>"

definition Event_partial :: "Event \<Rightarrow> Event_Partial" where
  "Event_partial message =
     \<lparr>Event_Partial.concreteV1 = map_option Event_V1_partial (Event.concreteV1 message)\<rparr>"

definition PublishEvents_Request_partial :: "PublishEvents_Request \<Rightarrow> PublishEvents_Request_Partial" where
  "PublishEvents_Request_partial message =
     \<lparr>PublishEvents_Request_Partial.events = Some (map Event_partial (PublishEvents_Request.events message))\<rparr>"

definition PublishEvents_Response_partial :: "PublishEvents_Response \<Rightarrow> PublishEvents_Response_Partial" where
  "PublishEvents_Response_partial message =
     \<lparr>PublishEvents_Response_Partial.error = PublishEvents_Response.error message\<rparr>"

definition SetSubscriberConfig_V1_Call_partial :: "SetSubscriberConfig_V1_Call \<Rightarrow> SetSubscriberConfig_V1_Call_Partial" where
  "SetSubscriberConfig_V1_Call_partial message =
     \<lparr>SetSubscriberConfig_V1_Call_Partial.revision = Some (SetSubscriberConfig_V1_Call.revision message),
      SetSubscriberConfig_V1_Call_Partial.filters = Some (SetSubscriberConfig_V1_Call.filters message)\<rparr>"

definition SetSubscriberConfig_V1_Result_partial :: "SetSubscriberConfig_V1_Result \<Rightarrow> SetSubscriberConfig_V1_Result_Partial" where
  "SetSubscriberConfig_V1_Result_partial message =
     \<lparr>SetSubscriberConfig_V1_Result_Partial.revision = Some (SetSubscriberConfig_V1_Result.revision message),
      SetSubscriberConfig_V1_Result_Partial.error = SetSubscriberConfig_V1_Result.error message\<rparr>"

definition SetSubscriberConfig_V1_partial :: "SetSubscriberConfig_V1 \<Rightarrow> SetSubscriberConfig_V1_Partial" where
  "SetSubscriberConfig_V1_partial message =
     \<lparr>SetSubscriberConfig_V1_Partial.call = map_option SetSubscriberConfig_V1_Call_partial (SetSubscriberConfig_V1.call message),
      SetSubscriberConfig_V1_Partial.result = map_option SetSubscriberConfig_V1_Result_partial (SetSubscriberConfig_V1.result message)\<rparr>"

definition SetSubscriberConfig_partial :: "SetSubscriberConfig \<Rightarrow> SetSubscriberConfig_Partial" where
  "SetSubscriberConfig_partial message =
     \<lparr>SetSubscriberConfig_Partial.concreteV1 = map_option SetSubscriberConfig_V1_partial (SetSubscriberConfig.concreteV1 message)\<rparr>"

definition AnnounceStats_V1_partial :: "AnnounceStats_V1 \<Rightarrow> AnnounceStats_V1_Partial" where
  "AnnounceStats_V1_partial message =
     \<lparr>AnnounceStats_V1_Partial.numPublishers = Some (AnnounceStats_V1.numPublishers message),
      AnnounceStats_V1_Partial.numSubscribers = Some (AnnounceStats_V1.numSubscribers message)\<rparr>"

definition AnnounceStats_partial :: "AnnounceStats \<Rightarrow> AnnounceStats_Partial" where
  "AnnounceStats_partial message =
     \<lparr>AnnounceStats_Partial.concreteV1 = map_option AnnounceStats_V1_partial (AnnounceStats.concreteV1 message)\<rparr>"

definition Message_V1_partial :: "Message_V1 \<Rightarrow> Message_V1_Partial" where
  "Message_V1_partial message =
     \<lparr>Message_V1_Partial.event = map_option Event_partial (Message_V1.event message),
      Message_V1_Partial.setSubscriberConfig = map_option SetSubscriberConfig_partial (Message_V1.setSubscriberConfig message),
      Message_V1_Partial.announceStats = map_option AnnounceStats_partial (Message_V1.announceStats message)\<rparr>"

definition Message_partial :: "Message \<Rightarrow> Message_Partial" where
  "Message_partial message =
     \<lparr>Message_Partial.concreteV1 = map_option Message_V1_partial (Message.concreteV1 message)\<rparr>"

lemma foldl_partial_tags:
  "foldl (\<lambda>acc (key, value). case value of None \<Rightarrow> acc | Some s \<Rightarrow> obj_set key s acc) acc
     (map (\<lambda>(k, v). (k, Some v)) kvs) = obj_build acc kvs"
  by (induction kvs arbitrary: acc) auto

lemma JoinPublisher_Request_from_partial: "JoinPublisher_Request_fromPartial (JoinPublisher_Request_partial message) = message"
  by (cases message)
    (auto simp: JoinPublisher_Request_fromPartial_def JoinPublisher_Request_partial_def createBaseJoinPublisher_Request_def 
      intro!: map_option_idI)

lemma JoinPublisher_Response_from_partial: "JoinPublisher_Response_fromPartial (JoinPublisher_Response_partial message) = message"
  by (cases message)
    (auto simp: JoinPublisher_Response_fromPartial_def JoinPublisher_Response_partial_def createBaseJoinPublisher_Response_def 
      intro!: map_option_idI)

lemma JoinSubscriber_Request_from_partial: "JoinSubscriber_Request_fromPartial (JoinSubscriber_Request_partial message) = message"
  by (cases message)
    (auto simp: JoinSubscriber_Request_fromPartial_def JoinSubscriber_Request_partial_def createBaseJoinSubscriber_Request_def 
      intro!: map_option_idI)

lemma JoinSubscriber_Response_from_partial: "JoinSubscriber_Response_fromPartial (JoinSubscriber_Response_partial message) = message"
  by (cases message)
    (auto simp: JoinSubscriber_Response_fromPartial_def JoinSubscriber_Response_partial_def createBaseJoinSubscriber_Response_def 
      intro!: map_option_idI)

lemma Event_V1_TagsEntry_from_partial: "Event_V1_TagsEntry_fromPartial (Event_V1_TagsEntry_partial message) = message"
  by (cases message)
    (auto simp: Event_V1_TagsEntry_fromPartial_def Event_V1_TagsEntry_partial_def createBaseEvent_V1_TagsEntry_def 
      intro!: map_option_idI)

lemma Event_Log_from_partial: "Event_Log_fromPartial (Event_Log_partial message) = message"
  by (cases message)
    (auto simp: Event_Log_fromPartial_def Event_Log_partial_def createBaseEvent_Log_def 
      intro!: map_option_idI)

lemma Event_V1_from_partial: "Event_V1_wf message \<Longrightarrow> Event_V1_fromPartial (Event_V1_partial message) = message"
  by (cases message)
    (auto simp: Event_V1_fromPartial_def Event_V1_partial_def createBaseEvent_V1_def Event_Log_from_partial Event_V1_wf_def list_all_iff foldl_partial_tags obj_build_id option.map_comp comp_def pred_option_def
      intro!: map_option_idI)

lemma Event_from_partial: "Event_wf message \<Longrightarrow> Event_fromPartial (Event_partial message) = message"
  by (cases message)
    (auto simp: Event_fromPartial_def Event_partial_def createBaseEvent_def Event_V1_from_partial Event_wf_def list_all_iff option.map_comp comp_def pred_option_def
      intro!: map_option_idI)

lemma PublishEvents_Request_from_partial: "PublishEvents_Request_wf message \<Longrightarrow> PublishEvents_Request_fromPartial (PublishEvents_Request_partial message) = message"
  by (cases message)
    (auto simp: PublishEvents_Request_fromPartial_def PublishEvents_Request_partial_def createBasePublishEvents_Request_def Event_from_partial PublishEvents_Request_wf_def list_all_iff option.map_comp comp_def pred_option_def map_idI
      intro!: map_option_idI)

lemma PublishEvents_Response_from_partial: "PublishEvents_Response_fromPartial (PublishEvents_Response_partial message) = message"
  by (cases message)
    (auto simp: PublishEvents_Response_fromPartial_def PublishEvents_Response_partial_def createBasePublishEvents_Response_def 
      intro!: map_option_idI)

lemma SetSubscriberConfig_V1_Call_from_partial: "SetSubscriberConfig_V1_Call_fromPartial (SetSubscriberConfig_V1_Call_partial message) = message"
  by (cases message)
    (auto simp: SetSubscriberConfig_V1_Call_fromPartial_def SetSubscriberConfig_V1_Call_partial_def createBaseSetSubscriberConfig_V1_Call_def 
      intro!: map_option_idI)

lemma SetSubscriberConfig_V1_Result_from_partial: "SetSubscriberConfig_V1_Result_fromPartial (SetSubscriberConfig_V1_Result_partial message) = message"
  by (cases message)
    (auto simp: SetSubscriberConfig_V1_Result_fromPartial_def SetSubscriberConfig_V1_Result_partial_def createBaseSetSubscriberConfig_V1_Result_def 
      intro!: map_option_idI)

lemma SetSubscriberConfig_V1_from_partial: "SetSubscriberConfig_V1_fromPartial (SetSubscriberConfig_V1_partial message) = message"
  by (cases message)
    (auto simp: SetSubscriberConfig_V1_fromPartial_def SetSubscriberConfig_V1_partial_def createBaseSetSubscriberConfig_V1_def SetSubscriberConfig_V1_Call_from_partial SetSubscriberConfig_V1_Result_from_partial option.map_comp comp_def pred_option_def
      intro!: map_option_idI)

lemma SetSubscriberConfig_from_partial: "SetSubscriberConfig_fromPartial (SetSubscriberConfig_partial message) = message"
  by (cases message)
    (auto simp: SetSubscriberConfig_fromPartial_def SetSubscriberConfig_partial_def createBaseSetSubscriberConfig_def SetSubscriberConfig_V1_from_partial option.map_comp comp_def pred_option_def
      intro!: map_option_idI)

lemma AnnounceStats_V1_from_partial: "AnnounceStats_V1_fromPartial (AnnounceStats_V1_partial message) = message"
  by (cases message)
    (auto simp: AnnounceStats_V1_fromPartial_def AnnounceStats_V1_partial_def createBaseAnnounceStats_V1_def 
      intro!: map_option_idI)

lemma AnnounceStats_from_partial: "AnnounceStats_fromPartial (AnnounceStats_partial message) = message"
  by (cases message)
    (auto simp: AnnounceStats_fromPartial_def AnnounceStats_partial_def createBaseAnnounceStats_def AnnounceStats_V1_from_partial option.map_comp comp_def pred_option_def
      intro!: map_option_idI)

lemma Message_V1_from_partial: "Message_V1_wf message \<Longrightarrow> Message_V1_fromPartial (Message_V1_partial message) = message"
  by (cases message)
    (auto simp: Message_V1_fromPartial_def Message_V1_partial_def createBaseMessage_V1_def Event_from_partial SetSubscriberConfig_from_partial AnnounceStats_from_partial Message_V1_wf_def list_all_iff option.map_comp comp_def pred_option_def
      intro!: map_option_idI)

lemma Message_from_partial: "Message_wf message \<Longrightarrow> Message_fromPartial (Message_partial message) = message"
  by (cases message)
    (auto simp: Message_fromPartial_def Message_partial_def createBaseMessage_def Message_V1_from_partial Message_wf_def list_all_iff option.map_comp comp_def pred_option_def
      intro!: map_option_idI)

lemma JoinPublisher_create_base: "JoinPublisher_create None = createBaseJoinPublisher"
  by (simp add: JoinPublisher_create_def JoinPublisher_fromPartial_def empty_JoinPublisher_def createBaseJoinPublisher_def)

lemma JoinPublisher_Request_create_base: "JoinPublisher_Request_create None = createBaseJoinPublisher_Request"
  by (simp add: JoinPublisher_Request_create_def JoinPublisher_Request_fromPartial_def empty_JoinPublisher_Request_def createBaseJoinPublisher_Request_def)

lemma JoinPublisher_Response_create_base: "JoinPublisher_Response_create None = createBaseJoinPublisher_Response"
  by (simp add: JoinPublisher_Response_create_def JoinPublisher_Response_fromPartial_def empty_JoinPublisher_Response_def createBaseJoinPublisher_Response_def)

lemma JoinSubscriber_create_base: "JoinSubscriber_create None = createBaseJoinSubscriber"
  by (simp add: JoinSubscriber_create_def JoinSubscriber_fromPartial_def empty_JoinSubscriber_def createBaseJoinSubscriber_def)

lemma JoinSubscriber_Request_create_base: "JoinSubscriber_Request_create None = createBaseJoinSubscriber_Request"
  by (simp add: JoinSubscriber_Request_create_def JoinSubscriber_Request_fromPartial_def empty_JoinSubscriber_Request_def createBaseJoinSubscriber_Request_def)

lemma JoinSubscriber_Response_create_base: "JoinSubscriber_Response_create None = createBaseJoinSubscriber_Response"
  by (simp add: JoinSubscriber_Response_create_def JoinSubscriber_Response_fromPartial_def empty_JoinSubscriber_Response_def createBaseJoinSubscriber_Response_def)

lemma PublishEvents_create_base: "PublishEvents_create None = createBasePublishEvents"
  by (simp add: PublishEvents_create_def PublishEvents_fromPartial_def empty_PublishEvents_def createBasePublishEvents_def)

lemma Event_V1_TagsEntry_create_base: "Event_V1_TagsEntry_create None = createBaseEvent_V1_TagsEntry"
  by (simp add: Event_V1_TagsEntry_create_def Event_V1_TagsEntry_fromPartial_def empty_Event_V1_TagsEntry_def createBaseEvent_V1_TagsEntry_def)

lemma Event_Log_create_base: "Event_Log_create None = createBaseEvent_Log"
  by (simp add: Event_Log_create_def Event_Log_fromPartial_def empty_Event_Log_def createBaseEvent_Log_def)

lemma Event_V1_create_base: "Event_V1_create None = createBaseEvent_V1"
  by (simp add: Event_V1_create_def Event_V1_fromPartial_def empty_Event_V1_def createBaseEvent_V1_def)

lemma Event_create_base: "Event_create None = createBaseEvent"
  by (simp add: Event_create_def Event_fromPartial_def empty_Event_def createBaseEvent_def)

lemma PublishEvents_Request_create_base: "PublishEvents_Request_create None = createBasePublishEvents_Request"
  by (simp add: PublishEvents_Request_create_def PublishEvents_Request_fromPartial_def empty_PublishEvents_Request_def createBasePublishEvents_Request_def)

lemma PublishEvents_Response_create_base: "PublishEvents_Response_create None = createBasePublishEvents_Response"
  by (simp add: PublishEvents_Response_create_def PublishEvents_Response_fromPartial_def empty_PublishEvents_Response_def createBasePublishEvents_Response_def)

lemma SetSubscriberConfig_V1_Call_create_base: "SetSubscriberConfig_V1_Call_create None = createBaseSetSubscriberConfig_V1_Call"
  by (simp add: SetSubscriberConfig_V1_Call_create_def SetSubscriberConfig_V1_Call_fromPartial_def empty_SetSubscriberConfig_V1_Call_def createBaseSetSubscriberConfig_V1_Call_def)

lemma SetSubscriberConfig_V1_Result_create_base: "SetSubscriberConfig_V1_Result_create None = createBaseSetSubscriberConfig_V1_Result"
  by (simp add: SetSubscriberConfig_V1_Result_create_def SetSubscriberConfig_V1_Result_fromPartial_def empty_SetSubscriberConfig_V1_Result_def createBaseSetSubscriberConfig_V1_Result_def)

lemma SetSubscriberConfig_V1_create_base: "SetSubscriberConfig_V1_create None = createBaseSetSubscriberConfig_V1"
  by (simp add: SetSubscriberConfig_V1_create_def SetSubscriberConfig_V1_fromPartial_def empty_SetSubscriberConfig_V1_def createBaseSetSubscriberConfig_V1_def)

lemma SetSubscriberConfig_create_base: "SetSubscriberConfig_create None = createBaseSetSubscriberConfig"
  by (simp add: SetSubscriberConfig_create_def SetSubscriberConfig_fromPartial_def empty_SetSubscriberConfig_def createBaseSetSubscriberConfig_def)

lemma AnnounceStats_V1_create_base: "AnnounceStats_V1_create None = createBaseAnnounceStats_V1"
  by (simp add: AnnounceStats_V1_create_def AnnounceStats_V1_fromPartial_def empty_AnnounceStats_V1_def createBaseAnnounceStats_V1_def)

lemma AnnounceStats_create_base: "AnnounceStats_create None = createBaseAnnounceStats"
  by (simp add: AnnounceStats_create_def AnnounceStats_fromPartial_def empty_AnnounceStats_def createBaseAnnounceStats_def)

lemma Message_V1_create_base: "Message_V1_create None = createBaseMessage_V1"
  by (simp add: Message_V1_create_def Message_V1_fromPartial_def empty_Message_V1_def createBaseMessage_V1_def)

lemma Message_create_base: "Message_create None = createBaseMessage"
  by (simp add: Message_create_def Message_fromPartial_def empty_Message_def createBaseMessage_def)

section \<open>The decode loops return\<close>

context reader_progress begin

lemma JoinPublisher_total: "total_decode R (JoinPublisher_decode R)"
  unfolding JoinPublisher_decode_def
  by (rule decode_message_total)
    (auto simp: total_cases_def JoinPublisher_cases_def case_total 
      dest: case_pos)

lemma JoinPublisher_Request_total: "total_decode R (JoinPublisher_Request_decode R)"
  unfolding JoinPublisher_Request_decode_def
  by (rule decode_message_total)
    (auto simp: total_cases_def JoinPublisher_Request_cases_def case_total 
      dest: case_pos)

lemma JoinPublisher_Response_total: "total_decode R (JoinPublisher_Response_decode R)"
  unfolding JoinPublisher_Response_decode_def
  by (rule decode_message_total)
    (auto simp: total_cases_def JoinPublisher_Response_cases_def case_total 
      dest: case_pos)

lemma JoinSubscriber_total: "total_decode R (JoinSubscriber_decode R)"
  unfolding JoinSubscriber_decode_def
  by (rule decode_message_total)
    (auto simp: total_cases_def JoinSubscriber_cases_def case_total 
      dest: case_pos)

lemma JoinSubscriber_Request_total: "total_decode R (JoinSubscriber_Request_decode R)"
  unfolding JoinSubscriber_Request_decode_def
  by (rule decode_message_total)
    (auto simp: total_cases_def JoinSubscriber_Request_cases_def case_total 
      dest: case_pos)

lemma JoinSubscriber_Response_total: "total_decode R (JoinSubscriber_Response_decode R)"
  unfolding JoinSubscriber_Response_decode_def
  by (rule decode_message_total)
    (auto simp: total_cases_def JoinSubscriber_Response_cases_def case_total 
      dest: case_pos)

lemma PublishEvents_total: "total_decode R (PublishEvents_decode R)"
  unfolding PublishEvents_decode_def
  by (rule decode_message_total)
    (auto simp: total_cases_def PublishEvents_cases_def case_total 
      dest: case_pos)

lemma Event_V1_TagsEntry_total: "total_decode R (Event_V1_TagsEntry_decode R)"
  unfolding Event_V1_TagsEntry_decode_def
  by (rule decode_message_total)
    (auto simp: total_cases_def Event_V1_TagsEntry_cases_def case_total 
      dest: case_pos)

lemma Event_Log_total: "total_decode R (Event_Log_decode R)"
  unfolding Event_Log_decode_def
  by (rule decode_message_total)
    (auto simp: total_cases_def Event_Log_cases_def case_total 
      dest: case_pos)

lemma Event_V1_total: "total_decode R (Event_V1_decode R)"
  unfolding Event_V1_decode_def
  by (rule decode_message_total)
    (auto simp: total_cases_def Event_V1_cases_def case_total Event_V1_TagsEntry_total Event_Log_total
      dest: case_pos message_case_pos [OF Event_V1_TagsEntry_total] message_case_pos [OF Event_Log_total])

lemma Event_total: "total_decode R (Event_decode R)"
  unfolding Event_decode_def
  by (rule decode_message_total)
    (auto simp: total_cases_def Event_cases_def case_total Event_V1_total
      dest: case_pos message_case_pos [OF Event_V1_total])

lemma PublishEvents_Request_total: "total_decode R (PublishEvents_Request_decode R)"
  unfolding PublishEvents_Request_decode_def
  by (rule decode_message_total)
    (auto simp: total_cases_def PublishEvents_Request_cases_def case_total Event_total
      dest: case_pos message_case_pos [OF Event_total])

lemma PublishEvents_Response_total: "total_decode R (PublishEvents_Response_decode R)"
  unfolding PublishEvents_Response_decode_def
  by (rule decode_message_total)
    (auto simp: total_cases_def PublishEvents_Response_cases_def case_total 
      dest: case_pos)

lemma SetSubscriberConfig_V1_Call_total: "total_decode R (SetSubscriberConfig_V1_Call_decode R)"
  unfolding SetSubscriberConfig_V1_Call_decode_def
  by (rule decode_message_total)
    (auto simp: total_cases_def SetSubscriberConfig_V1_Call_cases_def case_total 
      dest: case_pos)

lemma SetSubscriberConfig_V1_Result_total: "total_decode R (SetSubscriberConfig_V1_Result_decode R)"
  unfolding SetSubscriberConfig_V1_Result_decode_def
  by (rule decode_message_total)
    (auto simp: total_cases_def SetSubscriberConfig_V1_Result_cases_def case_total 
      dest: case_pos)

lemma SetSubscriberConfig_V1_total: "total_decode R (SetSubscriberConfig_V1_decode R)"
  unfolding SetSubscriberConfig_V1_decode_def
  by (rule decode_message_total)
    (auto simp: total_cases_def SetSubscriberConfig_V1_cases_def case_total SetSubscriberConfig_V1_Call_total SetSubscriberConfig_V1_Result_total
      dest: case_pos message_case_pos [OF SetSubscriberConfig_V1_Call_total] message_case_pos [OF SetSubscriberConfig_V1_Result_total])

lemma SetSubscriberConfig_total: "total_decode R (SetSubscriberConfig_decode R)"
  unfolding SetSubscriberConfig_decode_def
  by (rule decode_message_total)
    (auto simp: total_cases_def SetSubscriberConfig_cases_def case_total SetSubscriberConfig_V1_total
      dest: case_pos message_case_pos [OF SetSubscriberConfig_V1_total])

lemma AnnounceStats_V1_total: "total_decode R (AnnounceStats_V1_decode R)"
  unfolding AnnounceStats_V1_decode_def
  by (rule decode_message_total)
    (auto simp: total_cases_def AnnounceStats_V1_cases_def case_total 
      dest: case_pos)

lemma AnnounceStats_total: "total_decode R (AnnounceStats_decode R)"
  unfolding AnnounceStats_decode_def
  by (rule decode_message_total)
    (auto simp: total_cases_def AnnounceStats_cases_def case_total AnnounceStats_V1_total
      dest: case_pos message_case_pos [OF AnnounceStats_V1_total])

lemma Message_V1_total: "total_decode R (Message_V1_decode R)"
  unfolding Message_V1_decode_def
  by (rule decode_message_total)
    (auto simp: total_cases_def Message_V1_cases_def case_total Event_total SetSubscriberConfig_total AnnounceStats_total
      dest: case_pos message_case_pos [OF Event_total] message_case_pos [OF SetSubscriberConfig_total] message_case_pos [OF AnnounceStats_total])

lemma Message_total: "total_decode R (Message_decode R)"
  unfolding Message_decode_def
  by (rule decode_message_total)
    (auto simp: total_cases_def Message_cases_def case_total Message_V1_total
      dest: case_pos message_case_pos [OF Message_V1_total])

end

end
