(* ===== verification/PubsubInvariant.thy ===== *)
theory PubsubInvariant
  imports PubsubCodec
begin

text \<open>
  Whatever the input and whatever the reader does, a message that \<open>decode\<close> returns is
  well-formed: its integers are safe integers and its \<open>tags\<close> are an object in property
  order. No law of the wire interface is needed.
\<close>

section \<open>Invariants of the decode loop\<close>

lemma decode_loop_invariant:
  fixes cases :: "('m, 'r) cases" and R :: "'r reader_ops"
  assumes keep: "\<And>tag m r m' r'. Q m \<Longrightarrow> cases tag m r = Some (Inr (Continue m' r')) \<Longrightarrow> Q m'"
    and run: "decode_loop R cases fin m r = Some res" and start: "Q m"
  shows "(\<forall>m' r'. res = Inr (m', r') \<longrightarrow> Q m')"
proof -
  have "cases = cases \<longrightarrow> Q m \<longrightarrow> (\<forall>m' r'. res = Inr (m', r') \<longrightarrow> Q m')"
  proof (rule decode_loop.raw_induct [where P = "\<lambda>R cases' fin m r y. cases' = cases \<longrightarrow> Q m \<longrightarrow>
        
          (\<forall>m' r'. y = Inr (m', r') \<longrightarrow> Q m')", OF _ run])
    fix loop :: "'r reader_ops \<Rightarrow> ('m, 'r) cases \<Rightarrow> nat \<Rightarrow> 'm \<Rightarrow> 'r \<Rightarrow> ('m \<times> 'r) result option"
      and R cases' fin m r y
    assume IH: "\<And>R cases' fin m r y. loop R cases' fin m r = Some y \<Longrightarrow>
        cases' = cases \<longrightarrow> Q m \<longrightarrow> 
          (\<forall>m' r'. y = Inr (m', r') \<longrightarrow> Q m')"
    assume eq: "(if r_pos R r < fin then
        (case r_uint32 R r of
           Inl e \<Rightarrow> Some (Inl e)
         | Inr (tag, reader) \<Rightarrow>
             (case cases' tag m reader of
                None \<Rightarrow> None
              | Some (Inl e) \<Rightarrow> Some (Inl e)
              | Some (Inr (Continue message reader)) \<Rightarrow> loop R cases' fin message reader
              | Some (Inr Break) \<Rightarrow>
                  (if tag mod 8 = 4 \<or> tag = 0 then Some (Inr (m, reader))
                   else (case r_skip R (tag mod 8) reader of
                           Inl e \<Rightarrow> Some (Inl e)
                         | Inr reader \<Rightarrow> loop R cases' fin m reader))))
      else Some (Inr (m, r))) = Some y"
    show "cases' = cases \<longrightarrow> Q m \<longrightarrow> 
          (\<forall>m' r'. y = Inr (m', r') \<longrightarrow> Q m')"
      using eq
      by (auto split: if_splits sum.splits option.splits branch.splits prod.splits dest!: IH dest: keep)
  qed
  with start show ?thesis by simp
qed

lemma decode_message_invariant:
  assumes "decode_message R cases base input len = Some (Inr (m', r'))" and "Q base"
    and "\<And>tag m r m' r'. Q m \<Longrightarrow> cases tag m r = Some (Inr (Continue m' r')) \<Longrightarrow> Q m'"
  shows "Q m'"
  using decode_loop_invariant [of Q cases R _ base _ "Inr (m', r')"] assms
  by (auto simp: decode_message_def Let_def)

lemma scalar_case_Continue:
  "scalar_case res upd = Some (Inr (Continue m r)) \<longleftrightarrow> (\<exists>x. res = Inr (x, r) \<and> m = upd x)"
  by (auto simp: scalar_case_def bindE_eq_Inr)

lemma scalar_caseE_Continue:
  "scalar_caseE res upd = Some (Inr (Continue m r)) \<longleftrightarrow> (\<exists>x. res = Inr (x, r) \<and> upd x = Inr m)"
  by (auto simp: scalar_caseE_def bindE_eq_Inr)

lemma message_case_Continue:
  "message_case R dec r upd = Some (Inr (Continue m r')) \<longleftrightarrow>
   (\<exists>n r1 x. r_uint32 R r = Inr (n, r1) \<and> dec (IReader r1) (Some n) = Some (Inr (x, r')) \<and> m = upd x)"
  by (auto simp: message_case_def split: sum.splits option.splits)

lemma longToNumber_safe: "longToNumber (int n) = Inr x \<Longrightarrow> is_safe_uint x"
  by (auto simp: longToNumber_cases is_safe_uint_def of_n_def split: if_splits)

lemmas Continue_iffs = scalar_case_Continue scalar_caseE_Continue message_case_Continue

section \<open>The messages\<close>

lemma Event_Log_decode_wf:
  assumes "Event_Log_decode R input len = Some (Inr (m, r))"
  shows "Event_Log_wf m"
proof (rule decode_message_invariant [OF assms [unfolded Event_Log_decode_def]])
  show "Event_Log_wf createBaseEvent_Log"
    by (simp add: Event_Log_wf_def createBaseEvent_Log_def is_safe_uint_def)
  show "Event_Log_wf m'" if "Event_Log_wf m" "Event_Log_cases R tag m r = Some (Inr (Continue m' r'))" for tag m r m' r'
    using that
    by (auto simp: Event_Log_cases_def Event_Log_wf_def Continue_iffs bindE_eq_Inr obj_ok_set
        split: if_splits dest: longToNumber_safe )
qed

lemma Event_V1_decode_wf:
  assumes "Event_V1_decode R input len = Some (Inr (m, r))"
  shows "Event_V1_wf m"
proof (rule decode_message_invariant [OF assms [unfolded Event_V1_decode_def]])
  show "Event_V1_wf createBaseEvent_V1"
    by (simp add: Event_V1_wf_def createBaseEvent_V1_def is_safe_uint_def)
  show "Event_V1_wf m'" if "Event_V1_wf m" "Event_V1_cases R tag m r = Some (Inr (Continue m' r'))" for tag m r m' r'
    using that
    by (auto simp: Event_V1_cases_def Event_V1_wf_def Continue_iffs bindE_eq_Inr obj_ok_set
        split: if_splits dest: longToNumber_safe Event_Log_decode_wf)
qed

lemma Event_decode_wf:
  assumes "Event_decode R input len = Some (Inr (m, r))"
  shows "Event_wf m"
proof (rule decode_message_invariant [OF assms [unfolded Event_decode_def]])
  show "Event_wf createBaseEvent"
    by (simp add: Event_wf_def createBaseEvent_def is_safe_uint_def)
  show "Event_wf m'" if "Event_wf m" "Event_cases R tag m r = Some (Inr (Continue m' r'))" for tag m r m' r'
    using that
    by (auto simp: Event_cases_def Event_wf_def Continue_iffs bindE_eq_Inr obj_ok_set
        split: if_splits dest: longToNumber_safe Event_V1_decode_wf)
qed

lemma PublishEvents_Request_decode_wf:
  assumes "PublishEvents_Request_decode R input len = Some (Inr (m, r))"
  shows "PublishEvents_Request_wf m"
proof (rule decode_message_invariant [OF assms [unfolded PublishEvents_Request_decode_def]])
  show "PublishEvents_Request_wf createBasePublishEvents_Request"
    by (simp add: PublishEvents_Request_wf_def createBasePublishEvents_Request_def is_safe_uint_def)
  show "PublishEvents_Request_wf m'" if "PublishEvents_Request_wf m" "PublishEvents_Request_cases R tag m r = Some (Inr (Continue m' r'))" for tag m r m' r'
    using that
    by (auto simp: PublishEvents_Request_cases_def PublishEvents_Request_wf_def Continue_iffs bindE_eq_Inr obj_ok_set
        split: if_splits dest: longToNumber_safe Event_decode_wf)
qed

lemma SetSubscriberConfig_V1_Call_decode_wf:
  assumes "SetSubscriberConfig_V1_Call_decode R input len = Some (Inr (m, r))"
  shows "SetSubscriberConfig_V1_Call_wf m"
proof (rule decode_message_invariant [OF assms [unfolded SetSubscriberConfig_V1_Call_decode_def]])
  show "SetSubscriberConfig_V1_Call_wf createBaseSetSubscriberConfig_V1_Call"
    by (simp add: SetSubscriberConfig_V1_Call_wf_def createBaseSetSubscriberConfig_V1_Call_def is_safe_uint_def)
  show "SetSubscriberConfig_V1_Call_wf m'" if "SetSubscriberConfig_V1_Call_wf m" "SetSubscriberConfig_V1_Call_cases R tag m r = Some (Inr (Continue m' r'))" for tag m r m' r'
    using that
    by (auto simp: SetSubscriberConfig_V1_Call_cases_def SetSubscriberConfig_V1_Call_wf_def Continue_iffs bindE_eq_Inr obj_ok_set
        split: if_splits dest: longToNumber_safe )
qed

lemma SetSubscriberConfig_V1_Result_decode_wf:
  assumes "SetSubscriberConfig_V1_Result_decode R input len = Some (Inr (m, r))"
  shows "SetSubscriberConfig_V1_Result_wf m"
proof (rule decode_message_invariant [OF assms [unfolded SetSubscriberConfig_V1_Result_decode_def]])
  show "SetSubscriberConfig_V1_Result_wf createBaseSetSubscriberConfig_V1_Result"
    by (simp add: SetSubscriberConfig_V1_Result_wf_def createBaseSetSubscriberConfig_V1_Result_def is_safe_uint_def)
  show "SetSubscriberConfig_V1_Result_wf m'" if "SetSubscriberConfig_V1_Result_wf m" "SetSubscriberConfig_V1_Result_cases R tag m r = Some (Inr (Continue m' r'))" for tag m r m' r'
    using that
    by (auto simp: SetSubscriberConfig_V1_Result_cases_def SetSubscriberConfig_V1_Result_wf_def Continue_iffs bindE_eq_Inr obj_ok_set
        split: if_splits dest: longToNumber_safe )
qed

lemma SetSubscriberConfig_V1_decode_wf:
  assumes "SetSubscriberConfig_V1_decode R input len = Some (Inr (m, r))"
  shows "SetSubscriberConfig_V1_wf m"
proof (rule decode_message_invariant [OF assms [unfolded SetSubscriberConfig_V1_decode_def]])
  show "SetSubscriberConfig_V1_wf createBaseSetSubscriberConfig_V1"
    by (simp add: SetSubscriberConfig_V1_wf_def createBaseSetSubscriberConfig_V1_def is_safe_uint_def)
  show "SetSubscriberConfig_V1_wf m'" if "SetSubscriberConfig_V1_wf m" "SetSubscriberConfig_V1_cases R tag m r = Some (Inr (Continue m' r'))" for tag m r m' r'
    using that
    by (auto simp: SetSubscriberConfig_V1_cases_def SetSubscriberConfig_V1_wf_def Continue_iffs bindE_eq_Inr obj_ok_set
        split: if_splits dest: longToNumber_safe SetSubscriberConfig_V1_Call_decode_wf SetSubscriberConfig_V1_Result_decode_wf)
qed

lemma SetSubscriberConfig_decode_wf:
  assumes "SetSubscriberConfig_decode R input len = Some (Inr (m, r))"
  shows "SetSubscriberConfig_wf m"
proof (rule decode_message_invariant [OF assms [unfolded SetSubscriberConfig_decode_def]])
  show "SetSubscriberConfig_wf createBaseSetSubscriberConfig"
    by (simp add: SetSubscriberConfig_wf_def createBaseSetSubscriberConfig_def is_safe_uint_def)
  show "SetSubscriberConfig_wf m'" if "SetSubscriberConfig_wf m" "SetSubscriberConfig_cases R tag m r = Some (Inr (Continue m' r'))" for tag m r m' r'
    using that
    by (auto simp: SetSubscriberConfig_cases_def SetSubscriberConfig_wf_def Continue_iffs bindE_eq_Inr obj_ok_set
        split: if_splits dest: longToNumber_safe SetSubscriberConfig_V1_decode_wf)
qed

lemma AnnounceStats_V1_decode_wf:
  assumes "AnnounceStats_V1_decode R input len = Some (Inr (m, r))"
  shows "AnnounceStats_V1_wf m"
proof (rule decode_message_invariant [OF assms [unfolded AnnounceStats_V1_decode_def]])
  show "AnnounceStats_V1_wf createBaseAnnounceStats_V1"
    by (simp add: AnnounceStats_V1_wf_def createBaseAnnounceStats_V1_def is_safe_uint_def)
  show "AnnounceStats_V1_wf m'" if "AnnounceStats_V1_wf m" "AnnounceStats_V1_cases R tag m r = Some (Inr (Continue m' r'))" for tag m r m' r'
    using that
    by (auto simp: AnnounceStats_V1_cases_def AnnounceStats_V1_wf_def Continue_iffs bindE_eq_Inr obj_ok_set
        split: if_splits dest: longToNumber_safe )
qed

lemma AnnounceStats_decode_wf:
  assumes "AnnounceStats_decode R input len = Some (Inr (m, r))"
  shows "AnnounceStats_wf m"
proof (rule decode_message_invariant [OF assms [unfolded AnnounceStats_decode_def]])
  show "AnnounceStats_wf createBaseAnnounceStats"
    by (simp add: AnnounceStats_wf_def createBaseAnnounceStats_def is_safe_uint_def)
  show "AnnounceStats_wf m'" if "AnnounceStats_wf m" "AnnounceStats_cases R tag m r = Some (Inr (Continue m' r'))" for tag m r m' r'
    using that
    by (auto simp: AnnounceStats_cases_def AnnounceStats_wf_def Continue_iffs bindE_eq_Inr obj_ok_set
        split: if_splits dest: longToNumber_safe AnnounceStats_V1_decode_wf)
qed

lemma Message_V1_decode_wf:
  assumes "Message_V1_decode R input len = Some (Inr (m, r))"
  shows "Message_V1_wf m"
proof (rule decode_message_invariant [OF assms [unfolded Message_V1_decode_def]])
  show "Message_V1_wf createBaseMessage_V1"
    by (simp add: Message_V1_wf_def createBaseMessage_V1_def is_safe_uint_def)
  show "Message_V1_wf m'" if "Message_V1_wf m" "Message_V1_cases R tag m r = Some (Inr (Continue m' r'))" for tag m r m' r'
    using that
    by (auto simp: Message_V1_cases_def Message_V1_wf_def Continue_iffs bindE_eq_Inr obj_ok_set
        split: if_splits dest: longToNumber_safe Event_decode_wf SetSubscriberConfig_decode_wf AnnounceStats_decode_wf)
qed

lemma Message_decode_wf:
  assumes "Message_decode R input len = Some (Inr (m, r))"
  shows "Message_wf m"
proof (rule decode_message_invariant [OF assms [unfolded Message_decode_def]])
  show "Message_wf createBaseMessage"
    by (simp add: Message_wf_def createBaseMessage_def is_safe_uint_def)
  show "Message_wf m'" if "Message_wf m" "Message_cases R tag m r = Some (Inr (Continue m' r'))" for tag m r m' r'
    using that
    by (auto simp: Message_cases_def Message_wf_def Continue_iffs bindE_eq_Inr obj_ok_set
        split: if_splits dest: longToNumber_safe Message_V1_decode_wf)
qed

end
