(* ===== verification/PubsubProps.thy ===== *)
theory PubsubProps
  imports PubsubJsonCodec PubsubPartialCodec PubsubInvariant
begin

text \<open>
  The properties of \<open>pubsub.ts\<close>. Those that depend on \<open>BinaryWriter\<close> and
  \<open>BinaryReader\<close> take the wire laws (\<open>wire\<close>, \<open>wire_writer\<close>, \<open>wire_reader\<close>,
  \<open>reader_progress\<close>) as a hypothesis and have a witness on the executable wire format of
  \<open>WireFormat\<close>.
\<close>

section \<open>Sample data\<close>

definition sample_log :: Event_Log where
  "sample_log = \<lparr>Event_Log.lines = [''a'', ''b''], index = of_n 300\<rparr>"

definition sample_event :: Event_V1 where
  "sample_event =
     \<lparr>Event_V1.tags = [(''7'', ''x''), (''time'', ''now'')], harEntryJson = [123, 125],
      log = Some sample_log\<rparr>"

definition sample_event2 :: Event_V1 where
  "sample_event2 = \<lparr>Event_V1.tags = [(''time'', ''later'')], harEntryJson = [], log = None\<rparr>"

definition sample_message :: Message where
  "sample_message =
     \<lparr>Message.concreteV1 = Some
       \<lparr>Message_V1.event = Some \<lparr>Event.concreteV1 = Some sample_event\<rparr>,
        setSubscriberConfig = None, announceStats = None\<rparr>\<rparr>"

definition sample_request :: PublishEvents_Request where
  "sample_request = \<lparr>PublishEvents_Request.events = [\<lparr>Event.concreteV1 = Some sample_event\<rparr>]\<rparr>"

definition sample_platform :: platform where
  "sample_platform = \<lparr>num_fmt = (\<lambda>_. []), Buffer = None\<rparr>"

lemmas sample_defs = sample_log_def sample_event_def sample_event2_def sample_message_def

lemma sample_event_wf: "Event_V1_wf sample_event"
  by (simp add: sample_defs wf_defs obj_ok_def proto_key_def key_before_def array_index_def
      is_digit_def MAX_SAFE_INTEGER_def)

lemma sample_event2_wf: "Event_V1_wf sample_event2"
  by (simp add: sample_defs wf_defs obj_ok_def proto_key_def)

lemma sample_wf: "Message_wf sample_message"
  using sample_event_wf by (simp add: sample_message_def wf_defs)

lemma sample_event_size: "length (ser (Event_V1_fields sample_event)) < 2 ^ 32"
  by (simp add: sample_defs fields_defs kind_defs delim_def utf8_char_def varint.simps)

lemma sample_event2_size: "length (ser (Event_V1_fields sample_event2)) < 2 ^ 32"
  by (simp add: sample_defs fields_defs kind_defs delim_def utf8_char_def varint.simps)

lemma sample_size: "length (ser (Message_fields sample_message)) < 2 ^ 32"
  by (simp add: sample_defs fields_defs kind_defs delim_def utf8_char_def varint.simps)

lemma sample_buffer_ok: "buffer_ok sample_platform"
  by (simp add: buffer_ok_def sample_platform_def)

lemma sample_request_wf: "PublishEvents_Request_wf sample_request"
  using sample_event_wf by (simp add: sample_request_def wf_defs)

section \<open>Encoding and decoding\<close>

text \<open>\<open>Message.decode\<close> returns exactly the message that \<open>Message.encode\<close> wrote, for every
  well-formed message (safe integers, tags an object can hold) whose encoding is below the
  4 GiB a length prefix can state.\<close>

theorem message_roundtrip:
  assumes "wire W stk R buf" and "Message_wf message"
    and "length (ser (Message_fields message)) < 2 ^ 32"
  shows "\<exists>w r. encode (Message_fns W R P) message None = Inr w \<and>
    decode (Message_fns W R P) (IBytes (w_finish W w)) None = Some (Inr (message, r))"
  using message_codec.roundtrip [OF wire.Message_contract [OF assms(1)] assms(2,3)] by (simp add: Message_fns_def)

theorem message_roundtrip_witness:
  "\<exists>w r. encode (Message_fns format_writer format_reader sample_platform) sample_message None = Inr w \<and>
    decode (Message_fns format_writer format_reader sample_platform)
      (IBytes (w_finish format_writer w)) None = Some (Inr (sample_message, r))"
  by (rule message_roundtrip [OF wire_format sample_wf sample_size])

definition roundtrips ::
  "'w writer_ops \<Rightarrow> ('m, 'p, 'w, 'r) MessageFns \<Rightarrow> ('m \<Rightarrow> bool) \<Rightarrow> ('m \<Rightarrow> wfield list) \<Rightarrow> bool" where
  "roundtrips W M good flds \<longleftrightarrow>
     (\<forall>m. good m \<longrightarrow> length (ser (flds m)) < 2 ^ 32 \<longrightarrow>
        (\<exists>w r. encode M m None = Inr w \<and>
           decode M (IBytes (w_finish W w)) None = Some (Inr (m, r))))"

lemma message_codec_roundtrips:
  assumes "message_codec W stk R buf enc dec flds accepts merge base good"
    and "\<And>m. encode M m None = enc m (w_new W)" and "decode M = dec"
  shows "roundtrips W M good flds"
  unfolding roundtrips_def assms(2,3) by (blast intro: message_codec.roundtrip [OF assms(1)])

lemma JoinPublisher_roundtrips:
  "wire W stk R buf \<Longrightarrow> roundtrips W (JoinPublisher_fns W R P) (\<lambda>_. True) JoinPublisher_fields"
  by (rule message_codec_roundtrips [OF wire.JoinPublisher_contract])
    (simp_all add: JoinPublisher_fns_def)

lemma JoinPublisher_Request_roundtrips:
  "wire W stk R buf \<Longrightarrow> roundtrips W (JoinPublisher_Request_fns W R P) (\<lambda>_. True) JoinPublisher_Request_fields"
  by (rule message_codec_roundtrips [OF wire.JoinPublisher_Request_contract])
    (simp_all add: JoinPublisher_Request_fns_def)

lemma JoinPublisher_Response_roundtrips:
  "wire W stk R buf \<Longrightarrow> roundtrips W (JoinPublisher_Response_fns W R P) (\<lambda>_. True) JoinPublisher_Response_fields"
  by (rule message_codec_roundtrips [OF wire.JoinPublisher_Response_contract])
    (simp_all add: JoinPublisher_Response_fns_def)

lemma JoinSubscriber_roundtrips:
  "wire W stk R buf \<Longrightarrow> roundtrips W (JoinSubscriber_fns W R P) (\<lambda>_. True) JoinSubscriber_fields"
  by (rule message_codec_roundtrips [OF wire.JoinSubscriber_contract])
    (simp_all add: JoinSubscriber_fns_def)

lemma JoinSubscriber_Request_roundtrips:
  "wire W stk R buf \<Longrightarrow> roundtrips W (JoinSubscriber_Request_fns W R P) (\<lambda>_. True) JoinSubscriber_Request_fields"
  by (rule message_codec_roundtrips [OF wire.JoinSubscriber_Request_contract])
    (simp_all add: JoinSubscriber_Request_fns_def)

lemma JoinSubscriber_Response_roundtrips:
  "wire W stk R buf \<Longrightarrow> roundtrips W (JoinSubscriber_Response_fns W R P) (\<lambda>_. True) JoinSubscriber_Response_fields"
  by (rule message_codec_roundtrips [OF wire.JoinSubscriber_Response_contract])
    (simp_all add: JoinSubscriber_Response_fns_def)

lemma PublishEvents_roundtrips:
  "wire W stk R buf \<Longrightarrow> roundtrips W (PublishEvents_fns W R P) (\<lambda>_. True) PublishEvents_fields"
  by (rule message_codec_roundtrips [OF wire.PublishEvents_contract])
    (simp_all add: PublishEvents_fns_def)

lemma Event_V1_TagsEntry_roundtrips:
  "wire W stk R buf \<Longrightarrow> roundtrips W (Event_V1_TagsEntry_fns W R P) (\<lambda>_. True) Event_V1_TagsEntry_fields"
  by (rule message_codec_roundtrips [OF wire.Event_V1_TagsEntry_contract])
    (simp_all add: Event_V1_TagsEntry_fns_def)

lemma Event_Log_roundtrips:
  "wire W stk R buf \<Longrightarrow> roundtrips W (Event_Log_fns W R P) Event_Log_wf Event_Log_fields"
  by (rule message_codec_roundtrips [OF wire.Event_Log_contract])
    (simp_all add: Event_Log_fns_def)

lemma Event_V1_roundtrips:
  "wire W stk R buf \<Longrightarrow> roundtrips W (Event_V1_fns W R P) Event_V1_wf Event_V1_fields"
  by (rule message_codec_roundtrips [OF wire.Event_V1_contract])
    (simp_all add: Event_V1_fns_def)

lemma Event_roundtrips:
  "wire W stk R buf \<Longrightarrow> roundtrips W (Event_fns W R P) Event_wf Event_fields"
  by (rule message_codec_roundtrips [OF wire.Event_contract])
    (simp_all add: Event_fns_def)

lemma PublishEvents_Request_roundtrips:
  "wire W stk R buf \<Longrightarrow> roundtrips W (PublishEvents_Request_fns W R P) PublishEvents_Request_wf PublishEvents_Request_fields"
  by (rule message_codec_roundtrips [OF wire.PublishEvents_Request_contract])
    (simp_all add: PublishEvents_Request_fns_def)

lemma PublishEvents_Response_roundtrips:
  "wire W stk R buf \<Longrightarrow> roundtrips W (PublishEvents_Response_fns W R P) (\<lambda>_. True) PublishEvents_Response_fields"
  by (rule message_codec_roundtrips [OF wire.PublishEvents_Response_contract])
    (simp_all add: PublishEvents_Response_fns_def)

lemma SetSubscriberConfig_V1_Call_roundtrips:
  "wire W stk R buf \<Longrightarrow> roundtrips W (SetSubscriberConfig_V1_Call_fns W R P) SetSubscriberConfig_V1_Call_wf SetSubscriberConfig_V1_Call_fields"
  by (rule message_codec_roundtrips [OF wire.SetSubscriberConfig_V1_Call_contract])
    (simp_all add: SetSubscriberConfig_V1_Call_fns_def)

lemma SetSubscriberConfig_V1_Result_roundtrips:
  "wire W stk R buf \<Longrightarrow> roundtrips W (SetSubscriberConfig_V1_Result_fns W R P) SetSubscriberConfig_V1_Result_wf SetSubscriberConfig_V1_Result_fields"
  by (rule message_codec_roundtrips [OF wire.SetSubscriberConfig_V1_Result_contract])
    (simp_all add: SetSubscriberConfig_V1_Result_fns_def)

lemma SetSubscriberConfig_V1_roundtrips:
  "wire W stk R buf \<Longrightarrow> roundtrips W (SetSubscriberConfig_V1_fns W R P) SetSubscriberConfig_V1_wf SetSubscriberConfig_V1_fields"
  by (rule message_codec_roundtrips [OF wire.SetSubscriberConfig_V1_contract])
    (simp_all add: SetSubscriberConfig_V1_fns_def)

lemma SetSubscriberConfig_roundtrips:
  "wire W stk R buf \<Longrightarrow> roundtrips W (SetSubscriberConfig_fns W R P) SetSubscriberConfig_wf SetSubscriberConfig_fields"
  by (rule message_codec_roundtrips [OF wire.SetSubscriberConfig_contract])
    (simp_all add: SetSubscriberConfig_fns_def)

lemma AnnounceStats_V1_roundtrips:
  "wire W stk R buf \<Longrightarrow> roundtrips W (AnnounceStats_V1_fns W R P) AnnounceStats_V1_wf AnnounceStats_V1_fields"
  by (rule message_codec_roundtrips [OF wire.AnnounceStats_V1_contract])
    (simp_all add: AnnounceStats_V1_fns_def)

lemma AnnounceStats_roundtrips:
  "wire W stk R buf \<Longrightarrow> roundtrips W (AnnounceStats_fns W R P) AnnounceStats_wf AnnounceStats_fields"
  by (rule message_codec_roundtrips [OF wire.AnnounceStats_contract])
    (simp_all add: AnnounceStats_fns_def)

lemma Message_V1_roundtrips:
  "wire W stk R buf \<Longrightarrow> roundtrips W (Message_V1_fns W R P) Message_V1_wf Message_V1_fields"
  by (rule message_codec_roundtrips [OF wire.Message_V1_contract])
    (simp_all add: Message_V1_fns_def)

lemma Message_roundtrips:
  "wire W stk R buf \<Longrightarrow> roundtrips W (Message_fns W R P) Message_wf Message_fields"
  by (rule message_codec_roundtrips [OF wire.Message_contract])
    (simp_all add: Message_fns_def)

lemmas roundtrips_facts =
  JoinPublisher_roundtrips
  JoinPublisher_Request_roundtrips
  JoinPublisher_Response_roundtrips
  JoinSubscriber_roundtrips
  JoinSubscriber_Request_roundtrips
  JoinSubscriber_Response_roundtrips
  PublishEvents_roundtrips
  Event_V1_TagsEntry_roundtrips
  Event_Log_roundtrips
  Event_V1_roundtrips
  Event_roundtrips
  PublishEvents_Request_roundtrips
  PublishEvents_Response_roundtrips
  SetSubscriberConfig_V1_Call_roundtrips
  SetSubscriberConfig_V1_Result_roundtrips
  SetSubscriberConfig_V1_roundtrips
  SetSubscriberConfig_roundtrips
  AnnounceStats_V1_roundtrips
  AnnounceStats_roundtrips
  Message_V1_roundtrips
  Message_roundtrips

text \<open>C4: every one of the message types of the protocol round-trips through its own
  \<open>encode\<close> and \<open>decode\<close>, the integer-carrying ones for safe integers.\<close>

theorem every_message_roundtrips:
  assumes "wire W stk R buf"
  shows "roundtrips W (JoinPublisher_fns W R P) (\<lambda>_. True) JoinPublisher_fields \<and>
     roundtrips W (JoinPublisher_Request_fns W R P) (\<lambda>_. True) JoinPublisher_Request_fields \<and>
     roundtrips W (JoinPublisher_Response_fns W R P) (\<lambda>_. True) JoinPublisher_Response_fields \<and>
     roundtrips W (JoinSubscriber_fns W R P) (\<lambda>_. True) JoinSubscriber_fields \<and>
     roundtrips W (JoinSubscriber_Request_fns W R P) (\<lambda>_. True) JoinSubscriber_Request_fields \<and>
     roundtrips W (JoinSubscriber_Response_fns W R P) (\<lambda>_. True) JoinSubscriber_Response_fields \<and>
     roundtrips W (PublishEvents_fns W R P) (\<lambda>_. True) PublishEvents_fields \<and>
     roundtrips W (Event_V1_TagsEntry_fns W R P) (\<lambda>_. True) Event_V1_TagsEntry_fields \<and>
     roundtrips W (Event_Log_fns W R P) Event_Log_wf Event_Log_fields \<and>
     roundtrips W (Event_V1_fns W R P) Event_V1_wf Event_V1_fields \<and>
     roundtrips W (Event_fns W R P) Event_wf Event_fields \<and>
     roundtrips W (PublishEvents_Request_fns W R P) PublishEvents_Request_wf PublishEvents_Request_fields \<and>
     roundtrips W (PublishEvents_Response_fns W R P) (\<lambda>_. True) PublishEvents_Response_fields \<and>
     roundtrips W (SetSubscriberConfig_V1_Call_fns W R P) SetSubscriberConfig_V1_Call_wf SetSubscriberConfig_V1_Call_fields \<and>
     roundtrips W (SetSubscriberConfig_V1_Result_fns W R P) SetSubscriberConfig_V1_Result_wf SetSubscriberConfig_V1_Result_fields \<and>
     roundtrips W (SetSubscriberConfig_V1_fns W R P) SetSubscriberConfig_V1_wf SetSubscriberConfig_V1_fields \<and>
     roundtrips W (SetSubscriberConfig_fns W R P) SetSubscriberConfig_wf SetSubscriberConfig_fields \<and>
     roundtrips W (AnnounceStats_V1_fns W R P) AnnounceStats_V1_wf AnnounceStats_V1_fields \<and>
     roundtrips W (AnnounceStats_fns W R P) AnnounceStats_wf AnnounceStats_fields \<and>
     roundtrips W (Message_V1_fns W R P) Message_V1_wf Message_V1_fields \<and>
     roundtrips W (Message_fns W R P) Message_wf Message_fields"
  by (simp only: roundtrips_facts [OF assms])

theorem every_message_roundtrips_witness:
  "roundtrips format_writer (JoinPublisher_fns format_writer format_reader sample_platform) (\<lambda>_. True) JoinPublisher_fields \<and>
     roundtrips format_writer (JoinPublisher_Request_fns format_writer format_reader sample_platform) (\<lambda>_. True) JoinPublisher_Request_fields \<and>
     roundtrips format_writer (JoinPublisher_Response_fns format_writer format_reader sample_platform) (\<lambda>_. True) JoinPublisher_Response_fields \<and>
     roundtrips format_writer (JoinSubscriber_fns format_writer format_reader sample_platform) (\<lambda>_. True) JoinSubscriber_fields \<and>
     roundtrips format_writer (JoinSubscriber_Request_fns format_writer format_reader sample_platform) (\<lambda>_. True) JoinSubscriber_Request_fields \<and>
     roundtrips format_writer (JoinSubscriber_Response_fns format_writer format_reader sample_platform) (\<lambda>_. True) JoinSubscriber_Response_fields \<and>
     roundtrips format_writer (PublishEvents_fns format_writer format_reader sample_platform) (\<lambda>_. True) PublishEvents_fields \<and>
     roundtrips format_writer (Event_V1_TagsEntry_fns format_writer format_reader sample_platform) (\<lambda>_. True) Event_V1_TagsEntry_fields \<and>
     roundtrips format_writer (Event_Log_fns format_writer format_reader sample_platform) Event_Log_wf Event_Log_fields \<and>
     roundtrips format_writer (Event_V1_fns format_writer format_reader sample_platform) Event_V1_wf Event_V1_fields \<and>
     roundtrips format_writer (Event_fns format_writer format_reader sample_platform) Event_wf Event_fields \<and>
     roundtrips format_writer (PublishEvents_Request_fns format_writer format_reader sample_platform) PublishEvents_Request_wf PublishEvents_Request_fields \<and>
     roundtrips format_writer (PublishEvents_Response_fns format_writer format_reader sample_platform) (\<lambda>_. True) PublishEvents_Response_fields \<and>
     roundtrips format_writer (SetSubscriberConfig_V1_Call_fns format_writer format_reader sample_platform) SetSubscriberConfig_V1_Call_wf SetSubscriberConfig_V1_Call_fields \<and>
     roundtrips format_writer (SetSubscriberConfig_V1_Result_fns format_writer format_reader sample_platform) SetSubscriberConfig_V1_Result_wf SetSubscriberConfig_V1_Result_fields \<and>
     roundtrips format_writer (SetSubscriberConfig_V1_fns format_writer format_reader sample_platform) SetSubscriberConfig_V1_wf SetSubscriberConfig_V1_fields \<and>
     roundtrips format_writer (SetSubscriberConfig_fns format_writer format_reader sample_platform) SetSubscriberConfig_wf SetSubscriberConfig_fields \<and>
     roundtrips format_writer (AnnounceStats_V1_fns format_writer format_reader sample_platform) AnnounceStats_V1_wf AnnounceStats_V1_fields \<and>
     roundtrips format_writer (AnnounceStats_fns format_writer format_reader sample_platform) AnnounceStats_wf AnnounceStats_fields \<and>
     roundtrips format_writer (Message_V1_fns format_writer format_reader sample_platform) Message_V1_wf Message_V1_fields \<and>
     roundtrips format_writer (Message_fns format_writer format_reader sample_platform) Message_wf Message_fields"
  by (rule every_message_roundtrips [OF wire_format])

text \<open>C5: the bytes \<open>Message.encode\<close> produces are exactly the Protocol Buffers encoding of
  the message's fields; it throws precisely when some integer of the message is not an
  unsigned 64-bit integer.\<close>

theorem message_encode_refines_wire_format:
  assumes "wire_writer W stk" and "length (ser (Message_fields message)) < 2 ^ 32"
  shows "if Message_enc_ok message
     then \<exists>w. encode (Message_fns W R P) message None = Inr w \<and>
            w_finish W w = ser (Message_fields message)
     else \<exists>e. encode (Message_fns W R P) message None = Inl e"
  using wire_writer.emits_finish [OF assms(1) wire_writer.Message_emits [OF assms(1) _ assms(2)]]
    wire_writer.Message_fails [OF assms(1), of message]
  by (auto simp: Message_fns_def fails_def)

theorem message_encode_refines_wire_format_witness:
  "if Message_enc_ok sample_message
   then \<exists>w. encode (Message_fns format_writer format_reader sample_platform) sample_message None = Inr w \<and>
          w_finish format_writer w = ser (Message_fields sample_message)
   else \<exists>e. encode (Message_fns format_writer format_reader sample_platform) sample_message None = Inl e"
  by (rule message_encode_refines_wire_format [OF wire_format_writer sample_size])

text \<open>C16: \<open>Message.decode\<close> returns or throws on every input, malformed or truncated ones
  included: its loops, and those of the embedded messages, end.\<close>

theorem message_decode_returns:
  assumes "reader_progress R"
  shows "decode (Message_fns W R P) input len \<noteq> None"
  using reader_progress.Message_total [OF assms] by (simp add: Message_fns_def total_decode_def)

theorem message_decode_returns_witness:
  "decode (Message_fns format_writer format_reader sample_platform) (IBytes [10, 200, 1]) None \<noteq> None"
  by (rule message_decode_returns [OF wire_format_progress])

text \<open>C15: whatever bytes it is given, a message \<open>Message.decode\<close> returns is well-formed: its
  integers are safe integers and its tags are an object without duplicate keys.\<close>

theorem message_decode_well_formed:
  assumes "decode (Message_fns W R P) input len = Some (Inr (message, reader))"
  shows "Message_wf message"
  using assms by (auto simp: Message_fns_def intro: Message_decode_wf)

theorem message_decode_well_formed_witness: "Message_wf createBaseMessage"
proof (rule message_decode_well_formed)
  show "decode (Message_fns format_writer format_reader sample_platform) (IBytes []) None =
      Some (Inr (createBaseMessage, r_new format_reader []))"
    by (simp add: Message_fns_def Message_decode_def decode_message_def format_reader_def
        decode_loop.simps)
qed

definition merge_events :: "Event_V1 \<Rightarrow> Event_V1 \<Rightarrow> Event_V1" where
  "merge_events a b =
     \<lparr>Event_V1.tags = obj_build (Event_V1.tags a) (Event_V1.tags b),
      harEntryJson =
        (if Event_V1.harEntryJson b = [] then Event_V1.harEntryJson a else Event_V1.harEntryJson b),
      log = (if Event_V1.log b = None then Event_V1.log a else Event_V1.log b)\<rparr>"

lemma fold_merge_events:
  "Event_V1_wf b \<Longrightarrow> fold Event_V1_merge (Event_V1_fields b) a = merge_events a b"
  by (cases a; cases b)
    (auto simp: merge_events_def Event_V1_fields_def Event_V1_merge_tags [unfolded One_nat_def]
      Event_V1_merge_def def_bytes_def opt_msg_def Event_V1_wf_def Event_Log_sem
      split: option.splits)

text \<open>C21: decoding the concatenation of two encoded events merges them: tags are added one
  by one with the later value winning, a non-empty HAR entry and a present log replace the
  earlier ones (the log as a whole).\<close>

theorem event_concatenation_merges:
  assumes "wire W stk R buf"
    and "Event_V1_wf a" "length (ser (Event_V1_fields a)) < 2 ^ 32"
    and "Event_V1_wf b" "length (ser (Event_V1_fields b)) < 2 ^ 32"
  shows "\<exists>v w r. encode (Event_V1_fns W R P) a None = Inr v \<and>
    encode (Event_V1_fns W R P) b None = Inr w \<and>
    decode (Event_V1_fns W R P) (IBytes (w_finish W v @ w_finish W w)) None =
      Some (Inr (merge_events a b, r))"
  using message_codec.encodes [OF wire.Event_V1_contract [OF assms(1)] assms(2,3)]
    message_codec.encodes [OF wire.Event_V1_contract [OF assms(1)] assms(4,5)]
    message_codec.concatenation [OF wire.Event_V1_contract [OF assms(1)] assms(2-5)]
  by (auto simp: Event_V1_fns_def fold_merge_events [OF assms(4)])

theorem event_concatenation_merges_witness:
  "\<exists>v w r. encode (Event_V1_fns format_writer format_reader sample_platform) sample_event None = Inr v \<and>
    encode (Event_V1_fns format_writer format_reader sample_platform) sample_event2 None = Inr w \<and>
    decode (Event_V1_fns format_writer format_reader sample_platform)
        (IBytes (w_finish format_writer v @ w_finish format_writer w)) None =
      Some (Inr (merge_events sample_event sample_event2, r))"
  by (rule event_concatenation_merges [OF wire_format sample_event_wf sample_event_size
        sample_event2_wf sample_event2_size])

fun own_field :: "wfield \<Rightarrow> bool" where
  "own_field (F n v) \<longleftrightarrow> n \<in> {1, 2, 3}"

text \<open>C20: fields whose numbers \<open>Message_V1\<close> does not know, of any wire type and anywhere
  among its own fields, do not change what \<open>decode\<close> returns: older peers read newer
  messages.\<close>

theorem message_v1_ignores_unknown_fields:
  assumes "wire W stk R buf" and "Message_V1_wf message" and "list_all field_ok fs"
    and "filter own_field fs = Message_V1_fields message"
  shows "\<exists>r. decode (Message_V1_fns W R P) (IBytes (ser fs)) None = Some (Inr (message, r))"
proof -
  have "Message_V1_accepts f \<and> (\<forall>m. Message_V1_merge f m = m)" if "\<not> own_field f" for f
    using that by (cases f) (simp add: Message_V1_accepts_def Message_V1_merge_def)
  then show ?thesis
    using message_codec.unknown_fields [OF wire.Message_V1_contract [OF assms(1)] assms(2-4)]
    by (simp add: Message_V1_fns_def)
qed

theorem message_v1_ignores_unknown_fields_witness:
  "\<exists>r. decode (Message_V1_fns format_writer format_reader sample_platform)
     (IBytes (ser [F 9 (I64 [1, 2, 3, 4, 5, 6, 7, 8]), F 1 (Msg []), F 4 (Str ''new'')])) None =
   Some (Inr (\<lparr>Message_V1.event = Some \<lparr>Event.concreteV1 = None\<rparr>, setSubscriberConfig = None,
      announceStats = None\<rparr>, r))"
  by (rule message_v1_ignores_unknown_fields [OF wire_format])
    (simp_all add: wf_defs fields_defs kind_defs utf8_char_def)

section \<open>Tags\<close>

abbreviation tag_fields :: "(string \<times> string) list \<Rightarrow> wfield list" where
  "tag_fields kvs \<equiv> rep_msg 1
     (\<lambda>p. Event_V1_TagsEntry_fields \<lparr>Event_V1_TagsEntry.key = fst p, Event_V1_TagsEntry.value = snd p\<rparr>) kvs"

lemma obj_get_build_proto:
  "obj_ok acc \<Longrightarrow> obj_get (obj_build acc kvs) k =
     (if k = proto_key then None else (obj_get acc ++ map_of (rev kvs)) k)"
proof (induction kvs arbitrary: acc)
  case Nil
  then show ?case by (auto simp: obj_ok_def map_of_eq_None_iff)
next
  case (Cons kv kvs)
  then show ?case
    by (cases kv) (auto simp: obj_ok_set obj_get_set map_add_def split: option.splits)
qed

lemma decode_tag_fields:
  assumes "wire_reader R buf" and "length (ser (tag_fields kvs)) < 2 ^ 32"
  shows "\<exists>r. Event_V1_decode R (IBytes (ser (tag_fields kvs))) None =
    Some (Inr (createBaseEvent_V1\<lparr>Event_V1.tags := obj_build [] kvs\<rparr>, r))"
proof -
  have "list_all field_ok (tag_fields kvs)"
    using assms(2) by (rule valid_rep_msg [rotated 3]) (simp_all add: Event_V1_TagsEntry_valid)
  moreover have "list_all Event_V1_accepts (tag_fields kvs)"
    by (auto simp: rep_msg_def list_all_iff Event_V1_accepts_def
        Event_V1_TagsEntry_accepted [unfolded list_all_iff])
  ultimately have "\<exists>r. Event_V1_decode R (IBytes (ser (tag_fields kvs))) None =
      Some (Inr (sem_fields Event_V1_merge createBaseEvent_V1 (tag_fields kvs), r))"
    using wire_reader.Event_V1_decodes [OF assms(1)] by (simp only: decodes_def)
  then show ?thesis
    unfolding sem_fields_def Event_V1_merge_tags by (simp add: createBaseEvent_V1_def)
qed

text \<open>An event decoded from any sequence of tag entries holds, for each key, the value of
  the key's last entry, and no other keys; except that entries named \<open>__proto__\<close> are
  dropped.\<close>

theorem tags_last_entry_wins:
  assumes "wire_reader R buf" and "length (ser (tag_fields kvs)) < 2 ^ 32"
  shows "\<exists>event r. decode (Event_V1_fns W R P) (IBytes (ser (tag_fields kvs))) None =
      Some (Inr (event, r)) \<and>
    (\<forall>k. obj_get (Event_V1.tags event) k = (if k = ''__proto__'' then None else map_of (rev kvs) k))"
  using decode_tag_fields [OF assms]
  by (auto simp: Event_V1_fns_def obj_get_build_proto proto_key_def)

theorem tags_last_entry_wins_witness:
  "\<exists>event r. decode (Event_V1_fns format_writer format_reader sample_platform)
      (IBytes (ser (tag_fields [(''a'', ''1''), (''a'', ''2'')]))) None = Some (Inr (event, r)) \<and>
    (\<forall>k. obj_get (Event_V1.tags event) k =
      (if k = ''__proto__'' then None else map_of (rev [(''a'', ''1''), (''a'', ''2'')]) k))"
  by (rule tags_last_entry_wins [OF wire_format_reader])
    (simp add: rep_msg_def fields_defs def_str_def delim_def utf8_char_def varint.simps)

text \<open>Encoding is not lossless for every tag: an event whose only tag is named
  \<open>__proto__\<close> is written in full and comes back with no tags, because the assignment
  \<open>message.tags[entry1.key] = entry1.value\<close> sets the prototype instead of a property.\<close>

theorem proto_tag_lost:
  assumes "wire W stk R buf" and "length (ser (tag_fields [(''__proto__'', v)])) < 2 ^ 32"
  shows "\<exists>w r. encode (Event_V1_fns W R P)
      \<lparr>Event_V1.tags = [(''__proto__'', v)], harEntryJson = [], log = None\<rparr> None = Inr w \<and>
    w_finish W w = ser (tag_fields [(''__proto__'', v)]) \<and>
    decode (Event_V1_fns W R P) (IBytes (w_finish W w)) None = Some (Inr (createBaseEvent_V1, r))"
proof -
  let ?m = "\<lparr>Event_V1.tags = [(''__proto__'', v)], harEntryJson = [], log = None\<rparr>"
  have flds: "Event_V1_fields ?m = tag_fields [(''__proto__'', v)]"
    by (simp add: Event_V1_fields_def def_bytes_def opt_msg_def)
  have W: "wire_writer W stk" and R: "wire_reader R buf"
    using assms(1) by (simp_all add: wire_def)
  have "\<exists>w. Event_V1_encode W ?m (w_new W) = Inr w \<and> w_finish W w = ser (tag_fields [(''__proto__'', v)])"
    using wire_writer.emits_finish [OF W wire_writer.Event_V1_emits [OF W, of ?m]] assms(2)
    by (simp add: flds Event_V1_enc_ok_def)
  then show ?thesis
    using decode_tag_fields [OF R assms(2)]
    by (auto simp: Event_V1_fns_def obj_set_def proto_key_def createBaseEvent_V1_def)
qed

theorem proto_tag_lost_witness:
  "\<exists>w r. encode (Event_V1_fns format_writer format_reader sample_platform)
      \<lparr>Event_V1.tags = [(''__proto__'', ''x'')], harEntryJson = [], log = None\<rparr> None = Inr w \<and>
    w_finish format_writer w = ser (tag_fields [(''__proto__'', ''x'')]) \<and>
    decode (Event_V1_fns format_writer format_reader sample_platform)
      (IBytes (w_finish format_writer w)) None = Some (Inr (createBaseEvent_V1, r))"
  by (rule proto_tag_lost [OF wire_format])
    (simp add: rep_msg_def fields_defs def_str_def delim_def utf8_char_def varint.simps)

section \<open>Integers\<close>

text \<open>\<open>longToNumber\<close> returns the integer itself on the whole safe range and throws
  outside it; that it compares after the conversion to a double loses no case.\<close>

theorem longToNumber_safe_range:
  "longToNumber i =
     (if i > 2 ^ 53 - 1 then Inl (Error ''Value is larger than Number.MAX_SAFE_INTEGER'')
      else if i < - (2 ^ 53 - 1) then Inl (Error ''Value is smaller than Number.MIN_SAFE_INTEGER'')
      else Inr (Fin (of_int i)))"
  by (simp add: longToNumber_cases MAX_SAFE_INTEGER_def MIN_SAFE_INTEGER_def)

text \<open>A statistics message whose publisher count is an unsigned 64-bit integer above
  \<open>MAX_SAFE_INTEGER\<close> is valid on the wire, but \<open>decode\<close> throws on it, whatever
  follows.\<close>

theorem announce_stats_rejects_unsafe_count:
  assumes "wire_reader R buf" and "2 ^ 53 \<le> n" "n < 2 ^ 64"
  shows "decode (AnnounceStats_V1_fns W R P) (IBytes (ser [F 1 (Varint n)] @ ys)) None =
    Some (Inl (Error ''Value is larger than Number.MAX_SAFE_INTEGER''))"
proof -
  define b where "b = ser [F 1 (Varint n)] @ ys"
  have b: "b = varint 8 @ varint n @ ys" by (simp add: b_def)
  have new: "r_pos R (r_new R b) = 0" "r_len R (r_new R b) = length b"
    by (simp_all add: wire_reader.new_reader [OF assms(1)])
  have in0: "rest R buf (r_new R b) = varint 8 @ varint n @ ys"
    by (simp add: rest_def wire_reader.new_reader [OF assms(1)] b)
  obtain r1 where r1: "r_uint32 R (r_new R b) = Inr (8, r1)"
      "adv R buf (r_new R b) (length (varint 8)) r1"
    using readsE [OF wire_reader.reads_uint32 [OF assms(1) _ in0]] by auto
  have "scalar_caseE (r_uint64 R r1) (\<lambda>n. bindE (longToNumber (int n)) (\<lambda>x.
      Inr (createBaseAnnounceStats_V1\<lparr>AnnounceStats_V1.numPublishers := x\<rparr>))) =
    Some (Inl (Error ''Value is larger than Number.MAX_SAFE_INTEGER''))"
    using assms(2) by (intro wire_reader.uint64_case_fails [OF assms(1,3) adv_rest [OF r1(2) in0]])
      (simp add: longToNumber_too_large MAX_SAFE_INTEGER_def)
  then show ?thesis
    unfolding b_def [symmetric] using r1(1) new
    by (simp add: AnnounceStats_V1_fns_def AnnounceStats_V1_decode_def decode_message_def
        decode_loop.simps AnnounceStats_V1_cases_def b)
qed

theorem announce_stats_rejects_unsafe_count_witness:
  "decode (AnnounceStats_V1_fns format_writer format_reader sample_platform)
     (IBytes (ser [F 1 (Varint (2 ^ 53))] @ [255])) None =
   Some (Inl (Error ''Value is larger than Number.MAX_SAFE_INTEGER''))"
  by (rule announce_stats_rejects_unsafe_count [OF wire_format_reader]) simp_all

section \<open>JSON\<close>

text \<open>\<open>bytesFromBase64\<close> reads back what \<open>base64FromBytes\<close> writes, with and without
  \<open>Buffer\<close>; the text has four characters for every three bytes begun.\<close>

theorem base64_roundtrip:
  assumes "buffer_ok P"
  shows "bytesFromBase64 P (JStr (base64FromBytes P arr)) = Inr arr \<and>
    length (base64FromBytes P arr) = 4 * ((length arr + 2) div 3)"
  using assms by (simp add: base64FromBytes_eq [OF assms, THEN arg_cong [of _ _ length]] length_b64_enc)

theorem base64_roundtrip_witness:
  "bytesFromBase64 sample_platform (JStr (base64FromBytes sample_platform [1, 2, 3, 4])) = Inr [1, 2, 3, 4] \<and>
   length (base64FromBytes sample_platform [1, 2, 3, 4]) = 4 * ((length [1, 2, 3, 4 :: byte] + 2) div 3)"
  by (rule base64_roundtrip [OF sample_buffer_ok])

text \<open>C22: \<open>PublishEvents_Request.fromJSON\<close> reads back the request the Cloudflare package
  writes with \<open>toJSON\<close>.\<close>

theorem publish_request_json_roundtrip:
  assumes "buffer_ok P" and "PublishEvents_Request_wf request"
  shows "fromJSON (PublishEvents_Request_fns W R P) (toJSON (PublishEvents_Request_fns W R P) request) =
    Inr request"
  using assms by (simp add: PublishEvents_Request_fns_def PublishEvents_Request_json)

theorem publish_request_json_roundtrip_witness:
  "fromJSON (PublishEvents_Request_fns format_writer format_reader sample_platform)
     (toJSON (PublishEvents_Request_fns format_writer format_reader sample_platform) sample_request) =
   Inr sample_request"
  by (rule publish_request_json_roundtrip [OF sample_buffer_ok sample_request_wf])

text \<open>C38: \<open>toJSON\<close> of \<open>Message\<close> is injective on well-formed messages, and \<open>fromJSON\<close> is
  its inverse.\<close>

theorem message_json_roundtrip:
  assumes "buffer_ok P" and "Message_wf message" and "Message_wf message'"
  shows "fromJSON (Message_fns W R P) (toJSON (Message_fns W R P) message) = Inr message \<and>
    (toJSON (Message_fns W R P) message = toJSON (Message_fns W R P) message' \<longleftrightarrow> message = message')"
  using assms Message_json_codec.to_json_inject [of P message message']
  by (simp add: Message_fns_def Message_json)

theorem message_json_roundtrip_witness:
  "fromJSON (Message_fns format_writer format_reader sample_platform)
     (toJSON (Message_fns format_writer format_reader sample_platform) sample_message) =
       Inr sample_message \<and>
    (toJSON (Message_fns format_writer format_reader sample_platform) sample_message =
      toJSON (Message_fns format_writer format_reader sample_platform) createBaseMessage \<longleftrightarrow>
      sample_message = createBaseMessage)"
  by (rule message_json_roundtrip [OF sample_buffer_ok sample_wf])
    (simp add: wf_defs createBaseMessage_def)

text \<open>On \<open>null\<close> and \<open>undefined\<close>, \<open>Message.fromJSON\<close> throws a \<open>TypeError\<close>
  (\<open>object.concreteV1\<close>) while \<open>PublishEvents_Request.fromJSON\<close> returns an empty request
  (\<open>object?.events\<close>).\<close>

theorem fromJSON_nullish:
  assumes "\<not> isSet v"
  shows "(\<exists>m. fromJSON (Message_fns W R P) v = Inl (TypeError m)) \<and>
    fromJSON (PublishEvents_Request_fns W R P) v = Inr createBasePublishEvents_Request"
  using get_prop_no_object [OF assms, of "''concreteV1''"] assms
  by (cases v) (auto simp: Message_fns_def PublishEvents_Request_fns_def Message_fromJSON_def
      PublishEvents_Request_fromJSON_def json_optional_def json_field_def json_array_def
      get_prop_opt_def createBasePublishEvents_Request_def)

theorem fromJSON_nullish_witness:
  "(\<exists>m. fromJSON (Message_fns format_writer format_reader sample_platform) JNull = Inl (TypeError m)) \<and>
   fromJSON (PublishEvents_Request_fns format_writer format_reader sample_platform) JNull =
     Inr createBasePublishEvents_Request"
  by (rule fromJSON_nullish) simp

section \<open>Partial messages\<close>

text \<open>C39: \<open>Message.create()\<close> is the base message, and \<open>create\<close> and \<open>fromPartial\<close> copy a
  complete well-formed message field by field, at every depth.\<close>

theorem message_from_partial:
  assumes "Message_wf message"
  shows "fromPartial (Message_fns W R P) (Message_partial message) = message \<and>
    create (Message_fns W R P) (Some (Message_partial message)) = message \<and>
    create (Message_fns W R P) None = createBaseMessage"
  using assms Message_create_base
  by (simp add: Message_fns_def Message_from_partial Message_create_def nullish_def)

theorem message_from_partial_witness:
  "fromPartial (Message_fns format_writer format_reader sample_platform) (Message_partial sample_message) =
     sample_message \<and>
   create (Message_fns format_writer format_reader sample_platform) (Some (Message_partial sample_message)) =
     sample_message \<and>
   create (Message_fns format_writer format_reader sample_platform) None = createBaseMessage"
  by (rule message_from_partial [OF sample_wf])

end
