(* ===== verification/WebApi.thy ===== *)
theory WebApi
  imports JsValue
begin

text \<open>
  What the two \<open>index.ts\<close> files use of the web platform: streams with their locks,
  \<open>Request\<close> and \<open>Response\<close> objects, \<open>JSON.stringify\<close> and \<open>toString\<close>. Streams live in
  a store, because the code depends on which objects share one: constructing a
  \<open>Request\<close> from another takes its body away.
\<close>

section \<open>Streams\<close>

text \<open>
  The results \<open>read()\<close> gives, in order (\<open>NoValue\<close> is a result with neither \<open>done\<close> nor a
  value), and how the stream goes on after them: \<open>done\<close>, a rejected read, or a read that
  never settles.
\<close>

datatype read = Chunk "byte list" | NoValue
datatype ending = Ended | Failed exn | Stalled

type_synonym content = "read list \<times> ending"

primrec read_bytes :: "read \<Rightarrow> byte list" where
  "read_bytes (Chunk bs) = bs"
| "read_bytes NoValue = []"

definition content_bytes :: "content \<Rightarrow> byte list" where
  "content_bytes c = concat (map read_bytes (fst c))"

text \<open>Reading to the end, as \<open>bytes()\<close> and \<open>text()\<close> do; \<open>None\<close> when it does not return.\<close>

definition read_all :: "content \<Rightarrow> byte list result option" where
  "read_all c =
     (case snd c of
        Ended \<Rightarrow> Some (Inr (content_bytes c))
      | Failed e \<Rightarrow> Some (Inl e)
      | Stalled \<Rightarrow> None)"

record rstream =
  contents :: content
  locked :: bool

text \<open>The store: a stream's address is its index.\<close>

type_synonym heap = "rstream list"

definition alloc :: "content \<Rightarrow> heap \<Rightarrow> nat \<times> heap" where
  "alloc c h = (length h, h @ [\<lparr>contents = c, locked = False\<rparr>])"

definition unusable :: exn where
  "unusable = TypeError ''body is locked or has already been used''"

text \<open>Taking the only reader of a stream, and splitting it in two.\<close>

definition take_reader :: "nat \<Rightarrow> heap \<Rightarrow> (content \<times> heap) result" where
  "take_reader a h =
     (if a < length h \<and> \<not> locked (h ! a)
      then Inr (contents (h ! a), h[a := (h ! a)\<lparr>locked := True\<rparr>])
      else Inl unusable)"

definition tee :: "nat \<Rightarrow> heap \<Rightarrow> ((nat \<times> nat) \<times> heap) result" where
  "tee a h =
     bindE (take_reader a h) (\<lambda>(c, h).
       let (b1, h) = alloc c h; (b2, h) = alloc c h in Inr ((b1, b2), h))"

section \<open>Requests and responses\<close>

text \<open>
  Headers are listed as iteration gives them: lower-case names, one entry per name.
\<close>

type_synonym headers = "(string \<times> string) list"

record request =
  rq_method :: string
  rq_url :: string
  rq_headers :: headers
  rq_body :: "nat option"

record response =
  rs_status :: nat
  rs_statusText :: string
  rs_url :: string
  rs_headers :: headers
  rs_body :: "nat option"

text \<open>
  The first argument of \<open>fetch\<close> and \<open>new Request\<close>, and the \<open>body\<close> of the second: a value
  whose extraction gives bytes and perhaps a content type, or a stream.
\<close>

datatype fetch_input = Url string | Req request
datatype body_init = BodyBytes "byte list" "string option" | BodyStream nat

record request_init =
  in_method :: "string option"
  in_headers :: "headers option"
  in_body :: "body_init option"

definition no_init :: request_init where
  "no_init = \<lparr>in_method = None, in_headers = None, in_body = None\<rparr>"

text \<open>A header is listed at its place in the order of names.\<close>

fun name_less :: "string \<Rightarrow> string \<Rightarrow> bool" where
  "name_less _ [] = False"
| "name_less [] _ = True"
| "name_less (c # s) (d # t) =
     ((of_char c :: nat) < of_char d \<or> (c = d \<and> name_less s t))"

fun add_header :: "string \<Rightarrow> string \<Rightarrow> headers \<Rightarrow> headers" where
  "add_header k v [] = [(k, v)]"
| "add_header k v ((k', v') # hs) =
     (if name_less k k' then (k, v) # (k', v') # hs else (k', v') # add_header k v hs)"

definition body_type_header :: "body_init option \<Rightarrow> headers \<Rightarrow> headers" where
  "body_type_header b hs =
     (case b of
        Some (BodyBytes _ (Some t)) \<Rightarrow>
          if map_of hs ''content-type'' = None then add_header ''content-type'' t hs else hs
      | _ \<Rightarrow> hs)"

text \<open>
  The method of a request: a token, none of three that are forbidden, and in upper case if
  it is one of the usual six.
\<close>

definition ascii_upper :: "char \<Rightarrow> char" where
  "ascii_upper c =
     (let n = (of_char c :: nat) in if 97 \<le> n \<and> n \<le> 122 then char_of (n - 32) else c)"

definition token_char :: "char \<Rightarrow> bool" where
  "token_char c \<longleftrightarrow>
     (let n = (of_char c :: nat)
      in 48 \<le> n \<and> n \<le> 57 \<or> 65 \<le> n \<and> n \<le> 90 \<or> 94 \<le> n \<and> n \<le> 122 \<or> n \<in> {33, 35, 36, 37, 38, 39, 42, 43, 45, 46, 124, 126})"

definition normal_method :: "string \<Rightarrow> string result" where
  "normal_method m =
     (let u = map ascii_upper m
      in if m = [] \<or> \<not> list_all token_char m then Inl (TypeError (m @ '' is not a valid HTTP method''))
         else if u \<in> {''CONNECT'', ''TRACE'', ''TRACK''} then Inl (TypeError (m @ '' HTTP method is unsupported''))
         else if u \<in> {''DELETE'', ''GET'', ''HEAD'', ''OPTIONS'', ''POST'', ''PUT''} then Inr u
         else Inr m)"

lemma normal_method_POST [simp]: "normal_method ''POST'' = Inr ''POST''"
  by (simp add: normal_method_def ascii_upper_def token_char_def Let_def)

text \<open>
  \<open>new Request(input, init)\<close> ; \<open>parse_url\<close> is the URL parser. A body given by \<open>init\<close> is extracted (a
  stream must be usable); otherwise the body of the input request, which must be usable,
  is taken over through a new stream and the input's own stays locked.
\<close>

definition new_Request ::
  "(string \<Rightarrow> string option) \<Rightarrow> fetch_input \<Rightarrow> request_init \<Rightarrow> heap \<Rightarrow> (request \<times> heap) result" where
  "new_Request parse_url input init h =
     bindE (case input of
         Req r \<Rightarrow> Inr (rq_method r, rq_url r, rq_headers r, rq_body r)
       | Url u \<Rightarrow> (case parse_url u of
             None \<Rightarrow> Inl (TypeError ''Failed to parse URL'')
           | Some url \<Rightarrow> Inr (''GET'', url, [], None))) (\<lambda>(meth, url, hs, ibody).
     bindE (case in_method init of None \<Rightarrow> Inr meth | Some m \<Rightarrow> normal_method m) (\<lambda>meth.
       let hs = body_type_header (in_body init) (case in_headers init of None \<Rightarrow> hs | Some x \<Rightarrow> x)
       in if (in_body init \<noteq> None \<or> ibody \<noteq> None) \<and> meth \<in> {''GET'', ''HEAD''}
          then Inl (TypeError ''Request with GET/HEAD method cannot have body'')
          else bindE (case in_body init of
              Some (BodyBytes bs _) \<Rightarrow> (let (a, h) = alloc ([Chunk bs], Ended) h in Inr (Some a, h))
            | Some (BodyStream s) \<Rightarrow>
                if s < length h \<and> \<not> locked (h ! s) then Inr (Some s, h) else Inl unusable
            | None \<Rightarrow> (case ibody of
                None \<Rightarrow> Inr (None, h)
              | Some s \<Rightarrow> bindE (take_reader s h) (\<lambda>(c, h).
                  let (a, h) = alloc c h in Inr (Some a, h)))) (\<lambda>(body, h).
            Inr (\<lparr>rq_method = meth, rq_url = url, rq_headers = hs, rq_body = body\<rparr>, h))))"

text \<open>
  \<open>new Request(req, {body})\<close> with a fresh stream replaces the body; \<open>new Response(body,
  resp)\<close> copies status, status text and headers, but not the URL.
\<close>

definition with_body :: "request \<Rightarrow> nat \<Rightarrow> request" where
  "with_body r a = r\<lparr>rq_body := Some a\<rparr>"

definition new_Response :: "nat \<Rightarrow> response \<Rightarrow> response result" where
  "new_Response a r =
     (if rs_status r < 200 \<or> 599 < rs_status r
      then Inl (RangeError ''status must be in the range of 200 to 599'')
      else if rs_status r \<in> {204, 205, 304}
      then Inl (TypeError ''Response with null body status cannot have body'')
      else Inr \<lparr>rs_status = rs_status r, rs_statusText = rs_statusText r, rs_url = [],
             rs_headers = rs_headers r, rs_body = Some a\<rparr>)"

text \<open>The body as a \<open>bytes()\<close> call on it sees it.\<close>

definition body_read :: "nat option \<Rightarrow> heap \<Rightarrow> byte list result option" where
  "body_read b h =
     (case b of
        None \<Rightarrow> Some (Inr [])
      | Some a \<Rightarrow> (if a < length h \<and> \<not> locked (h ! a) then read_all (contents (h ! a))
                  else Some (Inl unusable)))"

section \<open>The original fetch\<close>

text \<open>
  What the network answers to a request as it is sent, body included; \<open>None\<close> when it
  never does.
\<close>

record reply =
  rp_status :: nat
  rp_statusText :: string
  rp_url :: string
  rp_headers :: headers
  rp_body :: "content option"

type_synonym network =
  "string \<Rightarrow> string \<Rightarrow> headers \<Rightarrow> content option \<Rightarrow> reply result option"

definition send_body :: "nat option \<Rightarrow> heap \<Rightarrow> (content option \<times> heap) result" where
  "send_body b h =
     (case b of
        None \<Rightarrow> Inr (None, h)
      | Some a \<Rightarrow> bindE (take_reader a h) (\<lambda>(c, h). Inr (Some c, h)))"

definition new_reply :: "reply \<Rightarrow> heap \<Rightarrow> response \<times> heap" where
  "new_reply rp h =
     (let (b, h) = (case rp_body rp of
            None \<Rightarrow> (None, h)
          | Some c \<Rightarrow> (let (a, h) = alloc c h in (Some a, h)))
      in (\<lparr>rs_status = rp_status rp, rs_statusText = rp_statusText rp, rs_url = rp_url rp,
           rs_headers = rp_headers rp, rs_body = b\<rparr>, h))"

definition fetch_request ::
  "(string \<Rightarrow> string option) \<Rightarrow> network \<Rightarrow> fetch_input \<Rightarrow> request_init \<Rightarrow> heap
   \<Rightarrow> (response \<times> heap) result option" where
  "fetch_request parse_url net input init h =
     (case bindE (new_Request parse_url input init h) (\<lambda>(r, h).
             bindE (send_body (rq_body r) h) (\<lambda>(c, h). Inr (r, c, h))) of
        Inl e \<Rightarrow> Some (Inl e)
      | Inr (r, c, h) \<Rightarrow>
          map_option (\<lambda>res. bindE res (\<lambda>rp. Inr (new_reply rp h)))
            (net (rq_method r) (rq_url r) (rq_headers r) c))"

section \<open>JSON.stringify and toString\<close>

definition hex_digit :: "nat \<Rightarrow> char" where
  "hex_digit n = (if n < 10 then char_of (48 + n) else char_of (87 + n))"

definition json_char :: "char \<Rightarrow> string" where
  "json_char c =
     (let n = (of_char c :: nat) in
      if c = char_of (34 :: nat) then [char_of (92 :: nat), char_of (34 :: nat)]
      else if c = char_of (92 :: nat) then [char_of (92 :: nat), char_of (92 :: nat)]
      else if n = 8 then [char_of (92 :: nat), CHR ''b'']
      else if n = 9 then [char_of (92 :: nat), CHR ''t'']
      else if n = 10 then [char_of (92 :: nat), CHR ''n'']
      else if n = 12 then [char_of (92 :: nat), CHR ''f'']
      else if n = 13 then [char_of (92 :: nat), CHR ''r'']
      else if n < 32 then [char_of (92 :: nat), CHR ''u'', CHR ''0'', CHR ''0'', hex_digit (n div 16), hex_digit (n mod 16)]
      else [c])"

definition json_quote :: "string \<Rightarrow> string" where
  "json_quote s = char_of (34 :: nat) # concat (map json_char s) @ [char_of (34 :: nat)]"

text \<open>
  \<open>None\<close> is the result \<open>undefined\<close>: such members are left out of objects and are \<open>null\<close>
  in arrays. A \<open>Uint8Array\<close> is an object whose keys are its indices.
\<close>

fun json_text :: "platform \<Rightarrow> jsval \<Rightarrow> string option"
  and json_elems :: "platform \<Rightarrow> jsval list \<Rightarrow> string list"
  and json_members :: "platform \<Rightarrow> (string \<times> jsval) list \<Rightarrow> string list" where
  "json_text P JUndef = None"
| "json_text P JNull = Some ''null''"
| "json_text P (JBool b) = Some (if b then ''true'' else ''false'')"
| "json_text P (JNum x) = Some (case x of Fin _ \<Rightarrow> num_str P x | _ \<Rightarrow> ''null'')"
| "json_text P (JStr s) = Some (json_quote s)"
| "json_text P (JBytes bs) =
     Some (''{'' @ join_commas (map (\<lambda>(i, b). json_quote (nat_str i) @ '':'' @ nat_str (unat b))
       (zip [0..<length bs] bs)) @ ''}'')"
| "json_text P (JArr xs) = Some (''['' @ join_commas (json_elems P xs) @ '']'')"
| "json_text P (JObj ps) = Some (''{'' @ join_commas (json_members P ps) @ ''}'')"
| "json_elems P [] = []"
| "json_elems P (x # xs) =
     (case json_text P x of None \<Rightarrow> ''null'' | Some s \<Rightarrow> s) # json_elems P xs"
| "json_members P [] = []"
| "json_members P ((k, v) # ps) =
     (case json_text P v of None \<Rightarrow> [] | Some s \<Rightarrow> [json_quote k @ '':'' @ s]) @ json_members P ps"

text \<open>\<open>v.toString()\<close>, a method call on the value.\<close>

definition to_string_method :: "platform \<Rightarrow> jsval \<Rightarrow> string result" where
  "to_string_method P v =
     (if isSet v then js_String P v
      else Inl (TypeError ''Cannot read properties of null or undefined''))"

section \<open>The rest of the platform\<close>

text \<open>
  What the code calls on the platform and no definition above covers: the URL parser
  (\<open>None\<close> when it throws), the parameters of a URL's query, the UTF-8 decoder of
  \<open>text()\<close>, and the conversions of \<open>platform\<close>.
\<close>

record web =
  conversions :: platform
  parse_url :: "string \<Rightarrow> string option"
  search_params :: "string \<Rightarrow> (string \<times> string) list"
  text_decode :: "byte list \<Rightarrow> string"

definition body_text :: "web \<Rightarrow> nat option \<Rightarrow> heap \<Rightarrow> string result option" where
  "body_text X b h = map_option (map_sum id (text_decode X)) (body_read b h)"

text \<open>A platform for the examples: ASCII texts, and a parser that takes all but the empty URL.\<close>

definition sample_web :: web where
  "sample_web =
     \<lparr>conversions = \<lparr>num_fmt = (\<lambda>_. []), Buffer = None\<rparr>,
      parse_url = (\<lambda>u. if u = [] then None else Some u),
      search_params = (\<lambda>_. [(''q'', ''1'')]),
      text_decode = map (\<lambda>b. char_of (unat b))\<rparr>"

end
