(* ===== verification/NextLimit.thy ===== *)
theory NextLimit
  imports WebApi
begin

text \<open>
  \<open>limit\<close> of \<open>subtrace-next/index.ts\<close>: a stream that passes on at most a given number of
  bytes of another.
\<close>

section \<open>Comparing and subtracting numbers\<close>

fun num_less :: "number \<Rightarrow> number \<Rightarrow> bool" where
  "num_less (Fin a) (Fin b) \<longleftrightarrow> a < b"
| "num_less (Fin a) PInf \<longleftrightarrow> True"
| "num_less NInf (Fin b) \<longleftrightarrow> True"
| "num_less NInf PInf \<longleftrightarrow> True"
| "num_less _ _ \<longleftrightarrow> False"

definition num_le :: "number \<Rightarrow> number \<Rightarrow> bool" where
  "num_le a b \<longleftrightarrow> num_less a b \<or> (a = b \<and> a \<noteq> NaN)"

text \<open>
  \<open>x - n\<close>. The exact difference stands for the double: the two are equal below
  \<open>2 ^ 53\<close>, and no stream gets past that many bytes.
\<close>

fun num_minus :: "number \<Rightarrow> nat \<Rightarrow> number" where
  "num_minus (Fin q) n = Fin (q - of_nat n)"
| "num_minus x n = x"

section \<open>The pull loop\<close>

text \<open>
  One call of \<open>pull\<close> runs the loop to its end: the chunks it enqueues, how the stream ends
  (closed, failed by a rejected read, or waiting for ever), and the reads of the source it
  leaves undone.
\<close>

fun limit_pull :: "number \<Rightarrow> read list \<Rightarrow> ending \<Rightarrow> byte list list \<times> ending \<times> read list" where
  "limit_pull bytesLeft [] fin =
     (if num_less (Fin 0) bytesLeft then ([], fin, []) else ([], Ended, []))"
| "limit_pull bytesLeft (r # rs) fin =
     (if num_less (Fin 0) bytesLeft
      then (case r of
          NoValue \<Rightarrow> limit_pull bytesLeft rs fin
        | Chunk value \<Rightarrow>
            (let chunk = (if num_less bytesLeft (of_n (length value))
                          then take (num_nat bytesLeft) value else value);
                 bytesLeft = num_minus bytesLeft (length chunk)
             in if num_le bytesLeft (Fin 0) then ([chunk], Ended, rs)
                else (case limit_pull bytesLeft rs fin of (cs, e, unread) \<Rightarrow> (chunk # cs, e, unread))))
      else ([], Ended, r # rs))"

definition limit :: "nat \<Rightarrow> number \<Rightarrow> heap \<Rightarrow> (nat \<times> heap) result" where
  "limit stream maxBytes h =
     bindE (take_reader stream h) (\<lambda>((reads, fin), h).
       case limit_pull maxBytes reads fin of
         (chunks, e, unread) \<Rightarrow> Inr (alloc (map Chunk chunks, e) h))"

section \<open>What the limited stream holds\<close>

text \<open>The number of bytes a limit lets through; \<open>None\<close> for all of them.\<close>

definition allowance :: "number \<Rightarrow> nat option" where
  "allowance x = (if x = PInf then None else Some (num_nat x))"

definition whole :: "number \<Rightarrow> bool" where
  "whole x \<longleftrightarrow> (\<forall>q. x = Fin q \<longrightarrow> q \<in> \<int>)"

abbreviation reads_bytes :: "read list \<Rightarrow> byte list" where
  "reads_bytes rs \<equiv> concat (map read_bytes rs)"

lemma whole_cases:
  assumes "whole x"
  obtains (none) "\<not> num_less (Fin 0) x" "allowance x = Some 0"
    | (some) n where "x = of_n n" "0 < n"
    | (all) "x = PInf"
proof (cases x)
  case (Fin q)
  then obtain i where i: "q = of_int i" using assms by (auto simp: whole_def elim: Ints_cases)
  show thesis
  proof (cases "0 < i")
    case True
    then have "x = of_n (nat i)" using Fin i by (simp add: of_n_def)
    with True show thesis using some by simp
  next
    case False
    then show thesis using Fin i none by (simp add: allowance_def)
  qed
qed (use none all in \<open>auto simp: allowance_def\<close>)

lemma num_of_n_simps [simp]:
  "num_less (Fin 0) (of_n n) \<longleftrightarrow> 0 < n"
  "num_less (of_n m) (of_n n) \<longleftrightarrow> m < n"
  "num_minus (of_n m) k = (if k \<le> m then of_n (m - k) else Fin (of_nat m - of_nat k))"
  "num_le (of_n m) (Fin 0) \<longleftrightarrow> m = 0"
  "num_le PInf (Fin 0) \<longleftrightarrow> False"
  "num_le (Fin 0) (Fin 0)"
  by (auto simp: of_n_def num_le_def)

lemma limit_pull_of_n:
  "0 < n \<Longrightarrow>
   (case limit_pull (of_n n) rs fin of
      (cs, e, unread) \<Rightarrow>
        concat cs = take n (reads_bytes rs) \<and>
        e = (if n \<le> length (reads_bytes rs) then Ended else fin) \<and>
        (\<exists>used. rs = used @ unread \<and> (used \<noteq> [] \<longrightarrow> length (reads_bytes (butlast used)) < n)))"
proof (induction rs arbitrary: n)
  case Nil
  then show ?case by simp
next
  case (Cons r rs)
  show ?case
  proof (cases r)
    case NoValue
    with Cons show ?thesis
      by (fastforce simp: Cons_eq_append_conv split: prod.splits)
  next
    case (Chunk v)
    show ?thesis
    proof (cases "n \<le> length v")
      case True
      with Chunk Cons.prems show ?thesis
        by (auto simp: Let_def intro!: exI [of _ "[Chunk v]"])
    next
      case False
      then have n: "0 < n - length v" by simp
      from Cons.IH [OF n] False Chunk Cons.prems show ?thesis
        by (fastforce simp: Cons_eq_append_conv split: prod.splits)
    qed
  qed
qed

lemma limit_pull_PInf:
  "limit_pull PInf rs fin =
     (map read_bytes (filter (\<lambda>r. r \<noteq> NoValue) rs), fin, [])"
  by (induction rs) (auto split: read.splits prod.splits)

lemma limit_pull_none: "\<not> num_less (Fin 0) x \<Longrightarrow> limit_pull x rs fin = ([], Ended, rs)"
  by (cases rs) simp_all

lemma reads_bytes_chunks [simp]: "concat (map (read_bytes \<circ> Chunk) cs) = concat cs"
  by (simp add: comp_def)

lemma concat_map_read_bytes:
  "concat (map read_bytes (filter (\<lambda>r. r \<noteq> NoValue) rs)) = reads_bytes rs"
  by (induction rs) (auto split: read.splits)

lemma limit_pull_spec:
  assumes "whole x" and "limit_pull x rs fin = (cs, e, unread)"
  shows "concat cs = (case allowance x of None \<Rightarrow> reads_bytes rs | Some n \<Rightarrow> take n (reads_bytes rs))
    \<and> e = (case allowance x of None \<Rightarrow> fin
           | Some n \<Rightarrow> if n \<le> length (reads_bytes rs) then Ended else fin)"
  using assms(1)
proof (cases rule: whole_cases)
  case none
  with assms(2) show ?thesis by (simp add: limit_pull_none)
next
  case (some n)
  with assms(2) limit_pull_of_n [of n rs fin] show ?thesis
    by (simp add: allowance_def) (simp add: of_n_def)
next
  case all
  with assms(2) show ?thesis
    by (simp add: limit_pull_PInf allowance_def) (metis concat_map_read_bytes)
qed

section \<open>Properties\<close>

text \<open>C27: \<open>limit(stream, maxBytes)\<close> passes on exactly the first \<open>maxBytes\<close> bytes (nothing
  for a limit that is \<open>NaN\<close> or not positive, everything for \<open>Infinity\<close>) and ends as soon as
  the limit is reached, or else as the source does; the source is locked.\<close>

theorem limit_passes_prefix:
  assumes "whole maxBytes" and "stream < length h" and "\<not> locked (h ! stream)"
  shows "\<exists>a h'. limit stream maxBytes h = Inr (a, h') \<and> locked (h' ! stream) \<and>
    \<not> locked (h' ! a) \<and>
    (let source = contents (h ! stream); limited = contents (h' ! a); n = allowance maxBytes in
       content_bytes limited =
         (case n of None \<Rightarrow> content_bytes source | Some k \<Rightarrow> take k (content_bytes source)) \<and>
       snd limited =
         (case n of None \<Rightarrow> snd source
          | Some k \<Rightarrow> if k \<le> length (content_bytes source) then Ended else snd source))"
proof -
  obtain rs fin where c: "contents (h ! stream) = (rs, fin)" by fastforce
  obtain cs e unread where p: "limit_pull maxBytes rs fin = (cs, e, unread)"
    by (metis prod_cases3)
  show ?thesis
    using assms(2,3) limit_pull_spec [OF assms(1) p]
    by (simp add: limit_def take_reader_def alloc_def c p nth_append Let_def)
      (simp add: content_bytes_def split: option.splits)
qed

theorem limit_passes_prefix_witness:
  "\<exists>a h'. limit 0 (of_n 3) [\<lparr>contents = ([Chunk [1, 2], NoValue, Chunk [3, 4]], Stalled), locked = False\<rparr>] =
      Inr (a, h') \<and> locked (h' ! 0) \<and> \<not> locked (h' ! a) \<and>
    (let source = contents
         ([\<lparr>contents = ([Chunk [1, 2], NoValue, Chunk [3, 4]], Stalled), locked = False\<rparr>] ! 0);
       limited = contents (h' ! a); n = allowance (of_n 3) in
       content_bytes limited =
         (case n of None \<Rightarrow> content_bytes source | Some k \<Rightarrow> take k (content_bytes source)) \<and>
       snd limited =
         (case n of None \<Rightarrow> snd source
          | Some k \<Rightarrow> if k \<le> length (content_bytes source) then Ended else snd source))"
  by (rule limit_passes_prefix) (simp_all add: whole_def of_n_def)

text \<open>The loop of \<open>limit\<close> stops reading as soon as it has enough: the reads it makes
  are a prefix of the source's, and all but the last together are below the limit.\<close>

theorem limit_reads_no_further:
  assumes "limit_pull (of_n n) reads fin = (chunks, e, unread)"
  shows "\<exists>used. reads = used @ unread \<and>
    (used = [] \<or> length (reads_bytes (butlast used)) < n)"
proof (cases "n = 0")
  case True
  then show ?thesis using assms by (simp add: limit_pull_none)
next
  case False
  then show ?thesis using limit_pull_of_n [of n reads fin] assms by auto
qed

theorem limit_reads_no_further_witness:
  "\<exists>used. [Chunk [1, 2], Chunk [3], Chunk [4]] = used @ [Chunk [4]] \<and>
    (used = [] \<or> length (reads_bytes (butlast used)) < (3 :: nat))"
  by (rule limit_reads_no_further [of 3 _ Ended "[[1, 2], [3]]" Ended])
    (simp add: of_n_def num_le_def)

end
