(* ===== verification/NextLimitRun.thy ===== *)
theory NextLimitRun
  imports NextLimit "HOL-Library.Sublist"
begin

text \<open>
  The stream that \<open>limit\<close> of \<open>subtrace-next/index.ts\<close> returns, as it runs: \<open>pull\<close> with its
  \<open>await\<close>s, the consumer that reads and may cancel, in any order. \<open>NextLimit\<close> gives the
  outcome at once; here every complete run is shown to have that outcome.
\<close>

section \<open>The state of the stream\<close>

text \<open>
  Besides what the stream is, the state holds the source with the reads still to be made of
  it, what the consumer has been given, and whether \<open>reader.cancel\<close> has been called.
  Where the only call of \<open>pull\<close> stands: not made, awaiting \<open>read()\<close>, about to go on with what
  \<open>read()\<close> gave (\<open>None\<close> for \<open>done\<close>), over, or rejected.
\<close>

datatype pull = Not_called | Waiting | Got "read option result" | Returned | Threw exn

datatype stream_state = Readable | CloseRequested | Cancelled | Errored exn

record limited =
  ls_left :: number
  ls_source :: content
  ls_pull :: pull
  ls_queue :: "byte list list"
  ls_read :: "byte list list"
  ls_state :: stream_state
  ls_cancelled :: bool

definition limit_start :: "number \<Rightarrow> content \<Rightarrow> limited" where
  "limit_start maxBytes c =
     \<lparr>ls_left = maxBytes, ls_source = c, ls_pull = Not_called, ls_queue = [], ls_read = [], ls_state = Readable,
      ls_cancelled = False\<rparr>"

section \<open>pull and cancel\<close>

text \<open>The methods of the controller throw once the stream is closed or cancelled.\<close>

definition controller_enqueue :: "byte list \<Rightarrow> limited \<Rightarrow> limited result" where
  "controller_enqueue chunk s =
     (if ls_state s = Readable then Inr (s\<lparr>ls_queue := ls_queue s @ [chunk]\<rparr>)
      else Inl (TypeError ''Invalid state: Controller is already closed''))"

definition controller_close :: "limited \<Rightarrow> limited result" where
  "controller_close s =
     (if ls_state s = Readable then Inr (s\<lparr>ls_state := CloseRequested\<rparr>)
      else Inl (TypeError ''Invalid state: Controller is already closed''))"

text \<open>A rejected \<open>pull\<close> fails the stream if it can still be read, and drops what is queued.\<close>

definition pull_fails :: "exn \<Rightarrow> limited \<Rightarrow> limited" where
  "pull_fails e s =
     (let s = s\<lparr>ls_pull := Threw e\<rparr>
      in if ls_state s = Readable then s\<lparr>ls_state := Errored e, ls_queue := []\<rparr> else s)"

text \<open>The end of \<open>pull\<close>, its \<open>while\<close> condition, and the loop body behind the \<open>await\<close>.\<close>

definition pull_close :: "limited \<Rightarrow> limited" where
  "pull_close s =
     (case controller_close s of Inl e \<Rightarrow> pull_fails e s | Inr s \<Rightarrow> s\<lparr>ls_pull := Returned\<rparr>)"

definition pull_while :: "limited \<Rightarrow> limited" where
  "pull_while s = (if num_less (Fin 0) (ls_left s) then s\<lparr>ls_pull := Waiting\<rparr> else pull_close s)"

definition pull_resume :: "read option result \<Rightarrow> limited \<Rightarrow> limited" where
  "pull_resume r s =
     (case r of
        Inl e \<Rightarrow> pull_fails e s
      | Inr None \<Rightarrow> pull_close s
      | Inr (Some NoValue) \<Rightarrow> pull_while s
      | Inr (Some (Chunk value)) \<Rightarrow>
          (let chunk = (if num_less (ls_left s) (of_n (length value))
                        then take (num_nat (ls_left s)) value else value)
           in case controller_enqueue chunk s of
                Inl e \<Rightarrow> pull_fails e s
              | Inr s \<Rightarrow>
                  (let s = s\<lparr>ls_left := num_minus (ls_left s) (length chunk)\<rparr>
                   in if num_le (ls_left s) (Fin 0) then pull_close s else pull_while s)))"

text \<open>
  \<open>cancel\<close>: the stream is closed, its queue dropped, and the reader of the source cancelled,
  whose pending and later reads then give \<open>done\<close> unless the source has failed.
\<close>

definition reader_cancel :: "content \<Rightarrow> content" where
  "reader_cancel c = (case c of ([], Failed e) \<Rightarrow> c | _ \<Rightarrow> ([], Ended))"

definition limit_cancel :: "limited \<Rightarrow> limited" where
  "limit_cancel s = s\<lparr>ls_state := Cancelled, ls_queue := [], ls_source := reader_cancel (ls_source s),
     ls_cancelled := True\<rparr>"

section \<open>Steps\<close>

inductive limit_step :: "limited \<Rightarrow> limited \<Rightarrow> bool" where
  pulls: "ls_pull s = Not_called \<Longrightarrow> ls_state s = Readable \<Longrightarrow> limit_step s (pull_while s)"
| gives: "ls_pull s = Waiting \<Longrightarrow> ls_source s = (r # rs, fin) \<Longrightarrow>
    limit_step s (s\<lparr>ls_source := (rs, fin), ls_pull := Got (Inr (Some r))\<rparr>)"
| ends: "ls_pull s = Waiting \<Longrightarrow> ls_source s = ([], Ended) \<Longrightarrow> limit_step s (s\<lparr>ls_pull := Got (Inr None)\<rparr>)"
| fails: "ls_pull s = Waiting \<Longrightarrow> ls_source s = ([], Failed e) \<Longrightarrow> limit_step s (s\<lparr>ls_pull := Got (Inl e)\<rparr>)"
| runs: "ls_pull s = Got r \<Longrightarrow> limit_step s (pull_resume r s)"
| delivers: "ls_queue s = c # cs \<Longrightarrow> limit_step s (s\<lparr>ls_queue := cs, ls_read := ls_read s @ [c]\<rparr>)"

text \<open>The consumer may cancel as long as the stream has not ended.\<close>

inductive limit_event :: "limited \<Rightarrow> limited \<Rightarrow> bool" where
  step: "limit_step s s' \<Longrightarrow> limit_event s s'"
| cancel: "ls_state s = Readable \<or> ls_state s = CloseRequested \<and> ls_queue s \<noteq> [] \<Longrightarrow>
    limit_event s (limit_cancel s)"

inductive_cases limit_stepE: "limit_step s s'"
inductive_cases limit_eventE: "limit_event s s'"

lemmas pull_defs = pull_while_def pull_close_def pull_fails_def controller_close_def

section \<open>Every run ends\<close>

text \<open>Each step uses up a read, a stage of the loop, or a queued chunk.\<close>

fun pull_rank :: "pull \<Rightarrow> nat" where
  "pull_rank Not_called = 3"
| "pull_rank Waiting = 2"
| "pull_rank (Got (Inr (Some r))) = 4"
| "pull_rank (Got _) = 1"
| "pull_rank Returned = 0"
| "pull_rank (Threw e) = 0"

definition work_left :: "limited \<Rightarrow> nat" where
  "work_left s = 3 * length (fst (ls_source s)) + pull_rank (ls_pull s) + length (ls_queue s)"

lemma work_left_simps [simp]:
  "work_left (s\<lparr>ls_state := t\<rparr>) = work_left s" "work_left (s\<lparr>ls_left := n\<rparr>) = work_left s"
  by (simp_all add: work_left_def)

lemma pull_while_work: "work_left (pull_while s) \<le> 3 * length (fst (ls_source s)) + 2 + length (ls_queue s)"
  by (simp add: pull_defs work_left_def Let_def)

lemma pull_resume_work: "ls_pull s = Got r \<Longrightarrow> work_left (pull_resume r s) < work_left s"
  by (auto simp: pull_resume_def pull_defs controller_enqueue_def work_left_def Let_def
      split: sum.split option.split read.split)

lemma limit_step_work: "limit_step s s' \<Longrightarrow> work_left s' < work_left s"
proof (induction rule: limit_step.induct)
  case (pulls s)
  then show ?case by (simp add: pull_defs work_left_def Let_def)
next
  case (runs s r)
  then show ?case by (rule pull_resume_work)
qed (simp_all add: work_left_def)

section \<open>Every run has the outcome of limit_pull\<close>

text \<open>What \<open>pull\<close> still has to do: the chunks it will enqueue, how the stream then ends, and
  the reads it leaves.\<close>

definition rest :: "limited \<Rightarrow> byte list list \<times> ending \<times> read list" where
  "rest s =
     (case ls_pull s of
        Got (Inr (Some r)) \<Rightarrow> limit_pull (ls_left s) (r # fst (ls_source s)) (snd (ls_source s))
      | Got (Inl e) \<Rightarrow> ([], Failed e, fst (ls_source s))
      | Waiting \<Rightarrow> limit_pull (ls_left s) (fst (ls_source s)) (snd (ls_source s))
      | Not_called \<Rightarrow> limit_pull (ls_left s) (fst (ls_source s)) (snd (ls_source s))
      | _ \<Rightarrow> ([], Ended, fst (ls_source s)))"

text \<open>
  The invariant of a run without a cancellation, for an outcome \<open>(cs, e, unread)\<close>: what is
  delivered, queued and still to come is the outcome, until the source has failed.
\<close>

primrec pull_ok :: "limited \<Rightarrow> pull \<Rightarrow> bool" where
  "pull_ok s Not_called \<longleftrightarrow> ls_state s = Readable"
| "pull_ok s Waiting \<longleftrightarrow> ls_state s = Readable \<and> num_less (Fin 0) (ls_left s)"
| "pull_ok s (Got r) \<longleftrightarrow> ls_state s = Readable \<and> num_less (Fin 0) (ls_left s) \<and>
     (case r of Inr (Some x) \<Rightarrow> True | _ \<Rightarrow> fst (ls_source s) = [])"
| "pull_ok s Returned \<longleftrightarrow> ls_state s = CloseRequested"
| "pull_ok s (Threw e) \<longleftrightarrow> False"

definition under_way :: "byte list list \<times> ending \<times> read list \<Rightarrow> limited \<Rightarrow> bool" where
  "under_way out s \<longleftrightarrow> pull_ok s (ls_pull s) \<and>
     (case rest s of (cs, e, unread) \<Rightarrow> (ls_read s @ ls_queue s @ cs, e, unread) = out)"

definition failed :: "byte list list \<times> ending \<times> read list \<Rightarrow> limited \<Rightarrow> bool" where
  "failed out s \<longleftrightarrow> (\<exists>e. ls_pull s = Threw e \<and> ls_state s = Errored e \<and> fst (snd out) = Failed e) \<and>
     ls_queue s = [] \<and> prefix (ls_read s) (fst out)"

definition on_course :: "byte list list \<times> ending \<times> read list \<Rightarrow> limited \<Rightarrow> bool" where
  "on_course out s \<longleftrightarrow> under_way out s \<or> failed out s"

lemma limit_start_under_way: "under_way (limit_pull maxBytes (fst c) (snd c)) (limit_start maxBytes c)"
  by (simp add: under_way_def limit_start_def rest_def split: prod.split)

lemma pull_while_under_way:
  assumes "ls_state s = Readable"
    and "limit_pull (ls_left s) (fst (ls_source s)) (snd (ls_source s)) = (cs, e, unread)"
  shows "under_way (ls_read s @ ls_queue s @ cs, e, unread) (pull_while s)"
  using assms limit_pull_none [of "ls_left s" "fst (ls_source s)" "snd (ls_source s)"]
  by (auto simp: under_way_def pull_while_def pull_close_def controller_close_def rest_def)

lemma pull_resume_on_course:
  assumes "under_way out s" and "ls_pull s = Got r"
  shows "on_course out (pull_resume r s)"
proof (cases r)
  case (Inl e)
  with assms show ?thesis
    by (auto simp: under_way_def on_course_def failed_def rest_def pull_resume_def pull_fails_def)
next
  case (Inr x)
  have s: "ls_state s = Readable" "num_less (Fin 0) (ls_left s)"
    using assms by (simp_all add: under_way_def)
  show ?thesis
  proof (cases x)
    case None
    with assms Inr s show ?thesis
      by (auto simp: under_way_def on_course_def rest_def pull_resume_def pull_close_def controller_close_def)
  next
    case (Some y)
    show ?thesis
    proof (cases y)
      case NoValue
      obtain cs e unread where p:
        "limit_pull (ls_left s) (fst (ls_source s)) (snd (ls_source s)) = (cs, e, unread)"
        by (metis prod_cases3)
      with assms Inr Some NoValue s pull_while_under_way [OF s(1) p] show ?thesis
        by (simp add: on_course_def pull_resume_def) (simp add: under_way_def rest_def)
    next
      case (Chunk v)
      define chunk where "chunk = (if num_less (ls_left s) (of_n (length v))
        then take (num_nat (ls_left s)) v else v)"
      define s' where "s' = s\<lparr>ls_queue := ls_queue s @ [chunk], ls_left := num_minus (ls_left s) (length chunk)\<rparr>"
      have resume: "pull_resume r s = (if num_le (ls_left s') (Fin 0) then pull_close s' else pull_while s')"
        using Inr Some Chunk s
        by (simp add: pull_resume_def controller_enqueue_def chunk_def s'_def Let_def)
      obtain cs e unread where p:
        "limit_pull (ls_left s') (fst (ls_source s')) (snd (ls_source s')) = (cs, e, unread)"
        by (metis prod_cases3)
      have out: "out = (if num_le (ls_left s') (Fin 0)
        then (ls_read s @ ls_queue s @ [chunk], Ended, fst (ls_source s))
        else (ls_read s @ ls_queue s @ chunk # cs, e, unread))"
        using assms Inr Some Chunk s p
        by (auto simp: under_way_def rest_def Let_def chunk_def [symmetric] s'_def)
      have "ls_state s' = Readable" using s by (simp add: s'_def)
      from pull_while_under_way [OF this p] show ?thesis
        using s by (auto simp: resume out on_course_def) (auto simp: s'_def under_way_def rest_def
            pull_close_def controller_close_def)
    qed
  qed
qed

lemma limit_step_on_course:
  assumes "limit_step s s'" and "on_course out s"
  shows "on_course out s'"
  using assms(2) unfolding on_course_def [of out s]
proof
  assume u: "under_way out s"
  show ?thesis
    using assms(1)
  proof cases
    case pulls
    then show ?thesis
      using u pull_while_under_way [of s]
      by (auto simp: under_way_def [of out s] rest_def on_course_def split: prod.splits)
  next
    case (runs r)
    with pull_resume_on_course [OF u] show ?thesis by simp
  next
    case (gives r rs fin)
    with u show ?thesis by (auto simp: under_way_def on_course_def rest_def simp del: limit_pull.simps)
  next
    case (delivers c cs)
    with u show ?thesis
      by (cases "ls_pull s") (auto simp: under_way_def on_course_def rest_def split: prod.splits sum.splits option.splits)
  qed (use u in \<open>auto simp: under_way_def on_course_def rest_def split: prod.splits\<close>)
next
  assume "failed out s"
  with assms(1) show ?thesis by cases (auto simp: failed_def)
qed

lemma limit_steps_on_course:
  "limit_step\<^sup>*\<^sup>* (limit_start maxBytes c) s \<Longrightarrow> on_course (limit_pull maxBytes (fst c) (snd c)) s"
  by (induction rule: rtranclp_induct)
    (auto simp: on_course_def [of _ "limit_start maxBytes c"] limit_start_under_way intro: limit_step_on_course)

text \<open>A run that cannot go on without a cancellation has the whole outcome.\<close>

lemma complete_outcome:
  assumes "on_course (cs, e, unread) s" and "\<And>s'. \<not> limit_step s s'"
  shows "case e of
      Ended \<Rightarrow> ls_read s = cs \<and> ls_state s = CloseRequested \<and> fst (ls_source s) = unread
    | Failed x \<Rightarrow> ls_state s = Errored x
    | Stalled \<Rightarrow> ls_read s = cs \<and> ls_state s = Readable"
  using assms(1) unfolding on_course_def
proof
  assume "failed (cs, e, unread) s"
  then show ?thesis by (auto simp: failed_def)
next
  assume u: "under_way (cs, e, unread) s"
  have q: "ls_queue s = []"
    using assms(2) limit_step.delivers [of s] by (cases "ls_queue s") auto
  show ?thesis
  proof (cases "ls_pull s")
    case Not_called
    with u assms(2) limit_step.pulls [of s] show ?thesis by (auto simp: under_way_def)
  next
    case Waiting
    have "ls_source s = ([], Stalled)"
      using assms(2) Waiting limit_step.gives [of s] limit_step.ends [of s] limit_step.fails [of s]
      by (cases "ls_source s"; cases "fst (ls_source s)"; cases "snd (ls_source s)") auto
    with u q Waiting show ?thesis by (auto simp: under_way_def rest_def)
  next
    case (Got r)
    with assms(2) limit_step.runs [of s r] show ?thesis by blast
  qed (use u q in \<open>auto simp: under_way_def rest_def\<close>)
qed

lemma run_bound: "(limit_step ^^ n) s s' \<Longrightarrow> n + work_left s' \<le> work_left s"
proof (induction n arbitrary: s')
  case (Suc n)
  then obtain t where "(limit_step ^^ n) s t" "limit_step t s'" by auto
  with Suc.IH [of t] limit_step_work [of t s'] show ?case by simp
qed simp

section \<open>The source is read no further than needed\<close>

lemma pull_source [simp]:
  "ls_source (pull_while s) = ls_source s" "ls_cancelled (pull_while s) = ls_cancelled s"
  "ls_source (pull_resume r s) = ls_source s" "ls_cancelled (pull_resume r s) = ls_cancelled s"
  by (auto simp: pull_resume_def pull_defs controller_enqueue_def Let_def
      split: sum.split option.split read.split)

text \<open>
  With an allowance of \<open>k\<close> bytes and after the reads \<open>used\<close>: before each of them less than
  \<open>k\<close> bytes had come, and \<open>pull\<close> goes on as long as this is so.
\<close>

fun reads_due :: "number \<Rightarrow> nat \<Rightarrow> read list \<Rightarrow> pull \<Rightarrow> number \<Rightarrow> bool" where
  "reads_due x k used Not_called left \<longleftrightarrow> used = [] \<and> left = x"
| "reads_due x k used Waiting left \<longleftrightarrow> length (reads_bytes used) < k \<and> left = of_n (k - length (reads_bytes used))"
| "reads_due x k used (Got (Inr (Some r))) left \<longleftrightarrow> used \<noteq> [] \<and> last used = r \<and>
     length (reads_bytes (butlast used)) < k \<and> left = of_n (k - length (reads_bytes (butlast used)))"
| "reads_due x k used _ left \<longleftrightarrow> used = [] \<or> length (reads_bytes (butlast used)) < k"

lemma reads_due_needed: "reads_due x k used p left \<Longrightarrow> used = [] \<or> length (reads_bytes (butlast used)) < k"
proof (induction x k used p left rule: reads_due.induct)
  case (2 x k used left)
  then show ?case by (cases used rule: rev_cases) auto
qed auto

definition source_ok :: "number \<Rightarrow> content \<Rightarrow> limited \<Rightarrow> bool" where
  "source_ok x c s \<longleftrightarrow> \<not> ls_cancelled s \<and> snd (ls_source s) = snd c \<and>
     (\<exists>used. fst c = used @ fst (ls_source s) \<and>
        (\<forall>k. whole x \<and> allowance x = Some k \<longrightarrow> reads_due x k used (ls_pull s) (ls_left s)))"

lemma reads_due_pull_close:
  "used = [] \<or> length (reads_bytes (butlast used)) < k \<Longrightarrow>
   reads_due x k used (ls_pull (pull_close s)) left"
  by (auto simp: pull_close_def pull_fails_def controller_close_def Let_def)

lemma reads_due_start:
  assumes "whole x" and "allowance x = Some k" and "ls_left s = x"
  shows "reads_due x k [] (ls_pull (pull_while s)) (ls_left (pull_while s))"
proof (cases "num_less (Fin 0) x")
  case True
  then obtain n where n: "x = of_n n" "0 < n"
    using assms(1,2) by (cases rule: whole_cases [OF assms(1)]) (auto simp: allowance_def)
  then have "k = n" using assms(2) by (simp add: allowance_def of_n_def)
  with n assms(3) show ?thesis by (simp add: pull_while_def)
next
  case False
  with assms(3) show ?thesis by (simp add: pull_while_def reads_due_pull_close)
qed

lemma reads_due_while:
  assumes "length (reads_bytes used) < k" and "ls_left s = of_n (k - length (reads_bytes used))"
  shows "reads_due x k used (ls_pull (pull_while s)) (ls_left (pull_while s))"
  using assms by (simp add: pull_while_def)

lemma reads_due_resume:
  assumes "reads_due x k used (Got r) (ls_left s)"
  shows "reads_due x k used (ls_pull (pull_resume r s)) (ls_left (pull_resume r s))"
proof (cases "\<exists>y. r = Inr (Some y)")
  case False
  with assms reads_due_pull_close [of used k] show ?thesis
    by (cases r rule: sum.exhaust; cases "projr r")
      (auto simp: pull_resume_def pull_fails_def Let_def)
next
  case True
  then obtain y where y: "r = Inr (Some y)" by blast
  with assms obtain us where us: "used = us @ [y]" "length (reads_bytes us) < k"
      "ls_left s = of_n (k - length (reads_bytes us))"
    by (cases used rule: rev_cases) auto
  show ?thesis
  proof (cases y)
    case NoValue
    with us reads_due_while [of used k s x] y show ?thesis by (simp add: pull_resume_def)
  next
    case (Chunk v)
    show ?thesis
    proof (cases "ls_state s = Readable")
      case False
      with y us Chunk show ?thesis by (simp add: pull_resume_def controller_enqueue_def pull_fails_def Let_def)
    next
      case readable: True
      show ?thesis
      proof (cases "k - length (reads_bytes us) \<le> length v")
        case True
        with y us Chunk readable show ?thesis
          by (auto simp: pull_resume_def controller_enqueue_def Let_def min_def reads_due_pull_close)
      next
        case False
        with y us Chunk readable show ?thesis
          by (auto simp: pull_resume_def controller_enqueue_def Let_def reads_due_while)
      qed
    qed
  qed
qed

lemma limit_step_source:
  assumes "limit_step s s'" and "source_ok x c s"
  shows "source_ok x c s'"
proof -
  obtain used where src: "\<not> ls_cancelled s" "snd (ls_source s) = snd c" "fst c = used @ fst (ls_source s)"
    and due: "\<And>k. whole x \<Longrightarrow> allowance x = Some k \<Longrightarrow> reads_due x k used (ls_pull s) (ls_left s)"
    using assms(2) unfolding source_ok_def by blast
  note needed = reads_due_needed [OF due]
  from assms(1) show ?thesis
  proof cases
    case pulls
    then have "reads_due x k used (ls_pull (pull_while s)) (ls_left (pull_while s))"
      if "whole x" "allowance x = Some k" for k
      using due [OF that] reads_due_start [OF that, of s] by simp
    with src pulls show ?thesis by (auto simp: source_ok_def)
  next
    case (gives r rs fin)
    then have "reads_due x k (used @ [r]) (Got (Inr (Some r))) (ls_left s)"
      if "whole x" "allowance x = Some k" for k
      using due [OF that] by simp
    with src gives show ?thesis by (auto simp: source_ok_def intro!: exI [of _ "used @ [r]"])
  next
    case (runs r)
    then have "reads_due x k used (ls_pull (pull_resume r s)) (ls_left (pull_resume r s))"
      if "whole x" "allowance x = Some k" for k
      using due [OF that] reads_due_resume by simp
    with src runs show ?thesis by (auto simp: source_ok_def)
  qed (use src due needed in \<open>auto simp: source_ok_def intro!: exI [of _ used]\<close>)
qed

lemma limit_steps_source: "limit_step\<^sup>*\<^sup>* (limit_start x c) s \<Longrightarrow> source_ok x c s"
proof (induction rule: rtranclp_induct)
  case base
  show ?case by (simp add: source_ok_def limit_start_def)
qed (rule limit_step_source)

section \<open>Cancellation\<close>

definition stopped :: "byte list list \<Rightarrow> limited \<Rightarrow> bool" where
  "stopped got s \<longleftrightarrow> ls_state s = Cancelled \<and> ls_queue s = [] \<and> fst (ls_source s) = [] \<and> ls_read s = got"

lemma limit_cancel_stopped: "stopped (ls_read s) (limit_cancel s)"
  by (auto simp: stopped_def limit_cancel_def reader_cancel_def split: prod.split list.split ending.split)

lemma stopped_pull:
  "stopped got s \<Longrightarrow> stopped got (pull_while s)" "stopped got s \<Longrightarrow> stopped got (pull_resume r s)"
  by (auto simp: stopped_def pull_resume_def controller_enqueue_def pull_defs
      split: sum.split option.split read.split)

lemma stopped_event: "limit_event s s' \<Longrightarrow> stopped got s \<Longrightarrow> stopped got s'"
  by (erule limit_eventE, erule limit_stepE) (auto simp: stopped_pull, auto simp: stopped_def)

lemma on_course_read: "on_course out s \<Longrightarrow> prefix (ls_read s) (fst out)"
  by (auto simp: on_course_def under_way_def failed_def split: prod.splits)

lemma limit_event_prefix:
  assumes "limit_event\<^sup>*\<^sup>* (limit_start maxBytes c) s"
  shows "on_course (limit_pull maxBytes (fst c) (snd c)) s \<or>
    (\<exists>got. stopped got s \<and> prefix got (fst (limit_pull maxBytes (fst c) (snd c))))"
  using assms
proof (induction rule: rtranclp_induct)
  case base
  show ?case by (simp add: on_course_def limit_start_under_way)
next
  case (step s s')
  show ?case
    using step(3)
  proof
    assume c: "on_course (limit_pull maxBytes (fst c) (snd c)) s"
    show ?thesis
      using step(2)
    proof cases
      case step
      with c limit_step_on_course show ?thesis by blast
    next
      case cancel
      with on_course_read [OF c] limit_cancel_stopped show ?thesis by blast
    qed
  next
    assume "\<exists>got. stopped got s \<and> prefix got (fst (limit_pull maxBytes (fst c) (snd c)))"
    with step(2) stopped_event show ?thesis by blast
  qed
qed

section \<open>Properties\<close>

text \<open>C14: the limited stream, run in steps, refines \<open>limit\<close>. In every interleaving of \<open>pull\<close>
  with a consumer that does not cancel, the run ends after at most three steps per read of
  the source and three more; what the consumer has is at any time the beginning of the
  content \<open>limit\<close> gives, and at the end it is all of it, or the stream has failed with the
  source's exception. At any time the source is as it was but for the reads made of it, none
  of which is made once the limit is reached, and it has not been cancelled, so that the
  reads beyond the limit are left in it.\<close>

theorem limit_runs_refine_limit:
  assumes "limit stream maxBytes h = Inr (a, h')"
    and "(limit_step ^^ n) (limit_start maxBytes (contents (h ! stream))) s"
  shows "n \<le> 3 * length (fst (contents (h ! stream))) + 3 \<and>
    prefix (map Chunk (ls_read s)) (fst (contents (h' ! a))) \<and>
    ((\<exists>s'. limit_step s s') \<or>
     (case snd (contents (h' ! a)) of
        Ended \<Rightarrow> map Chunk (ls_read s) = fst (contents (h' ! a)) \<and> ls_state s = CloseRequested
      | Failed x \<Rightarrow> ls_state s = Errored x
      | Stalled \<Rightarrow> map Chunk (ls_read s) = fst (contents (h' ! a)) \<and> ls_state s = Readable)) \<and>
    \<not> ls_cancelled s \<and> snd (ls_source s) = snd (contents (h ! stream)) \<and>
    (\<exists>used. fst (contents (h ! stream)) = used @ fst (ls_source s) \<and>
       (\<forall>k. whole maxBytes \<and> allowance maxBytes = Some k \<longrightarrow>
          used = [] \<or> length (reads_bytes (butlast used)) < k))"
proof -
  obtain rs fin where c: "contents (h ! stream) = (rs, fin)" by fastforce
  obtain cs e unread where p: "limit_pull maxBytes rs fin = (cs, e, unread)"
    by (metis prod_cases3)
  have limited: "contents (h' ! a) = (map Chunk cs, e)"
    using assms(1) c p by (auto simp: limit_def take_reader_def alloc_def nth_append split: if_splits)
  have "on_course (cs, e, unread) s"
    using limit_steps_on_course [of maxBytes "(rs, fin)" s] relpowp_imp_rtranclp [OF assms(2)]
    by (simp add: c p)
  note on = this complete_outcome [OF this]
  have "n \<le> 3 * length rs + 3"
    using run_bound [OF assms(2)] by (simp add: work_left_def limit_start_def c)
  moreover have "prefix (map Chunk (ls_read s)) (map Chunk cs)"
    using on_course_read [OF on(1)] by (simp add: map_mono_prefix)
  moreover have "(\<exists>s'. limit_step s s') \<or>
     (case e of
        Ended \<Rightarrow> ls_read s = cs \<and> ls_state s = CloseRequested \<and> fst (ls_source s) = unread
      | Failed x \<Rightarrow> ls_state s = Errored x
      | Stalled \<Rightarrow> ls_read s = cs \<and> ls_state s = Readable)"
    using on(2) by blast
  moreover have "source_ok maxBytes (rs, fin) s"
    using limit_steps_source relpowp_imp_rtranclp [OF assms(2)] by (simp add: c)
  then have "\<not> ls_cancelled s \<and> snd (ls_source s) = fin \<and>
     (\<exists>used. rs = used @ fst (ls_source s) \<and> (\<forall>k. whole maxBytes \<and> allowance maxBytes = Some k \<longrightarrow>
        used = [] \<or> length (reads_bytes (butlast used)) < k))"
    unfolding source_ok_def fst_conv snd_conv using reads_due_needed by blast
  ultimately show ?thesis
    by (auto simp: c limited split: ending.splits)
qed

text \<open>A run of a stream limited to one byte, over a source that has more.\<close>

definition sample_source :: content where
  "sample_source = ([Chunk [1, 2], Chunk [3]], Stalled)"

definition sample_end :: limited where
  "sample_end = \<lparr>ls_left = Fin 0, ls_source = ([Chunk [3]], Stalled), ls_pull = Returned, ls_queue = [],
     ls_read = [[1]], ls_state = CloseRequested, ls_cancelled = False\<rparr>"

lemma limit_step_then: "limit_step s t \<Longrightarrow> (limit_step ^^ n) t u \<Longrightarrow> (limit_step ^^ Suc n) s u"
  by (rule relpowp_Suc_I2)

lemma sample_limit_run: "(limit_step ^^ 4) (limit_start (of_n 1) sample_source) sample_end"
proof -
  let ?s0 = "limit_start (of_n 1) sample_source"
  let ?s1 = "?s0\<lparr>ls_pull := Waiting\<rparr>"
  let ?s2 = "?s1\<lparr>ls_source := ([Chunk [3]], Stalled), ls_pull := Got (Inr (Some (Chunk [1, 2])))\<rparr>"
  let ?s3 = "sample_end\<lparr>ls_queue := [[1]], ls_read := []\<rparr>"
  have "limit_step ?s0 ?s1"
    using limit_step.pulls [of ?s0] by (simp add: limit_start_def pull_while_def)
  moreover have "limit_step ?s1 ?s2"
    using limit_step.gives [of ?s1 "Chunk [1, 2]" "[Chunk [3]]" Stalled]
    by (simp add: limit_start_def sample_source_def)
  moreover have "limit_step ?s2 ?s3"
    using limit_step.runs [of ?s2 "Inr (Some (Chunk [1, 2]))"]
    by (simp add: limit_start_def sample_end_def pull_resume_def controller_enqueue_def Let_def
        pull_close_def controller_close_def of_n_def num_le_def)
  moreover have "limit_step ?s3 sample_end"
    using limit_step.delivers [of ?s3 "[1]" "[]"] by (simp add: sample_end_def)
  ultimately have "(limit_step ^^ Suc (Suc (Suc (Suc 0)))) ?s0 sample_end"
    by (intro limit_step_then [where n = "Suc _"] limit_step_then [where n = 0]) simp_all
  then show ?thesis by (simp add: numeral_eq_Suc)
qed

lemma sample_limit_end_final: "\<not> limit_step sample_end s"
  by (auto simp: sample_end_def elim: limit_stepE)

theorem limit_runs_refine_limit_witness:
  "\<exists>s. (limit_step ^^ 4) (limit_start (of_n 1) sample_source) s \<and>
     map Chunk (ls_read s) = [Chunk [1]] \<and> ls_state s = CloseRequested \<and>
     \<not> ls_cancelled s \<and> snd (ls_source s) = Stalled"
proof -
  let ?h = "[\<lparr>contents = sample_source, locked = False\<rparr>]"
  let ?h' = "[\<lparr>contents = sample_source, locked = True\<rparr>, \<lparr>contents = ([Chunk [1]], Ended), locked = False\<rparr>]"
  have limit: "limit 0 (of_n 1) ?h = Inr (1, ?h')"
    by (simp add: limit_def take_reader_def alloc_def sample_source_def of_n_def num_le_def)
  have run: "(limit_step ^^ 4) (limit_start (of_n 1) (contents (?h ! 0))) sample_end"
    using sample_limit_run by simp
  have c: "contents (?h' ! 1) = ([Chunk [1]], Ended)" by simp
  have "\<nexists>s'. limit_step sample_end s'" using sample_limit_end_final by blast
  with limit_runs_refine_limit [OF limit run, unfolded c]
  have "map Chunk (ls_read sample_end) = [Chunk [1]] \<and> ls_state sample_end = CloseRequested \<and>
      \<not> ls_cancelled sample_end \<and> snd (ls_source sample_end) = Stalled"
    by (simp only: fst_conv snd_conv ending.case simp_thms nth_Cons_0 rstream.simps sample_source_def)
  with sample_limit_run have "(limit_step ^^ 4) (limit_start (of_n 1) sample_source) sample_end \<and>
      map Chunk (ls_read sample_end) = [Chunk [1]] \<and> ls_state sample_end = CloseRequested \<and>
      \<not> ls_cancelled sample_end \<and> snd (ls_source sample_end) = Stalled" by (rule conjI)
  then show ?thesis by (rule exI)
qed

text \<open>Once the consumer of a limited stream has cancelled it, at any moment of any run,
  \<open>pull\<close> included, nothing more is queued or delivered and nothing more is read of the
  source; what had been delivered is the beginning of the limited content.\<close>

theorem limit_cancel_stops:
  assumes "limit_event\<^sup>*\<^sup>* (limit_start maxBytes c) s" and "limit_event\<^sup>*\<^sup>* (limit_cancel s) s'"
  shows "ls_read s' = ls_read s \<and> ls_queue s' = [] \<and> fst (ls_source s') = [] \<and>
    prefix (ls_read s) (fst (limit_pull maxBytes (fst c) (snd c)))"
proof -
  have "stopped (ls_read s) s'"
    using assms(2) by (induction rule: rtranclp_induct) (auto intro: limit_cancel_stopped stopped_event)
  moreover have "prefix (ls_read s) (fst (limit_pull maxBytes (fst c) (snd c)))"
    using limit_event_prefix [OF assms(1)] by (auto simp: stopped_def dest: on_course_read)
  ultimately show ?thesis by (simp add: stopped_def)
qed

theorem limit_cancel_stops_witness:
  "\<exists>s :: limited. ls_pull s = Got (Inr None) \<and> ls_read s = [] \<and> ls_queue s = []"
proof -
  let ?s1 = "limit_start PInf sample_source\<lparr>ls_pull := Waiting\<rparr>"
  let ?s2 = "limit_cancel ?s1\<lparr>ls_pull := Got (Inr None)\<rparr>"
  have "limit_event\<^sup>*\<^sup>* (limit_start PInf sample_source) ?s1"
    using limit_step.pulls [of "limit_start PInf sample_source"]
    by (intro r_into_rtranclp limit_event.step) (simp add: limit_start_def pull_while_def)
  moreover have "limit_event\<^sup>*\<^sup>* (limit_cancel ?s1) ?s2"
    using limit_step.ends [of "limit_cancel ?s1"]
    by (intro r_into_rtranclp limit_event.step)
      (simp add: limit_cancel_def limit_start_def sample_source_def reader_cancel_def)
  ultimately have "ls_read ?s2 = ls_read ?s1 \<and> ls_queue ?s2 = []"
    using limit_cancel_stops by blast
  then show ?thesis by - (rule exI [of _ ?s2], simp add: limit_start_def)
qed

end
