(* ===== verification/NextHar.thy ===== *)
theory NextHar
  imports WebApi
begin

text \<open>
  \<open>createHarEntry\<close> of \<open>subtrace-next/index.ts\<close>: the HTTP archive entry of a request and
  its response.
\<close>

text \<open>
  \<open>Promise.all\<close> of the two \<open>text()\<close> calls in a \<open>try\<close> with an empty \<open>catch\<close>: one failure
  leaves both bodies empty, even if the other never settles.
\<close>

definition har_bodies ::
  "string result option \<Rightarrow> string result option \<Rightarrow> (string \<times> string) option" where
  "har_bodies reqText respText =
     (case (reqText, respText) of
        (Some (Inr reqBody), Some (Inr respBody)) \<Rightarrow> Some (reqBody, respBody)
      | (Some (Inl e), _) \<Rightarrow> Some ([], [])
      | (_, Some (Inl e)) \<Rightarrow> Some ([], [])
      | _ \<Rightarrow> None)"

type_synonym NameValuePair = "string \<times> string"

definition name_value :: "NameValuePair \<Rightarrow> jsval" where
  "name_value nv = JObj [(''name'', JStr (fst nv)), (''value'', JStr (snd nv))]"

text \<open>\<open>headers.get(name) || d\<close>\<close>

definition header_or :: "headers \<Rightarrow> string \<Rightarrow> string \<Rightarrow> string" where
  "header_or hs name d =
     (case map_of hs name of None \<Rightarrow> d | Some v \<Rightarrow> if v = [] then d else v)"

definition har_request ::
  "web \<Rightarrow> request \<Rightarrow> string \<Rightarrow> jsval" where
  "har_request X req reqBody = JObj
     [(''method'', JStr (rq_method req)),
      (''url'', JStr (rq_url req)),
      (''httpVersion'', JStr ''HTTP/1.1''),
      (''headers'', JArr (map name_value (rq_headers req))),
      (''queryString'', JArr (map name_value (search_params X (rq_url req)))),
      (''postData'',
         if reqBody \<noteq> []
         then JObj [(''mimeType'', JStr (header_or (rq_headers req) ''content-type'' ''application/octet-stream'')),
                    (''text'', JStr reqBody)]
         else JUndef),
      (''headersSize'', JNum (Fin (- 1))),
      (''bodySize'', JNum (of_n (length reqBody)))]"

definition har_response :: "response \<Rightarrow> string \<Rightarrow> jsval" where
  "har_response resp respBody = JObj
     [(''status'', JNum (of_n (rs_status resp))),
      (''statusText'', JStr (rs_statusText resp)),
      (''httpVersion'', JStr ''HTTP/1.1''),
      (''headers'', JArr (map name_value (rs_headers resp))),
      (''content'', JObj
         [(''size'', JNum (of_n (length respBody))),
          (''mimeType'', JStr (header_or (rs_headers resp) ''content-type'' ''application/octet-stream'')),
          (''text'', JStr respBody)]),
      (''redirectURL'', JStr (header_or (rs_headers resp) ''location'' '''')),
      (''headersSize'', JNum (Fin (- 1))),
      (''bodySize'', JNum (of_n (length respBody)))]"

definition har_object ::
  "web \<Rightarrow> request \<Rightarrow> response \<Rightarrow> string \<Rightarrow> number \<Rightarrow> string \<Rightarrow> string \<Rightarrow> jsval" where
  "har_object X req resp timestamp duration reqBody respBody = JObj
     [(''startedDateTime'', JStr timestamp),
      (''time'', JNum duration),
      (''request'', har_request X req reqBody),
      (''response'', har_response resp respBody),
      (''cache'', JObj []),
      (''timings'', JObj
         [(''send'', JNum (Fin 0)), (''wait'', JNum duration), (''receive'', JNum (Fin 0))])]"

definition createHarEntry ::
  "web \<Rightarrow> request \<Rightarrow> response \<Rightarrow> string \<Rightarrow> number \<Rightarrow> heap \<Rightarrow> jsval option" where
  "createHarEntry X req resp timestamp duration h =
     map_option (\<lambda>(reqBody, respBody). har_object X req resp timestamp duration reqBody respBody)
       (har_bodies (body_text X (rq_body req) h) (body_text X (rs_body resp) h))"

section \<open>Properties\<close>

lemma har_bodies_None:
  "har_bodies a b = None \<longleftrightarrow>
     (a = None \<or> b = None) \<and> (\<forall>e. a \<noteq> Some (Inl e)) \<and> (\<forall>e. b \<noteq> Some (Inl e))"
  by (cases a; cases b; auto simp: har_bodies_def split: sum.splits)

text \<open>Following a path of property names.\<close>

fun path :: "jsval \<Rightarrow> string list \<Rightarrow> jsval" where
  "path v [] = v"
| "path v (k # ks) = path (get_prop_opt v k) ks"

text \<open>When reading one of the two bodies fails, the entry is still created, but without
  either body: no \<open>postData\<close>, an empty response text and sizes 0, whatever the other body
  held.\<close>

theorem har_entry_drops_both_bodies:
  assumes "body_text X (rq_body req) h = Some (Inl e) \<or> body_text X (rs_body resp) h = Some (Inl e)"
  shows "\<exists>har. createHarEntry X req resp timestamp duration h = Some har \<and>
    path har [''request'', ''postData''] = JUndef \<and>
    path har [''request'', ''bodySize''] = JNum (Fin 0) \<and>
    path har [''response'', ''content'', ''text''] = JStr [] \<and>
    path har [''response'', ''bodySize''] = JNum (Fin 0)"
proof -
  have "har_bodies (body_text X (rq_body req) h) (body_text X (rs_body resp) h) = Some ([], [])"
    using assms
    by (cases "body_text X (rq_body req) h"; cases "body_text X (rs_body resp) h")
      (auto simp: har_bodies_def split: sum.splits)
  then show ?thesis
    by (simp add: createHarEntry_def har_object_def har_request_def har_response_def)
qed

definition sample_req :: request where
  "sample_req =
     \<lparr>rq_method = ''POST'', rq_url = ''http://a/?q=1'', rq_headers = [(''accept'', ''x'')], rq_body = Some 0\<rparr>"

definition sample_resp :: response where
  "sample_resp =
     \<lparr>rs_status = 200, rs_statusText = ''OK'', rs_url = ''http://a/?q=1'', rs_headers = [], rs_body = Some 1\<rparr>"

theorem har_entry_drops_both_bodies_witness:
  "\<exists>har. createHarEntry sample_web sample_req sample_resp ''now'' (of_n 5)
      [\<lparr>contents = ([], Failed (TypeError [])), locked = False\<rparr>,
       \<lparr>contents = ([Chunk [104, 105]], Ended), locked = False\<rparr>] = Some har \<and>
    path har [''request'', ''postData''] = JUndef \<and>
    path har [''request'', ''bodySize''] = JNum (Fin 0) \<and>
    path har [''response'', ''content'', ''text''] = JStr [] \<and>
    path har [''response'', ''bodySize''] = JNum (Fin 0)"
  by (rule har_entry_drops_both_bodies [of _ _ _ "TypeError []"])
    (simp add: body_text_def body_read_def sample_req_def read_all_def)

text \<open>The entry is produced exactly when one of the bodies fails or both end: a body that
  never ends withholds it.\<close>

theorem har_entry_created_iff:
  "createHarEntry X req resp timestamp duration h = None \<longleftrightarrow>
     (body_text X (rq_body req) h = None \<or> body_text X (rs_body resp) h = None) \<and>
     (\<forall>e. body_text X (rq_body req) h \<noteq> Some (Inl e)) \<and>
     (\<forall>e. body_text X (rs_body resp) h \<noteq> Some (Inl e))"
  by (simp add: createHarEntry_def har_object_def har_bodies_None)

text \<open>When both bodies are read, the entry records the method, the URL and every header
  in order, and the decoded bodies; the sizes it states are the lengths of the decoded
  texts.\<close>

theorem har_entry_contents:
  assumes "body_text X (rq_body req) h = Some (Inr reqBody)"
    and "body_text X (rs_body resp) h = Some (Inr respBody)"
  shows "\<exists>har. createHarEntry X req resp timestamp duration h = Some har \<and>
    path har [''startedDateTime''] = JStr timestamp \<and>
    path har [''request'', ''method''] = JStr (rq_method req) \<and>
    path har [''request'', ''url''] = JStr (rq_url req) \<and>
    path har [''request'', ''headers''] = JArr (map name_value (rq_headers req)) \<and>
    path har [''request'', ''postData'', ''text''] = (if reqBody = [] then JUndef else JStr reqBody) \<and>
    path har [''request'', ''bodySize''] = JNum (of_n (length reqBody)) \<and>
    path har [''response'', ''status''] = JNum (of_n (rs_status resp)) \<and>
    path har [''response'', ''headers''] = JArr (map name_value (rs_headers resp)) \<and>
    path har [''response'', ''content'', ''text''] = JStr respBody \<and>
    path har [''response'', ''bodySize''] = JNum (of_n (length respBody)) \<and>
    path har [''timings'', ''wait''] = JNum duration"
  using assms
  by (simp add: createHarEntry_def har_object_def har_bodies_def har_request_def har_response_def get_prop_opt_def)

theorem har_entry_contents_witness:
  "\<exists>har. createHarEntry sample_web sample_req sample_resp ''now'' (of_n 5)
      [\<lparr>contents = ([], Ended), locked = False\<rparr>,
       \<lparr>contents = ([Chunk [104], Chunk [105]], Ended), locked = False\<rparr>] = Some har \<and>
    path har [''startedDateTime''] = JStr ''now'' \<and>
    path har [''request'', ''method''] = JStr (rq_method sample_req) \<and>
    path har [''request'', ''url''] = JStr (rq_url sample_req) \<and>
    path har [''request'', ''headers''] = JArr (map name_value (rq_headers sample_req)) \<and>
    path har [''request'', ''postData'', ''text''] = (if ([] :: string) = [] then JUndef else JStr []) \<and>
    path har [''request'', ''bodySize''] = JNum (of_n (length ([] :: string))) \<and>
    path har [''response'', ''status''] = JNum (of_n (rs_status sample_resp)) \<and>
    path har [''response'', ''headers''] = JArr (map name_value (rs_headers sample_resp)) \<and>
    path har [''response'', ''content'', ''text''] = JStr ''hi'' \<and>
    path har [''response'', ''bodySize''] = JNum (of_n (length ''hi'')) \<and>
    path har [''timings'', ''wait''] = JNum (of_n 5)"
  by (rule har_entry_contents)
    (simp_all add: body_text_def body_read_def sample_req_def sample_resp_def sample_web_def
      read_all_def content_bytes_def char_of_def bit_0)

end
