(* ===== verification/NextConnect.thy ===== *)
theory NextConnect
  imports WebApi
begin

text \<open>
  \<open>createWebSocket\<close> of \<open>subtrace-next/index.ts\<close>: it asks the server for a publisher URL and
  opens a WebSocket to it, again and again with a growing pause until it succeeds.
\<close>

section \<open>What one round meets\<close>

text \<open>
  The answer to the \<open>JoinPublisher\<close> request (the status and what \<open>json()\<close> gives), whether
  \<open>new WebSocket(url)\<close> throws, and which event comes first on the socket. \<open>None\<close> and
  \<open>Hangs\<close> stand for answers that never come.
\<close>

datatype sock_event = Opens | OpenError exn | Hangs

record round =
  join :: "(nat \<times> jsval result option) result option"
  construct :: "jsval \<Rightarrow> exn option"
  sock_event :: sock_event

text \<open>\<open>wait(ms)\<close>: the pauses are recorded in order.\<close>

definition wait :: "nat \<Rightarrow> nat list \<Rightarrow> nat list" where
  "wait ms waits = waits @ [ms]"

definition next_backoff :: "nat \<Rightarrow> nat" where
  "next_backoff backoff = min (backoff + 1000) 10000"

text \<open>
  The loop from round \<open>k\<close>. The result is the list of pauses and either the exception the
  promise is rejected with or the round whose socket it is fulfilled with; \<open>None\<close> when the
  promise stays pending for ever.
\<close>

partial_function (option) createWebSocket_loop ::
  "(nat \<Rightarrow> round) \<Rightarrow> nat \<Rightarrow> nat \<Rightarrow> nat list \<Rightarrow> (nat list \<times> nat result) option" where
  "createWebSocket_loop rounds k backoff waits =
     (case join (rounds k) of
        None \<Rightarrow> None
      | Some (Inl error) \<Rightarrow>
          createWebSocket_loop rounds (k + 1) (next_backoff backoff) (wait backoff waits)
      | Some (Inr (status, json)) \<Rightarrow>
          if status \<noteq> 200
          then createWebSocket_loop rounds (k + 1) (next_backoff backoff) (wait backoff waits)
          else
            let backoff = 1000 in
            (case json of
               None \<Rightarrow> None
             | Some res \<Rightarrow>
                 (case bindE res (\<lambda>v. get_prop v ''websocketUrl'') of
                    Inl e \<Rightarrow> Some (waits, Inl e)
                  | Inr websocketUrl \<Rightarrow>
                      (case construct (rounds k) websocketUrl of
                         Some e \<Rightarrow> Some (waits, Inl e)
                       | None \<Rightarrow>
                           (case sock_event (rounds k) of
                              Opens \<Rightarrow> Some (waits, Inr k)
                            | OpenError error \<Rightarrow>
                                createWebSocket_loop rounds (k + 1) (next_backoff backoff) (wait backoff waits)
                            | Hangs \<Rightarrow> None)))))"

definition createWebSocket :: "(nat \<Rightarrow> round) \<Rightarrow> (nat list \<times> nat result) option" where
  "createWebSocket rounds = createWebSocket_loop rounds 0 1000 []"

section \<open>Rounds that end in another\<close>

text \<open>A round's own outcome.\<close>

datatype outcome = Retry_join | Retry_open | Reject exn | Connected | Stuck

definition round_outcome :: "round \<Rightarrow> outcome" where
  "round_outcome r =
     (case join r of
        None \<Rightarrow> Stuck
      | Some (Inl e) \<Rightarrow> Retry_join
      | Some (Inr (status, json)) \<Rightarrow>
          if status \<noteq> 200 then Retry_join
          else (case json of
               None \<Rightarrow> Stuck
             | Some res \<Rightarrow>
                 (case bindE res (\<lambda>v. get_prop v ''websocketUrl'') of
                    Inl e \<Rightarrow> Reject e
                  | Inr u \<Rightarrow> (case construct r u of
                        Some e \<Rightarrow> Reject e
                      | None \<Rightarrow> (case sock_event r of
                            Opens \<Rightarrow> Connected | OpenError e \<Rightarrow> Retry_open | Hangs \<Rightarrow> Stuck)))))"

lemma round_step:
  "(case join (rounds k) of
      None \<Rightarrow> None
    | Some (Inl error) \<Rightarrow> loop rounds (k + 1) (next_backoff backoff) (wait backoff waits)
    | Some (Inr (status, json)) \<Rightarrow>
        if status \<noteq> 200 then loop rounds (k + 1) (next_backoff backoff) (wait backoff waits)
        else
          let backoff = 1000 in
          (case json of
             None \<Rightarrow> None
           | Some res \<Rightarrow>
               (case bindE res (\<lambda>v. get_prop v ''websocketUrl'') of
                  Inl e \<Rightarrow> Some (waits, Inl e)
                | Inr websocketUrl \<Rightarrow>
                    (case construct (rounds k) websocketUrl of
                       Some e \<Rightarrow> Some (waits, Inl e)
                     | None \<Rightarrow>
                         (case sock_event (rounds k) of
                            Opens \<Rightarrow> Some (waits, Inr k)
                          | OpenError error \<Rightarrow>
                              loop rounds (k + 1) (next_backoff backoff) (wait backoff waits)
                          | Hangs \<Rightarrow> None))))) =
   (case round_outcome (rounds k) of
      Retry_join \<Rightarrow> loop rounds (Suc k) (next_backoff backoff) (waits @ [backoff])
    | Retry_open \<Rightarrow> loop rounds (Suc k) 2000 (waits @ [1000])
    | Reject e \<Rightarrow> Some (waits, Inl e)
    | Connected \<Rightarrow> Some (waits, Inr k)
    | Stuck \<Rightarrow> None)"
  by (simp add: round_outcome_def wait_def next_backoff_def Let_def
      split: option.splits sum.splits sock_event.splits)

lemma createWebSocket_loop_step:
  "createWebSocket_loop rounds k backoff waits =
     (case round_outcome (rounds k) of
        Retry_join \<Rightarrow> createWebSocket_loop rounds (Suc k) (next_backoff backoff) (waits @ [backoff])
      | Retry_open \<Rightarrow> createWebSocket_loop rounds (Suc k) 2000 (waits @ [1000])
      | Reject e \<Rightarrow> Some (waits, Inl e)
      | Connected \<Rightarrow> Some (waits, Inr k)
      | Stuck \<Rightarrow> None)"
  by (subst createWebSocket_loop.simps) (rule round_step)

text \<open>The pauses after the rounds \<open>k, k + 1, ..., k + n - 1\<close> when all of them are retried.\<close>

fun pauses :: "(nat \<Rightarrow> round) \<Rightarrow> nat \<Rightarrow> nat \<Rightarrow> nat \<Rightarrow> nat list" where
  "pauses rounds k backoff 0 = []"
| "pauses rounds k backoff (Suc n) =
     (if round_outcome (rounds k) = Retry_open then 1000 # pauses rounds (Suc k) 2000 n
      else backoff # pauses rounds (Suc k) (next_backoff backoff) n)"

definition retried :: "round \<Rightarrow> bool" where
  "retried r \<longleftrightarrow> round_outcome r \<in> {Retry_join, Retry_open}"

lemma createWebSocket_loop_retries:
  "(\<And>i. i < n \<Longrightarrow> retried (rounds (k + i))) \<Longrightarrow>
   \<exists>backoff'. createWebSocket_loop rounds k backoff waits =
     createWebSocket_loop rounds (k + n) backoff' (waits @ pauses rounds k backoff n)"
proof (induction n arbitrary: k backoff waits)
  case 0
  show ?case by auto
next
  case (Suc n)
  have "retried (rounds (Suc k + i))" if "i < n" for i
    using Suc.prems [of "Suc i"] that by simp
  note IH = Suc.IH [of "Suc k", OF this]
  have step: "createWebSocket_loop rounds k backoff waits =
      (if round_outcome (rounds k) = Retry_open
       then createWebSocket_loop rounds (Suc k) 2000 (waits @ [1000])
       else createWebSocket_loop rounds (Suc k) (next_backoff backoff) (waits @ [backoff]))"
    using Suc.prems [of 0] by (subst createWebSocket_loop_step) (auto simp: retried_def)
  show ?case
  proof (cases "round_outcome (rounds k) = Retry_open")
    case True
    from IH obtain b where "createWebSocket_loop rounds (Suc k) 2000 (waits @ [1000]) =
        createWebSocket_loop rounds (Suc k + n) b ((waits @ [1000]) @ pauses rounds (Suc k) 2000 n)"
      by blast
    then show ?thesis
      unfolding step using True by (intro exI [of _ b]) (simp only: True simp_thms pauses.simps if_True
        append_assoc append_Cons append_Nil add_Suc add_Suc_right)
  next
    case False
    from IH obtain b where "createWebSocket_loop rounds (Suc k) (next_backoff backoff) (waits @ [backoff]) =
        createWebSocket_loop rounds (Suc k + n) b
          ((waits @ [backoff]) @ pauses rounds (Suc k) (next_backoff backoff) n)"
      by blast
    then show ?thesis
      unfolding step using False by (intro exI [of _ b]) (simp only: False pauses.simps if_False
        append_assoc append_Cons append_Nil add_Suc add_Suc_right)
  qed
qed

lemma next_backoff_bounds: "1000 \<le> next_backoff b" "next_backoff b \<le> 10000"
  by (simp_all add: next_backoff_def)

lemma pauses_bounds:
  "1000 \<le> backoff \<Longrightarrow> backoff \<le> 10000 \<Longrightarrow>
   \<forall>p \<in> set (pauses rounds k backoff n). 1000 \<le> p \<and> p \<le> 10000"
proof (induction n arbitrary: k backoff)
  case (Suc n)
  from Suc.IH [of 2000 "Suc k"] Suc.IH [OF next_backoff_bounds, of "Suc k" backoff] Suc.prems
  show ?case by simp
qed simp

lemma pauses_join:
  "(\<And>i. i < n \<Longrightarrow> round_outcome (rounds (k + i)) = Retry_join) \<Longrightarrow>
   pauses rounds k (min (1000 * m) 10000) n = map (\<lambda>i. min (1000 * (m + i)) 10000) [0..<n]"
proof (induction n arbitrary: k m)
  case (Suc n)
  have "round_outcome (rounds (Suc k + i)) = Retry_join" if "i < n" for i
    using Suc.prems [of "Suc i"] that by simp
  note IH = Suc.IH [of "Suc k", OF this, of "Suc m"]
  have "next_backoff (min (1000 * m) 10000) = min (1000 * Suc m) 10000"
    unfolding next_backoff_def by (cases "m \<le> 9") auto
  moreover have "round_outcome (rounds k) \<noteq> Retry_open"
    using Suc.prems [of 0] by simp
  ultimately have "pauses rounds k (min (1000 * m) 10000) (Suc n) =
      min (1000 * (m + 0)) 10000 # map (\<lambda>i. min (1000 * (m + Suc i)) 10000) [0..<n]"
    by (simp only: pauses.simps if_False IH add_0_right add_Suc add_Suc_right)
  then show ?case by (simp only: map_upt_Suc)
qed simp

lemma pauses_open:
  "(\<And>i. i < n \<Longrightarrow> round_outcome (rounds (k + i)) = Retry_open) \<Longrightarrow>
   pauses rounds k backoff n = replicate n 1000"
proof (induction n arbitrary: k backoff)
  case (Suc n)
  have "round_outcome (rounds (Suc k + i)) = Retry_open" if "i < n" for i
    using Suc.prems [of "Suc i"] that by simp
  from Suc.IH [of "Suc k", OF this] Suc.prems [of 0] show ?case by simp
qed simp

text \<open>A result comes from a round that rejects or connects, after retried rounds only.\<close>

definition settles :: "(nat \<Rightarrow> round) \<Rightarrow> nat \<Rightarrow> nat result \<Rightarrow> bool" where
  "settles rounds n res \<longleftrightarrow>
     (case res of Inr m \<Rightarrow> m = n \<and> round_outcome (rounds n) = Connected
      | Inl e \<Rightarrow> round_outcome (rounds n) = Reject e)"

definition settled :: "(nat \<Rightarrow> round) \<Rightarrow> nat \<Rightarrow> nat \<Rightarrow> nat list \<Rightarrow> nat list \<times> nat result \<Rightarrow> bool" where
  "settled rounds k backoff waits y \<longleftrightarrow>
     (\<exists>n. (\<forall>i<n. retried (rounds (k + i))) \<and> fst y = waits @ pauses rounds k backoff n \<and>
        settles rounds (k + n) (snd y))"

lemma settled_now:
  "settles rounds k (snd y) \<Longrightarrow> fst y = waits \<Longrightarrow> settled rounds k backoff waits y"
  unfolding settled_def by (intro exI [of _ 0]) simp

lemma settled_later:
  assumes "settled rounds (Suc k) backoff' (waits @ [p]) y"
    and "retried (rounds k)"
    and "\<And>n. pauses rounds k backoff (Suc n) = p # pauses rounds (Suc k) backoff' n"
  shows "settled rounds k backoff waits y"
proof -
  from assms(1) obtain n where n: "\<forall>i<n. retried (rounds (Suc k + i))"
    "fst y = (waits @ [p]) @ pauses rounds (Suc k) backoff' n" "settles rounds (Suc k + n) (snd y)"
    unfolding settled_def by blast
  have "retried (rounds (k + i))" if "i < Suc n" for i
    using that n(1) assms(2) by (cases i) auto
  then show ?thesis
    unfolding settled_def using n assms(3) [of n] by (intro exI [of _ "Suc n"]) simp
qed

lemma createWebSocket_loop_result:
  assumes "createWebSocket_loop rounds k backoff waits = Some y"
  shows "settled rounds k backoff waits y"
proof (rule createWebSocket_loop.raw_induct [where P = settled, OF _ assms], goal_cases)
  case (1 loop rounds k backoff waits y)
  note IH = 1(1) and body = 1(2) [unfolded round_step]
  show ?case
  proof (cases "round_outcome (rounds k)")
    case Retry_join
    then have "loop rounds (Suc k) (next_backoff backoff) (waits @ [backoff]) = Some y"
      using body by simp
    from IH [OF this] show ?thesis
      by (rule settled_later) (simp_all add: retried_def Retry_join)
  next
    case Retry_open
    then have "loop rounds (Suc k) 2000 (waits @ [1000]) = Some y"
      using body by simp
    from IH [OF this] show ?thesis
      by (rule settled_later) (simp_all add: retried_def Retry_open)
  qed (use body in \<open>auto intro!: settled_now simp: settles_def\<close>)
qed

lemma createWebSocket_settlesI:
  assumes "\<forall>i<n. retried (rounds i)" and "settles rounds n res"
  shows "createWebSocket rounds = Some (pauses rounds 0 1000 n, res)"
proof -
  obtain b where "createWebSocket rounds = createWebSocket_loop rounds n b (pauses rounds 0 1000 n)"
    using createWebSocket_loop_retries [of n rounds 0 1000 "[]"] assms(1)
    by (auto simp: createWebSocket_def)
  with assms(2) show ?thesis
    by (auto simp: settles_def createWebSocket_loop_step [of rounds n] split: sum.splits)
qed

lemma createWebSocket_settlesD:
  "createWebSocket rounds = Some (waits, res) \<Longrightarrow>
   \<exists>n. (\<forall>i<n. retried (rounds i)) \<and> waits = pauses rounds 0 1000 n \<and> settles rounds n res"
  using createWebSocket_loop_result [of rounds 0 1000 "[]" "(waits, res)"]
  by (simp add: createWebSocket_def settled_def)

section \<open>Properties\<close>

text \<open>C23: \<open>createWebSocket\<close> settles exactly when some round connects or rejects and every
  round before it failed to join or to open; it settles with that round's socket or
  exception, after one pause per failed round.\<close>

theorem createWebSocket_settles_iff:
  "createWebSocket rounds = Some (waits, res) \<longleftrightarrow>
     (\<exists>n. (\<forall>i<n. retried (rounds i)) \<and> waits = pauses rounds 0 1000 n \<and> settles rounds n res)"
  using createWebSocket_settlesD createWebSocket_settlesI by blast

theorem createWebSocket_settles_iff_witness:
  "createWebSocket (\<lambda>k. \<lparr>join = Some (Inr (200, Some (Inr (JObj [(''websocketUrl'', JStr ''wss://x'')])))),
      construct = \<lambda>_. None, sock_event = (if k = 0 then OpenError (Error []) else Opens)\<rparr>) =
    Some ([1000], Inr 1)"
proof (rule createWebSocket_settles_iff [THEN iffD2], rule exI [of _ 1])
qed (simp add: retried_def settles_def round_outcome_def)

text \<open>After \<open>n\<close> rounds whose join request failed or was refused, the pauses have been
  1, 2, 3, ... seconds, at most 10; then the socket of the first round that connects is
  returned.\<close>

theorem join_backoff_schedule:
  assumes "\<And>i. i < n \<Longrightarrow> round_outcome (rounds i) = Retry_join"
    and "round_outcome (rounds n) = Connected"
  shows "createWebSocket rounds =
    Some (map (\<lambda>i. min (1000 * (i + 1)) 10000) [0..<n], Inr n)"
proof -
  have "pauses rounds 0 1000 n = map (\<lambda>i. min (1000 * (1 + i)) 10000) [0..<n]"
    using pauses_join [of n rounds 0 1] assms(1) by simp
  then show ?thesis
    using createWebSocket_settlesI [of n rounds "Inr n"] assms by (simp add: retried_def settles_def)
qed

theorem join_backoff_schedule_witness:
  "createWebSocket (\<lambda>k. \<lparr>join = Some (Inr (if k < 11 then 503 else 200,
        Some (Inr (JObj [(''websocketUrl'', JStr ''wss://x'')])))),
      construct = \<lambda>_. None, sock_event = Opens\<rparr>) =
    Some (map (\<lambda>i. min (1000 * (i + 1)) 10000) [0..<11], Inr 11)"
  by (rule join_backoff_schedule) (simp_all add: round_outcome_def)

text \<open>As long as the server grants every join request but no socket opens, every pause
  is one second: the growing pause is reset before each attempt to open one.\<close>

theorem open_failures_do_not_back_off:
  assumes "\<And>i. i < n \<Longrightarrow> round_outcome (rounds i) = Retry_open"
    and "round_outcome (rounds n) = Connected"
  shows "createWebSocket rounds = Some (replicate n 1000, Inr n)"
  using createWebSocket_settlesI [of n rounds "Inr n"] pauses_open [of n rounds 0 1000] assms
  by (simp add: retried_def settles_def)

theorem open_failures_do_not_back_off_witness:
  "createWebSocket (\<lambda>k. \<lparr>join = Some (Inr (200, Some (Inr (JObj [(''websocketUrl'', JStr ''wss://x'')])))),
      construct = \<lambda>_. None, sock_event = (if k < 20 then OpenError (Error []) else Opens)\<rparr>) =
    Some (replicate 20 1000, Inr 20)"
  by (rule open_failures_do_not_back_off) (simp_all add: round_outcome_def)

text \<open>Every pause of \<open>createWebSocket\<close> is between one and ten seconds, whatever the
  rounds before it met.\<close>

theorem pauses_stay_bounded:
  assumes "createWebSocket rounds = Some (waits, res)"
  shows "\<forall>p \<in> set waits. 1000 \<le> p \<and> p \<le> 10000"
  using createWebSocket_settlesD [OF assms] pauses_bounds [of 1000 rounds 0] by auto

theorem pauses_stay_bounded_witness: "1000 \<le> (1000 :: nat) \<and> 1000 \<le> (10000 :: nat)"
proof -
  let ?rounds = "\<lambda>k. \<lparr>join = Some (Inr (200, Some (Inr (JObj [])))), construct = \<lambda>_. None,
      sock_event = (if k = 0 then OpenError (Error []) else Opens)\<rparr>"
  have "createWebSocket ?rounds = Some (pauses ?rounds 0 1000 1, Inr 1)"
    by (rule createWebSocket_settlesI) (simp_all add: retried_def settles_def round_outcome_def)
  then have "createWebSocket ?rounds = Some ([1000], Inr 1)"
    by (simp add: round_outcome_def)
  from pauses_stay_bounded [OF this] show ?thesis by simp
qed

text \<open>When every round fails to join or to open, the promise never settles.\<close>

theorem createWebSocket_pending_forever:
  assumes "\<And>i. retried (rounds i)"
  shows "createWebSocket rounds = None"
proof (rule ccontr)
  assume "createWebSocket rounds \<noteq> None"
  then obtain waits res where "createWebSocket rounds = Some (waits, res)" by auto
  then obtain n where "settles rounds n res" using createWebSocket_settlesD by blast
  with assms [of n] show False by (auto simp: settles_def retried_def split: sum.splits)
qed

theorem createWebSocket_pending_forever_witness:
  "createWebSocket (\<lambda>_. \<lparr>join = Some (Inl (TypeError [])), construct = \<lambda>_. None, sock_event = Opens\<rparr>) = None"
  by (rule createWebSocket_pending_forever) (simp add: retried_def round_outcome_def)

end
