(* ===== verification/NextUpload.thy ===== *)
theory NextUpload
  imports NextHar NextConnect PubsubApi PubsubCodec
begin

text \<open>
  \<open>getWebSocket\<close> and \<open>upload\<close> of \<open>subtrace-next/index.ts\<close>, cut at their \<open>await\<close>s into
  steps that run without interruption, and composed for one caller at a time. The
  interleavings of many callers are in \<open>NextConcurrency\<close>.
\<close>

section \<open>The connection state\<close>

text \<open>
  \<open>globalThis[connKey]\<close>: \<open>Absent\<close> is \<open>undefined\<close> or \<open>null\<close>, \<open>Foreign\<close> any value of another
  kind. Promises of \<open>createWebSocket\<close> calls are numbered in the order of the calls, and a
  socket has the number of the promise it fulfils.
\<close>

datatype ConnState = Absent | Uninitialized | Creating nat | Created nat | Foreign

datatype promise = Pending | Fulfilled nat | Rejected exn

datatype ready_state = CONNECTING | OPEN | CLOSING | CLOSED

text \<open>
  The global state: the connection, the promises, the messages accepted by an open socket
  (with the number of the upload that sent them) and the sockets the code has closed.
\<close>

record next_state =
  conn :: ConnState
  promises :: "promise list"
  sent :: "(nat \<times> nat \<times> byte list) list"
  closed :: "nat list"

definition start_state :: next_state where
  "start_state = \<lparr>conn = Absent, promises = [], sent = [], closed = []\<rparr>"

section \<open>getWebSocket\<close>

text \<open>
  What the call leaves to be awaited: a promise it has created, one it found and will store
  the socket of, or nothing.
\<close>

datatype awaiting = Own nat | Shared nat | Ready nat

definition getWebSocket_call :: "next_state \<Rightarrow> (awaiting \<times> next_state) result" where
  "getWebSocket_call st =
     (let create =
        (let p = length (promises st)
         in Inr (Own p, st\<lparr>promises := promises st @ [Pending], conn := Creating p\<rparr>))
      in case conn st of
           Uninitialized \<Rightarrow> create
         | Absent \<Rightarrow> create
         | Creating p \<Rightarrow> Inr (Shared p, st)
         | Created ws \<Rightarrow> Inr (Ready ws, st)
         | Foreign \<Rightarrow> Inl (Error ''Unexpected conn state: [object Object]''))"

text \<open>The rest of the call, once the promise has settled; \<open>None\<close> while it is pending.\<close>

definition getWebSocket_resume ::
  "awaiting \<Rightarrow> next_state \<Rightarrow> (nat result \<times> next_state) option" where
  "getWebSocket_resume a st =
     (case a of
        Ready ws \<Rightarrow> Some (Inr ws, st)
      | Own p \<Rightarrow>
          (case promises st ! p of
             Pending \<Rightarrow> None
           | Fulfilled ws \<Rightarrow> Some (Inr ws, st)
           | Rejected e \<Rightarrow> Some (Inl e, st))
      | Shared p \<Rightarrow>
          (case promises st ! p of
             Pending \<Rightarrow> None
           | Fulfilled ws \<Rightarrow> Some (Inr ws, st\<lparr>conn := Created ws\<rparr>)
           | Rejected e \<Rightarrow> Some (Inl e, st)))"

section \<open>The steps of upload\<close>

text \<open>
  After the HAR entry is built: the message with the entry and the deployment's tags,
  encoded. \<open>env\<close> is \<open>process.env\<close>.
\<close>

definition deployment_tags :: "(string \<Rightarrow> string option) \<Rightarrow> (string \<times> string) list" where
  "deployment_tags env =
     [(''vercel_region'', case env ''VERCEL_REGION'' of None \<Rightarrow> [] | Some v \<Rightarrow> v),
      (''vercel_deployment_id'', case env ''VERCEL_DEPLOYMENT_ID'' of None \<Rightarrow> [] | Some v \<Rightarrow> v)]"

definition har_message :: "web \<Rightarrow> (string \<Rightarrow> string option) \<Rightarrow> jsval \<Rightarrow> Message" where
  "har_message X env harEntry =
     (let harEntryJson = utf8 (the (json_text (conversions X) harEntry))
      in \<lparr>Message.concreteV1 = Some
           \<lparr>Message_V1.event = Some \<lparr>Event.concreteV1 = Some
              \<lparr>Event_V1.tags = deployment_tags env, harEntryJson = harEntryJson, log = None\<rparr>\<rparr>,
            setSubscriberConfig = None, announceStats = None\<rparr>\<rparr>)"

definition upload_data ::
  "'w writer_ops \<Rightarrow> web \<Rightarrow> (string \<Rightarrow> string option) \<Rightarrow> jsval \<Rightarrow> byte list result" where
  "upload_data W X env harEntry =
     bindE (Message_encode W (har_message X env harEntry) (w_new W)) (\<lambda>w. Inr (w_finish W w))"

text \<open>
  \<open>ws.send(data)\<close>: an exception while connecting, accepted when open, dropped without an
  error afterwards. \<open>i\<close> is the number of the upload.
\<close>

definition ws_send :: "nat \<Rightarrow> ready_state \<Rightarrow> nat \<Rightarrow> byte list \<Rightarrow> next_state \<Rightarrow> next_state result" where
  "ws_send i readyState ws data st =
     (case readyState of
        CONNECTING \<Rightarrow> Inl (Error ''InvalidStateError'')
      | OPEN \<Rightarrow> Inr (st\<lparr>sent := sent st @ [(i, ws, data)]\<rparr>)
      | _ \<Rightarrow> Inr st)"

text \<open>The \<open>catch\<close> block.\<close>

definition upload_catch :: "nat \<Rightarrow> next_state \<Rightarrow> next_state" where
  "upload_catch ws st = st\<lparr>closed := closed st @ [ws], conn := Uninitialized\<rparr>"

definition upload_send ::
  "nat \<Rightarrow> (nat \<Rightarrow> ready_state) \<Rightarrow> nat \<Rightarrow> byte list \<Rightarrow> next_state \<Rightarrow> next_state" where
  "upload_send i readyState ws data st =
     (case ws_send i (readyState ws) ws data st of
        Inl e \<Rightarrow> upload_catch ws st
      | Inr st \<Rightarrow> st)"

text \<open>
  The \<open>try\<close> block up to its \<open>await\<close>: with an open socket it sends and is done; otherwise it
  resets the connection and asks for a new one.
\<close>

definition upload_try ::
  "nat \<Rightarrow> (nat \<Rightarrow> ready_state) \<Rightarrow> nat \<Rightarrow> byte list \<Rightarrow> next_state \<Rightarrow> awaiting option \<times> next_state" where
  "upload_try i readyState ws data st =
     (if readyState ws \<noteq> OPEN
      then (case getWebSocket_call (st\<lparr>conn := Uninitialized\<rparr>) of
              Inl e \<Rightarrow> (None, upload_catch ws (st\<lparr>conn := Uninitialized\<rparr>))
            | Inr (a, st) \<Rightarrow> (Some a, st))
      else (None, upload_send i readyState ws data st))"

text \<open>The rest of the \<open>try\<close> block behind the \<open>await\<close>; \<open>ws\<close> is the old socket.\<close>

definition upload_retry ::
  "nat \<Rightarrow> (nat \<Rightarrow> ready_state) \<Rightarrow> nat \<Rightarrow> nat result \<Rightarrow> byte list \<Rightarrow> next_state \<Rightarrow> next_state" where
  "upload_retry i readyState ws res data st =
     (case res of
        Inl e \<Rightarrow> upload_catch ws st
      | Inr ws \<Rightarrow> upload_send i readyState ws data st)"

section \<open>One upload, from its call to its end\<close>

text \<open>
  \<open>rounds p\<close> is what the \<open>p\<close>-th call of \<open>createWebSocket\<close> meets, \<open>ready\<close> the state of a
  socket before and \<open>ready'\<close> its state after a reconnection.
\<close>

record next_env =
  rounds :: "nat \<Rightarrow> nat \<Rightarrow> round"
  ready :: "nat \<Rightarrow> ready_state"
  ready' :: "nat \<Rightarrow> ready_state"

definition settle :: "(nat \<Rightarrow> nat \<Rightarrow> round) \<Rightarrow> nat \<Rightarrow> next_state \<Rightarrow> next_state" where
  "settle rds p st =
     (if p < length (promises st) \<and> promises st ! p = Pending
      then (case createWebSocket (rds p) of
              None \<Rightarrow> st
            | Some (waits, Inl e) \<Rightarrow> st\<lparr>promises := (promises st)[p := Rejected e]\<rparr>
            | Some (waits, Inr k) \<Rightarrow> st\<lparr>promises := (promises st)[p := Fulfilled p]\<rparr>)
      else st)"

definition settle_awaited :: "(nat \<Rightarrow> nat \<Rightarrow> round) \<Rightarrow> awaiting \<Rightarrow> next_state \<Rightarrow> next_state" where
  "settle_awaited rds a st = (case a of Own p \<Rightarrow> settle rds p st | Shared p \<Rightarrow> settle rds p st | Ready ws \<Rightarrow> st)"

definition getWebSocket ::
  "(nat \<Rightarrow> nat \<Rightarrow> round) \<Rightarrow> next_state \<Rightarrow> (nat result \<times> next_state) option" where
  "getWebSocket rds st =
     (case getWebSocket_call st of
        Inl e \<Rightarrow> Some (Inl e, st)
      | Inr (a, st) \<Rightarrow> getWebSocket_resume a (settle_awaited rds a st))"

definition upload ::
  "'w writer_ops \<Rightarrow> web \<Rightarrow> (string \<Rightarrow> string option) \<Rightarrow> next_env \<Rightarrow> nat \<Rightarrow>
   request \<Rightarrow> response \<Rightarrow> string \<Rightarrow> number \<Rightarrow> heap \<Rightarrow> next_state \<Rightarrow> (unit result \<times> next_state) option" where
  "upload W X env E i req resp timestamp duration h st =
     (case getWebSocket (rounds E) st of
        None \<Rightarrow> None
      | Some (Inl e, st) \<Rightarrow> Some (Inl e, st)
      | Some (Inr ws, st) \<Rightarrow>
          (case createHarEntry X req resp timestamp duration h of
             None \<Rightarrow> None
           | Some harEntry \<Rightarrow>
               (case upload_data W X env harEntry of
                  Inl e \<Rightarrow> Some (Inl e, st)
                | Inr data \<Rightarrow>
                    (case upload_try i (ready E) ws data st of
                       (None, st) \<Rightarrow> Some (Inr (), st)
                     | (Some a, st) \<Rightarrow>
                         map_option (\<lambda>(res, st). (Inr (), upload_retry i (ready' E) ws res data st))
                           (getWebSocket_resume a (settle_awaited (rounds E) a st))))))"

section \<open>The laws of the steps\<close>

text \<open>
  A socket in use is one a promise was fulfilled with. Settled promises never change, and
  every step keeps the connection pointing to a promise or socket that exists.
\<close>

definition fulfilled :: "next_state \<Rightarrow> nat \<Rightarrow> bool" where
  "fulfilled g ws \<longleftrightarrow> ws < length (promises g) \<and> promises g ! ws = Fulfilled ws"

primrec awaiting_ok :: "next_state \<Rightarrow> awaiting \<Rightarrow> bool" where
  "awaiting_ok g (Own p) \<longleftrightarrow> p < length (promises g)"
| "awaiting_ok g (Shared p) \<longleftrightarrow> p < length (promises g)"
| "awaiting_ok g (Ready ws) \<longleftrightarrow> fulfilled g ws"

definition conn_ok :: "next_state \<Rightarrow> bool" where
  "conn_ok g \<longleftrightarrow>
     (case conn g of Creating p \<Rightarrow> p < length (promises g) | Created ws \<Rightarrow> fulfilled g ws | _ \<Rightarrow> True) \<and>
     (\<forall>p ws. p < length (promises g) \<longrightarrow> promises g ! p = Fulfilled ws \<longrightarrow> ws = p)"

definition extends :: "next_state \<Rightarrow> next_state \<Rightarrow> bool" where
  "extends g g' \<longleftrightarrow> length (promises g) \<le> length (promises g') \<and>
     (\<forall>p < length (promises g). promises g ! p \<noteq> Pending \<longrightarrow> promises g' ! p = promises g ! p)"

lemma extends_refl [simp]: "extends g g"
  by (simp add: extends_def)

lemma extends_trans: "extends g g' \<Longrightarrow> extends g' g'' \<Longrightarrow> extends g g''"
  by (auto simp: extends_def)

lemma extends_promises: "promises g' = promises g \<Longrightarrow> extends g g'"
  by (simp add: extends_def)

lemma fulfilled_extends: "fulfilled g ws \<Longrightarrow> extends g g' \<Longrightarrow> fulfilled g' ws"
  by (auto simp: fulfilled_def extends_def)

lemma awaiting_ok_extends: "awaiting_ok g a \<Longrightarrow> extends g g' \<Longrightarrow> awaiting_ok g' a"
  by (cases a) (auto simp: fulfilled_extends extends_def)

lemma conn_ok_simps:
  "conn_ok (g\<lparr>conn := Uninitialized\<rparr>) \<longleftrightarrow>
     (\<forall>p ws. p < length (promises g) \<longrightarrow> promises g ! p = Fulfilled ws \<longrightarrow> ws = p)"
  "conn_ok (g\<lparr>sent := m\<rparr>) = conn_ok g" "conn_ok (g\<lparr>closed := c\<rparr>) = conn_ok g"
  "fulfilled (g\<lparr>sent := m\<rparr>) = fulfilled g" "fulfilled (g\<lparr>conn := c'\<rparr>) = fulfilled g"
  by (simp_all add: conn_ok_def fulfilled_def fun_eq_iff split: ConnState.splits)

lemma conn_ok_reset: "conn_ok g \<Longrightarrow> conn_ok (g\<lparr>conn := Uninitialized\<rparr>)"
  by (auto simp: conn_ok_def)

lemma getWebSocket_call_ok:
  assumes "conn_ok g" and "getWebSocket_call g = Inr (a, g')"
  shows "conn_ok g' \<and> extends g g' \<and> awaiting_ok g' a \<and> sent g' = sent g"
  using assms
  by (auto simp: getWebSocket_call_def conn_ok_def extends_def Let_def fulfilled_def nth_append
      split: ConnState.splits if_splits)

lemma getWebSocket_resume_ok:
  assumes "conn_ok g" "awaiting_ok g a" and "getWebSocket_resume a g = Some (res, g')"
  shows "conn_ok g' \<and> promises g' = promises g \<and> sent g' = sent g \<and>
    (\<forall>ws. res = Inr ws \<longrightarrow> fulfilled g ws)"
  using assms
  by (cases a)
    (auto simp: getWebSocket_resume_def conn_ok_def fulfilled_def split: promise.splits)

lemma upload_catch_ok:
  "conn_ok g \<Longrightarrow> conn_ok (upload_catch ws g)"
  "promises (upload_catch ws g) = promises g" "sent (upload_catch ws g) = sent g"
  "conn (upload_catch ws g) = Uninitialized"
  by (simp_all add: upload_catch_def) (auto simp: conn_ok_def)

lemma upload_send_ok:
  "conn_ok g \<Longrightarrow> conn_ok (upload_send i readyState ws data g)"
  "promises (upload_send i readyState ws data g) = promises g"
  "sent (upload_send i readyState ws data g) =
     (if readyState ws = OPEN then sent g @ [(i, ws, data)] else sent g)"
  by (auto simp: upload_send_def ws_send_def upload_catch_ok conn_ok_simps
      split: ready_state.splits)

lemma upload_try_ok:
  assumes "conn_ok g" and "upload_try i readyState ws data g = (a, g')"
  shows "conn_ok g' \<and> extends g g' \<and> (\<forall>a'. a = Some a' \<longrightarrow> awaiting_ok g' a') \<and>
    sent g' = (if readyState ws = OPEN then sent g @ [(i, ws, data)] else sent g)"
proof (cases "readyState ws = OPEN")
  case True
  with assms show ?thesis
    by (auto simp: upload_try_def upload_send_ok extends_promises)
next
  case False
  define r where "r = g\<lparr>conn := Uninitialized\<rparr>"
  obtain a' g1 where call: "getWebSocket_call r = Inr (a', g1)"
    by (simp add: getWebSocket_call_def Let_def r_def)
  have "conn_ok r" using assms(1) by (simp add: r_def conn_ok_reset)
  from getWebSocket_call_ok [OF this call] False assms(2) call show ?thesis
    by (auto simp: upload_try_def r_def extends_def)
qed

lemma upload_retry_ok:
  assumes "conn_ok g"
  shows "conn_ok (upload_retry i readyState ws res data g)"
    and "promises (upload_retry i readyState ws res data g) = promises g"
    and "sent (upload_retry i readyState ws res data g) =
      (case res of Inr ws' \<Rightarrow> if readyState ws' = OPEN then sent g @ [(i, ws', data)] else sent g
       | Inl e \<Rightarrow> sent g)"
  using assms by (auto simp: upload_retry_def upload_send_ok upload_catch_ok split: sum.splits)

section \<open>The size of a message\<close>

lemma length_varint_le: "length (varint n) \<le> n + 1"
proof (induction n rule: varint.induct)
  case (1 n)
  show ?case
  proof (cases "n < 128")
    case False
    then have "length (varint n) = Suc (length (varint (n div 128)))"
      by (subst varint.simps) simp
    also have "\<dots> \<le> n div 128 + 2" using 1 [OF False] by simp
    also have "\<dots> \<le> n + 1" using False by linarith
    finally show ?thesis .
  qed (subst varint.simps, simp)
qed

lemma length_delim_le: "length (delim bs) \<le> 2 * length bs + 1"
  using length_varint_le [of "length bs"] by (simp add: delim_def)

lemma varint_small: "n < 128 \<Longrightarrow> length (varint n) = 1"
  by (subst varint.simps) simp

lemma length_tag_entry:
  "length (ser (Event_V1_TagsEntry_fields \<lparr>Event_V1_TagsEntry.key = k, value = v\<rparr>)) \<le>
   4 * length k + 4 * length v + 4"
  using length_delim_le [of "utf8 k"] length_delim_le [of "utf8 v"]
    utf8_length_bounds(2) [of k] utf8_length_bounds(2) [of v]
  by (simp add: Event_V1_TagsEntry_fields_def def_str_def varint_small)

lemma length_Msg_field: "n < 15 \<Longrightarrow> length (ser [F n (Msg fs)]) \<le> 2 * length (ser fs) + 2"
  using length_delim_le [of "ser fs"] by (simp add: varint_small)

lemma length_Len_field: "n < 15 \<Longrightarrow> length (ser [F n (Len b)]) \<le> 2 * length b + 2"
  using length_delim_le [of b] by (simp add: varint_small)

text \<open>The characters a message consists of, and a bound on its encoding.\<close>

definition event_text_size :: "web \<Rightarrow> (string \<Rightarrow> string option) \<Rightarrow> jsval \<Rightarrow> nat" where
  "event_text_size X env har =
     length (the (json_text (conversions X) har)) +
     sum_list (map (\<lambda>(k, v). length k + length v) (deployment_tags env))"

lemma length_har_message:
  "length (ser (Message_fields (har_message X env har))) \<le> 64 * event_text_size X env har + 512"
proof -
  define js where "js = the (json_text (conversions X) har)"
  obtain r d where tags: "deployment_tags env = [(''vercel_region'', r), (''vercel_deployment_id'', d)]"
    by (simp add: deployment_tags_def)
  define e1 where "e1 = Event_V1_TagsEntry_fields \<lparr>Event_V1_TagsEntry.key = ''vercel_region'', value = r\<rparr>"
  define e2 where "e2 = Event_V1_TagsEntry_fields \<lparr>Event_V1_TagsEntry.key = ''vercel_deployment_id'', value = d\<rparr>"
  define f where "f = [F 1 (Msg e1), F 1 (Msg e2)] @ def_bytes 2 (utf8 js)"
  have l1: "length (ser e1) \<le> 4 * length r + 56" "length (ser e2) \<le> 4 * length d + 84"
    unfolding e1_def e2_def
    using length_tag_entry [of "''vercel_region''" r] length_tag_entry [of "''vercel_deployment_id''" d]
    by simp_all
  have "length (ser (def_bytes 2 (utf8 js))) \<le> 2 * length (utf8 js) + 2"
    using length_Len_field [of 2 "utf8 js"] by (simp add: def_bytes_def)
  then have f: "length (ser f) \<le> 8 * length r + 8 * length d + 4 * length js + 286"
    using length_Msg_field [of 1 e1] length_Msg_field [of 1 e2] l1 utf8_length_bounds(2) [of js]
    unfolding f_def ser_simps(3) length_append ser_simps(2) [of _ "[F 1 (Msg e2)]"] by (simp add: ser_simps)
  have "Message_fields (har_message X env har) = [F 1 (Msg [F 1 (Msg [F 1 (Msg f)])])]"
    by (simp add: f_def e1_def e2_def har_message_def tags js_def Let_def fields_defs kind_defs)
  then show ?thesis
    using f length_Msg_field [of 1 f] length_Msg_field [of 1 "[F 1 (Msg f)]"]
      length_Msg_field [of 1 "[F 1 (Msg [F 1 (Msg f)])]"]
    by (simp add: event_text_size_def tags js_def del: ser_simps)
qed
section \<open>Properties\<close>

lemma har_message_wf: "Message_wf (har_message X env harEntry)"
  by (simp add: har_message_def deployment_tags_def Let_def wf_defs obj_ok_def proto_key_def
      key_before_def array_index_def is_digit_def)

lemma har_message_size:
  "event_text_size X env har < 2 ^ 25 \<Longrightarrow> length (ser (Message_fields (har_message X env har))) < 2 ^ 32"
  using length_har_message [of X env har] by simp

lemma har_message_decodes:
  assumes "wire W stk R buf" and "event_text_size X env har < 2 ^ 25"
  shows "\<exists>data r. upload_data W X env har = Inr data \<and>
    Message_decode R (IBytes data) None = Some (Inr (har_message X env har, r))"
  using message_codec.roundtrip
      [OF wire.Message_contract [OF assms(1)] har_message_wf har_message_size [OF assms(2)]]
  by (fastforce simp: upload_data_def)

lemma upload_sends:
  assumes "wire W stk R buf"
    and "conn st = Created ws" "ready E ws = OPEN"
    and "createHarEntry X req resp timestamp duration h = Some har"
    and "event_text_size X env har < 2 ^ 25"
  shows "\<exists>data r. upload W X env E i req resp timestamp duration h st =
      Some (Inr (), st\<lparr>sent := sent st @ [(i, ws, data)]\<rparr>) \<and>
    Message_decode R (IBytes data) None = Some (Inr (har_message X env har, r))"
  using har_message_decodes [OF assms(1,5)] assms(2-4)
  by (fastforce simp: upload_def getWebSocket_def getWebSocket_call_def getWebSocket_resume_def
      settle_awaited_def upload_try_def upload_send_def ws_send_def)

text \<open>Over an open connection, \<open>upload\<close> sends one message, and it decodes to exactly the
  event with the HAR entry of the request and the response and the deployment's tags (texts of less than 32 million
  characters are far below the limit of the wire format).\<close>

theorem upload_sends_har_entry:
  assumes "wire W stk R buf"
    and "conn st = Created ws" "ready E ws = OPEN"
    and "createHarEntry X req resp timestamp duration h = Some har"
    and "event_text_size X env har < 2 ^ 25"
  shows "\<exists>data r. upload W X env E i req resp timestamp duration h st =
      Some (Inr (), st\<lparr>sent := sent st @ [(i, ws, data)]\<rparr>) \<and>
    Message_decode R (IBytes data) None = Some (Inr (har_message X env har, r))"
  by (rule upload_sends [OF assms])

section \<open>Sample data\<close>

text \<open>An upper bound on the length of JSON text that is quick to compute.\<close>

fun json_size :: "jsval \<Rightarrow> nat" and json_size_elems :: "jsval list \<Rightarrow> nat"
  and json_size_members :: "(string \<times> jsval) list \<Rightarrow> nat" where
  "json_size (JNum x) = (case x of Fin q \<Rightarrow> nat \<bar>\<lfloor>q\<rfloor>\<bar> + 6 | _ \<Rightarrow> 6)"
| "json_size (JStr s) = 6 * length s + 2"
| "json_size (JBytes bs) = length (the (json_text (conversions sample_web) (JBytes bs)))"
| "json_size (JArr xs) = json_size_elems xs + 2"
| "json_size (JObj ps) = json_size_members ps + 2"
| "json_size v = 5"
| "json_size_elems [] = 0"
| "json_size_elems (x # xs) = json_size x + 5 + json_size_elems xs"
| "json_size_members [] = 0"
| "json_size_members ((k, v) # ps) = 6 * length k + 4 + json_size v + json_size_members ps"

lemma json_quote_length: "length (json_quote s) \<le> 6 * length s + 2"
proof -
  have "length (json_char c) \<le> 6" for c
    by (simp add: json_char_def Let_def)
  then have "length (concat (map json_char s)) \<le> 6 * length s"
    by (induction s) (fastforce intro: add_mono)+
  then show ?thesis by (simp add: json_quote_def)
qed

lemma join_commas_length: "length (join_commas ss) \<le> sum_list (map (\<lambda>s. length s + 1) ss)"
  by (induction ss rule: join_commas.induct) simp_all

lemma nat_str_length: "length (nat_str n) \<le> n + 1"
proof (induction n rule: nat_str.induct)
  case (1 n)
  show ?case
  proof (cases "n < 10")
    case False
    with 1 have "length (nat_str (n div 10)) \<le> n div 10 + 1" by simp
    with False show ?thesis by (subst nat_str.simps) simp
  qed (subst nat_str.simps, simp)
qed

lemma num_str_length:
  "length (case x of Fin _ \<Rightarrow> num_str (conversions sample_web) x | _ \<Rightarrow> ''null'')
   \<le> (case x of Fin q \<Rightarrow> nat \<bar>\<lfloor>q\<rfloor>\<bar> + 6 | _ \<Rightarrow> 6)"
proof (cases x)
  case (Fin q)
  then show ?thesis
    using nat_str_length [of "nat \<bar>\<lfloor>q\<rfloor>\<bar>"] by (auto simp: int_str_def sample_web_def abs_if)
qed simp_all

lemma json_text_length:
  "length (case json_text (conversions sample_web) v of None \<Rightarrow> [] | Some s \<Rightarrow> s) \<le> json_size v"
  "sum_list (map (\<lambda>s. length s + 1) (json_elems (conversions sample_web) xs)) \<le> json_size_elems xs"
  "sum_list (map (\<lambda>s. length s + 1) (json_members (conversions sample_web) ps)) \<le> json_size_members ps"
proof (induction v and xs and ps rule: json_size_json_size_elems_json_size_members.induct)
  case (4 xs)
  then show ?case
    using join_commas_length [of "json_elems (conversions sample_web) xs"] by simp
next
  case (5 ps)
  then show ?case
    using join_commas_length [of "json_members (conversions sample_web) ps"] by simp
next
  case (10 k v ps)
  then show ?case using json_quote_length [of k] by (auto split: option.splits)
next
  case (1 x)
  then show ?case using num_str_length [of x] by simp
qed (use json_quote_length in \<open>auto split: option.splits\<close>)
definition sample_heap :: heap where
  "sample_heap =
     [\<lparr>contents = ([Chunk [104]], Ended), locked = False\<rparr>,
      \<lparr>contents = ([Chunk [104, 105]], Ended), locked = False\<rparr>]"

definition sample_har :: jsval where
  "sample_har = the (createHarEntry sample_web sample_req sample_resp ''now'' (of_n 5) sample_heap)"

lemma sample_har: "createHarEntry sample_web sample_req sample_resp ''now'' (of_n 5) sample_heap = Some sample_har"
  by (simp add: sample_har_def createHarEntry_def har_object_def har_bodies_def body_text_def body_read_def
      sample_req_def sample_resp_def sample_heap_def read_all_def)

lemma floor_minus_one: "\<lfloor>- 1 :: rat\<rfloor> = - 1"
  by (rule floor_unique) simp_all

lemma sample_har_size: "event_text_size sample_web (\<lambda>_. None) sample_har < 2 ^ 25"
proof -
  have "length (case json_text (conversions sample_web) sample_har of None \<Rightarrow> [] | Some s \<Rightarrow> s) \<le>
      json_size sample_har"
    by (rule json_text_length)
  moreover have "json_size sample_har < 2 ^ 24"
    by (simp add: sample_har_def createHarEntry_def har_object_def har_bodies_def body_text_def body_read_def
        sample_req_def sample_resp_def sample_heap_def read_all_def har_request_def
        har_response_def sample_web_def name_value_def header_or_def of_n_def content_bytes_def floor_minus_one)
  moreover have "\<exists>s. json_text (conversions sample_web) sample_har = Some s"
    by (simp add: sample_har_def createHarEntry_def har_object_def har_bodies_def body_text_def body_read_def
        sample_req_def sample_resp_def sample_heap_def read_all_def)
  ultimately show ?thesis by (auto simp: event_text_size_def deployment_tags_def)
qed

definition sample_round :: round where
  "sample_round =
     \<lparr>join = Some (Inr (200, Some (Inr (JObj [(''websocketUrl'', JStr ''wss://x'')])))),
      construct = (\<lambda>_. None), sock_event = Opens\<rparr>"

definition sample_env :: next_env where
  "sample_env = \<lparr>rounds = (\<lambda>_ _. sample_round), ready = (\<lambda>_. OPEN), ready' = (\<lambda>_. OPEN)\<rparr>"

theorem upload_sends_har_entry_witness:
  "\<exists>data r. upload format_writer sample_web (\<lambda>_. None) sample_env 7 sample_req sample_resp ''now''
      (of_n 5) sample_heap \<lparr>conn = Created 0, promises = [Fulfilled 0], sent = [], closed = []\<rparr> =
      Some (Inr (), \<lparr>conn = Created 0, promises = [Fulfilled 0], sent = [], closed = []\<rparr>
        \<lparr>sent := sent \<lparr>conn = Created 0, promises = [Fulfilled 0], sent = [], closed = []\<rparr> @ [(7, 0, data)]\<rparr>) \<and>
    Message_decode format_reader (IBytes data) None =
      Some (Inr (har_message sample_web (\<lambda>_. None) sample_har, r))"
  by (rule upload_sends_har_entry [OF wire_format _ _ sample_har sample_har_size])
    (simp_all add: sample_env_def)

section \<open>Properties of lost and renewed connections\<close>

lemma upload_rejected:
  "conn st = Creating p \<Longrightarrow> p < length (promises st) \<Longrightarrow> promises st ! p = Rejected e \<Longrightarrow>
   upload W X env E i req resp timestamp duration h st = Some (Inl e, st)"
  by (simp add: upload_def getWebSocket_def getWebSocket_call_def getWebSocket_resume_def
      settle_awaited_def settle_def)

text \<open>Once the promise of a pending connection has been rejected, every \<open>upload\<close> fails
  with the same exception and leaves the state as it is, so that the next one fails too:
  the connection is never renewed.\<close>

theorem rejected_connection_fails_every_upload:
  assumes "conn st = Creating p" and "p < length (promises st)" and "promises st ! p = Rejected e"
  shows "upload W X env E i req resp timestamp duration h st = Some (Inl e, st)"
  by (rule upload_rejected [OF assms])

theorem rejected_connection_fails_every_upload_witness:
  "upload format_writer sample_web (\<lambda>_. None) sample_env 7 sample_req sample_resp ''now'' (of_n 5)
     sample_heap \<lparr>conn = Creating 0, promises = [Rejected (SyntaxError [])], sent = [], closed = []\<rparr> =
   Some (Inl (SyntaxError []),
     \<lparr>conn = Creating 0, promises = [Rejected (SyntaxError [])], sent = [], closed = []\<rparr>)"
  by (rule rejected_connection_fails_every_upload [where p = 0]) simp_all

text \<open>A server that answers a join request with status 200 and a body that is not the
  expected JSON makes the first \<open>upload\<close> fail, without a retry, and leaves the connection
  in the state in which every later one fails.\<close>

theorem bad_join_answer_is_final:
  assumes "conn st = Absent" and "p = length (promises st)"
    and "join (rounds E p 0) = Some (Inr (200, Some (Inl e)))"
  shows "\<exists>st'. upload W X env E i req resp timestamp duration h st = Some (Inl e, st') \<and>
    conn st' = Creating p \<and> promises st' ! p = Rejected e \<and> sent st' = sent st"
proof -
  have "createWebSocket (rounds E p) = Some ([], Inl e)"
    using createWebSocket_settlesI [of 0 "rounds E p" "Inl e"] assms(3)
    by (simp add: settles_def round_outcome_def)
  then show ?thesis
    using assms(1,2)
    by (simp add: upload_def getWebSocket_def getWebSocket_call_def getWebSocket_resume_def
        settle_awaited_def settle_def Let_def)
qed

theorem bad_join_answer_is_final_witness:
  "\<exists>st'. upload format_writer sample_web (\<lambda>_. None)
      (sample_env\<lparr>rounds := (\<lambda>_ _. sample_round\<lparr>join := Some (Inr (200, Some (Inl (SyntaxError []))))\<rparr>)\<rparr>)
      7 sample_req sample_resp ''now'' (of_n 5) sample_heap start_state = Some (Inl (SyntaxError []), st') \<and>
    conn st' = Creating 0 \<and> promises st' ! 0 = Rejected (SyntaxError []) \<and> sent st' = sent start_state"
  by (rule bad_join_answer_is_final) (simp_all add: start_state_def)

text \<open>C26: when the socket is no longer open, \<open>upload\<close> asks for a new one and sends the
  message, once, over it; when that fails too, it gives up silently, closes the old socket
  and resets the connection so that the next upload tries again.\<close>

theorem upload_reconnects:
  assumes "wire W stk R buf"
    and "conn st = Created ws" "ready E ws \<noteq> OPEN"
    and "createHarEntry X req resp timestamp duration h = Some har"
    and "event_text_size X env har < 2 ^ 25"
    and "p = length (promises st)"
    and "createWebSocket (rounds E p) = Some (waits, res)" and "ready' E p = OPEN"
  shows "\<exists>data r st'. upload W X env E i req resp timestamp duration h st = Some (Inr (), st') \<and>
    Message_decode R (IBytes data) None = Some (Inr (har_message X env har, r)) \<and>
    (case res of
       Inr k \<Rightarrow> sent st' = sent st @ [(i, p, data)] \<and> conn st' = Creating p
     | Inl e \<Rightarrow> sent st' = sent st \<and> conn st' = Uninitialized \<and> closed st' = closed st @ [ws])"
proof -
  obtain data r where d: "upload_data W X env har = Inr data"
      "Message_decode R (IBytes data) None = Some (Inr (har_message X env har, r))"
    using har_message_decodes [OF assms(1,5)] by blast
  define st1 where "st1 = st\<lparr>promises := promises st @ [Pending], conn := Creating p\<rparr>"
  have asked: "upload_try i (ready E) ws data st = (Some (Own p), st1)"
    using assms(3,6) by (simp add: upload_try_def getWebSocket_call_def Let_def st1_def)
  have settled: "settle_awaited (rounds E) (Own p) st1 =
      st1\<lparr>promises := promises st @ [case res of Inr k \<Rightarrow> Fulfilled p | Inl e \<Rightarrow> Rejected e]\<rparr>"
    using assms(6,7) by (simp add: settle_awaited_def settle_def st1_def split: sum.splits)
  have first: "getWebSocket (rounds E) st = Some (Inr ws, st)"
    using assms(2) by (simp add: getWebSocket_def getWebSocket_call_def settle_awaited_def
        getWebSocket_resume_def)
  have st1: "sent st1 = sent st" "closed st1 = closed st" "conn st1 = Creating p"
    by (simp_all add: st1_def)
  show ?thesis
    using d assms(4,8) assms(6) [symmetric]
    by (cases res) (auto simp: nth_append upload_def first asked settled getWebSocket_resume_def st1
        upload_retry_def upload_send_def ws_send_def upload_catch_def)
qed

definition closed_env :: next_env where
  "closed_env = sample_env\<lparr>ready := (\<lambda>_. CLOSED)\<rparr>"

theorem upload_reconnects_witness:
  "\<exists>data r st'. upload format_writer sample_web (\<lambda>_. None) closed_env 7 sample_req sample_resp ''now''
      (of_n 5) sample_heap \<lparr>conn = Created 0, promises = [Fulfilled 0], sent = [], closed = []\<rparr> =
      Some (Inr (), st') \<and>
    Message_decode format_reader (IBytes data) None =
      Some (Inr (har_message sample_web (\<lambda>_. None) sample_har, r)) \<and>
    (case Inr (0 :: nat) of
       Inr k \<Rightarrow> sent st' = sent \<lparr>conn = Created 0, promises = [Fulfilled 0], sent = [], closed = []\<rparr> @
           [(7, 1, data)] \<and> conn st' = Creating 1
     | Inl (e :: exn) \<Rightarrow>
         sent st' = sent \<lparr>conn = Created 0, promises = [Fulfilled 0], sent = [], closed = []\<rparr> \<and>
         conn st' = Uninitialized \<and>
         closed st' = closed \<lparr>conn = Created 0, promises = [Fulfilled 0], sent = [], closed = []\<rparr> @ [0])"
proof (rule upload_reconnects [OF wire_format _ _ sample_har sample_har_size])
  show "createWebSocket (rounds closed_env 1) = Some ([], Inr 0)"
    using createWebSocket_settlesI [of 0 "rounds closed_env 1" "Inr 0"]
    by (simp add: settles_def round_outcome_def closed_env_def sample_env_def sample_round_def)
qed (simp_all add: closed_env_def sample_env_def)

end
