(* ===== verification/NextConcurrency.thy ===== *)
theory NextConcurrency
  imports NextUpload
begin

text \<open>
  Many calls of \<open>upload\<close> at once, as \<open>subtrace-next/index.ts\<close> has them on a busy server:
  each runs without interruption between its \<open>await\<close>s, in any order with the others, with
  the settling of promises and with sockets closing.
\<close>

section \<open>Steps\<close>

text \<open>
  Where an upload stands: not begun, awaiting its first \<open>getWebSocket\<close>, holding a socket
  while the HAR entry is built, awaiting the second \<open>getWebSocket\<close> with the old socket in
  hand, finished, or rejected.
\<close>

datatype task =
    Idle
  | Awaiting awaiting
  | Holding nat
  | Reconnecting nat awaiting
  | Done
  | Thrown exn

record world =
  global :: next_state
  tasks :: "task list"
  socket :: "nat \<Rightarrow> ready_state"

definition initial :: world where
  "initial = \<lparr>global = start_state, tasks = [], socket = (\<lambda>_. CLOSED)\<rparr>"

definition set_task :: "nat \<Rightarrow> task \<Rightarrow> next_state \<Rightarrow> world \<Rightarrow> world" where
  "set_task i t g w = w\<lparr>global := g, tasks := (tasks w)[i := t]\<rparr>"

text \<open>A new call, and the uninterrupted stretches of the calls; \<open>payload i\<close> is what call
  \<open>i\<close> has to send.\<close>

inductive upload_step :: "(nat \<Rightarrow> byte list result) \<Rightarrow> world \<Rightarrow> world \<Rightarrow> bool" for payload where
  spawn: "upload_step payload w (w\<lparr>tasks := tasks w @ [Idle]\<rparr>)"
| call: "i < length (tasks w) \<Longrightarrow> tasks w ! i = Idle \<Longrightarrow>
    getWebSocket_call (global w) = Inr (a, g) \<Longrightarrow>
    upload_step payload w (set_task i (Awaiting a) g w)"
| call_throws: "i < length (tasks w) \<Longrightarrow> tasks w ! i = Idle \<Longrightarrow>
    getWebSocket_call (global w) = Inl e \<Longrightarrow>
    upload_step payload w (set_task i (Thrown e) (global w) w)"
| resume: "i < length (tasks w) \<Longrightarrow> tasks w ! i = Awaiting a \<Longrightarrow>
    getWebSocket_resume a (global w) = Some (res, g) \<Longrightarrow>
    upload_step payload w (set_task i (case res of Inr ws \<Rightarrow> Holding ws | Inl e \<Rightarrow> Thrown e) g w)"
| encode_throws: "i < length (tasks w) \<Longrightarrow> tasks w ! i = Holding ws \<Longrightarrow> payload i = Inl e \<Longrightarrow>
    upload_step payload w (set_task i (Thrown e) (global w) w)"
| attempt: "i < length (tasks w) \<Longrightarrow> tasks w ! i = Holding ws \<Longrightarrow> payload i = Inr data \<Longrightarrow>
    upload_try i (socket w) ws data (global w) = (a, g) \<Longrightarrow>
    upload_step payload w
      (set_task i (case a of None \<Rightarrow> Done | Some a' \<Rightarrow> Reconnecting ws a') g w)"
| retry: "i < length (tasks w) \<Longrightarrow> tasks w ! i = Reconnecting ws a \<Longrightarrow> payload i = Inr data \<Longrightarrow>
    getWebSocket_resume a (global w) = Some (res, g) \<Longrightarrow>
    upload_step payload w (set_task i Done (upload_retry i (socket w) ws res data g) w)"

text \<open>A \<open>createWebSocket\<close> promise settles, its socket open when it is fulfilled.\<close>

inductive promise_step :: "world \<Rightarrow> world \<Rightarrow> bool" where
  connects: "p < length (promises (global w)) \<Longrightarrow> promises (global w) ! p = Pending \<Longrightarrow>
    promise_step w
      (w\<lparr>global := (global w)\<lparr>promises := (promises (global w))[p := Fulfilled p]\<rparr>,
         socket := (socket w)(p := OPEN)\<rparr>)"
| rejects: "p < length (promises (global w)) \<Longrightarrow> promises (global w) ! p = Pending \<Longrightarrow>
    promise_step w
      (w\<lparr>global := (global w)\<lparr>promises := (promises (global w))[p := Rejected e]\<rparr>\<rparr>)"

text \<open>An open socket begins to close, and is closed.\<close>

inductive socket_step :: "world \<Rightarrow> world \<Rightarrow> bool" where
  closing: "socket w ws = OPEN \<Longrightarrow> socket_step w (w\<lparr>socket := (socket w)(ws := CLOSING)\<rparr>)"
| closed: "socket w ws = CLOSING \<Longrightarrow> socket_step w (w\<lparr>socket := (socket w)(ws := CLOSED)\<rparr>)"

inductive world_step :: "(nat \<Rightarrow> byte list result) \<Rightarrow> world \<Rightarrow> world \<Rightarrow> bool" for payload where
  upload: "upload_step payload w w' \<Longrightarrow> world_step payload w w'"
| promise: "promise_step w w' \<Longrightarrow> world_step payload w w'"
| socket: "socket_step w w' \<Longrightarrow> world_step payload w w'"

inductive_cases upload_stepE: "upload_step payload w w'"
inductive_cases promise_stepE: "promise_step w w'"
inductive_cases socket_stepE: "socket_step w w'"
inductive_cases world_stepE: "world_step payload w w'"

section \<open>The invariant\<close>

text \<open>What each upload holds exists.\<close>

primrec task_ok :: "next_state \<Rightarrow> task \<Rightarrow> bool" where
  "task_ok g Idle \<longleftrightarrow> True"
| "task_ok g (Awaiting a) \<longleftrightarrow> awaiting_ok g a"
| "task_ok g (Holding ws) \<longleftrightarrow> fulfilled g ws"
| "task_ok g (Reconnecting ws a) \<longleftrightarrow> fulfilled g ws \<and> awaiting_ok g a"
| "task_ok g Done \<longleftrightarrow> True"
| "task_ok g (Thrown e) \<longleftrightarrow> True"

text \<open>Every message sent is that of a finished upload, over a socket some promise gave.\<close>

definition sent_ok :: "(nat \<Rightarrow> byte list result) \<Rightarrow> next_state \<Rightarrow> task list \<Rightarrow> bool" where
  "sent_ok payload g ts \<longleftrightarrow>
     (\<forall>(i, ws, d) \<in> set (sent g). i < length ts \<and> ts ! i = Done \<and> fulfilled g ws \<and> payload i = Inr d)
     \<and> distinct (map fst (sent g))"

definition world_ok :: "(nat \<Rightarrow> byte list result) \<Rightarrow> world \<Rightarrow> bool" where
  "world_ok payload w \<longleftrightarrow>
     conn_ok (global w) \<and> (\<forall>t \<in> set (tasks w). task_ok (global w) t) \<and>
     sent_ok payload (global w) (tasks w)"

lemma task_ok_extends: "task_ok g t \<Longrightarrow> extends g g' \<Longrightarrow> task_ok g' t"
  by (cases t) (auto simp: fulfilled_extends awaiting_ok_extends)

lemma world_ok_initial: "world_ok payload initial"
  by (simp add: world_ok_def initial_def start_state_def conn_ok_def sent_ok_def)

text \<open>A stretch that changes one task, keeps the messages or adds the one of that task.\<close>

lemma world_ok_set_task:
  assumes "world_ok payload w" and "i < length (tasks w)" "tasks w ! i \<noteq> Done"
    and "conn_ok g" "extends (global w) g" "task_ok g t"
    and "sent g = sent (global w) \<or>
      (\<exists>ws d. sent g = sent (global w) @ [(i, ws, d)] \<and> t = Done \<and> fulfilled g ws \<and> payload i = Inr d)"
  shows "world_ok payload (set_task i t g w)"
proof -
  have tasks: "\<forall>t' \<in> set ((tasks w)[i := t]). task_ok g t'"
    using assms(1,5,6) set_update_subset_insert [of "tasks w" i t]
    by (auto simp: world_ok_def intro: task_ok_extends)
  have old: "j < length (tasks w) \<and> tasks w ! j = Done \<and> fulfilled (global w) ws \<and> payload j = Inr d"
    if "(j, ws, d) \<in> set (sent (global w))" for j ws d
    using assms(1) that by (auto simp: world_ok_def sent_ok_def)
  have "j \<noteq> i \<and> fulfilled g ws" if "(j, ws, d) \<in> set (sent (global w))" for j ws d
    using old [OF that] assms(3) fulfilled_extends [OF _ assms(5)] by auto
  moreover have "distinct (map fst (sent (global w)))"
    using assms(1) by (simp add: world_ok_def sent_ok_def)
  ultimately have "sent_ok payload g ((tasks w)[i := t])"
    using assms(2,7) old by (fastforce simp: sent_ok_def)
  with tasks assms(4) show ?thesis by (simp add: world_ok_def set_task_def)
qed

lemma upload_step_ok:
  assumes "upload_step payload w w'" "world_ok payload w"
  shows "world_ok payload w'"
proof -
  have conn: "conn_ok (global w)" using assms(2) by (simp add: world_ok_def)
  show ?thesis
    using assms(1)
proof cases
  case spawn
  then show ?thesis
    using assms(2) by (auto simp: world_ok_def sent_ok_def nth_append)
next
  case (call i a g)
  with getWebSocket_call_ok [OF conn, of a g] show ?thesis
    by (auto intro!: world_ok_set_task [OF assms(2)])
next
  case (call_throws i e)
  then show ?thesis
    using conn by (auto intro!: world_ok_set_task [OF assms(2)])
next
  case (resume i a res g)
  then have "awaiting_ok (global w) a" "conn_ok (global w)"
    using assms(2) nth_mem by (fastforce simp: world_ok_def)+
  from getWebSocket_resume_ok [OF this(2,1) resume(4)] resume show ?thesis
    by (auto simp: extends_promises fulfilled_def intro!: world_ok_set_task [OF assms(2)]
        split: sum.splits)
next
  case (encode_throws i ws e)
  then show ?thesis
    using conn by (auto intro!: world_ok_set_task [OF assms(2)])
next
  case (attempt i ws data a g)
  then have h: "fulfilled (global w) ws" "conn_ok (global w)"
    using assms(2) nth_mem by (fastforce simp: world_ok_def)+
  have ok: "conn_ok g" "extends (global w) g" "\<forall>a'. a = Some a' \<longrightarrow> awaiting_ok g a'"
    "sent g = (if socket w ws = OPEN then sent (global w) @ [(i, ws, data)] else sent (global w))"
    using upload_try_ok [OF h(2) attempt(5)] by simp_all
  have "a = None" if "socket w ws = OPEN"
    using attempt(5) that by (simp add: upload_try_def)
  with ok attempt fulfilled_extends [OF h(1) ok(2)] show ?thesis
    by (auto intro!: world_ok_set_task [OF assms(2)] split: option.splits)
next
  case (retry i ws a data res g)
  then have h: "awaiting_ok (global w) a" "conn_ok (global w)"
    using assms(2) nth_mem by (fastforce simp: world_ok_def)+
  note r = getWebSocket_resume_ok [OF h(2,1) retry(5)]
  have "fulfilled (upload_retry i (socket w) ws res data g) ws'" if "res = Inr ws'" for ws'
    using r that by (simp add: fulfilled_def upload_retry_ok)
  then show ?thesis
    using r retry upload_retry_ok [of g i "socket w" ws res data]
    by (auto simp: extends_promises intro!: world_ok_set_task [OF assms(2)] split: sum.splits if_splits)
qed
qed

lemma settle_ok:
  assumes "world_ok payload w" and "p < length (promises (global w))" "promises (global w) ! p = Pending"
    and "t = Fulfilled p \<or> (\<exists>e. t = Rejected e)"
  shows "world_ok payload (w\<lparr>global := (global w)\<lparr>promises := (promises (global w))[p := t]\<rparr>\<rparr>)"
proof -
  let ?g = "(global w)\<lparr>promises := (promises (global w))[p := t]\<rparr>"
  have e: "extends (global w) ?g" using assms(2,3) by (auto simp: extends_def nth_list_update)
  have "conn_ok ?g"
    using assms by (auto simp: world_ok_def conn_ok_def fulfilled_def nth_list_update
        split: ConnState.splits if_splits)
  moreover have "\<forall>t \<in> set (tasks w). task_ok ?g t"
    using assms(1) task_ok_extends [OF _ e] by (auto simp: world_ok_def)
  moreover have "sent_ok payload ?g (tasks w)"
    using assms(1) fulfilled_extends [OF _ e] by (fastforce simp: world_ok_def sent_ok_def)
  ultimately show ?thesis by (simp add: world_ok_def)
qed

lemma world_ok_socket: "world_ok payload (w\<lparr>socket := s\<rparr>) = world_ok payload w"
  by (simp add: world_ok_def)

lemma world_step_ok:
  assumes "world_step payload w w'" "world_ok payload w"
  shows "world_ok payload w'"
  using assms(1)
proof cases
  case upload
  then show ?thesis by (rule upload_step_ok [OF _ assms(2)])
next
  case promise
  then show ?thesis
  proof cases
    case (connects p)
    with settle_ok [OF assms(2), of p "Fulfilled p"] show ?thesis
      by (simp add: world_ok_def)
  qed (use settle_ok [OF assms(2)] in auto)
next
  case socket
  then show ?thesis using assms(2) by cases (simp_all add: world_ok_socket)
qed

lemma reachable_ok: "(world_step payload)\<^sup>*\<^sup>* initial w \<Longrightarrow> world_ok payload w"
  by (induction rule: rtranclp_induct) (auto intro: world_ok_initial world_step_ok)

section \<open>A sample run\<close>

definition sample_payload :: "nat \<Rightarrow> byte list result" where
  "sample_payload i = Inr [of_nat i]"

lemma run_step: "world_step payload w w' \<Longrightarrow> (world_step payload)\<^sup>*\<^sup>* v w \<Longrightarrow> (world_step payload)\<^sup>*\<^sup>* v w'"
  by (rule rtranclp.rtrancl_into_rtrancl)

lemma upload_run: "upload_step payload w w' \<Longrightarrow> w' = w'' \<Longrightarrow> world_step payload w w''"
  by (auto intro: world_step.upload)

text \<open>Two uploads share one connection; its socket closes before either has sent.\<close>

definition open_world :: "task list \<Rightarrow> world" where
  "open_world ts = \<lparr>global = \<lparr>conn = Created 0, promises = [Fulfilled 0], sent = [], closed = []\<rparr>,
     tasks = ts, socket = (\<lambda>_. CLOSED)(0 := OPEN)\<rparr>"

lemma open_world_reachable: "(world_step payload)\<^sup>*\<^sup>* initial (open_world [Holding 0, Holding 0])"
proof -
  let ?P = payload
  let ?g0 = "\<lparr>conn = Creating 0, promises = [Pending], sent = [], closed = []\<rparr>"
  let ?g1 = "\<lparr>conn = Creating 0, promises = [Fulfilled 0], sent = [], closed = []\<rparr>"
  let ?s = "\<lambda>_ :: nat. CLOSED"
  have 1: "world_step ?P initial \<lparr>global = start_state, tasks = [Idle], socket = ?s\<rparr>"
    by (rule upload_run [OF upload_step.spawn]) (simp add: initial_def)
  have 2: "world_step ?P \<lparr>global = start_state, tasks = [Idle], socket = ?s\<rparr>
      \<lparr>global = start_state, tasks = [Idle, Idle], socket = ?s\<rparr>"
    by (rule upload_run [OF upload_step.spawn]) simp
  have 3: "world_step ?P \<lparr>global = start_state, tasks = [Idle, Idle], socket = ?s\<rparr>
      \<lparr>global = ?g0, tasks = [Awaiting (Own 0), Idle], socket = ?s\<rparr>"
    by (rule upload_run [OF upload_step.call [of 0]])
      (simp_all add: getWebSocket_call_def start_state_def set_task_def Let_def)
  have 4: "world_step ?P \<lparr>global = ?g0, tasks = [Awaiting (Own 0), Idle], socket = ?s\<rparr>
      \<lparr>global = ?g0, tasks = [Awaiting (Own 0), Awaiting (Shared 0)], socket = ?s\<rparr>"
    by (rule upload_run [OF upload_step.call [of 1]])
      (simp_all add: getWebSocket_call_def set_task_def)
  have "promise_step \<lparr>global = ?g0, tasks = [Awaiting (Own 0), Awaiting (Shared 0)], socket = ?s\<rparr>
      \<lparr>global = ?g1, tasks = [Awaiting (Own 0), Awaiting (Shared 0)], socket = ?s(0 := OPEN)\<rparr>"
    using promise_step.connects
      [of 0 "\<lparr>global = ?g0, tasks = [Awaiting (Own 0), Awaiting (Shared 0)], socket = ?s\<rparr>"] by simp
  then have 5: "world_step ?P \<lparr>global = ?g0, tasks = [Awaiting (Own 0), Awaiting (Shared 0)], socket = ?s\<rparr>
      \<lparr>global = ?g1, tasks = [Awaiting (Own 0), Awaiting (Shared 0)], socket = ?s(0 := OPEN)\<rparr>"
    by (rule world_step.promise)
  have 6: "world_step ?P \<lparr>global = ?g1, tasks = [Awaiting (Own 0), Awaiting (Shared 0)], socket = ?s(0 := OPEN)\<rparr>
      \<lparr>global = ?g1, tasks = [Holding 0, Awaiting (Shared 0)], socket = ?s(0 := OPEN)\<rparr>"
    by (rule upload_run [OF upload_step.resume [of 0 _ "Own 0" "Inr 0"]])
      (simp_all add: getWebSocket_resume_def set_task_def)
  have 7: "world_step ?P \<lparr>global = ?g1, tasks = [Holding 0, Awaiting (Shared 0)], socket = ?s(0 := OPEN)\<rparr>
      (open_world [Holding 0, Holding 0])"
    by (rule upload_run [OF upload_step.resume [of 1 _ "Shared 0" "Inr 0"]])
      (simp_all add: getWebSocket_resume_def set_task_def open_world_def)
  show ?thesis
    by (intro run_step [OF 7] run_step [OF 6] run_step [OF 5] run_step [OF 4] run_step [OF 3]
        run_step [OF 2] run_step [OF 1] rtranclp.rtrancl_refl)
qed

lemma sent_world_reachable:
  assumes "payload 1 = Inr data"
  shows "\<exists>w. (world_step payload)\<^sup>*\<^sup>* initial w \<and> sent (global w) = [(1, 0, data)]"
proof -
  let ?w = "set_task 1 Done ((global (open_world [Holding 0, Holding 0]))\<lparr>sent := [(1, 0, data)]\<rparr>)
      (open_world [Holding 0, Holding 0])"
  have "world_step payload (open_world [Holding 0, Holding 0]) ?w"
    using assms
    by (intro upload_run [OF upload_step.attempt
          [of 1 _ 0 _ data None "(global (open_world [Holding 0, Holding 0]))\<lparr>sent := [(1, 0, data)]\<rparr>"]])
      (simp_all add: open_world_def upload_try_def upload_send_def ws_send_def)
  from run_step [OF this open_world_reachable] show ?thesis by (auto simp: set_task_def)
qed

section \<open>Properties\<close>

text \<open>C6: in every interleaving, no upload's message is sent twice, not even across a
  reconnection, and every message sent is that of a finished upload over a socket that
  \<open>createWebSocket\<close> returned.\<close>

theorem messages_sent_at_most_once:
  assumes "(world_step payload)\<^sup>*\<^sup>* initial w"
  shows "distinct (map fst (sent (global w))) \<and>
    list_all (\<lambda>(i, ws, data). i < length (tasks w) \<and> tasks w ! i = Done \<and> payload i = Inr data \<and>
      promises (global w) ! ws = Fulfilled ws) (sent (global w))"
  using reachable_ok [OF assms]
  by (fastforce simp: world_ok_def sent_ok_def list_all_iff fulfilled_def)

theorem messages_sent_at_most_once_witness:
  "\<exists>w :: world. sent (global w) = [(1, 0, [1])] \<and> distinct (map fst (sent (global w))) \<and>
    list_all (\<lambda>(i, ws, data). i < length (tasks w) \<and> tasks w ! i = Done \<and> sample_payload i = Inr data \<and>
      promises (global w) ! ws = Fulfilled ws) (sent (global w))"
proof -
  obtain w where w: "(world_step sample_payload)\<^sup>*\<^sup>* initial w" "sent (global w) = [(1, 0, [1])]"
    using sent_world_reachable [where payload = sample_payload] by (auto simp: sample_payload_def)
  from messages_sent_at_most_once [OF w(1)] w(2) show ?thesis by (intro exI [of _ w] conjI) blast+
qed

text \<open>
  Uploads that hold the socket \<open>ws\<close>, which is not open any more. \<open>n\<close> connections had been
  begun when this was first so.
\<close>

definition on_its_own :: "nat \<Rightarrow> nat \<Rightarrow> world \<Rightarrow> nat \<Rightarrow> bool" where
  "on_its_own ws n w i \<longleftrightarrow>
     i < length (tasks w) \<and> fulfilled (global w) ws \<and> socket w ws \<noteq> OPEN \<and>
     (tasks w ! i = Holding ws \<or> tasks w ! i = Done \<or>
      (\<exists>p. tasks w ! i = Reconnecting ws (Own p) \<and> n \<le> p \<and> p < length (promises (global w))))"

definition each_on_its_own :: "nat list \<Rightarrow> nat \<Rightarrow> nat \<Rightarrow> world \<Rightarrow> bool" where
  "each_on_its_own is ws n w \<longleftrightarrow>
     (\<forall>i \<in> set is. on_its_own ws n w i) \<and>
     (\<forall>i \<in> set is. \<forall>j \<in> set is. \<forall>a.
        tasks w ! i = Reconnecting ws a \<and> tasks w ! j = Reconnecting ws a \<longrightarrow> i = j) \<and>
     n + card {i \<in> set is. tasks w ! i \<noteq> Holding ws} \<le> length (promises (global w))"

lemma on_its_own_keep:
  assumes "each_on_its_own is ws n w" and "extends (global w) (global w')"
    and "\<And>i. i \<in> set is \<Longrightarrow> i < length (tasks w') \<and>
      (tasks w' ! i = tasks w ! i \<or> tasks w ! i \<noteq> Holding ws \<and> tasks w' ! i = Done)"
    and "fulfilled (global w) ws \<Longrightarrow> socket w ws \<noteq> OPEN \<Longrightarrow> socket w' ws \<noteq> OPEN"
  shows "each_on_its_own is ws n w'"
proof -
  have same: "{i \<in> set is. tasks w' ! i \<noteq> Holding ws} = {i \<in> set is. tasks w ! i \<noteq> Holding ws}"
    using assms(3) by fastforce
  have len: "length (promises (global w)) \<le> length (promises (global w'))"
    using assms(2) by (simp add: extends_def)
  have "on_its_own ws n w' i" if "i \<in> set is" for i
    using assms(1) assms(3) [OF that] assms(4) that len fulfilled_extends [OF _ assms(2)]
    by (fastforce simp: each_on_its_own_def on_its_own_def)
  moreover have "i = j" if "i \<in> set is" "j \<in> set is" "tasks w' ! i = Reconnecting ws a" "tasks w' ! j = Reconnecting ws a" for i j a
  proof -
    have "tasks w ! i = Reconnecting ws a" "tasks w ! j = Reconnecting ws a"
      using assms(3) [OF that(1)] assms(3) [OF that(2)] that(3,4) by auto
    with assms(1) that(1,2) show ?thesis unfolding each_on_its_own_def by blast
  qed
  ultimately show ?thesis
    using assms(1) len same by (auto simp: each_on_its_own_def)
qed

lemma on_its_own_set_task:
  assumes "each_on_its_own is ws n w" and "extends (global w) g"
    and "j \<in> set is \<Longrightarrow> tasks w ! j \<noteq> Holding ws \<and> t = Done"
  shows "each_on_its_own is ws n (set_task j t g w)"
proof (rule on_its_own_keep [OF assms(1)])
  fix i assume i: "i \<in> set is"
  then have "i < length (tasks w)" using assms(1) by (simp add: each_on_its_own_def on_its_own_def)
  with assms(3) i show "i < length (tasks (set_task j t g w)) \<and>
      (tasks (set_task j t g w) ! i = tasks w ! i \<or> tasks w ! i \<noteq> Holding ws \<and> tasks (set_task j t g w) ! i = Done)"
    by (cases "i = j") (auto simp: set_task_def)
qed (use assms(2) in \<open>simp_all add: set_task_def\<close>)

lemma on_its_own_attempt:
  assumes "each_on_its_own is ws n w" and "j \<in> set is" and "tasks w ! j = Holding ws"
    and "promises g = promises (global w) @ [Pending]"
  shows "each_on_its_own is ws n (set_task j (Reconnecting ws (Own (length (promises (global w))))) g w)"
    (is "each_on_its_own is ws n ?w'")
proof -
  let ?went = "\<lambda>w. {i \<in> set is. tasks w ! i \<noteq> Holding ws}"
  have j: "j < length (tasks w)" "fulfilled g ws" "socket w ws \<noteq> OPEN"
    using assms(1,2,4) by (auto simp: each_on_its_own_def on_its_own_def fulfilled_def nth_append)
  have task: "tasks ?w' ! i = (if i = j then Reconnecting ws (Own (length (promises (global w)))) else tasks w ! i)" for i
    using j(1) by (simp add: set_task_def)
  have n: "n \<le> length (promises (global w))"
    using assms(1) by (simp add: each_on_its_own_def)
  have others: "p < length (promises (global w))" if "i \<in> set is" "tasks w ! i = Reconnecting ws (Own p)" for i p
    using assms(1) that by (auto simp: each_on_its_own_def on_its_own_def)
  have "on_its_own ws n ?w' i" if "i \<in> set is" for i
    using assms(1,4) that j n task [of i] by (auto simp: each_on_its_own_def on_its_own_def set_task_def)
  moreover have "i = k" if "i \<in> set is" "k \<in> set is" "tasks ?w' ! i = Reconnecting ws a" "tasks ?w' ! k = Reconnecting ws a" for i k a
    using assms(1) that others by (auto simp: task each_on_its_own_def split: if_splits)
  moreover have "?went ?w' \<subseteq> insert j (?went w)" by (auto simp: task)
  then have "card (?went ?w') \<le> card (insert j (?went w))"
    by (rule card_mono [rotated]) simp
  then have "card (?went ?w') \<le> Suc (card (?went w))"
    by (simp add: card_insert_if split: if_splits)
  ultimately show ?thesis
    using assms(1,4) by (auto simp: each_on_its_own_def set_task_def)
qed

lemma upload_step_on_its_own:
  assumes "upload_step payload w w'" and "world_ok payload w" and "each_on_its_own is ws n w"
    and "\<And>i. i \<in> set is \<Longrightarrow> \<exists>data. payload i = Inr data"
  shows "each_on_its_own is ws n w'"
proof -
  have conn: "conn_ok (global w)" using assms(2) by (simp add: world_ok_def)
  have is_task: "i < length (tasks w) \<and> socket w ws \<noteq> OPEN \<and>
      (tasks w ! i = Holding ws \<or> tasks w ! i = Done \<or> (\<exists>p. tasks w ! i = Reconnecting ws (Own p)))"
    if "i \<in> set is" for i
    using assms(3) that by (auto simp: each_on_its_own_def on_its_own_def)
  note keep = on_its_own_set_task [OF assms(3)]
  show ?thesis
    using assms(1)
  proof cases
    case spawn
    with is_task show ?thesis by (auto intro!: on_its_own_keep [OF assms(3)] simp: nth_append less_SucI)
  next
    case (call i a g)
    then have "extends (global w) g" using getWebSocket_call_ok [OF conn] by blast
    with call is_task [of i] show ?thesis by (auto intro!: keep)
  next
    case (call_throws i e)
    with is_task [of i] show ?thesis by (auto intro!: keep)
  next
    case (resume i a res g)
    then have "awaiting_ok (global w) a" using assms(2) nth_mem by (fastforce simp: world_ok_def)
    with getWebSocket_resume_ok [OF conn this resume(4)] resume is_task [of i] show ?thesis
      by (auto intro!: keep simp: extends_promises)
  next
    case (encode_throws i ws' e)
    with is_task [of i] assms(4) [of i] show ?thesis by (auto intro!: keep)
  next
    case (attempt i ws' data a g)
    show ?thesis
    proof (cases "i \<in> set is")
      case True
      with is_task [OF True] attempt have ws: "ws' = ws" "socket w ws \<noteq> OPEN" by auto
      with attempt have "a = Some (Own (length (promises (global w))))"
          "promises g = promises (global w) @ [Pending]"
        by (auto simp: upload_try_def getWebSocket_call_def Let_def)
      with on_its_own_attempt [OF assms(3) True] attempt ws show ?thesis by simp
    next
      case False
      with upload_try_ok [OF conn attempt(5)] attempt show ?thesis
        by (auto intro!: keep)
    qed
  next
    case (retry i ws' a data res g)
    then have "awaiting_ok (global w) a" using assms(2) nth_mem by (fastforce simp: world_ok_def)
    with getWebSocket_resume_ok [OF conn this retry(5)] retry is_task [of i] show ?thesis
      by (auto intro!: keep simp: extends_promises upload_retry_ok)
  qed
qed

lemma world_step_on_its_own:
  assumes "world_step payload w w'" and "world_ok payload w" and "each_on_its_own is ws n w"
    and "\<And>i. i \<in> set is \<Longrightarrow> \<exists>data. payload i = Inr data"
  shows "each_on_its_own is ws n w'"
  using assms(1)
proof cases
  case upload
  then show ?thesis by (rule upload_step_on_its_own [OF _ assms(2-4)])
next
  case promise
  note keep = on_its_own_keep [OF assms(3)]
  have here: "i < length (tasks w)" if "i \<in> set is" for i
    using assms(3) that by (auto simp: each_on_its_own_def on_its_own_def)
  from promise show ?thesis
    by cases (use here in \<open>auto intro!: keep simp: extends_def nth_list_update fulfilled_def split: if_splits\<close>)
next
  case socket
  note keep = on_its_own_keep [OF assms(3)]
  have here: "i < length (tasks w)" if "i \<in> set is" for i
    using assms(3) that by (auto simp: each_on_its_own_def on_its_own_def)
  from socket show ?thesis
    by cases (use here in \<open>auto intro!: keep split: if_splits\<close>)
qed

lemma all_reconnect:
  assumes "distinct is"
    and "\<And>i. i \<in> set is \<Longrightarrow> i < length (tasks w) \<and> tasks w ! i = Holding ws \<and> (\<exists>data. payload i = Inr data)"
    and "socket w ws \<noteq> OPEN"
  shows "\<exists>w'. (world_step payload)\<^sup>*\<^sup>* w w' \<and>
    promises (global w') = promises (global w) @ replicate (length is) Pending \<and>
    (\<forall>i \<in> set is. \<exists>p. tasks w' ! i = Reconnecting ws (Own p)) \<and>
    (\<forall>i. i \<notin> set is \<longrightarrow> tasks w' ! i = tasks w ! i)"
  using assms
proof (induction "is" arbitrary: w)
  case Nil
  then show ?case by auto
next
  case (Cons i "is")
  define g where "g = (global w)\<lparr>conn := Creating (length (promises (global w))),
      promises := promises (global w) @ [Pending]\<rparr>"
  define w1 where "w1 = set_task i (Reconnecting ws (Own (length (promises (global w))))) g w"
  have i: "i < length (tasks w)" "tasks w ! i = Holding ws" using Cons.prems(2) by auto
  obtain data where data: "payload i = Inr data" using Cons.prems(2) by auto
  have "upload_try i (socket w) ws data (global w) = (Some (Own (length (promises (global w)))), g)"
    using Cons.prems(3) by (simp add: upload_try_def getWebSocket_call_def Let_def g_def)
  then have step: "world_step payload w w1"
    using upload_step.attempt [of i w ws payload data] i data
    by (fastforce simp: w1_def intro!: world_step.upload)
  have "j < length (tasks w1) \<and> tasks w1 ! j = Holding ws \<and> (\<exists>data. payload j = Inr data)" if "j \<in> set is" for j
    using Cons.prems(1) Cons.prems(2) [of j] that by (cases "j = i") (auto simp: w1_def set_task_def)
  from Cons.IH [OF _ this] Cons.prems(1,3) obtain w' where
    w': "(world_step payload)\<^sup>*\<^sup>* w1 w'" "promises (global w') = promises g @ replicate (length is) Pending"
      "\<forall>i \<in> set is. \<exists>p. tasks w' ! i = Reconnecting ws (Own p)" "\<forall>j. j \<notin> set is \<longrightarrow> tasks w' ! j = tasks w1 ! j"
    by (auto simp: w1_def set_task_def)
  have "tasks w' ! i = Reconnecting ws (Own (length (promises (global w))))"
    using w'(4) Cons.prems(1) i(1) by (simp add: w1_def set_task_def)
  moreover have "tasks w' ! j = tasks w ! j" if "j \<notin> set (i # is)" for j
    using w'(4) that by (simp add: w1_def set_task_def)
  ultimately show ?case
    using step w'(1-3) by (intro exI [of _ w']) (auto simp: g_def intro: converse_rtranclp_into_rtranclp)
qed

text \<open>C25: when a socket that uploads hold has closed, each of them opens a connection of its
  own. In every continuation the number of \<open>createWebSocket\<close> calls has grown by at least one
  for each of these uploads that has gone on, no two of them wait for the same call, and none
  waits for an earlier one; and all of them can be waiting at once, for as many pending calls
  as there are uploads.\<close>

theorem each_upload_reconnects_on_its_own:
  assumes "(world_step payload)\<^sup>*\<^sup>* initial w" and "distinct is" and "socket w ws \<noteq> OPEN"
    and "list_all (\<lambda>i. i < length (tasks w) \<and> tasks w ! i = Holding ws \<and> payload i = Inr (data i)) is"
  shows "(\<forall>w'. (world_step payload)\<^sup>*\<^sup>* w w' \<longrightarrow>
      length (promises (global w)) + card {i \<in> set is. tasks w' ! i \<noteq> Holding ws} \<le> length (promises (global w')) \<and>
      list_all (\<lambda>i. tasks w' ! i \<in> {Holding ws, Done} \<union>
        {Reconnecting ws (Own p) | p. length (promises (global w)) \<le> p}) is \<and>
      list_all (\<lambda>i. list_all (\<lambda>j. i = j \<or> tasks w' ! i \<noteq> tasks w' ! j \<or> tasks w' ! i \<in> {Holding ws, Done}) is) is) \<and>
    (\<exists>w'. (world_step payload)\<^sup>*\<^sup>* w w' \<and>
      promises (global w') = promises (global w) @ replicate (length is) Pending \<and>
      list_all (\<lambda>i. tasks w' ! i \<notin> {Holding ws, Done}) is)"
proof -
  let ?n = "length (promises (global w))"
  have ok: "world_ok payload w" by (rule reachable_ok [OF assms(1)])
  have hold: "i < length (tasks w) \<and> tasks w ! i = Holding ws \<and> (\<exists>data. payload i = Inr data)" if "i \<in> set is" for i
    using assms(4) that by (auto simp: list_all_iff)
  have "fulfilled (global w) ws" if "i \<in> set is" for i
    using ok hold [OF that] nth_mem by (fastforce simp: world_ok_def)
  then have start: "each_on_its_own is ws ?n w"
    using hold assms(3) by (auto simp: each_on_its_own_def on_its_own_def)
  have own: "each_on_its_own is ws ?n w'" if "(world_step payload)\<^sup>*\<^sup>* w w'" for w'
    using that
  proof (induction rule: rtranclp_induct)
    case base
    show ?case by (rule start)
  next
    case (step v v')
    have "world_ok payload v"
      using reachable_ok [OF rtranclp_trans [OF assms(1) step(1)]] .
    from world_step_on_its_own [OF step(2) this step(3)] hold show ?case by simp
  qed
  have apart: "i = j \<or> tasks w' ! i \<noteq> tasks w' ! j \<or> tasks w' ! i \<in> {Holding ws, Done}"
    if "(world_step payload)\<^sup>*\<^sup>* w w'" "i \<in> set is" "j \<in> set is" for w' i j
  proof -
    from own [OF that(1)] that(2,3) have "on_its_own ws ?n w' i"
        "\<And>a. tasks w' ! i = Reconnecting ws a \<Longrightarrow> tasks w' ! j = Reconnecting ws a \<Longrightarrow> i = j"
      unfolding each_on_its_own_def by blast+
    then show ?thesis
      unfolding on_its_own_def by (elim conjE disjE exE) auto
  qed
  have calls: "?n + card {i \<in> set is. tasks w' ! i \<noteq> Holding ws} \<le> length (promises (global w')) \<and>
      list_all (\<lambda>i. tasks w' ! i \<in> {Holding ws, Done} \<union> {Reconnecting ws (Own p) | p. ?n \<le> p}) is"
    if "(world_step payload)\<^sup>*\<^sup>* w w'" for w'
    using own [OF that] by (auto simp: each_on_its_own_def on_its_own_def list_all_iff)
  have "\<exists>w'. (world_step payload)\<^sup>*\<^sup>* w w' \<and>
      promises (global w') = promises (global w) @ replicate (length is) Pending \<and>
      list_all (\<lambda>i. tasks w' ! i \<notin> {Holding ws, Done}) is"
    using all_reconnect [OF assms(2) hold assms(3)] by (fastforce simp: list_all_iff)
  with calls apart show ?thesis by (simp add: list_all_iff)
qed

theorem each_upload_reconnects_on_its_own_witness:
  "\<exists>w w'. (world_step sample_payload)\<^sup>*\<^sup>* initial w \<and> (world_step sample_payload)\<^sup>*\<^sup>* w w' \<and>
    promises (global w') = [Fulfilled 0, Pending, Pending] \<and> tasks w' ! 0 \<noteq> tasks w' ! 1"
proof -
  let ?c = "\<lambda>s. (open_world [Holding 0, Holding 0])\<lparr>socket := (\<lambda>_. CLOSED)(0 := s)\<rparr>"
  have "socket_step (?c OPEN) (?c CLOSING)"
    using socket_step.closing [of "?c OPEN" 0] by (simp add: open_world_def)
  moreover have "?c OPEN = open_world [Holding 0, Holding 0]"
    by (simp add: open_world_def)
  ultimately have reach: "(world_step sample_payload)\<^sup>*\<^sup>* initial (?c CLOSING)"
    using run_step [OF world_step.socket open_world_reachable] by simp
  have hold: "list_all (\<lambda>i. i < length (tasks (?c CLOSING)) \<and> tasks (?c CLOSING) ! i = Holding 0 \<and>
      sample_payload i = Inr [of_nat i]) [0, 1]"
    by (simp add: open_world_def sample_payload_def)
  have both: "distinct [0 :: nat, 1]" "socket (?c CLOSING) 0 \<noteq> OPEN" by simp_all
  note reconnects = each_upload_reconnects_on_its_own [OF reach both hold]
  from conjunct2 [OF reconnects] obtain w' where w': "(world_step sample_payload)\<^sup>*\<^sup>* (?c CLOSING) w'"
      "promises (global w') = [Fulfilled 0, Pending, Pending]" "tasks w' ! 0 \<notin> {Holding 0, Done}"
    by (auto simp: open_world_def numeral_2_eq_2)
  with conjunct1 [OF reconnects] have "tasks w' ! 0 \<noteq> tasks w' ! 1" by fastforce
  with reach w'(1,2) show ?thesis by blast
qed

definition stable_step :: "(nat \<Rightarrow> byte list result) \<Rightarrow> world \<Rightarrow> world \<Rightarrow> bool" where
  "stable_step payload w w' \<longleftrightarrow> upload_step payload w w' \<or> promise_step w w'"

primrec quiet :: "task \<Rightarrow> bool" where
  "quiet Idle \<longleftrightarrow> True"
| "quiet (Awaiting a) \<longleftrightarrow> True"
| "quiet (Holding ws) \<longleftrightarrow> True"
| "quiet (Reconnecting ws a) \<longleftrightarrow> False"
| "quiet Done \<longleftrightarrow> True"
| "quiet (Thrown e) \<longleftrightarrow> True"

definition single :: "world \<Rightarrow> bool" where
  "single w \<longleftrightarrow>
     (case conn (global w) of
        Absent \<Rightarrow> promises (global w) = []
      | Uninitialized \<Rightarrow> False
      | _ \<Rightarrow> length (promises (global w)) \<le> 1) \<and>
     (\<forall>ws. fulfilled (global w) ws \<longrightarrow> socket w ws = OPEN) \<and>
     (\<forall>t \<in> set (tasks w). quiet t)"

lemma single_set_task:
  assumes "single w" and "promises g = promises (global w)" "conn g \<noteq> Uninitialized"
    and "conn g = Absent \<longrightarrow> conn (global w) = Absent" and "quiet t"
  shows "single (set_task i t g w)"
  using assms set_update_subset_insert [of "tasks w" i t]
  by (auto simp: single_def set_task_def fulfilled_def split: ConnState.splits)

lemma single_upload_step:
  assumes "upload_step payload w w'" "single w" "world_ok payload w"
  shows "single w'"
proof -
  have conn: "conn_ok (global w)" "conn (global w) \<noteq> Uninitialized"
    using assms(2,3) by (auto simp: world_ok_def single_def)
  show ?thesis
    using assms(1)
  proof cases
    case spawn
    then show ?thesis using assms(2) by (auto simp: single_def split: ConnState.splits)
  next
    case (call i a g)
    show ?thesis
    proof (cases "conn (global w) = Absent")
      case True
      with assms(2) call set_update_subset_insert [of "tasks w" i "Awaiting a"] show ?thesis
        by (auto simp: single_def set_task_def getWebSocket_call_def Let_def fulfilled_def)
    next
      case False
      with call conn have "g = global w"
        by (auto simp: getWebSocket_call_def Let_def split: ConnState.splits)
      with call conn False show ?thesis
        by (auto intro!: single_set_task [OF assms(2)])
    qed
  next
    case (resume i a res g)
    then have "g = global w \<or> (\<exists>ws. g = (global w)\<lparr>conn := Created ws\<rparr>)"
      by (auto simp: getWebSocket_resume_def split: awaiting.splits promise.splits)
    with resume conn show ?thesis
      by (auto intro!: single_set_task [OF assms(2)] split: sum.splits)
  next
    case (attempt i ws data a g)
    then have "fulfilled (global w) ws"
      using assms(3) nth_mem by (fastforce simp: world_ok_def)
    with assms(2) have "socket w ws = OPEN" by (simp add: single_def)
    with attempt have "a = None" "g = (global w)\<lparr>sent := sent (global w) @ [(i, ws, data)]\<rparr>"
      by (auto simp: upload_try_def upload_send_def ws_send_def)
    with attempt conn show ?thesis
      by (auto intro!: single_set_task [OF assms(2)])
  next
    case (retry i ws a data res g)
    then have "quiet (Reconnecting ws a)"
      using assms(2) nth_mem by (fastforce simp: single_def)
    then show ?thesis by simp
  qed (use conn in \<open>auto intro!: single_set_task [OF assms(2)]\<close>)
qed

lemma single_promise_step: "promise_step w w' \<Longrightarrow> single w \<Longrightarrow> single w'"
  by (erule promise_stepE)
    (auto simp: single_def fulfilled_def nth_list_update split: ConnState.splits if_splits)

text \<open>C17: as long as sockets that have opened stay open, at most one \<open>createWebSocket\<close> call
  is ever made, however the uploads interleave.\<close>

theorem one_connection_while_sockets_stay_open:
  assumes "(stable_step payload)\<^sup>*\<^sup>* initial w"
  shows "length (promises (global w)) \<le> 1"
proof -
  have "single w \<and> world_ok payload w"
    using assms
  proof (induction rule: rtranclp_induct)
    case base
    show ?case
      using world_ok_initial by (simp add: single_def initial_def start_state_def fulfilled_def)
  next
    case (step w w')
    then show ?case
      by (auto simp: stable_step_def intro: single_upload_step single_promise_step world_step_ok
          world_step.intros)
  qed
  then show ?thesis by (auto simp: single_def split: ConnState.splits)
qed

lemma stable_run_step:
  "stable_step payload w w' \<Longrightarrow> (stable_step payload)\<^sup>*\<^sup>* v w \<Longrightarrow> (stable_step payload)\<^sup>*\<^sup>* v w'"
  by (rule rtranclp.rtrancl_into_rtrancl)

theorem one_connection_while_sockets_stay_open_witness:
  "\<exists>w :: world. tasks w = [Awaiting (Own 0)] \<and> length (promises (global w)) \<le> 1"
proof -
  let ?w1 = "\<lparr>global = start_state, tasks = [Idle], socket = (\<lambda>_. CLOSED)\<rparr>"
  let ?g = "start_state\<lparr>promises := [Pending], conn := Creating 0\<rparr>"
  have 1: "stable_step sample_payload initial ?w1"
    using upload_step.spawn [of sample_payload initial] by (simp add: stable_step_def initial_def)
  have "upload_step sample_payload ?w1 (set_task 0 (Awaiting (Own 0)) ?g ?w1)"
    by (rule upload_step.call) (simp_all add: getWebSocket_call_def start_state_def Let_def)
  then have 2: "stable_step sample_payload ?w1 (set_task 0 (Awaiting (Own 0)) ?g ?w1)"
    by (simp add: stable_step_def)
  have "(stable_step sample_payload)\<^sup>*\<^sup>* initial (set_task 0 (Awaiting (Own 0)) ?g ?w1)"
    by (intro stable_run_step [OF 2] stable_run_step [OF 1] rtranclp.rtrancl_refl)
  from one_connection_while_sockets_stay_open [OF this] show ?thesis
    by (intro exI [of _ "set_task 0 (Awaiting (Own 0)) ?g ?w1"] conjI) (simp_all add: set_task_def)
qed

definition past_socket :: "nat \<Rightarrow> task \<Rightarrow> bool" where
  "past_socket p t \<longleftrightarrow>
     (case t of Awaiting a \<Rightarrow> a = Own p \<or> a = Shared p | Holding ws \<Rightarrow> False
      | Reconnecting ws a \<Rightarrow> False | _ \<Rightarrow> True)"

definition poisoned :: "nat \<Rightarrow> exn \<Rightarrow> world \<Rightarrow> bool" where
  "poisoned p e w \<longleftrightarrow>
     conn (global w) = Creating p \<and> p < length (promises (global w)) \<and>
     promises (global w) ! p = Rejected e \<and> list_all (past_socket p) (tasks w)"

lemma poisoned_set_task:
  assumes "poisoned p e w" and "past_socket p t"
  shows "poisoned p e (set_task i t (global w) w)"
  using assms set_update_subset_insert [of "tasks w" i t]
  by (auto simp: poisoned_def set_task_def list_all_iff)

lemma poisoned_step:
  assumes "world_step payload w w'" and p: "poisoned p e w"
  shows "poisoned p e w' \<and> sent (global w') = sent (global w)"
  using assms(1)
proof cases
  case upload
  have past: "past_socket p (tasks w ! i)" if "i < length (tasks w)" for i
    using p that by (simp add: poisoned_def list_all_length)
  from upload show ?thesis
  proof cases
    case spawn
    then show ?thesis using p by (simp add: poisoned_def past_socket_def)
  next
    case (call i a g)
    then have "g = global w" "a = Shared p"
      using p by (auto simp: getWebSocket_call_def poisoned_def Let_def)
    with call poisoned_set_task [OF p] show ?thesis
      by (simp add: set_task_def past_socket_def)
  next
    case (call_throws i e')
    with p show ?thesis by (simp add: getWebSocket_call_def poisoned_def Let_def)
  next
    case (resume i a res g)
    then have "a = Own p \<or> a = Shared p" using past [of i] by (simp add: past_socket_def)
    with resume p have "g = global w" "res = Inl e"
      by (auto simp: getWebSocket_resume_def poisoned_def)
    with resume poisoned_set_task [OF p] show ?thesis
      by (simp add: set_task_def past_socket_def)
  next
    case (encode_throws i ws e')
    then show ?thesis using past [of i] by (simp add: past_socket_def)
  next
    case (attempt i ws data a g)
    then show ?thesis using past [of i] by (simp add: past_socket_def)
  next
    case (retry i ws a data res g)
    then show ?thesis using past [of i] by (simp add: past_socket_def)
  qed
next
  case promise
  then show ?thesis
    using p by cases (auto simp: poisoned_def nth_list_update)
next
  case socket
  then show ?thesis using p by cases (simp_all add: poisoned_def)
qed

text \<open>C24: once the first connection attempt has been rejected and no upload holds a socket,
  the package never recovers: in every continuation the connection stays rejected and no
  message is sent.\<close>

theorem rejected_connection_is_permanent:
  assumes "(world_step payload)\<^sup>*\<^sup>* w w'" and "poisoned p e w"
  shows "poisoned p e w' \<and> sent (global w') = sent (global w)"
  using assms(1)
proof (induction rule: rtranclp_induct)
  case base
  show ?case using assms(2) by simp
next
  case (step v v')
  then show ?case using poisoned_step [of payload v v' p e] by simp
qed

theorem rejected_connection_is_permanent_witness:
  "\<exists>w'. tasks w' = [Awaiting (Own 0), Idle] \<and>
     poisoned 0 (SyntaxError []) w' \<and> sent (global w') = []"
proof -
  let ?w = "\<lparr>global = \<lparr>conn = Creating 0, promises = [Rejected (SyntaxError [])], sent = [], closed = []\<rparr>,
      tasks = [Awaiting (Own 0)], socket = (\<lambda>_. CLOSED)\<rparr>"
  have "(world_step sample_payload)\<^sup>*\<^sup>* ?w (?w\<lparr>tasks := tasks ?w @ [Idle]\<rparr>)"
    by (intro run_step [OF world_step.upload [OF upload_step.spawn]] rtranclp.rtrancl_refl)
  from rejected_connection_is_permanent [OF this, of 0 "SyntaxError []"]
  have "poisoned 0 (SyntaxError []) (?w\<lparr>tasks := tasks ?w @ [Idle]\<rparr>)"
    by (simp add: poisoned_def past_socket_def)
  then show ?thesis by (intro exI [of _ "?w\<lparr>tasks := tasks ?w @ [Idle]\<rparr>"]) simp
qed

end
