(* ===== verification/NextRefine.thy ===== *)
theory NextRefine
  imports NextConcurrency
begin

text \<open>
  The two models of \<open>upload\<close> agree: the composed \<open>upload\<close> of \<open>NextUpload\<close>, on which the
  properties of the patched \<open>fetch\<close> rest, is what the interleaved steps of \<open>NextConcurrency\<close>
  do when one call runs to its end, whatever the state it starts in.
\<close>

section \<open>Sockets\<close>

text \<open>The states a socket can be in later, once it has opened.\<close>

definition later :: "ready_state \<Rightarrow> ready_state \<Rightarrow> bool" where
  "later a b \<longleftrightarrow> a = b \<or> a = OPEN \<and> b \<in> {CLOSING, CLOSED} \<or> a = CLOSING \<and> b = CLOSED"

text \<open>\<open>readyState\<close> is possible from here on: sockets that are not there yet begin open.\<close>

definition evolves :: "world \<Rightarrow> (nat \<Rightarrow> ready_state) \<Rightarrow> bool" where
  "evolves w readyState \<longleftrightarrow>
     (\<forall>ws. later (if fulfilled (global w) ws then socket w ws else OPEN) (readyState ws))"

lemma later_refl [simp]: "later a a"
  by (simp add: later_def)

lemma later_trans: "later a b \<Longrightarrow> later b c \<Longrightarrow> later a c"
  by (auto simp: later_def)

abbreviation steps_of :: "(nat \<Rightarrow> byte list result) \<Rightarrow> world \<Rightarrow> world \<Rightarrow> bool" where
  "steps_of payload \<equiv> (world_step payload)\<^sup>*\<^sup>*"

lemma step_run: "world_step payload w w' \<Longrightarrow> steps_of payload w w'"
  by (rule r_into_rtranclp)

lemma socket_run:
  assumes "later (socket w ws) r"
  shows "steps_of payload w (w\<lparr>socket := (socket w)(ws := r)\<rparr>)"
proof -
  have to_closing: "world_step payload v (v\<lparr>socket := (socket v)(ws := CLOSING)\<rparr>)" if "socket v ws = OPEN" for v
    using that by (rule world_step.socket [OF socket_step.closing])
  have to_closed: "world_step payload v (v\<lparr>socket := (socket v)(ws := CLOSED)\<rparr>)" if "socket v ws = CLOSING" for v
    using that by (rule world_step.socket [OF socket_step.closed])
  let ?w = "w\<lparr>socket := (socket w)(ws := CLOSING)\<rparr>"
  have "steps_of payload w (?w\<lparr>socket := (socket ?w)(ws := CLOSED)\<rparr>)" if "socket w ws = OPEN"
    using to_closing [OF that] to_closed [of ?w] by (auto intro: converse_rtranclp_into_rtranclp)
  then have "steps_of payload w (w\<lparr>socket := (socket w)(ws := CLOSED)\<rparr>)" if "socket w ws = OPEN"
    using that by simp
  with assms to_closing to_closed show ?thesis
    by (auto simp: later_def intro: step_run)
qed

text \<open>The socket in hand takes the state it will have when it is looked at.\<close>

lemma evolve_socket:
  assumes "fulfilled (global w) ws" and "evolves w rd" and "\<And>ws. later (rd ws) (rd' ws)"
  obtains w' where "steps_of payload w w'" "global w' = global w" "tasks w' = tasks w"
    "socket w' ws = rd ws" "evolves w' rd'"
proof
  let ?w = "w\<lparr>socket := (socket w)(ws := rd ws)\<rparr>"
  have "later (socket w ws) (rd ws)" using assms(1,2) by (auto simp: evolves_def dest: spec [of _ ws])
  then show "steps_of payload w ?w" by (rule socket_run)
  have "later (if fulfilled (global w) t then socket w t else OPEN) (rd' t)" for t
    using assms(2) by (intro later_trans [OF _ assms(3)]) (simp add: evolves_def)
  then have "later (if fulfilled (global ?w) t then socket ?w t else OPEN) (rd' t)" for t
    using assms(1,3) by (cases "t = ws") (simp_all cong: if_cong)
  then show "evolves ?w rd'" by (simp add: evolves_def)
qed simp_all

section \<open>Promises\<close>

lemma settle_run:
  assumes "evolves w rd"
  obtains w' where "steps_of payload w w'" "global w' = settle rds p (global w)" "tasks w' = tasks w"
    "evolves w' rd"
proof (cases "p < length (promises (global w)) \<and> promises (global w) ! p = Pending \<and>
    createWebSocket (rds p) \<noteq> None")
  case False
  then have "settle rds p (global w) = global w" by (auto simp: settle_def split: option.split)
  with that [of w] assms show thesis by simp
next
  case True
  then obtain waits res where c: "createWebSocket (rds p) = Some (waits, res)" by force
  have p: "p < length (promises (global w))" "promises (global w) ! p = Pending" using True by simp_all
  show thesis
  proof (cases res)
    case (Inl e)
    let ?w = "w\<lparr>global := (global w)\<lparr>promises := (promises (global w))[p := Rejected e]\<rparr>\<rparr>"
    have "steps_of payload w ?w" by (rule step_run [OF world_step.promise [OF promise_step.rejects [OF p]]])
    moreover have "fulfilled (global ?w) = fulfilled (global w)"
      using p by (auto simp: fulfilled_def fun_eq_iff nth_list_update)
    ultimately show thesis
      using that [of ?w] assms p c Inl by (simp add: settle_def evolves_def cong: if_cong)
  next
    case (Inr k)
    let ?w = "w\<lparr>global := (global w)\<lparr>promises := (promises (global w))[p := Fulfilled p]\<rparr>,
      socket := (socket w)(p := OPEN)\<rparr>"
    have "steps_of payload w ?w" by (rule step_run [OF world_step.promise [OF promise_step.connects [OF p]]])
    moreover have "fulfilled (global ?w) ws \<longleftrightarrow> fulfilled (global w) ws \<or> ws = p" for ws
      using p by (auto simp: fulfilled_def nth_list_update)
    moreover have "\<not> fulfilled (global w) p" using p by (simp add: fulfilled_def)
    ultimately have "later (if fulfilled (global ?w) ws then socket ?w ws else OPEN) (rd ws)" for ws
      using spec [OF assms [unfolded evolves_def], of ws] by (cases "ws = p") (simp_all cong: if_cong)
    then have "evolves ?w rd" by (simp add: evolves_def)
    with that [of ?w] \<open>steps_of payload w ?w\<close> p c Inr show thesis by (simp add: settle_def)
  qed
qed

lemma settle_awaited_run:
  assumes "evolves w rd"
  obtains w' where "steps_of payload w w'" "global w' = settle_awaited rds a (global w)"
    "tasks w' = tasks w" "evolves w' rd"
proof (cases a)
  case (Ready ws)
  with that [of w] assms show thesis by (simp add: settle_awaited_def)
qed (use settle_run [OF assms] that in \<open>auto simp: settle_awaited_def\<close>)

lemma settle_awaited_ok:
  assumes "conn_ok g" and "awaiting_ok g a"
  shows "conn_ok (settle_awaited rds a g)" "awaiting_ok (settle_awaited rds a g) a"
proof -
  have "conn_ok (settle rds p g) \<and> extends g (settle rds p g)" for p
    using assms(1)
    by (auto simp: settle_def conn_ok_def fulfilled_def extends_def nth_list_update
        split: option.split sum.split ConnState.splits if_splits)
  then have "conn_ok (settle_awaited rds a g) \<and> extends g (settle_awaited rds a g)"
    using assms(1) by (auto simp: settle_awaited_def split: awaiting.split)
  with awaiting_ok_extends [OF assms(2)]
  show "conn_ok (settle_awaited rds a g)" "awaiting_ok (settle_awaited rds a g) a" by simp_all
qed

section \<open>One call of upload\<close>

text \<open>
  \<open>getWebSocket\<close> with the settling of its promise, from a state in which the call has just
  begun.
\<close>

lemma awaited_run:
  assumes "conn_ok (global w)" "awaiting_ok (global w) a" "evolves w rd"
    and "getWebSocket_resume a (settle_awaited rds a (global w)) = Some (res, st)"
  obtains w' where "steps_of payload w w'" "getWebSocket_resume a (global w') = Some (res, st)"
    "tasks w' = tasks w" "conn_ok st" "promises st = promises (global w')" "evolves (w'\<lparr>global := st\<rparr>) rd"
    "\<And>ws. res = Inr ws \<Longrightarrow> fulfilled st ws"
proof -
  obtain w' where w': "steps_of payload w w'" "global w' = settle_awaited rds a (global w)"
    "tasks w' = tasks w" "evolves w' rd"
    using settle_awaited_run [OF assms(3)] by blast
  note ok = getWebSocket_resume_ok [OF settle_awaited_ok [OF assms(1,2)] assms(4)]
  have f: "fulfilled st = fulfilled (global w')"
    using ok w'(2) by (simp add: fulfilled_def fun_eq_iff)
  show thesis
  proof (rule that [OF w'(1) _ w'(3)])
    show "getWebSocket_resume a (global w') = Some (res, st)" using assms(4) w'(2) by simp
    show "evolves (w'\<lparr>global := st\<rparr>) rd" using w'(4) by (simp add: evolves_def f cong: if_cong)
    show "fulfilled st ws" if "res = Inr ws" for ws using ok that f w'(2) by simp
  qed (use ok w'(2) in simp_all)
qed

lemma upload_try_local:
  "readyState ws = readyState' ws \<Longrightarrow>
   upload_try i readyState ws data g = upload_try i readyState' ws data g"
  by (simp add: upload_try_def upload_send_def)

lemma upload_retry_local:
  "(\<And>ws'. res = Inr ws' \<Longrightarrow> readyState ws' = readyState' ws') \<Longrightarrow>
   upload_retry i readyState ws res data g = upload_retry i readyState' ws res data g"
  by (cases res) (simp_all add: upload_retry_def upload_send_def)

lemma upload_try_fulfilled:
  "upload_try i readyState ws data g = (a, g') \<Longrightarrow> fulfilled g' = fulfilled g"
  by (auto simp: upload_try_def upload_send_def ws_send_def upload_catch_def getWebSocket_call_def
      fulfilled_def fun_eq_iff Let_def nth_append less_Suc_eq split: ready_state.splits if_splits)

text \<open>The last stretch: the retry, once the second \<open>getWebSocket\<close> has been called.\<close>

lemma retry_run:
  assumes "i < length (tasks w)" "tasks w ! i = Reconnecting ws a" "payload i = Inr data"
    and "conn_ok (global w)" "awaiting_ok (global w) a" "evolves w rd"
    and "getWebSocket_resume a (settle_awaited rds a (global w)) = Some (res, st)"
  obtains w' where "steps_of payload w w'" "global w' = upload_retry i rd ws res data st"
    "tasks w' = (tasks w)[i := Done]"
proof -
  obtain w1 where w1: "steps_of payload w w1" "getWebSocket_resume a (global w1) = Some (res, st)"
    "tasks w1 = tasks w" "promises st = promises (global w1)" "evolves (w1\<lparr>global := st\<rparr>) rd"
    "\<And>ws. res = Inr ws \<Longrightarrow> fulfilled st ws"
    using awaited_run [OF assms(4-7), of payload] by blast
  obtain w2 where w2: "steps_of payload w1 w2" "global w2 = global w1" "tasks w2 = tasks w"
    "\<And>ws'. res = Inr ws' \<Longrightarrow> socket w2 ws' = rd ws'"
  proof (cases res)
    case (Inl e)
    with that [of w1] w1 show thesis by simp
  next
    case (Inr ws')
    have f: "fulfilled st = fulfilled (global w1)"
      using w1(4) by (simp add: fulfilled_def fun_eq_iff)
    have "fulfilled (global w1) ws'" "evolves w1 rd"
      using w1(5,6) Inr by (simp_all add: f evolves_def cong: if_cong)
    from evolve_socket [OF this, of rd payload] show thesis
      using that Inr w1(3) by (metis later_refl sum.inject(2))
  qed
  have "world_step payload w2 (set_task i Done (upload_retry i (socket w2) ws res data st) w2)"
    using assms(1-3) w1(2) w2 by (intro world_step.upload upload_step.retry) simp_all
  moreover have "upload_retry i (socket w2) ws res data st = upload_retry i rd ws res data st"
    using w2(4) by (rule upload_retry_local)
  ultimately have "steps_of payload w (set_task i Done (upload_retry i rd ws res data st) w2)"
    using w1(1) w2(1) by (metis rtranclp.rtrancl_into_rtrancl rtranclp_trans)
  from that [OF this] w2 show thesis by (simp add: set_task_def)
qed

text \<open>The first stretch: up to the socket, or the exception of \<open>getWebSocket\<close>.\<close>

lemma start_run:
  assumes "i < length (tasks w)" "tasks w ! i = Idle" "conn_ok (global w)" "evolves w rd"
    and "getWebSocket rds (global w) = Some (res, st)"
  obtains w' where "steps_of payload w w'" "global w' = st"
    "tasks w' = (tasks w)[i := (case res of Inr ws \<Rightarrow> Holding ws | Inl e \<Rightarrow> Thrown e)]"
    "conn_ok st" "evolves w' rd" "\<And>ws. res = Inr ws \<Longrightarrow> fulfilled st ws"
proof (cases "getWebSocket_call (global w)")
  case (Inl e)
  then have "world_step payload w (set_task i (Thrown e) (global w) w)"
    using assms(1,2) by (intro world_step.upload upload_step.call_throws)
  from that [OF step_run [OF this]] Inl assms show thesis
    by (auto simp: getWebSocket_def set_task_def evolves_def cong: if_cong)
next
  case (Inr ag)
  obtain a g where ag: "ag = (a, g)" by force
  note call = Inr [unfolded ag] getWebSocket_call_ok [OF assms(3) Inr [unfolded ag]]
  let ?w = "set_task i (Awaiting a) g w"
  have "fulfilled g ws \<longleftrightarrow> fulfilled (global w) ws" for ws
    using call(1) by (auto simp: getWebSocket_call_def fulfilled_def Let_def nth_append
        split: ConnState.splits if_splits)
  then have ev: "evolves ?w rd"
    using assms(4) by (simp add: evolves_def set_task_def cong: if_cong)
  have "world_step payload w ?w"
    using assms(1,2) call(1) by (intro world_step.upload upload_step.call)
  note first = step_run [OF this]
  have "getWebSocket_resume a (settle_awaited rds a (global ?w)) = Some (res, st)"
    using assms(5) call(1) by (simp add: getWebSocket_def set_task_def)
  from awaited_run [OF _ _ ev this, of payload] call(2)
  obtain w' where w': "steps_of payload ?w w'" "getWebSocket_resume a (global w') = Some (res, st)"
    "tasks w' = tasks ?w" "conn_ok st" "evolves (w'\<lparr>global := st\<rparr>) rd"
    "\<And>ws. res = Inr ws \<Longrightarrow> fulfilled st ws"
    by (auto simp: set_task_def)
  let ?t = "case res of Inr ws \<Rightarrow> Holding ws | Inl e \<Rightarrow> Thrown e"
  have "world_step payload w' (set_task i ?t st w')"
    using assms(1) w'(2,3) by (intro world_step.upload upload_step.resume) (simp_all add: set_task_def)
  with first w'(1) have "steps_of payload w (set_task i ?t st w')"
    by (metis rtranclp.rtrancl_into_rtrancl rtranclp_trans)
  from that [OF this] w' show thesis
    by (simp add: set_task_def evolves_def cong: if_cong)
qed

text \<open>The second: sending over the socket in hand, or reconnecting.\<close>

lemma send_run:
  assumes "i < length (tasks w)" "tasks w ! i = Holding ws" "payload i = Inr data"
    and "conn_ok (global w)" "fulfilled (global w) ws" "evolves w rd" "\<And>ws. later (rd ws) (rd' ws)"
    and "upload_try i rd ws data (global w) = (a, g)"
    and "case a of None \<Rightarrow> st = g
      | Some a' \<Rightarrow> \<exists>res st1. getWebSocket_resume a' (settle_awaited rds a' g) = Some (res, st1) \<and>
          st = upload_retry i rd' ws res data st1"
  obtains w' where "steps_of payload w w'" "global w' = st" "tasks w' = (tasks w)[i := Done]"
proof -
  obtain w1 where w1: "steps_of payload w w1" "global w1 = global w" "tasks w1 = tasks w"
    "socket w1 ws = rd ws" "evolves w1 rd'"
    using evolve_socket [OF assms(5-7), of payload] by blast
  have att: "upload_try i (socket w1) ws data (global w1) = (a, g)"
    using assms(8) upload_try_local [of "socket w1" ws rd i data] w1(2,4) by simp
  let ?t = "case a of None \<Rightarrow> Done | Some a' \<Rightarrow> Reconnecting ws a'"
  let ?w = "set_task i ?t g w1"
  have "world_step payload w1 ?w"
    using assms(1-3) w1(3) att by (intro world_step.upload upload_step.attempt) simp_all
  with w1(1) have run: "steps_of payload w ?w"
    by (rule rtranclp.rtrancl_into_rtrancl)
  show thesis
  proof (cases a)
    case None
    with that [OF run] assms(9) w1(3) show thesis by (simp add: set_task_def)
  next
    case (Some a')
    then obtain res st1 where r: "getWebSocket_resume a' (settle_awaited rds a' g) = Some (res, st1)"
      and st: "st = upload_retry i rd' ws res data st1" using assms(9) by auto
    have "conn_ok g" "awaiting_ok g a'"
      using upload_try_ok [OF assms(4,8)] Some by simp_all
    moreover have "evolves ?w rd'"
      using w1(2,5) upload_try_fulfilled [OF assms(8)] by (simp add: evolves_def set_task_def cong: if_cong)
    ultimately obtain w' where "steps_of payload ?w w'" "global w' = st" "tasks w' = (tasks ?w)[i := Done]"
      using retry_run [of i ?w ws a' payload data rd' rds res st1] assms(1,3) w1(3) Some r st
      by (auto simp: set_task_def)
    with that run w1(3) show thesis by (simp add: set_task_def) (metis rtranclp_trans)
  qed
qed

text \<open>The rest of a call that holds a socket.\<close>

definition task_end :: "unit result \<Rightarrow> task" where
  "task_end r = (case r of Inr _ \<Rightarrow> Done | Inl e \<Rightarrow> Thrown e)"

lemma held_run:
  assumes "i < length (tasks w)" "tasks w ! i = Holding ws" "payload i = upload_data W X env har"
    and "conn_ok (global w)" "fulfilled (global w) ws"
    and "evolves w (ready E)" "\<And>ws. later (ready E ws) (ready' E ws)"
    and "getWebSocket (rounds E) g0 = Some (Inr ws, global w)"
    and "createHarEntry X req resp timestamp duration h = Some har"
    and "upload W X env E i req resp timestamp duration h g0 = Some (r, st)"
  obtains w' where "steps_of payload w w'" "global w' = st" "tasks w' = (tasks w)[i := task_end r]"
proof (cases "upload_data W X env har")
  case (Inl e)
  have "world_step payload w (set_task i (Thrown e) (global w) w)"
    using assms(1-3) Inl by (intro world_step.upload upload_step.encode_throws) simp_all
  from that [OF step_run [OF this]] assms(8-10) Inl show thesis
    by (auto simp: upload_def set_task_def task_end_def)
next
  case (Inr data)
  obtain a g1 where t: "upload_try i (ready E) ws data (global w) = (a, g1)" by force
  have st: "r = Inr () \<and> (case a of None \<Rightarrow> st = g1
      | Some a' \<Rightarrow> \<exists>res st1. getWebSocket_resume a' (settle_awaited (rounds E) a' g1) = Some (res, st1) \<and>
          st = upload_retry i (ready' E) ws res data st1)"
    using assms(8-10) Inr t by (auto simp: upload_def split: option.splits)
  have pay: "payload i = Inr data" using assms(3) Inr by simp
  obtain w' where "steps_of payload w w'" "global w' = st" "tasks w' = (tasks w)[i := Done]"
    by (rule send_run [where rds = "rounds E" and rd = "ready E" and rd' = "ready' E" and w = w and st = st
        and i = i and ws = ws and payload = payload and data = data and a = a and g = g1,
        OF assms(1,2) pay assms(4-7) t conjunct2 [OF st]])
  with that conjunct1 [OF st] show thesis by (simp add: task_end_def)
qed

section \<open>Properties\<close>

text \<open>C8: whenever \<open>upload\<close>, run alone, returns or throws, there is a run of the interleaved
  steps in which call \<open>i\<close> does the same: from any state the connection can be in, it ends
  with the same connection, promises and messages sent, and leaves the other calls where
  they were.\<close>

theorem upload_is_a_run:
  assumes "upload W X env E i req resp timestamp duration h (global w) = Some (r, st)"
    and "i < length (tasks w)" "tasks w ! i = Idle" "conn_ok (global w)"
    and "\<And>harEntry. createHarEntry X req resp timestamp duration h = Some harEntry \<Longrightarrow>
      payload i = upload_data W X env harEntry"
    and "evolves w (ready E)" "\<And>ws. later (ready E ws) (ready' E ws)"
  shows "\<exists>w'. (world_step payload)\<^sup>*\<^sup>* w w' \<and> global w' = st \<and> tasks w' = (tasks w)[i := task_end r]"
proof -
  obtain res st0 where g: "getWebSocket (rounds E) (global w) = Some (res, st0)"
    using assms(1) by (auto simp: upload_def split: option.splits)
  obtain w0 where w0: "steps_of payload w w0" "global w0 = st0"
    "tasks w0 = (tasks w)[i := (case res of Inr ws \<Rightarrow> Holding ws | Inl e \<Rightarrow> Thrown e)]"
    "conn_ok st0" "evolves w0 (ready E)" "\<And>ws. res = Inr ws \<Longrightarrow> fulfilled st0 ws"
    using start_run [OF assms(2-4,6) g] by blast
  show ?thesis
  proof (cases res)
    case (Inl e)
    with w0 assms(1) g show ?thesis by (auto simp: upload_def task_end_def)
  next
    case (Inr ws)
    obtain har where har: "createHarEntry X req resp timestamp duration h = Some har"
      using assms(1) g Inr by (auto simp: upload_def split: option.splits)
    have here: "i < length (tasks w0)" "tasks w0 ! i = Holding ws" "conn_ok (global w0)"
      "fulfilled (global w0) ws" "getWebSocket (rounds E) (global w) = Some (Inr ws, global w0)"
      using w0(2-4,6) assms(2) Inr g by simp_all
    obtain w' where "steps_of payload w0 w'" "global w' = st" "tasks w' = (tasks w0)[i := task_end r]"
      by (rule held_run [where i = i and w = w0 and ws = ws and payload = payload and W = W and X = X and
          env = env and har = har and E = E, OF here(1,2) assms(5) [OF har] here(3,4) w0(5) assms(7) here(5) har assms(1)])
    with w0(1,3) show ?thesis by (auto intro: rtranclp_trans)
  qed
qed

theorem upload_is_a_run_witness:
  "\<exists>data w'. (world_step (\<lambda>_. upload_data format_writer sample_web (\<lambda>_. None) sample_har))\<^sup>*\<^sup>* (open_world [Idle]) w' \<and>
     sent (global w') = [(0, 0, data)] \<and> tasks w' = [Done]"
proof -
  let ?st = "global (open_world [Idle])"
  obtain data where up: "upload format_writer sample_web (\<lambda>_. None) sample_env 0 sample_req sample_resp ''now''
      (of_n 5) sample_heap ?st = Some (Inr (), ?st\<lparr>sent := sent ?st @ [(0, 0, data)]\<rparr>)"
    using upload_sends [OF wire_format _ _ sample_har sample_har_size, of ?st 0 sample_env 0]
    by (auto simp: open_world_def sample_env_def)
  let ?payload = "\<lambda>_ :: nat. upload_data format_writer sample_web (\<lambda>_. None) sample_har"
  have "\<exists>w'. (world_step ?payload)\<^sup>*\<^sup>* (open_world [Idle]) w' \<and>
      global w' = ?st\<lparr>sent := sent ?st @ [(0, 0, data)]\<rparr> \<and>
      tasks w' = (tasks (open_world [Idle]))[0 := task_end (Inr ())]"
  proof (rule upload_is_a_run [OF up])
    show "conn_ok ?st" by (simp add: open_world_def conn_ok_def fulfilled_def)
    show "evolves (open_world [Idle]) (ready sample_env)"
      by (auto simp: evolves_def open_world_def fulfilled_def sample_env_def)
    show "later (ready sample_env ws) (ready' sample_env ws)" for ws
      by (simp add: sample_env_def)
    show "?payload 0 = upload_data format_writer sample_web (\<lambda>_. None) har"
      if "createHarEntry sample_web sample_req sample_resp ''now'' (of_n 5) sample_heap = Some har" for har
      using that by (simp add: sample_har)
  qed (simp_all add: open_world_def)
  then obtain w' where run: "(world_step ?payload)\<^sup>*\<^sup>* (open_world [Idle]) w'"
    and w': "global w' = ?st\<lparr>sent := sent ?st @ [(0, 0, data)]\<rparr>"
      "tasks w' = (tasks (open_world [Idle]))[0 := task_end (Inr ())]"
    by blast
  from w' have "sent (global w') = [(0, 0, data)]" "tasks w' = [Done]"
    by (simp_all add: open_world_def task_end_def)
  with run show ?thesis by blast
qed

end
