(* ===== verification/Capture.thy ===== *)
theory Capture
  imports WebApi
begin

text \<open>
  What both packages rely on when they copy the bodies of a request and its response around
  a \<open>fetch\<close>: which streams stay readable and what they hold. The contract of a pair of
  copying operations is the locale \<open>body_copy\<close>, extended to \<open>body_capture\<close>; the packages
  interpret them.
\<close>

section \<open>Readable streams\<close>

text \<open>An address whose stream is still readable, and what it holds.\<close>

definition readable :: "heap \<Rightarrow> nat \<Rightarrow> content \<Rightarrow> bool" where
  "readable h a c \<longleftrightarrow> a < length h \<and> \<not> locked (h ! a) \<and> contents (h ! a) = c"

text \<open>A body and its content in a heap.\<close>

definition holds :: "heap \<Rightarrow> nat option \<Rightarrow> content option \<Rightarrow> bool" where
  "holds h b c \<longleftrightarrow>
     (case (b, c) of (None, None) \<Rightarrow> True | (Some a, Some d) \<Rightarrow> readable h a d | _ \<Rightarrow> False)"

text \<open>Streams allocated later, and the locking of others, do not change a readable one.\<close>

definition grows :: "nat set \<Rightarrow> heap \<Rightarrow> heap \<Rightarrow> bool" where
  "grows A h h' \<longleftrightarrow> length h \<le> length h' \<and> (\<forall>a < length h. a \<notin> A \<longrightarrow> h' ! a = h ! a)"

lemma holds_simps [simp]:
  "holds h None c \<longleftrightarrow> c = None" "holds h b None \<longleftrightarrow> b = None"
  "holds h (Some a) (Some d) \<longleftrightarrow> readable h a d"
  by (auto simp: holds_def split: option.splits)

lemma readable_grows: "readable h a c \<Longrightarrow> grows A h h' \<Longrightarrow> a \<notin> A \<Longrightarrow> readable h' a c"
  by (auto simp: readable_def grows_def)

lemma holds_grows: "holds h b c \<Longrightarrow> grows A h h' \<Longrightarrow> (\<And>a. b = Some a \<Longrightarrow> a \<notin> A) \<Longrightarrow> holds h' b c"
  by (cases b; cases c) (auto intro: readable_grows)

lemma grows_refl [simp]: "grows A h h"
  by (simp add: grows_def)

lemma grows_trans: "grows A h h' \<Longrightarrow> grows B h' h'' \<Longrightarrow> grows (A \<union> B) h h''"
  by (auto simp: grows_def)

lemma grows_mono: "grows A h h' \<Longrightarrow> A \<subseteq> B \<Longrightarrow> grows B h h'"
  by (auto simp: grows_def)

definition same_request :: "request \<Rightarrow> request \<Rightarrow> bool" where
  "same_request r r' \<longleftrightarrow>
     rq_method r = rq_method r' \<and> rq_url r = rq_url r' \<and> rq_headers r = rq_headers r'"

definition same_response :: "response \<Rightarrow> response \<Rightarrow> bool" where
  "same_response r r' \<longleftrightarrow>
     rs_status r = rs_status r' \<and> rs_statusText r = rs_statusText r' \<and> rs_headers r = rs_headers r'"

lemma same_refl [simp]: "same_request r r" "same_response s s"
  by (simp_all add: same_request_def same_response_def)

text \<open>A response that may carry the body it has.\<close>

definition body_allowed :: "response \<Rightarrow> bool" where
  "body_allowed r \<longleftrightarrow>
     rs_body r = None \<or> 200 \<le> rs_status r \<and> rs_status r \<le> 599 \<and> rs_status r \<notin> {204, 205, 304}"

text \<open>Addresses not yet in use.\<close>

definition fresh :: "heap \<Rightarrow> nat option \<Rightarrow> bool" where
  "fresh h b \<longleftrightarrow> (case b of None \<Rightarrow> True | Some a \<Rightarrow> length h \<le> a)"

lemma fresh_simps [simp]: "fresh h None" "fresh h (Some a) \<longleftrightarrow> length h \<le> a"
  by (simp_all add: fresh_def)

lemma holds_grows_fresh:
  "holds h b c \<Longrightarrow> grows A h h' \<Longrightarrow> (\<And>a. a \<in> A \<Longrightarrow> length h \<le> a) \<Longrightarrow> holds h' b c"
  by (rule holds_grows, assumption+) (cases c; auto simp: readable_def dest!: leD)

text \<open>A request made from a URL and bytes can be made again.\<close>

definition init_method :: "request_init \<Rightarrow> string result" where
  "init_method init = (case in_method init of None \<Rightarrow> Inr ''GET'' | Some m \<Rightarrow> normal_method m)"

definition init_headers :: "request_init \<Rightarrow> headers" where
  "init_headers init =
     body_type_header (in_body init) (case in_headers init of None \<Rightarrow> [] | Some x \<Rightarrow> x)"

lemma new_Request_bytes:
  "parse u = Some url \<Longrightarrow> in_body init = Some (BodyBytes bs t) \<Longrightarrow> init_method init = Inr m \<Longrightarrow>
   m \<notin> {''GET'', ''HEAD''} \<Longrightarrow>
   new_Request parse (Url u) init h =
     Inr (\<lparr>rq_method = m, rq_url = url, rq_headers = init_headers init,
        rq_body = Some (length h)\<rparr>, h @ [\<lparr>contents = ([Chunk bs], Ended), locked = False\<rparr>])"
  by (simp add: new_Request_def Let_def init_method_def init_headers_def alloc_def)

lemma fetch_request_bytes:
  assumes "parse u = Some url" and "in_body init = Some (BodyBytes bs t)"
    and "init_method init = Inr m" "m \<notin> {''GET'', ''HEAD''}"
  shows "\<exists>h'. fetch_request parse net (Url u) init h =
    map_option (\<lambda>res. bindE res (\<lambda>rp. Inr (new_reply rp h')))
      (net m url (init_headers init) (Some ([Chunk bs], Ended)))"
  by (simp add: fetch_request_def new_Request_bytes [of parse u url, OF assms] send_body_def take_reader_def)
    blast

text \<open>The stream that is the body of a call, if it is one: it can be used only once.\<close>

definition body_stream :: "fetch_input \<Rightarrow> request_init \<Rightarrow> nat option" where
  "body_stream input init =
     (case in_body init of
        Some (BodyStream a) \<Rightarrow> Some a
      | Some (BodyBytes bs t) \<Rightarrow> None
      | None \<Rightarrow> (case input of Req r \<Rightarrow> rq_body r | Url u \<Rightarrow> None))"

lemma body_stream_Url: "(\<And>s. in_body init \<noteq> Some (BodyStream s)) \<Longrightarrow> body_stream (Url u) init = None"
  by (auto simp: body_stream_def split: option.split body_init.split)

text \<open>A request whose body is not a stream can be made again, with the same bytes.\<close>

lemma new_Request_no_stream:
  assumes "new_Request parse input init h = Inr (req, h1)" and "body_stream input init = None"
  shows "new_Request parse input init h' =
    (case in_body init of
       Some (BodyBytes bs t) \<Rightarrow>
         Inr (req\<lparr>rq_body := Some (length h')\<rparr>, h' @ [\<lparr>contents = ([Chunk bs], Ended), locked = False\<rparr>])
     | _ \<Rightarrow> Inr (req\<lparr>rq_body := None\<rparr>, h'))"
proof (cases "in_body init")
  case None
  with assms show ?thesis
    by (cases input) (auto simp: new_Request_def body_stream_def bindE_eq_Inr Let_def split: option.splits if_splits)
next
  case (Some b)
  with assms(2) obtain bs t where "b = BodyBytes bs t" by (cases b) (auto simp: body_stream_def)
  with Some have "new_Request parse input init h' =
      bindE (new_Request parse input init h) (\<lambda>(req, _).
        Inr (req\<lparr>rq_body := Some (length h')\<rparr>, h' @ [\<lparr>contents = ([Chunk bs], Ended), locked = False\<rparr>]))" for h h'
    by (simp add: new_Request_def alloc_def bindE_def Let_def split: sum.split prod.split)
  from this [of h' h] assms(1) Some \<open>b = BodyBytes bs t\<close> show ?thesis by simp
qed

lemma new_Request_again:
  assumes "new_Request parse input init h = Inr (req, h1)" and "body_stream input init = None"
  shows "\<exists>c. holds h1 (rq_body req) c \<and> fresh h (rq_body req) \<and> grows {} h h1 \<and>
    (\<forall>h'. \<exists>req' h2. new_Request parse input init h' = Inr (req', h2) \<and> same_request req' req \<and>
       holds h2 (rq_body req') c \<and> fresh h' (rq_body req') \<and> grows {} h' h2)"
proof (cases "\<exists>bs t. in_body init = Some (BodyBytes bs t)")
  case False
  then have again: "new_Request parse input init h' = Inr (req\<lparr>rq_body := None\<rparr>, h')" for h'
    using new_Request_no_stream [OF assms, of h'] by (auto split: option.splits body_init.splits)
  from again [of h] assms(1) have "rq_body req = None" "h1 = h" by (cases req; simp)+
  with again show ?thesis by (auto simp: same_request_def intro!: exI [of _ None])
next
  case True
  then obtain bs t where b: "in_body init = Some (BodyBytes bs t)" by blast
  have "readable (h' @ [\<lparr>contents = c, locked = False\<rparr>]) (length h') c \<and>
      grows {} h' (h' @ [\<lparr>contents = c, locked = False\<rparr>])" for h' c
    by (simp add: readable_def grows_def nth_append)
  moreover have "rq_body req = Some (length h)"
    using new_Request_no_stream [OF assms, of h] assms(1) b by (cases req) auto
  ultimately show ?thesis
    using assms(1) new_Request_no_stream [OF assms] b
    by (intro exI [of _ "Some ([Chunk bs], Ended)"]) (auto simp: same_request_def)
qed

lemma fetch_request_again:
  assumes "new_Request parse input init h = Inr (req, h1)" "body_stream input init = None"
    and "holds h1 (rq_body req) c"
    and "net (rq_method req) (rq_url req) (rq_headers req) c = Some (Inr rp)"
  shows "\<exists>resp h2. fetch_request parse net input init h' = Some (Inr (resp, h2)) \<and>
    rs_status resp = rp_status rp \<and> rs_statusText resp = rp_statusText rp \<and>
    rs_url resp = rp_url rp \<and> rs_headers resp = rp_headers rp \<and>
    holds h2 (rs_body resp) (rp_body rp) \<and> fresh h' (rs_body resp) \<and> grows {} h' h2"
proof -
  obtain c' where c': "holds h1 (rq_body req) c'"
    and "\<forall>h'. \<exists>req' h2. new_Request parse input init h' = Inr (req', h2) \<and> same_request req' req \<and>
       holds h2 (rq_body req') c' \<and> fresh h' (rq_body req') \<and> grows {} h' h2"
    using new_Request_again [OF assms(1,2)] by blast
  then obtain req' h2 where r: "new_Request parse input init h' = Inr (req', h2)"
    "same_request req' req" "holds h2 (rq_body req') c'" "fresh h' (rq_body req')" "grows {} h' h2"
    by blast
  have c: "c' = c"
    using c' assms(3) by (cases c; cases c'; cases "rq_body req") (auto simp: readable_def)
  obtain h3 where s: "send_body (rq_body req') h2 = Inr (c, h3)" "grows (set_option (rq_body req')) h2 h3"
    using r(3) c
    by (cases "rq_body req'"; cases c)
      (auto simp: send_body_def take_reader_def readable_def grows_def)
  have "grows {} h' h3"
    using r(4,5) s(2) by (fastforce simp: grows_def fresh_def split: option.splits)
  moreover have "fetch_request parse net input init h' = Some (Inr (new_reply rp h3))"
    using r(1,2) s(1) assms(4) by (simp add: fetch_request_def same_request_def)
  ultimately show ?thesis
    by (cases "rp_body rp")
      (auto simp: new_reply_def alloc_def Let_def readable_def grows_def nth_append)
qed

section \<open>The contract\<close>

text \<open>A heap in which what was locked stays locked.\<close>

definition locks :: "heap \<Rightarrow> heap \<Rightarrow> bool" where
  "locks h h' \<longleftrightarrow> (\<forall>a < length h. a < length h' \<and> (locked (h ! a) \<longrightarrow> locked (h' ! a)))"

lemma locks_refl [simp]: "locks h h"
  by (simp add: locks_def)

text \<open>A body whose stream is locked.\<close>

definition taken :: "nat option \<Rightarrow> heap \<Rightarrow> bool" where
  "taken b h \<longleftrightarrow> (\<forall>a. b = Some a \<longrightarrow> a < length h \<and> locked (h ! a))"

lemma taken_None [simp]: "taken None h"
  by (simp add: taken_def)

lemma new_Request_stream:
  assumes "new_Request parse input init h = Inr (req, h1)" and "body_stream input init = Some a"
  shows "\<exists>c. holds h1 (rq_body req) (Some c) \<and>
    (rq_body req = Some a \<or> taken (Some a) h1 \<and> rq_body req \<noteq> Some a) \<and>
    (\<forall>h3. taken (Some a) h3 \<longrightarrow> new_Request parse input init h3 = Inl unusable)"
proof (cases "in_body init")
  case None
  with assms(2) obtain r where "input = Req r" "rq_body r = Some a"
    by (auto simp: body_stream_def split: fetch_input.splits)
  with assms(1) None show ?thesis
    by (auto simp: new_Request_def Let_def take_reader_def alloc_def taken_def readable_def nth_append
        bindE_eq_Inr split: if_splits)
next
  case (Some b)
  with assms(2) have "b = BodyStream a" by (auto simp: body_stream_def split: body_init.splits)
  with assms(1) Some show ?thesis
    by (auto simp: new_Request_def Let_def taken_def readable_def bindE_eq_Inr
        split: if_splits fetch_input.splits option.splits)
qed

text \<open>Two bodies that do not share a stream.\<close>

definition apart :: "nat option \<Rightarrow> nat option \<Rightarrow> bool" where
  "apart b b' \<longleftrightarrow> b = None \<or> b \<noteq> b'"

text \<open>
  Copying returns the copy, whose body is \<open>copy\<close> of the original content, and an equal
  request or response to go on with, whose body holds the original content; it locks
  nothing but the body it was given. \<open>allowed\<close> says which responses can be copied.
\<close>

locale body_copy =
  fixes cap_req :: "request \<Rightarrow> heap \<Rightarrow> ((request \<times> request) \<times> heap) result"
    and cap_resp :: "response \<Rightarrow> heap \<Rightarrow> ((response \<times> response) \<times> heap) result"
    and copy :: "content \<Rightarrow> content"
    and allowed :: "response \<Rightarrow> bool"
  assumes capture_request: "holds h (rq_body req) c \<Longrightarrow>
      \<exists>cr rq h'. cap_req req h = Inr ((cr, rq), h') \<and> grows (set_option (rq_body req)) h h' \<and>
        same_request cr req \<and> same_request rq req \<and> apart (rq_body cr) (rq_body rq) \<and>
        taken (rq_body req) h' \<and>
        holds h' (rq_body cr) (map_option copy c) \<and> holds h' (rq_body rq) c"
    and capture_response: "holds h (rs_body resp) c \<Longrightarrow> allowed resp \<Longrightarrow>
      \<exists>cs rs h'. cap_resp resp h = Inr ((cs, rs), h') \<and> grows (set_option (rs_body resp)) h h' \<and>
        same_response cs resp \<and> same_response rs resp \<and> apart (rs_body cs) (rs_body rs) \<and>
        holds h' (rs_body cs) (map_option copy c) \<and> holds h' (rs_body rs) c"
begin

text \<open>A call whose body is a stream: copying takes the body that \<open>fetch\<close> would need.\<close>

lemma stream_body_taken:
  assumes "new_Request parse input init h = Inr (req, h1)" and "body_stream input init = Some a"
  shows "\<exists>c cr rq h2. cap_req req h1 = Inr ((cr, rq), h2) \<and> same_request rq req \<and>
    holds h2 (rq_body cr) (Some (copy c)) \<and>
    (\<forall>h3. locks h2 h3 \<longrightarrow> fetch_request parse net input init h3 = Some (Inl unusable))"
proof -
  obtain c where c: "holds h1 (rq_body req) (Some c)"
    and a: "rq_body req = Some a \<or> taken (Some a) h1 \<and> rq_body req \<noteq> Some a"
    and fails: "\<And>h3. taken (Some a) h3 \<Longrightarrow> new_Request parse input init h3 = Inl unusable"
    using new_Request_stream [OF assms] by blast
  obtain cr rq h2 where req: "cap_req req h1 = Inr ((cr, rq), h2)" "same_request rq req"
      "holds h2 (rq_body cr) (Some (copy c))" "grows (set_option (rq_body req)) h1 h2" "taken (rq_body req) h2"
    using capture_request [OF c] by auto
  have "taken (Some a) h2"
    using a req(4,5) by (auto simp: taken_def grows_def)
  then have "fetch_request parse net input init h3 = Some (Inl unusable)" if "locks h2 h3" for h3
    using fails [of h3] that by (simp add: taken_def locks_def fetch_request_def)
  with req show ?thesis by blast
qed

end

text \<open>The copies of responses made with \<open>new Response\<close>: the URL is lost with a body.\<close>

locale body_capture = body_copy cap_req cap_resp copy body_allowed
  for cap_req :: "request \<Rightarrow> heap \<Rightarrow> ((request \<times> request) \<times> heap) result"
    and cap_resp :: "response \<Rightarrow> heap \<Rightarrow> ((response \<times> response) \<times> heap) result"
    and copy :: "content \<Rightarrow> content" +
  assumes response_url: "cap_resp resp h = Inr ((cs, rs), h') \<Longrightarrow>
      rs_url rs = (if rs_body resp = None then rs_url resp else [])"
begin

text \<open>A request whose body is not a stream, fetched from any heap, and the response copied.\<close>

lemma fetched_response:
  assumes "new_Request parse input init h = Inr (req, h1)"
    and "body_stream input init = None" and "holds h1 (rq_body req) c"
    and "net (rq_method req) (rq_url req) (rq_headers req) c = Some (Inr rp)"
    and "rp_body rp = None \<or> 200 \<le> rp_status rp \<and> rp_status rp \<le> 599 \<and> rp_status rp \<notin> {204, 205, 304}"
  shows "\<exists>resp h3 cs rs h4.
    fetch_request parse net input init h2 = Some (Inr (resp, h3)) \<and>
    cap_resp resp h3 = Inr ((cs, rs), h4) \<and>
    rs_status resp = rp_status rp \<and> rs_statusText resp = rp_statusText rp \<and>
    rs_url resp = rp_url rp \<and> rs_headers resp = rp_headers rp \<and>
    same_response cs resp \<and> same_response rs resp \<and> apart (rs_body cs) (rs_body rs) \<and>
    rs_url rs = (if rp_body rp = None then rp_url rp else []) \<and>
    holds h4 (rs_body cs) (map_option copy (rp_body rp)) \<and> holds h4 (rs_body rs) (rp_body rp) \<and>
    (\<forall>b d. holds h2 b d \<longrightarrow> holds h4 b d)"
proof -
  obtain resp h3 where resp:
      "fetch_request parse net input init h2 = Some (Inr (resp, h3))"
      "rs_status resp = rp_status rp" "rs_statusText resp = rp_statusText rp" "rs_url resp = rp_url rp"
      "rs_headers resp = rp_headers rp"
      "holds h3 (rs_body resp) (rp_body rp)" "fresh h2 (rs_body resp)" "grows {} h2 h3"
    using fetch_request_again [where net = net, OF assms(1-4), of h2] by blast
  have "body_allowed resp"
    using assms(5) resp(2,6) by (cases "rp_body rp"; cases "rs_body resp") (auto simp: body_allowed_def)
  then obtain cs rs h4 where resp': "cap_resp resp h3 = Inr ((cs, rs), h4)"
      "grows (set_option (rs_body resp)) h3 h4" "same_response cs resp" "same_response rs resp"
      "apart (rs_body cs) (rs_body rs)"
      "holds h4 (rs_body cs) (map_option copy (rp_body rp))" "holds h4 (rs_body rs) (rp_body rp)"
    using capture_response [OF resp(6)] by blast
  have "rs_url rs = (if rp_body rp = None then rp_url rp else [])"
    using response_url [OF resp'(1)] resp(4,6) by (cases "rp_body rp"; cases "rs_body resp") auto
  moreover have "holds h4 b d" if "holds h2 b d" for b d
  proof (rule holds_grows_fresh [OF that])
    show "grows (set_option (rs_body resp)) h2 h4"
      using grows_trans [OF resp(8) resp'(2)] by simp
    show "a \<in> set_option (rs_body resp) \<Longrightarrow> length h2 \<le> a" for a
      using resp(7) by (auto simp: fresh_def)
  qed
  ultimately show ?thesis
    using resp(1-5) resp'(1,3-7)
    by (intro exI [of _ resp] exI [of _ h3] exI [of _ cs] exI [of _ rs] exI [of _ h4]) simp
qed

text \<open>The same, after the request has been copied.\<close>

lemma captured_fetch:
  assumes "new_Request parse input init h = Inr (req, h1)"
    and "body_stream input init = None" and "holds h1 (rq_body req) c"
    and "net (rq_method req) (rq_url req) (rq_headers req) c = Some (Inr rp)"
    and "rp_body rp = None \<or> 200 \<le> rp_status rp \<and> rp_status rp \<le> 599 \<and> rp_status rp \<notin> {204, 205, 304}"
  shows "\<exists>cr rq h2 resp h3 cs rs h4.
    cap_req req h1 = Inr ((cr, rq), h2) \<and> fetch_request parse net input init h2 = Some (Inr (resp, h3)) \<and>
    cap_resp resp h3 = Inr ((cs, rs), h4) \<and>
    same_request cr req \<and> same_request rq req \<and>
    rs_status resp = rp_status rp \<and> rs_statusText resp = rp_statusText rp \<and>
    rs_url resp = rp_url rp \<and> rs_headers resp = rp_headers rp \<and>
    same_response cs resp \<and> same_response rs resp \<and>
    rs_url rs = (if rp_body rp = None then rp_url rp else []) \<and>
    holds h2 (rq_body cr) (map_option copy c) \<and> holds h4 (rq_body cr) (map_option copy c) \<and>
    holds h4 (rs_body cs) (map_option copy (rp_body rp)) \<and> holds h4 (rs_body rs) (rp_body rp)"
proof -
  obtain cr rq h2 where req: "cap_req req h1 = Inr ((cr, rq), h2)"
      "same_request cr req" "same_request rq req" "holds h2 (rq_body cr) (map_option copy c)"
    using capture_request [OF assms(3)] by blast
  with fetched_response [where net = net and ?h2.0 = h2, OF assms] show ?thesis by blast
qed

end

text \<open>A body that ends, and its bytes.\<close>

definition ended :: "content option \<Rightarrow> bool" where
  "ended c \<longleftrightarrow> (case c of None \<Rightarrow> True | Some d \<Rightarrow> snd d = Ended)"

definition bytes_of :: "content option \<Rightarrow> byte list" where
  "bytes_of c = (case c of None \<Rightarrow> [] | Some d \<Rightarrow> content_bytes d)"

section \<open>Examples\<close>

text \<open>A \<open>POST\<close> of three bytes and a network that answers with two.\<close>

definition sample_reply :: reply where
  "sample_reply = \<lparr>rp_status = 200, rp_statusText = ''OK'', rp_url = ''u'', rp_headers = [],
     rp_body = Some ([Chunk [1, 2]], Ended)\<rparr>"

definition sample_net :: network where
  "sample_net meth url hs body = Some (Inr sample_reply)"

definition post_init :: request_init where
  "post_init = \<lparr>in_method = Some ''POST'', in_headers = None, in_body = Some (BodyBytes [7, 8, 9] None)\<rparr>"

definition post_req :: request where
  "post_req = \<lparr>rq_method = ''POST'', rq_url = ''u'', rq_headers = [], rq_body = Some 0\<rparr>"

definition post_heap :: heap where
  "post_heap = [\<lparr>contents = ([Chunk [7, 8, 9]], Ended), locked = False\<rparr>]"

lemma sample_new_Request: "new_Request (parse_url sample_web) (Url ''u'') post_init [] = Inr (post_req, post_heap)"
  by (simp add: new_Request_def post_init_def post_req_def post_heap_def sample_web_def Let_def
      alloc_def body_type_header_def)

lemma sample_holds: "holds post_heap (rq_body post_req) (Some ([Chunk [7, 8, 9]], Ended))"
  by (simp add: post_heap_def post_req_def readable_def)

lemma post_req_again:
  "new_Request (parse_url sample_web) (Req post_req) no_init post_heap =
     Inr (post_req\<lparr>rq_body := Some 1\<rparr>,
       [\<lparr>contents = ([Chunk [7, 8, 9]], Ended), locked = True\<rparr>,
        \<lparr>contents = ([Chunk [7, 8, 9]], Ended), locked = False\<rparr>])"
  by (simp add: new_Request_def no_init_def post_req_def post_heap_def take_reader_def alloc_def
      body_type_header_def Let_def)

end
