(* ===== verification/NextFetch.thy ===== *)
theory NextFetch
  imports NextLimit NextUpload Capture
begin

text \<open>
  The \<open>fetch\<close> that \<open>patchFetch\<close> of \<open>subtrace-next/index.ts\<close> installs, and the handler that
  \<open>trace\<close> returns. Both copy the bodies through a limited stream, run the original, and
  wait for \<open>upload\<close> before they hand over the response.
\<close>

section \<open>Copying the bodies\<close>

definition next_capture_request ::
  "number \<Rightarrow> request \<Rightarrow> heap \<Rightarrow> ((request \<times> request) \<times> heap) result" where
  "next_capture_request maxBytes req h =
     (case rq_body req of
        Some body \<Rightarrow>
          bindE (tee body h) (\<lambda>((origBody, clonedBody), h).
          bindE (limit clonedBody maxBytes h) (\<lambda>(limited, h).
          Inr ((with_body req limited, with_body req origBody), h)))
      | None \<Rightarrow> Inr ((req, req), h))"

definition next_capture_response ::
  "number \<Rightarrow> response \<Rightarrow> heap \<Rightarrow> ((response \<times> response) \<times> heap) result" where
  "next_capture_response maxBytes resp h =
     (case rs_body resp of
        Some body \<Rightarrow>
          bindE (tee body h) (\<lambda>((origBody, clonedBody), h).
          bindE (limit clonedBody maxBytes h) (\<lambda>(limited, h).
          bindE (new_Response limited resp) (\<lambda>clonedResp.
          bindE (new_Response origBody resp) (\<lambda>resp.
          Inr ((clonedResp, resp), h)))))
      | None \<Rightarrow> Inr ((resp, resp), h))"

section \<open>The patched fetch and the traced handler\<close>

definition next_patched_fetch ::
  "'w writer_ops \<Rightarrow> web \<Rightarrow> (string \<Rightarrow> string option) \<Rightarrow> next_env \<Rightarrow> network \<Rightarrow> number \<Rightarrow> nat \<Rightarrow>
   string \<Rightarrow> number \<Rightarrow> fetch_input \<Rightarrow> request_init \<Rightarrow> heap \<Rightarrow> next_state \<Rightarrow>
   ((response \<times> heap) result \<times> next_state) option" where
  "next_patched_fetch W X env E net maxBytes i timestamp duration input init h st =
     (case bindE (new_Request (parse_url X) input init h)
             (\<lambda>(req, h). next_capture_request maxBytes req h) of
        Inl e \<Rightarrow> Some (Inl e, st)
      | Inr ((clonedReq, req), h) \<Rightarrow>
          (case fetch_request (parse_url X) net input init h of
             None \<Rightarrow> None
           | Some res \<Rightarrow>
               (case bindE res (\<lambda>(resp, h). next_capture_response maxBytes resp h) of
                  Inl e \<Rightarrow> Some (Inl e, st)
                | Inr ((clonedResp, resp), h) \<Rightarrow>
                    map_option (\<lambda>(r, st). (bindE r (\<lambda>_. Inr (resp, h)), st))
                      (upload W X env E i clonedReq clonedResp timestamp duration h st))))"

text \<open>A route handler: \<open>None\<close> when it does not return.\<close>

type_synonym handler = "request \<Rightarrow> heap \<Rightarrow> (response \<times> heap) result option"

definition trace ::
  "'w writer_ops \<Rightarrow> web \<Rightarrow> (string \<Rightarrow> string option) \<Rightarrow> next_env \<Rightarrow> number \<Rightarrow> nat \<Rightarrow>
   string \<Rightarrow> number \<Rightarrow> handler \<Rightarrow> request \<Rightarrow> heap \<Rightarrow> next_state \<Rightarrow>
   ((response \<times> heap) result \<times> next_state) option" where
  "trace W X env E maxBytes i timestamp duration handler req h st =
     (case next_capture_request maxBytes req h of
        Inl e \<Rightarrow> Some (Inl e, st)
      | Inr ((clonedReq, req), h) \<Rightarrow>
          (case handler req h of
             None \<Rightarrow> None
           | Some res \<Rightarrow>
               (case bindE res (\<lambda>(resp, h). next_capture_response maxBytes resp h) of
                  Inl e \<Rightarrow> Some (Inl e, st)
                | Inr ((clonedResp, resp), h) \<Rightarrow>
                    map_option (\<lambda>(r, st). (bindE r (\<lambda>_. Inr (resp, h)), st))
                      (upload W X env E i clonedReq clonedResp timestamp duration h st))))"

section \<open>What the copies hold\<close>

definition limited_content :: "number \<Rightarrow> content \<Rightarrow> content" where
  "limited_content maxBytes c =
     (case limit_pull maxBytes (fst c) (snd c) of (cs, e, unread) \<Rightarrow> (map Chunk cs, e))"

lemma tee_limit:
  assumes "readable h a c"
  shows "\<exists>h1 h2. tee a h = Inr ((length h, Suc (length h)), h1) \<and>
    limit (Suc (length h)) maxBytes h1 = Inr (Suc (Suc (length h)), h2) \<and>
    readable h2 (length h) c \<and> readable h2 (Suc (Suc (length h))) (limited_content maxBytes c) \<and>
    grows {a} h h2 \<and> taken (Some a) h2"
proof -
  have a: "a < length h" "\<not> locked (h ! a)" "contents (h ! a) = c"
    using assms by (simp_all add: readable_def)
  obtain cs e unread where p: "limit_pull maxBytes (fst c) (snd c) = (cs, e, unread)"
    by (metis prod_cases3)
  show ?thesis
    using a by (cases c) (auto simp: tee_def take_reader_def alloc_def limit_def limited_content_def
        readable_def grows_def taken_def nth_append nth_list_update p [simplified] split: prod.splits)
qed

lemma capture_request_spec:
  assumes "holds h (rq_body req) c"
  shows "\<exists>cr rq h'. next_capture_request maxBytes req h = Inr ((cr, rq), h') \<and>
    grows (set_option (rq_body req)) h h' \<and> same_request cr req \<and> same_request rq req \<and>
    apart (rq_body cr) (rq_body rq) \<and> taken (rq_body req) h' \<and>
    holds h' (rq_body cr) (map_option (limited_content maxBytes) c) \<and> holds h' (rq_body rq) c"
proof (cases "rq_body req")
  case None
  with assms show ?thesis by (simp add: next_capture_request_def apart_def)
next
  case (Some a)
  then obtain d where "c = Some d" "readable h a d" using assms by (cases c) auto
  with tee_limit [of h a d maxBytes] Some show ?thesis
    by (auto simp: next_capture_request_def with_body_def same_request_def apart_def)
qed

lemma capture_response_spec:
  assumes "holds h (rs_body resp) c" and "body_allowed resp"
  shows "\<exists>cr rs h'. next_capture_response maxBytes resp h = Inr ((cr, rs), h') \<and>
    grows (set_option (rs_body resp)) h h' \<and> same_response cr resp \<and> same_response rs resp \<and>
    apart (rs_body cr) (rs_body rs) \<and> rs_url rs = (if c = None then rs_url resp else []) \<and>
    holds h' (rs_body cr) (map_option (limited_content maxBytes) c) \<and> holds h' (rs_body rs) c"
proof (cases "rs_body resp")
  case None
  with assms show ?thesis by (simp add: next_capture_response_def apart_def)
next
  case (Some a)
  then obtain d where "c = Some d" "readable h a d" using assms(1) by (cases c) auto
  with tee_limit [of h a d maxBytes] Some assms(2) show ?thesis
    by (auto simp: next_capture_response_def new_Response_def same_response_def body_allowed_def apart_def)
qed

lemma capture_response_url:
  "next_capture_response maxBytes resp h = Inr ((cs, rs), h') \<Longrightarrow>
   rs_url rs = (if rs_body resp = None then rs_url resp else [])"
  by (auto simp: next_capture_response_def new_Response_def bindE_def split: option.splits sum.splits if_splits)

interpretation next_capture: body_capture "next_capture_request maxBytes" "next_capture_response maxBytes"
    "limited_content maxBytes" for maxBytes
proof unfold_locales
  fix h resp c assume "holds h (rs_body resp) c" "body_allowed resp"
  then show "\<exists>cs rs h'. next_capture_response maxBytes resp h = Inr ((cs, rs), h') \<and>
      grows (set_option (rs_body resp)) h h' \<and> same_response cs resp \<and> same_response rs resp \<and>
      apart (rs_body cs) (rs_body rs) \<and>
      holds h' (rs_body cs) (map_option (limited_content maxBytes) c) \<and> holds h' (rs_body rs) c"
    using capture_response_spec [of h resp c maxBytes] by blast
qed (simp_all add: capture_request_spec capture_response_url)

lemma patched_fetch_result:
  assumes "new_Request (parse_url X) input init h = Inr (req, h1)"
    and "body_stream input init = None" and "holds h1 (rq_body req) c"
    and "net (rq_method req) (rq_url req) (rq_headers req) c = Some (Inr rp)"
    and "rp_body rp = None \<or> 200 \<le> rp_status rp \<and> rp_status rp \<le> 599 \<and> rp_status rp \<notin> {204, 205, 304}"
  shows "\<exists>clonedReq clonedResp resp h'.
    next_patched_fetch W X env E net maxBytes i timestamp duration input init h st =
      map_option (\<lambda>(r, st). (bindE r (\<lambda>_. Inr (resp, h')), st))
        (upload W X env E i clonedReq clonedResp timestamp duration h' st) \<and>
    rs_status resp = rp_status rp \<and> rs_statusText resp = rp_statusText rp \<and>
    rs_headers resp = rp_headers rp \<and> rs_url resp = (if rp_body rp = None then rp_url rp else []) \<and>
    holds h' (rs_body resp) (rp_body rp) \<and>
    same_request clonedReq req \<and> rs_status clonedResp = rp_status rp \<and>
    rs_statusText clonedResp = rp_statusText rp \<and>
    rs_headers clonedResp = rp_headers rp \<and>
    holds h' (rq_body clonedReq) (map_option (limited_content maxBytes) c) \<and>
    holds h' (rs_body clonedResp) (map_option (limited_content maxBytes) (rp_body rp))"
proof -
  obtain cr rq h2 resp h3 cs rs h4 where
    "next_capture_request maxBytes req h1 = Inr ((cr, rq), h2)"
    "fetch_request (parse_url X) net input init h2 = Some (Inr (resp, h3))"
    "next_capture_response maxBytes resp h3 = Inr ((cs, rs), h4)"
    "same_request cr req" "rs_status resp = rp_status rp" "rs_statusText resp = rp_statusText rp"
    "rs_url resp = rp_url rp" "rs_headers resp = rp_headers rp"
    "same_response cs resp" "same_response rs resp"
    "rs_url rs = (if rp_body rp = None then rp_url rp else [])"
    "holds h4 (rq_body cr) (map_option (limited_content maxBytes) c)"
    "holds h4 (rs_body cs) (map_option (limited_content maxBytes) (rp_body rp))"
    "holds h4 (rs_body rs) (rp_body rp)"
    using next_capture.captured_fetch [where net = net and maxBytes = maxBytes, OF assms] by blast
  then show ?thesis
    using assms(1)
    by (intro exI [of _ cr] exI [of _ cs] exI [of _ rs] exI [of _ h4])
      (simp add: next_patched_fetch_def same_response_def)
qed

section \<open>Properties\<close>

text \<open>C7: for a URL and a body given as bytes, the patched \<open>fetch\<close> asks the network once
  for the same request and, when \<open>upload\<close> returns, answers with its status, status text,
  headers and body; what it uploads are the request and the response with bodies cut to
  the payload limit. Only the response's URL is lost, when there is a body.\<close>

theorem patched_fetch_is_transparent:
  assumes "new_Request (parse_url X) (Url u) init h = Inr (req, h1)"
    and "\<And>s. in_body init \<noteq> Some (BodyStream s)" and "holds h1 (rq_body req) c"
    and "net (rq_method req) (rq_url req) (rq_headers req) c = Some (Inr rp)"
    and "rp_body rp = None \<or> 200 \<le> rp_status rp \<and> rp_status rp \<le> 599 \<and> rp_status rp \<notin> {204, 205, 304}"
  shows "\<exists>clonedReq clonedResp resp h'.
    next_patched_fetch W X env E net maxBytes i timestamp duration (Url u) init h st =
      map_option (\<lambda>(r, st). (bindE r (\<lambda>_. Inr (resp, h')), st))
        (upload W X env E i clonedReq clonedResp timestamp duration h' st) \<and>
    rs_status resp = rp_status rp \<and> rs_statusText resp = rp_statusText rp \<and>
    rs_headers resp = rp_headers rp \<and> rs_url resp = (if rp_body rp = None then rp_url rp else []) \<and>
    holds h' (rs_body resp) (rp_body rp) \<and>
    same_request clonedReq req \<and> rs_status clonedResp = rp_status rp \<and>
    rs_statusText clonedResp = rp_statusText rp \<and>
    rs_headers clonedResp = rp_headers rp \<and>
    holds h' (rq_body clonedReq) (map_option (limited_content maxBytes) c) \<and>
    holds h' (rs_body clonedResp) (map_option (limited_content maxBytes) (rp_body rp))"
  by (rule patched_fetch_result [where net = net, OF assms(1) body_stream_Url [OF assms(2)] assms(3-5)])

theorem patched_fetch_is_transparent_witness:
  "\<exists>clonedReq clonedResp resp h'.
    next_patched_fetch format_writer sample_web (\<lambda>_. None) sample_env sample_net (of_n 2) 0 ''now'' (of_n 5)
        (Url ''u'') post_init [] start_state =
      map_option (\<lambda>(r, st). (bindE r (\<lambda>_. Inr (resp, h')), st))
        (upload format_writer sample_web (\<lambda>_. None) sample_env 0 clonedReq clonedResp ''now'' (of_n 5)
          h' start_state) \<and>
    rs_status resp = rp_status sample_reply \<and> rs_statusText resp = rp_statusText sample_reply \<and>
    rs_headers resp = rp_headers sample_reply \<and>
    rs_url resp = (if rp_body sample_reply = None then rp_url sample_reply else []) \<and>
    holds h' (rs_body resp) (rp_body sample_reply) \<and>
    same_request clonedReq post_req \<and> rs_status clonedResp = rp_status sample_reply \<and>
    rs_statusText clonedResp = rp_statusText sample_reply \<and>
    rs_headers clonedResp = rp_headers sample_reply \<and>
    holds h' (rq_body clonedReq) (map_option (limited_content (of_n 2)) (Some ([Chunk [7, 8, 9]], Ended))) \<and>
    holds h' (rs_body clonedResp) (map_option (limited_content (of_n 2)) (rp_body sample_reply))"
  by (rule patched_fetch_is_transparent [OF sample_new_Request _ sample_holds])
    (simp_all add: sample_net_def sample_reply_def post_init_def)

text \<open>C31: calling the patched \<open>fetch\<close> with a body that is a stream, that of a \<open>Request\<close>
  object or one given in \<open>init\<close>, always fails with a \<open>TypeError\<close>, and the network is never
  asked: copying the request takes its body away before the original \<open>fetch\<close> is given the
  same arguments.\<close>

theorem patched_fetch_rejects_requests_with_body:
  assumes "new_Request (parse_url X) input init h = Inr (req, h1)" and "body_stream input init = Some a"
  shows "next_patched_fetch W X env E net maxBytes i timestamp duration input init h st =
    Some (Inl unusable, st)"
proof -
  from next_capture.stream_body_taken [where net = net and maxBytes = maxBytes, OF assms]
  show ?thesis using assms(1) by (auto simp: next_patched_fetch_def)
qed

theorem patched_fetch_rejects_requests_with_body_witness:
  "next_patched_fetch format_writer sample_web (\<lambda>_. None) sample_env sample_net (of_n 2) 0 ''now'' (of_n 5)
     (Req post_req) no_init post_heap start_state = Some (Inl unusable, start_state)"
  by (rule patched_fetch_rejects_requests_with_body [OF post_req_again]) (simp add: body_stream_def no_init_def post_req_def)

text \<open>With a rejected connection the patched \<open>fetch\<close> fails with the connection's
  exception although the network has answered the request.\<close>

theorem patched_fetch_fails_without_connection:
  assumes "new_Request (parse_url X) (Url u) init h = Inr (req, h1)"
    and "\<And>s. in_body init \<noteq> Some (BodyStream s)" and "holds h1 (rq_body req) c"
    and "net (rq_method req) (rq_url req) (rq_headers req) c = Some (Inr rp)"
    and "rp_body rp = None \<or> 200 \<le> rp_status rp \<and> rp_status rp \<le> 599 \<and> rp_status rp \<notin> {204, 205, 304}"
    and "conn st = Creating p" "p < length (promises st)" "promises st ! p = Rejected e"
  shows "next_patched_fetch W X env E net maxBytes i timestamp duration (Url u) init h st = Some (Inl e, st)"
proof -
  obtain cr cs resp h' where
    "next_patched_fetch W X env E net maxBytes i timestamp duration (Url u) init h st =
      map_option (\<lambda>(r, st). (bindE r (\<lambda>_. Inr (resp, h')), st))
        (upload W X env E i cr cs timestamp duration h' st)"
    using patched_fetch_result [where net = net and maxBytes = maxBytes and st = st,
      OF assms(1) body_stream_Url [OF assms(2)] assms(3-5)]
    by blast
  then show ?thesis by (simp add: upload_rejected [OF assms(6-8)])
qed

definition rejected_state :: next_state where
  "rejected_state = \<lparr>conn = Creating 0, promises = [Rejected (SyntaxError [])], sent = [], closed = []\<rparr>"

theorem patched_fetch_fails_without_connection_witness:
  "next_patched_fetch format_writer sample_web (\<lambda>_. None) sample_env sample_net (of_n 2) 0 ''now'' (of_n 5)
     (Url ''u'') post_init [] rejected_state = Some (Inl (SyntaxError []), rejected_state)"
  by (rule patched_fetch_fails_without_connection
      [OF sample_new_Request _ sample_holds, of _ sample_reply _ 0])
    (simp_all add: sample_net_def sample_reply_def post_init_def rejected_state_def)

lemma limited_content_ending:
  assumes "whole maxBytes" and "allowance maxBytes = None \<or>
    (\<exists>n. allowance maxBytes = Some n \<and> length (content_bytes c) < n)"
  shows "snd (limited_content maxBytes c) = snd c"
proof -
  obtain cs e unread where p: "limit_pull maxBytes (fst c) (snd c) = (cs, e, unread)"
    by (metis prod_cases3)
  then show ?thesis
    using limit_pull_spec [OF assms(1) p] assms(2)
    by (auto simp: limited_content_def content_bytes_def)
qed

lemma limited_content_Ended: "snd (limited_content maxBytes (rs, Ended)) = Ended"
proof -
  have "limit_pull x rs Ended = (cs, e, unread) \<Longrightarrow> e = Ended" for x cs e unread
    by (induction x rs Ended arbitrary: cs e unread rule: limit_pull.induct)
      (auto simp: Let_def split: if_splits read.splits prod.splits)
  then show ?thesis
    by (cases "limit_pull maxBytes rs Ended") (auto simp: limited_content_def)
qed

lemma body_text_holds:
  "holds h b c \<Longrightarrow> body_text X b h =
     (case c of None \<Rightarrow> Some (Inr (text_decode X []))
      | Some d \<Rightarrow> map_option (map_sum id (text_decode X)) (read_all d))"
  by (cases b; cases c) (simp_all add: body_text_def body_read_def readable_def)

text \<open>C30: a response whose body neither ends nor reaches the payload limit keeps the patched
  \<open>fetch\<close> from ever returning, because it waits for the upload of a complete HAR entry:
  a caller does not see the head of a slow stream.\<close>

theorem patched_fetch_withholds_slow_responses:
  assumes "new_Request (parse_url X) (Url u) init h = Inr (req, h1)"
    and "\<And>s. in_body init \<noteq> Some (BodyStream s)" and "holds h1 (rq_body req) c"
    and "net (rq_method req) (rq_url req) (rq_headers req) c = Some (Inr rp)"
    and "200 \<le> rp_status rp \<and> rp_status rp \<le> 599 \<and> rp_status rp \<notin> {204, 205, 304}"
    and "c = None \<or> (\<exists>rs. c = Some (rs, Ended))"
    and "rp_body rp = Some (chunks, Stalled)" "length (content_bytes (chunks, Stalled)) < n"
    and "conn st = Created ws"
  shows "next_patched_fetch W X env E net (of_n n) i timestamp duration (Url u) init h st = None"
proof -
  obtain cr cs resp h' where fetch:
      "next_patched_fetch W X env E net (of_n n) i timestamp duration (Url u) init h st =
        map_option (\<lambda>(r, st). (bindE r (\<lambda>_. Inr (resp, h')), st))
          (upload W X env E i cr cs timestamp duration h' st)"
      "holds h' (rq_body cr) (map_option (limited_content (of_n n)) c)"
      "holds h' (rs_body cs) (map_option (limited_content (of_n n)) (rp_body rp))"
    using patched_fetch_result [where net = net and maxBytes = "of_n n" and st = st,
      OF assms(1) body_stream_Url [OF assms(2)] assms(3,4)]
      assms(5) by blast
  have "whole (of_n n)" "allowance (of_n n) = Some n"
    by (simp_all add: whole_def allowance_def of_n_def)
  then have "snd (limited_content (of_n n) (chunks, Stalled)) = Stalled"
    using limited_content_ending [of "of_n n" "(chunks, Stalled)"] assms(8) by simp
  then have "body_text X (rs_body cs) h' = None"
    using fetch(3) assms(7) by (simp add: body_text_holds read_all_def)
  moreover have "body_text X (rq_body cr) h' \<noteq> Some (Inl e)" for e
    using body_text_holds [OF fetch(2), of X] assms(6) limited_content_Ended [of "of_n n"]
    by (auto simp: read_all_def)
  ultimately have "createHarEntry X cr cs timestamp duration h' = None"
    by (simp add: createHarEntry_def har_bodies_None)
  then show ?thesis
    using assms(9) by (simp add: fetch(1) upload_def getWebSocket_def getWebSocket_call_def
        getWebSocket_resume_def settle_awaited_def)
qed

definition slow_reply :: reply where
  "slow_reply = sample_reply\<lparr>rp_body := Some ([Chunk [1, 2]], Stalled)\<rparr>"

theorem patched_fetch_withholds_slow_responses_witness:
  "next_patched_fetch format_writer sample_web (\<lambda>_. None) sample_env (\<lambda>_ _ _ _. Some (Inr slow_reply))
     (of_n 4096) 0 ''now'' (of_n 5) (Url ''u'') post_init []
     \<lparr>conn = Created 0, promises = [Fulfilled 0], sent = [], closed = []\<rparr> = None"
  by (rule patched_fetch_withholds_slow_responses
      [OF sample_new_Request _ sample_holds, of _ slow_reply "[Chunk [1, 2]]" _ _ 0])
    (simp_all add: slow_reply_def sample_reply_def post_init_def content_bytes_def)

text \<open>C19: a handler wrapped by \<open>trace\<close> sees the request it would see without it, body
  included, and its own failure is passed on; when it responds and \<open>upload\<close> returns, the
  caller gets its status, headers and body.\<close>

theorem trace_is_transparent:
  assumes "holds h (rq_body req) c"
    and "\<And>rq h resp h'. handler rq h = Some (Inr (resp, h')) \<Longrightarrow>
      body_allowed resp \<and> (\<exists>d. holds h' (rs_body resp) d)"
  shows "\<exists>rq h1. same_request rq req \<and> holds h1 (rq_body rq) c \<and>
    (case handler rq h1 of
       None \<Rightarrow> trace W X env E maxBytes i timestamp duration handler req h st = None
     | Some (Inl e) \<Rightarrow>
         trace W X env E maxBytes i timestamp duration handler req h st = Some (Inl e, st)
     | Some (Inr (resp, h2)) \<Rightarrow>
         (\<exists>clonedReq clonedResp resp' h3 d. same_response resp' resp \<and>
            holds h2 (rs_body resp) d \<and> holds h3 (rs_body resp') d \<and>
            trace W X env E maxBytes i timestamp duration handler req h st =
              map_option (\<lambda>(r, st). (bindE r (\<lambda>_. Inr (resp', h3)), st))
                (upload W X env E i clonedReq clonedResp timestamp duration h3 st)))"
proof -
  obtain cr rq h1 where req: "next_capture_request maxBytes req h = Inr ((cr, rq), h1)"
      "same_request rq req" "holds h1 (rq_body rq) c"
    using capture_request_spec [OF assms(1), of maxBytes] by blast
  show ?thesis
  proof (cases "handler rq h1")
    case None
    with req show ?thesis by (intro exI [of _ rq] exI [of _ h1]) (simp add: trace_def)
  next
    case (Some res)
    show ?thesis
    proof (cases res)
      case (Inl e)
      with req Some show ?thesis by (intro exI [of _ rq] exI [of _ h1]) (simp add: trace_def)
    next
      case (Inr p)
      obtain resp h2 where p: "p = (resp, h2)" by (cases p)
      with Some Inr assms(2) obtain d where "body_allowed resp" "holds h2 (rs_body resp) d" by blast
      with capture_response_spec [of h2 resp d maxBytes] obtain cs rs h3 where
        "next_capture_response maxBytes resp h2 = Inr ((cs, rs), h3)" "same_response rs resp"
        "holds h3 (rs_body rs) d" by blast
      with req Some Inr p \<open>holds h2 (rs_body resp) d\<close> show ?thesis
        by (intro exI [of _ rq] exI [of _ h1], simp add: trace_def)
          (intro exI [of _ cr] exI [of _ cs] exI [of _ rs] exI [of _ h3] conjI exI [of _ d], simp_all)
    qed
  qed
qed

definition sample_handler :: handler where
  "sample_handler rq h = Some (Inr (new_reply sample_reply h))"

lemma sample_handler_body:
  "sample_handler rq h = Some (Inr (resp, h')) \<Longrightarrow> body_allowed resp \<and> (\<exists>d. holds h' (rs_body resp) d)"
  by (auto simp: sample_handler_def new_reply_def sample_reply_def alloc_def Let_def body_allowed_def
      readable_def nth_append intro!: exI [of _ "Some ([Chunk [1, 2]], Ended)"])

theorem trace_is_transparent_witness:
  "\<exists>rq h1. same_request rq post_req \<and> holds h1 (rq_body rq) (Some ([Chunk [7, 8, 9]], Ended)) \<and>
    (case sample_handler rq h1 of
       None \<Rightarrow> trace format_writer sample_web (\<lambda>_. None) sample_env (of_n 2) 0 ''now'' (of_n 5)
         sample_handler post_req post_heap start_state = None
     | Some (Inl e) \<Rightarrow> trace format_writer sample_web (\<lambda>_. None) sample_env (of_n 2) 0 ''now'' (of_n 5)
         sample_handler post_req post_heap start_state = Some (Inl e, start_state)
     | Some (Inr (resp, h2)) \<Rightarrow>
         (\<exists>clonedReq clonedResp resp' h3 d. same_response resp' resp \<and>
            holds h2 (rs_body resp) d \<and> holds h3 (rs_body resp') d \<and>
            trace format_writer sample_web (\<lambda>_. None) sample_env (of_n 2) 0 ''now'' (of_n 5)
                sample_handler post_req post_heap start_state =
              map_option (\<lambda>(r, st). (bindE r (\<lambda>_. Inr (resp', h3)), st))
                (upload format_writer sample_web (\<lambda>_. None) sample_env 0 clonedReq clonedResp ''now''
                  (of_n 5) h3 start_state)))"
  by (rule trace_is_transparent [OF sample_holds sample_handler_body])

end
