(* ===== verification/NextInit.thy ===== *)
theory NextInit
  imports NextFetch
begin

text \<open>
  The configuration of \<open>subtrace-next/index.ts\<close>: its module variables, \<open>init\<close>, and
  \<open>patchFetch\<close> as the installation of the patched \<open>fetch\<close>.
\<close>

section \<open>What init uses of the language\<close>

text \<open>\<open>parseInt\<close> with one argument.\<close>

definition parse_digits :: "nat \<Rightarrow> string \<Rightarrow> number" where
  "parse_digits radix s =
     (let ds = takeWhile (\<lambda>c. digit_in radix c \<noteq> None) s
      in if ds = [] then NaN else mk_number (of_nat (radix_val radix ds)))"

fun negate :: "number \<Rightarrow> number" where
  "negate (Fin q) = Fin (- q)"
| "negate PInf = NInf"
| "negate NInf = PInf"
| "negate NaN = NaN"

definition parseInt :: "string \<Rightarrow> number" where
  "parseInt s0 =
     (let s = dropWhile is_ws s0;
          neg = (s \<noteq> [] \<and> hd s = CHR ''-'');
          s = (if s \<noteq> [] \<and> (hd s = CHR ''-'' \<or> hd s = CHR ''+'') then tl s else s);
          x = (if take 2 s = ''0x'' \<or> take 2 s = ''0X'' then parse_digits 16 (drop 2 s)
               else parse_digits 10 s)
      in if neg then negate x else x)"

text \<open>
  \<open>toLocaleLowerCase\<close> in a locale that lower-cases ASCII and Latin-1 letters as usual.
\<close>

definition lower_char :: "char \<Rightarrow> char" where
  "lower_char c =
     (let n = (of_char c :: nat)
      in if 65 \<le> n \<and> n \<le> 90 \<or> 192 \<le> n \<and> n \<le> 222 \<and> n \<noteq> 215 then char_of (n + 32) else c)"

definition startsWith :: "string \<Rightarrow> string \<Rightarrow> bool" where
  "startsWith s prefix \<longleftrightarrow> take (length prefix) s = prefix"

section \<open>The module variables\<close>

record next_module =
  SUBTRACE_ENDPOINT :: string
  SUBTRACE_TOKEN :: string
  SUBTRACE_DEBUG :: bool
  SUBTRACE_PAYLOAD_LIMIT :: number
  mutex :: nat
  fetch_patched :: bool
  connection :: next_state

definition fresh_module :: next_module where
  "fresh_module =
     \<lparr>SUBTRACE_ENDPOINT = [], SUBTRACE_TOKEN = [], SUBTRACE_DEBUG = False,
      SUBTRACE_PAYLOAD_LIMIT = Fin 0, mutex = 0, fetch_patched = False, connection = start_state\<rparr>"

section \<open>init\<close>

text \<open>\<open>value ?? d\<close>, and the two string defaults of the code.\<close>

definition env_or :: "(string \<Rightarrow> string option) \<Rightarrow> string \<Rightarrow> string \<Rightarrow> string" where
  "env_or env name d = (case env name of None \<Rightarrow> d | Some v \<Rightarrow> v)"

definition next_endpoint :: "(string \<Rightarrow> string option) \<Rightarrow> string" where
  "next_endpoint env =
     (let e = env_or env ''SUBTRACE_ENDPOINT'' ''https://subtrace.dev''
      in if \<not> startsWith e ''https://'' \<and> \<not> startsWith e ''http://'' then ''https://'' @ e else e)"

definition payload_limit :: "(string \<Rightarrow> string option) \<Rightarrow> number" where
  "payload_limit env =
     (case env ''SUBTRACE_PAYLOAD_LIMIT'' of
        None \<Rightarrow> Fin 4096
      | Some v \<Rightarrow> if v \<noteq> [] then parseInt v else Fin 4096)"

definition off_words :: "string list" where
  "off_words = [''0'', ''f'', ''false'', ''n'', ''no'']"

definition on_words :: "string list" where
  "on_words = [''1'', ''t'', ''true'', ''y'', ''yes'']"

definition debug_switch :: "(string \<Rightarrow> string option) \<Rightarrow> bool result" where
  "debug_switch env =
     (case env ''SUBTRACE_DEBUG'' of
        None \<Rightarrow> Inr False
      | Some v \<Rightarrow>
          if map lower_char v \<in> set off_words then Inr False
          else if map lower_char v \<in> set on_words then Inr True
          else Inl (Error (''Unexpected value for SUBTRACE_DEBUG: '' @ v)))"

lemma debug_words_disjoint: "w \<in> set on_words \<Longrightarrow> w \<notin> set off_words"
proof -
  have "list_all (\<lambda>w. w \<notin> set off_words) on_words"
    by (simp add: on_words_def off_words_def)
  then show "w \<in> set on_words \<Longrightarrow> w \<notin> set off_words"
    by (simp add: list_all_iff)
qed

text \<open>\<open>getWebSocket();\<close> without an \<open>await\<close>: the call begins and its promise is dropped.\<close>

definition begin_connection :: "next_state \<Rightarrow> next_state" where
  "begin_connection st = (case getWebSocket_call st of Inl e \<Rightarrow> st | Inr (a, st) \<Rightarrow> st)"

text \<open>\<open>has_fetch\<close>: \<open>globalThis.fetch\<close> exists.\<close>

definition next_patchFetch :: "bool \<Rightarrow> next_module \<Rightarrow> next_module" where
  "next_patchFetch has_fetch M = (if \<not> has_fetch then M else M\<lparr>fetch_patched := True\<rparr>)"

text \<open>
  \<open>phase\<close> is the constant \<open>PHASE_PRODUCTION_BUILD\<close> of Next.js. The result is the exception
  thrown, if any, and the variables as they are left.
\<close>

definition next_init ::
  "string \<Rightarrow> (string \<Rightarrow> string option) \<Rightarrow> bool \<Rightarrow> next_module \<Rightarrow> exn option \<times> next_module" where
  "next_init phase env has_fetch M =
     (if env ''NEXT_PHASE'' = Some phase then (None, M)
      else
        let M' = M\<lparr>mutex := mutex M + 1\<rparr> in
        if mutex M \<noteq> 0 then (None, M')
        else
          let M' = M'\<lparr>SUBTRACE_TOKEN := env_or env ''SUBTRACE_TOKEN'' []\<rparr> in
          if SUBTRACE_TOKEN M' = []
          then (Some (Error ''Missing SUBTRACE_TOKEN environment variable''), M')
          else
            let M' = M'\<lparr>SUBTRACE_ENDPOINT := next_endpoint env,
                  SUBTRACE_PAYLOAD_LIMIT := payload_limit env\<rparr> in
            (case debug_switch env of
               Inl e \<Rightarrow> (Some e, M')
             | Inr b \<Rightarrow>
                 (None, next_patchFetch has_fetch
                    (M'\<lparr>SUBTRACE_DEBUG := b, connection := begin_connection (connection M')\<rparr>))))"

section \<open>Properties\<close>

lemma startsWith_append [simp]: "startsWith (p @ s) p"
  by (simp add: startsWith_def)

lemma next_endpoint_scheme:
  "startsWith (next_endpoint env) ''https://'' \<or> startsWith (next_endpoint env) ''http://''"
proof -
  have "startsWith (''https://'' @ e) ''https://''" for e
    by (rule startsWith_append)
  then show ?thesis by (auto simp: next_endpoint_def Let_def)
qed

lemma whole_parse_digits: "whole (parse_digits radix s)"
  by (auto simp: parse_digits_def mk_number_def whole_def Let_def)

lemma whole_negate: "whole x \<Longrightarrow> whole (negate x)"
  by (cases x) (auto simp: whole_def)

lemma whole_payload_limit: "whole (payload_limit env)"
proof -
  have "whole (parseInt s)" for s
    by (simp add: parseInt_def Let_def whole_parse_digits whole_negate)
  then show ?thesis by (auto simp: payload_limit_def whole_def split: option.splits)
qed

text \<open>C40: when \<open>init\<close> completes on a fresh module, the configuration is well-formed: there is
  a token, the endpoint has an HTTP scheme, the payload limit is an integer, infinite or
  \<open>NaN\<close>; one connection attempt is under way, and \<open>fetch\<close> is patched if it exists.\<close>

theorem init_establishes_configuration:
  assumes "next_init phase env has_fetch fresh_module = (None, M)" and "env ''NEXT_PHASE'' \<noteq> Some phase"
  shows "SUBTRACE_TOKEN M \<noteq> [] \<and>
    (startsWith (SUBTRACE_ENDPOINT M) ''https://'' \<or> startsWith (SUBTRACE_ENDPOINT M) ''http://'') \<and>
    whole (SUBTRACE_PAYLOAD_LIMIT M) \<and> mutex M = 1 \<and> fetch_patched M = has_fetch \<and>
    conn (connection M) = Creating 0 \<and> promises (connection M) = [Pending]"
  using assms next_endpoint_scheme [of env] whole_payload_limit [of env]
  by (auto simp: next_init_def fresh_module_def Let_def begin_connection_def getWebSocket_call_def
      start_state_def next_patchFetch_def split: if_splits sum.splits)

definition sample_vars :: "string \<Rightarrow> string option" where
  "sample_vars = [''SUBTRACE_TOKEN'' \<mapsto> ''t'', ''SUBTRACE_ENDPOINT'' \<mapsto> ''host'',
     ''SUBTRACE_PAYLOAD_LIMIT'' \<mapsto> ''-0x1Fg'', ''SUBTRACE_DEBUG'' \<mapsto> ''Yes'']"

definition sample_module :: next_module where
  "sample_module = snd (next_init ''build'' sample_vars True fresh_module)"

lemma sample_init: "next_init ''build'' sample_vars True fresh_module = (None, sample_module)"
  by (simp add: sample_module_def next_init_def fresh_module_def sample_vars_def Let_def env_or_def
      debug_switch_def on_words_def off_words_def lower_char_def char_of_def bit_0 next_patchFetch_def)

theorem init_establishes_configuration_witness:
  "SUBTRACE_TOKEN sample_module \<noteq> [] \<and>
    (startsWith (SUBTRACE_ENDPOINT sample_module) ''https://'' \<or>
     startsWith (SUBTRACE_ENDPOINT sample_module) ''http://'') \<and>
    whole (SUBTRACE_PAYLOAD_LIMIT sample_module) \<and> mutex sample_module = 1 \<and>
    fetch_patched sample_module = True \<and> conn (connection sample_module) = Creating 0 \<and>
    promises (connection sample_module) = [Pending]"
  by (rule init_establishes_configuration [OF sample_init]) (simp add: sample_vars_def)

text \<open>\<open>init\<close> fails for lack of a token, or for a \<open>SUBTRACE_DEBUG\<close> that is set to none of
  the known words (the empty string is not one of them), and then neither patches \<open>fetch\<close>
  nor connects; but it has counted as done: every later call returns at once and changes
  nothing else.\<close>

theorem failed_init_is_final:
  assumes "next_init phase env has_fetch fresh_module = (Some e, M)"
  shows "\<not> fetch_patched M \<and> connection M = start_state \<and>
    next_init phase' env' has_fetch' M =
      (None, if env' ''NEXT_PHASE'' = Some phase' then M else M\<lparr>mutex := 2\<rparr>) \<and>
    (env_or env ''SUBTRACE_TOKEN'' [] = [] \<or> debug_switch env = Inl e)"
  using assms
  by (auto simp: next_init_def fresh_module_def Let_def split: if_splits sum.splits)

theorem failed_init_is_final_witness:
  "\<exists>M. \<not> fetch_patched M \<and> connection M = start_state \<and>
    next_init ''build'' sample_vars True M =
      (None, if sample_vars ''NEXT_PHASE'' = Some ''build'' then M else M\<lparr>mutex := 2\<rparr>) \<and>
    (env_or [''SUBTRACE_TOKEN'' \<mapsto> ''t'', ''SUBTRACE_DEBUG'' \<mapsto> ''''] ''SUBTRACE_TOKEN'' [] = [] \<or>
     debug_switch [''SUBTRACE_TOKEN'' \<mapsto> ''t'', ''SUBTRACE_DEBUG'' \<mapsto> ''''] =
       Inl (Error ''Unexpected value for SUBTRACE_DEBUG: ''))"
proof -
  let ?env = "[''SUBTRACE_TOKEN'' \<mapsto> ''t'', ''SUBTRACE_DEBUG'' \<mapsto> '''']"
  have "\<exists>M. next_init ''build'' ?env True fresh_module =
      (Some (Error ''Unexpected value for SUBTRACE_DEBUG: ''), M)"
    by (simp add: next_init_def fresh_module_def Let_def env_or_def debug_switch_def on_words_def off_words_def)
  then show ?thesis
    using failed_init_is_final [of "''build''" ?env True _ _ "''build''" sample_vars True] by blast
qed

text \<open>A payload limit that is set but does not begin with an integer is \<open>NaN\<close>, and the
  captured bodies are then empty: \<open>limit\<close> closes the stream without reading.\<close>

theorem malformed_limit_captures_nothing:
  assumes "env ''SUBTRACE_PAYLOAD_LIMIT'' = Some v" and "v \<noteq> []" and "parseInt v = NaN"
  shows "payload_limit env = NaN \<and> limited_content (payload_limit env) c = ([], Ended)"
proof -
  have n: "payload_limit env = NaN" using assms by (simp add: payload_limit_def)
  then have "limit_pull (payload_limit env) (fst c) (snd c) = ([], Ended, fst c)"
    by (simp add: limit_pull_none)
  with n show ?thesis by (simp add: limited_content_def)
qed

theorem malformed_limit_captures_nothing_witness:
  "payload_limit [''SUBTRACE_PAYLOAD_LIMIT'' \<mapsto> ''none''] = NaN \<and>
   limited_content (payload_limit [''SUBTRACE_PAYLOAD_LIMIT'' \<mapsto> ''none'']) ([Chunk [1, 2]], Ended) = ([], Ended)"
  by (rule malformed_limit_captures_nothing [where v = "''none''"])
    (simp_all add: parseInt_def parse_digits_def Let_def is_ws_def digit_in_def is_digit_def)

text \<open>The debug switch accepts exactly ten words, in any mixture of case.\<close>

theorem debug_switch_words:
  "debug_switch env = Inr b \<longleftrightarrow>
     (case env ''SUBTRACE_DEBUG'' of
        None \<Rightarrow> \<not> b
      | Some v \<Rightarrow> map lower_char v \<in> set (if b then on_words else off_words))"
  by (cases b) (auto simp: debug_switch_def debug_words_disjoint split: option.splits)

end
