(* ===== verification/CfEvent.thy ===== *)
theory CfEvent
  imports Capture PubsubApi PubsubJsonCodec
begin

text \<open>
  The event of \<open>subtrace-cloudflare/index.ts\<close>: the object \<open>newEvent\<close> makes, what the patched
  \<open>fetch\<close> and the wrapped handler write into it, and how \<open>publishEvent\<close> sends it off.
\<close>

section \<open>Thrown values\<close>

text \<open>JavaScript code may throw any value, not only an \<open>Error\<close>.\<close>

datatype thrown = Exn exn | Val jsval

primrec exn_message :: "exn \<Rightarrow> string" where
  "exn_message (TypeError s) = s"
| "exn_message (RangeError s) = s"
| "exn_message (SyntaxError s) = s"
| "exn_message (Error s) = s"

text \<open>The platform also gives every exception its stack trace, perhaps an empty one.\<close>

record cf_platform = web +
  exn_stack :: "exn \<Rightarrow> string"

section \<open>The event\<close>

text \<open>
  The members of the event object that the code assigns; the rest of the object is constant
  and is written out in \<open>http_json\<close>. \<open>_error\<close> is added to the response only on failures.
\<close>

record cf_event =
  event_tags :: "string jsobj"
  har_id :: string
  startedDateTime :: string
  event_time :: number
  request_method :: string
  request_url :: string
  request_headers :: headers
  postData_text :: string
  response_status :: nat
  response_statusText :: string
  response_headers :: headers
  content_size :: nat
  content_mimeType :: string
  content_text :: string
  redirectURL :: string
  response_error :: "jsval option"

definition newEvent :: "string \<Rightarrow> string \<Rightarrow> cf_event" where
  "newEvent eventId startDate =
     \<lparr>event_tags = [(''event_id'', eventId), (''time'', startDate)],
      har_id = eventId, startedDateTime = startDate, event_time = of_n 0,
      request_method = [], request_url = [], request_headers = [], postData_text = [],
      response_status = 0, response_statusText = [], response_headers = [],
      content_size = 0, content_mimeType = [], content_text = [], redirectURL = [], response_error = None\<rparr>"

definition header_json :: "string \<times> string \<Rightarrow> jsval" where
  "header_json h = JObj [(''name'', JStr (fst h)), (''value'', JStr (snd h))]"

definition http_json :: "cf_event \<Rightarrow> jsval" where
  "http_json ev =
     JObj [(''_id'', JStr (har_id ev)),
       (''startedDateTime'', JStr (startedDateTime ev)),
       (''time'', JNum (event_time ev)),
       (''request'', JObj [
          (''method'', JStr (request_method ev)),
          (''url'', JStr (request_url ev)),
          (''httpVersion'', JStr ''HTTP/1.0''),
          (''cookies'', JArr []),
          (''headers'', JArr (map header_json (request_headers ev))),
          (''queryString'', JArr []),
          (''postData'', JObj [(''mimeType'', JStr []), (''params'', JNull),
             (''text'', JStr (postData_text ev))]),
          (''headersSize'', JNum (Fin (- 1))),
          (''bodySize'', JNum (of_n 0))]),
       (''response'', JObj ([
          (''status'', JNum (of_n (response_status ev))),
          (''statusText'', JStr (response_statusText ev)),
          (''httpVersion'', JStr ''HTTP/1.0''),
          (''cookies'', JArr []),
          (''headers'', JArr (map header_json (response_headers ev))),
          (''content'', JObj [(''size'', JNum (of_n (content_size ev))),
             (''mimeType'', JStr (content_mimeType ev)),
             (''text'', JStr (content_text ev)), (''encoding'', JStr ''base64'')]),
          (''redirectURL'', JStr (redirectURL ev)),
          (''headersSize'', JNum (Fin (- 1))),
          (''bodySize'', JNum (of_n 0))]
          @ (case response_error ev of None \<Rightarrow> [] | Some v \<Rightarrow> [(''_error'', v)]))),
       (''cache'', JNull),
       (''timings'', JObj [(''send'', JNum (of_n 0)), (''wait'', JNum (of_n 0)), (''receive'', JNum (of_n 0))]),
       (''_webSocketMessages'', JNull)]"

definition event_json :: "cf_event \<Rightarrow> jsval" where
  "event_json ev =
     JObj [(''tags'', JObj (map (\<lambda>(k, v). (k, JStr v)) (event_tags ev))), (''http'', http_json ev)]"

section \<open>Writing the ev\<close>

text \<open>\<open>Object.entries(cf ?? {})\<close>\<close>

definition cf_entries :: "jsval \<Rightarrow> (string \<times> jsval) list" where
  "cf_entries cf = js_entries (if isSet cf then cf else JObj [])"

text \<open>One tag per entry that is not skipped; \<open>toString\<close> may throw.\<close>

definition add_entries ::
  "platform \<Rightarrow> string \<Rightarrow> string list \<Rightarrow> (string \<times> jsval) list \<Rightarrow> cf_event \<Rightarrow> cf_event result" where
  "add_entries P prefix skipped kvs ev =
     foldE (\<lambda>ev (key, val).
        if key \<in> set skipped then Inr ev
        else bindE (to_string_method P val) (\<lambda>s.
          Inr (ev\<lparr>event_tags := obj_set (prefix @ key) s (event_tags ev)\<rparr>))) ev kvs"

definition add_cf_tags ::
  "platform \<Rightarrow> string \<Rightarrow> string list \<Rightarrow> jsval \<Rightarrow> cf_event \<Rightarrow> cf_event result" where
  "add_cf_tags P prefix skipped cf ev = add_entries P prefix skipped (cf_entries cf) ev"

definition describe_request :: "request \<Rightarrow> cf_event \<Rightarrow> cf_event" where
  "describe_request request ev =
     ev\<lparr>request_method := rq_method request, request_url := rq_url request,
       request_headers := request_headers ev @ rq_headers request\<rparr>"

definition describe_error :: "cf_platform \<Rightarrow> thrown \<Rightarrow> cf_event \<Rightarrow> cf_event" where
  "describe_error X err ev =
     (let ev = ev\<lparr>response_status := 500, response_statusText := ''Internal Server Error''\<rparr> in
      case err of
        Exn e \<Rightarrow>
          (let ev = ev\<lparr>response_error := Some (JStr (exn_message e))\<rparr> in
           if exn_stack X e \<noteq> []
           then ev\<lparr>event_tags := obj_set ''exception.stack'' (exn_stack X e) (event_tags ev)\<rparr>
           else ev)
      | Val v \<Rightarrow>
          (case to_string_method (conversions X) v of
             Inr s \<Rightarrow> ev\<lparr>response_error := Some (JStr s)\<rparr>
           | Inl e \<Rightarrow> ev\<lparr>response_error := Some (case json_text (conversions X) v of
                None \<Rightarrow> JUndef | Some s \<Rightarrow> JStr s)\<rparr>))"

definition describe_response ::
  "platform \<Rightarrow> response \<Rightarrow> jsval \<Rightarrow> cf_event \<Rightarrow> cf_event result" where
  "describe_response P response cf ev =
     bindE (add_cf_tags P ''response.cf.'' [] cf
              (ev\<lparr>response_status := rs_status response, response_statusText := rs_statusText response,
                redirectURL := rs_url response,
                response_headers := response_headers ev @ rs_headers response\<rparr>)) (\<lambda>ev.
       Inr (case map_of (rs_headers response) ''content-type'' of
              None \<Rightarrow> ev
            | Some t \<Rightarrow> ev\<lparr>content_mimeType := t\<rparr>))"

definition describe_bodies :: "byte list \<Rightarrow> byte list \<Rightarrow> cf_event \<Rightarrow> cf_event" where
  "describe_bodies requestBytes responseBytes ev =
     ev\<lparr>postData_text := b64_enc requestBytes, content_size := length responseBytes,
       content_text := b64_enc responseBytes\<rparr>"

section \<open>publishEvent\<close>

text \<open>\<open>JSON.stringify(v, null, 2)\<close>: \<open>ind\<close> is the indentation of the line \<open>v\<close> stands on.\<close>

definition nl :: "nat \<Rightarrow> string" where
  "nl ind = char_of (10 :: nat) # replicate ind CHR '' ''"

fun join_lines :: "nat \<Rightarrow> string list \<Rightarrow> string" where
  "join_lines ind [] = []"
| "join_lines ind [s] = nl ind @ s"
| "join_lines ind (s # t # ss) = nl ind @ s @ '','' @ join_lines ind (t # ss)"

fun json_pretty :: "platform \<Rightarrow> nat \<Rightarrow> jsval \<Rightarrow> string option"
  and json_pretty_elems :: "platform \<Rightarrow> nat \<Rightarrow> jsval list \<Rightarrow> string list"
  and json_pretty_members :: "platform \<Rightarrow> nat \<Rightarrow> (string \<times> jsval) list \<Rightarrow> string list" where
  "json_pretty P ind (JArr xs) =
     Some (if xs = [] then ''[]''
       else ''['' @ join_lines (ind + 2) (json_pretty_elems P (ind + 2) xs) @ nl ind @ '']'')"
| "json_pretty P ind (JObj ps) =
     (let ms = json_pretty_members P (ind + 2) ps
      in Some (if ms = [] then ''{}'' else ''{'' @ join_lines (ind + 2) ms @ nl ind @ ''}''))"
| "json_pretty P ind (JBytes bs) =
     Some (if bs = [] then ''{}''
       else ''{'' @ join_lines (ind + 2) (map (\<lambda>(i, b). json_quote (nat_str i) @ '': '' @ nat_str (unat b))
         (zip [0..<length bs] bs)) @ nl ind @ ''}'')"
| "json_pretty P ind v = json_text P v"
| "json_pretty_elems P ind [] = []"
| "json_pretty_elems P ind (x # xs) =
     (case json_pretty P ind x of None \<Rightarrow> ''null'' | Some s \<Rightarrow> s) # json_pretty_elems P ind xs"
| "json_pretty_members P ind [] = []"
| "json_pretty_members P ind ((k, v) # ps) =
     (case json_pretty P ind v of None \<Rightarrow> [] | Some s \<Rightarrow> [json_quote k @ '': '' @ s])
     @ json_pretty_members P ind ps"

text \<open>The console.\<close>

datatype console_line = Log string | Err string

definition publish_url :: string where
  "publish_url = ''https://subtrace.dev/api/PublishEvents''"

definition publish_message :: "platform \<Rightarrow> cf_event \<Rightarrow> PublishEvents_Request" where
  "publish_message P ev =
     \<lparr>PublishEvents_Request.events = [\<lparr>Event.concreteV1 = Some
        \<lparr>Event_V1.tags = event_tags ev,
         harEntryJson = utf8 (the (json_text P (http_json ev))), log = None\<rparr>\<rparr>]\<rparr>"

text \<open>The second argument of the \<open>fetch\<close>; the token is spliced into a string.\<close>

definition publish_init :: "platform \<Rightarrow> jsval \<Rightarrow> cf_event \<Rightarrow> request_init result" where
  "publish_init P token ev =
     bindE (js_String P token) (\<lambda>t.
       Inr \<lparr>in_method = Some ''POST'',
            in_headers = Some [(''authorization'', ''Bearer '' @ t)],
            in_body = Some (BodyBytes
              (utf8 (the (json_text P (PublishEvents_Request_toJSON P (publish_message P ev)))))
              (Some ''text/plain;charset=UTF-8''))\<rparr>)"

definition publish_error :: "platform \<Rightarrow> nat \<Rightarrow> string \<Rightarrow> string \<Rightarrow> string" where
  "publish_error P status statusText msg =
     (let err = ''subtrace: failed to publish events: status '' @ num_str P (of_n status)
            @ '': '' @ statusText
      in if msg \<noteq> [] then err @ '': '' @ msg else err)"

definition publishEvent ::
  "cf_platform \<Rightarrow> network \<Rightarrow> jsval \<Rightarrow> cf_event \<Rightarrow> heap \<Rightarrow> (unit result \<times> console_line list) option" where
  "publishEvent X net SUBTRACE_TOKEN ev h =
     (let P = conversions X in
      if SUBTRACE_TOKEN = JNull
      then Some (Inr (), [Log (the (json_pretty P 0 (event_json ev)))])
      else
        (case publish_init P SUBTRACE_TOKEN ev of
           Inl e \<Rightarrow> Some (Inl e, [])
         | Inr init \<Rightarrow>
             (case fetch_request (parse_url X) net (Url publish_url) init h of
                None \<Rightarrow> None
              | Some (Inl e) \<Rightarrow> Some (Inl e, [])
              | Some (Inr (resp, h)) \<Rightarrow>
                  if rs_status resp \<noteq> 200
                  then map_option (\<lambda>r. case r of
                           Inl e \<Rightarrow> (Inl e, [])
                         | Inr msg \<Rightarrow> (Inr (), [Err (publish_error P (rs_status resp) (rs_statusText resp) msg)]))
                         (body_text (web.truncate X) (rs_body resp) h)
                  else Some (Inr (), []))))"

end
