(* ===== verification/CfFetch.thy ===== *)
theory CfFetch
  imports CfEvent
begin

text \<open>
  The \<open>fetch\<close> that \<open>patchFetch\<close> of \<open>subtrace-cloudflare/index.ts\<close> installs, the handler
  that \<open>subtrace\<close> wraps around another, and \<open>init\<close>. The event of a call is handed to
  \<open>waitUntil\<close> as a job that runs beside the response.
\<close>

section \<open>Copying the bodies\<close>

definition cf_capture_request ::
  "request \<Rightarrow> heap \<Rightarrow> ((request \<times> request) \<times> heap) result" where
  "cf_capture_request req h =
     (case rq_body req of
        Some body \<Rightarrow>
          bindE (tee body h) (\<lambda>((origBody, clonedBody), h).
          Inr ((with_body req clonedBody, with_body req origBody), h))
      | None \<Rightarrow> Inr ((req, req), h))"

definition cf_capture_response ::
  "response \<Rightarrow> heap \<Rightarrow> ((response \<times> response) \<times> heap) result" where
  "cf_capture_response resp h =
     (case rs_body resp of
        Some body \<Rightarrow>
          bindE (tee body h) (\<lambda>((origBody, clonedBody), h).
          bindE (new_Response clonedBody resp) (\<lambda>responseClone.
          bindE (new_Response origBody resp) (\<lambda>resp.
          Inr ((responseClone, resp), h))))
      | None \<Rightarrow> Inr ((resp, resp), h))"

text \<open>\<open>clone()\<close> of a request or response: both go on with one half of the body.\<close>

definition clone_request ::
  "request \<Rightarrow> heap \<Rightarrow> ((request \<times> request) \<times> heap) result" where
  "clone_request req h =
     (case rq_body req of
        Some body \<Rightarrow>
          bindE (tee body h) (\<lambda>((b, b'), h). Inr ((req\<lparr>rq_body := Some b'\<rparr>, req\<lparr>rq_body := Some b\<rparr>), h))
      | None \<Rightarrow> Inr ((req, req), h))"

definition clone_response ::
  "response \<Rightarrow> heap \<Rightarrow> ((response \<times> response) \<times> heap) result" where
  "clone_response resp h =
     (case rs_body resp of
        Some body \<Rightarrow>
          bindE (tee body h) (\<lambda>((b, b'), h). Inr ((resp\<lparr>rs_body := Some b'\<rparr>, resp\<lparr>rs_body := Some b\<rparr>), h))
      | None \<Rightarrow> Inr ((resp, resp), h))"

text \<open>
  A call of \<open>bytes()\<close>: it takes the body's reader at once; its promise is the value, \<open>None\<close>
  while the body does not end.
\<close>

definition bytes :: "nat option \<Rightarrow> heap \<Rightarrow> byte list result option \<times> heap" where
  "bytes b h =
     (case b of
        None \<Rightarrow> (Some (Inr []), h)
      | Some a \<Rightarrow> (case take_reader a h of
            Inl e \<Rightarrow> (Some (Inl e), h)
          | Inr (c, h) \<Rightarrow> (read_all c, h)))"

section \<open>Jobs\<close>

text \<open>
  What is handed to \<open>waitUntil\<close>: the event is published at once, or when the bytes of both
  bodies are there; it is dropped when one of them fails.
\<close>

datatype job =
    Publish cf_event
  | Publish_bodies "byte list result option" "byte list result option" cf_event

definition job_event :: "job \<Rightarrow> cf_event result option" where
  "job_event j =
     (case j of
        Publish ev \<Rightarrow> Some (Inr ev)
      | Publish_bodies requestBytes responseBytes ev \<Rightarrow>
          (case (requestBytes, responseBytes) of
             (Some (Inl e), _) \<Rightarrow> Some (Inl e)
           | (_, Some (Inl e)) \<Rightarrow> Some (Inl e)
           | (Some (Inr rq), Some (Inr rs)) \<Rightarrow> Some (Inr (describe_bodies rq rs ev))
           | _ \<Rightarrow> None))"

definition run_job ::
  "cf_platform \<Rightarrow> network \<Rightarrow> jsval \<Rightarrow> heap \<Rightarrow> job \<Rightarrow> (unit result \<times> console_line list) option" where
  "run_job X net SUBTRACE_TOKEN h j =
     (case job_event j of
        None \<Rightarrow> None
      | Some (Inl e) \<Rightarrow> Some (Inl e, [])
      | Some (Inr ev) \<Rightarrow> publishEvent X net SUBTRACE_TOKEN ev h)"

text \<open>
  A response that has come, described and copied; the copy's bytes and the event become the
  job. \<open>copy\<close> is the way of copying, and \<open>cf\<close> the response's.
\<close>

type_synonym traced = "(thrown + response \<times> heap) \<times> job list"

definition respond ::
  "(response \<Rightarrow> heap \<Rightarrow> ((response \<times> response) \<times> heap) result) \<Rightarrow> platform \<Rightarrow>
   byte list result option \<Rightarrow> cf_event \<Rightarrow> response \<Rightarrow> jsval \<Rightarrow> heap \<Rightarrow> traced" where
  "respond copy P requestBytes ev resp cf h =
     (case bindE (describe_response P resp cf ev) (\<lambda>ev.
           bindE (copy resp h) (\<lambda>((responseClone, resp), h).
           Inr (ev, responseClone, resp, h))) of
        Inl e \<Rightarrow> (Inl (Exn e), [])
      | Inr (ev, responseClone, resp, h) \<Rightarrow>
          (let (responseBytes, h) = bytes (rs_body responseClone) h
           in (Inr (resp, h), [Publish_bodies requestBytes responseBytes ev])))"

section \<open>The patched fetch\<close>

text \<open>
  What differs from call to call: the identifier and the clock. The result is \<open>None\<close> when
  the call does not return.
\<close>

record moment =
  eventId :: string
  startDate :: string
  duration :: number

text \<open>\<open>cf\<close> is \<open>init?.cf\<close> and \<open>resp_cf\<close> the \<open>cf\<close> of the response.\<close>

definition cf_patched_fetch ::
  "cf_platform \<Rightarrow> network \<Rightarrow> moment \<Rightarrow> fetch_input \<Rightarrow> request_init \<Rightarrow> jsval \<Rightarrow> jsval \<Rightarrow> heap \<Rightarrow> traced option" where
  "cf_patched_fetch X net m input init cf resp_cf h =
     (let P = conversions X in
      case bindE (add_cf_tags P ''request.cf.'' [] cf (newEvent (eventId m) (startDate m))) (\<lambda>ev.
           bindE (new_Request (parse_url X) input init h) (\<lambda>(request, h).
           bindE (cf_capture_request request h) (\<lambda>((requestClone, request), h).
           Inr (ev, requestClone, request, h)))) of
        Inl e \<Rightarrow> Some (Inl (Exn e), [])
      | Inr (ev, requestClone, request, h) \<Rightarrow>
          (let (requestBytes, h) = bytes (rq_body requestClone) h;
               ev = describe_request request ev
           in case fetch_request (parse_url X) net input init h of
                None \<Rightarrow> None
              | Some res \<Rightarrow>
                  (let ev = ev\<lparr>event_time := duration m\<rparr> in
                   case res of
                     Inl e \<Rightarrow> Some (Inl (Exn e), [Publish (describe_error X (Exn e) ev)])
                   | Inr (resp, h) \<Rightarrow>
                       Some (respond cf_capture_response P requestBytes ev resp resp_cf h))))"

section \<open>The wrapped handler\<close>

text \<open>
  A fetch handler answers with a response and its \<open>cf\<close>, throws any value, or never returns.
  Three entries of the request's \<open>cf\<close> are not recorded.
\<close>

type_synonym cf_handler = "request \<Rightarrow> heap \<Rightarrow> (thrown + response \<times> jsval \<times> heap) option"

definition tls_entries :: "string list" where
  "tls_entries = [''tlsClientAuth'', ''tlsClientRandom'', ''tlsExportedAuthenticator'']"

text \<open>The token is taken from the first environment that has one.\<close>

definition adopt_token :: "jsval jsobj \<Rightarrow> jsval \<Rightarrow> jsval" where
  "adopt_token env SUBTRACE_TOKEN =
     (case obj_get env ''SUBTRACE_TOKEN'' of
        Some v \<Rightarrow> if SUBTRACE_TOKEN = JNull then v else SUBTRACE_TOKEN
      | None \<Rightarrow> SUBTRACE_TOKEN)"

definition subtrace ::
  "cf_platform \<Rightarrow> moment \<Rightarrow> cf_handler \<Rightarrow> request \<Rightarrow> jsval \<Rightarrow> heap \<Rightarrow> traced option" where
  "subtrace X m handler request cf h =
     (let P = conversions X in
      case bindE (add_cf_tags P ''request.cf.'' tls_entries cf (newEvent (eventId m) (startDate m))) (\<lambda>ev.
           bindE (clone_request request h) (\<lambda>((requestClone, request), h).
           Inr (describe_request request ev, requestClone, request, h))) of
        Inl e \<Rightarrow> Some (Inl (Exn e), [])
      | Inr (ev, requestClone, request, h) \<Rightarrow>
          (let (requestBytes, h) = bytes (rq_body requestClone) h
           in case handler request h of
                None \<Rightarrow> None
              | Some res \<Rightarrow>
                  (let ev = ev\<lparr>event_time := duration m\<rparr> in
                   case res of
                     Inl err \<Rightarrow> Some (Inl err, [Publish (describe_error X err ev)])
                   | Inr (resp, resp_cf, h) \<Rightarrow>
                       Some (respond clone_response P requestBytes ev resp resp_cf h))))"

section \<open>The module\<close>

record cf_module =
  cf_token :: jsval
  cf_mutex :: nat
  cf_patched :: bool

definition cf_start :: cf_module where
  "cf_start = \<lparr>cf_token = JNull, cf_mutex = 0, cf_patched = False\<rparr>"

definition cf_patchFetch :: "bool \<Rightarrow> cf_module \<Rightarrow> cf_module" where
  "cf_patchFetch has_fetch M = (if \<not> has_fetch then M else M\<lparr>cf_patched := True\<rparr>)"

definition cf_init :: "bool \<Rightarrow> cf_module \<Rightarrow> cf_module" where
  "cf_init has_fetch M =
     (let M' = M\<lparr>cf_mutex := cf_mutex M + 1\<rparr>
      in if cf_mutex M > 0 then M' else cf_patchFetch has_fetch M')"

text \<open>A request to the wrapped handler in an environment \<open>env\<close>.\<close>

definition cf_serve ::
  "cf_platform \<Rightarrow> moment \<Rightarrow> jsval jsobj \<Rightarrow> cf_handler \<Rightarrow> request \<Rightarrow> jsval \<Rightarrow> heap \<Rightarrow> cf_module \<Rightarrow>
   traced option \<times> cf_module" where
  "cf_serve X m env handler request cf h M =
     (subtrace X m handler request cf h, M\<lparr>cf_token := adopt_token env (cf_token M)\<rparr>)"

end
