(* ===== verification/CfProps.thy ===== *)
theory CfProps
  imports CfFetch
begin

text \<open>
  What the Cloudflare package promises: the wrapped handler and the patched \<open>fetch\<close> are
  transparent, where they are not, and what the published event says.
\<close>

section \<open>Tags from cf\<close>

definition convertible :: "platform \<Rightarrow> jsval \<Rightarrow> bool" where
  "convertible P v \<longleftrightarrow> (case to_string_method P v of Inr s \<Rightarrow> True | Inl e \<Rightarrow> False)"

definition tag_text :: "platform \<Rightarrow> jsval \<Rightarrow> string" where
  "tag_text P v = (case to_string_method P v of Inr s \<Rightarrow> s | Inl e \<Rightarrow> [])"

definition recorded :: "string list \<Rightarrow> jsval \<Rightarrow> (string \<times> jsval) list" where
  "recorded skipped cf = filter (\<lambda>(k, v). k \<notin> set skipped) (cf_entries cf)"

definition tags_ok :: "platform \<Rightarrow> string list \<Rightarrow> jsval \<Rightarrow> bool" where
  "tags_ok P skipped cf \<longleftrightarrow> list_all (\<lambda>(k, v). convertible P v) (recorded skipped cf)"

definition cf_tags :: "platform \<Rightarrow> string \<Rightarrow> string list \<Rightarrow> jsval \<Rightarrow> (string \<times> string) list" where
  "cf_tags P prefix skipped cf = map (\<lambda>(k, v). (prefix @ k, tag_text P v)) (recorded skipped cf)"

lemma not_isSet_convertible: "\<not> isSet v \<Longrightarrow> \<not> convertible P v"
  by (simp add: convertible_def to_string_method_def)

lemma add_entries_simps:
  "add_entries P prefix skipped [] ev = Inr ev"
  "add_entries P prefix skipped ((k, v) # kvs) ev =
     (if k \<in> set skipped then add_entries P prefix skipped kvs ev
      else bindE (to_string_method P v) (\<lambda>s.
        add_entries P prefix skipped kvs (ev\<lparr>event_tags := obj_set (prefix @ k) s (event_tags ev)\<rparr>)))"
  by (cases "to_string_method P v"; simp add: add_entries_def)+

lemma add_entries_Inr:
  "list_all (\<lambda>(k, v). k \<in> set skipped \<or> convertible P v) kvs \<Longrightarrow>
   add_entries P prefix skipped kvs ev =
     Inr (ev\<lparr>event_tags := obj_build (event_tags ev)
       (map (\<lambda>(k, v). (prefix @ k, tag_text P v)) (filter (\<lambda>(k, v). k \<notin> set skipped) kvs))\<rparr>)"
  by (induction kvs arbitrary: ev)
    (auto simp: add_entries_simps convertible_def tag_text_def split: sum.splits)

lemma add_entries_Inl:
  "\<not> list_all (\<lambda>(k, v). k \<in> set skipped \<or> convertible P v) kvs \<Longrightarrow>
   \<exists>e. \<forall>prefix ev. add_entries P prefix skipped kvs ev = Inl e"
proof (induction kvs)
  case (Cons p kvs)
  then show ?case
    by (cases p; cases "fst p \<in> set skipped"; cases "to_string_method P (snd p)")
      (auto simp: add_entries_simps convertible_def)
qed simp

lemma tags_ok_iff: "tags_ok P skipped cf \<longleftrightarrow> list_all (\<lambda>(k, v). k \<in> set skipped \<or> convertible P v) (cf_entries cf)"
  by (auto simp: tags_ok_def recorded_def list_all_iff)

lemma nullish_not_tags_ok:
  "(k, v) \<in> set (cf_entries cf) \<Longrightarrow> k \<notin> set skipped \<Longrightarrow> \<not> isSet v \<Longrightarrow> \<not> tags_ok P skipped cf"
  using not_isSet_convertible by (fastforce simp: tags_ok_iff list_all_iff)

lemma add_cf_tags_Inr:
  "tags_ok P skipped cf \<Longrightarrow>
   add_cf_tags P prefix skipped cf ev =
     Inr (ev\<lparr>event_tags := obj_build (event_tags ev) (cf_tags P prefix skipped cf)\<rparr>)"
  using add_entries_Inr [of skipped P "cf_entries cf"]
  by (simp add: tags_ok_iff cf_tags_def recorded_def add_cf_tags_def)

lemma add_cf_tags_Inl:
  "\<not> tags_ok P skipped cf \<Longrightarrow> \<exists>e. \<forall>prefix ev. add_cf_tags P prefix skipped cf ev = Inl e"
  using add_entries_Inl [of skipped P "cf_entries cf"]
  by (simp add: tags_ok_iff add_cf_tags_def)

section \<open>The contracts of copying\<close>

lemma tee_spec:
  assumes "readable h a c"
  shows "\<exists>h'. tee a h = Inr ((length h, Suc (length h)), h') \<and> grows {a} h h' \<and>
    readable h' (length h) c \<and> readable h' (Suc (length h)) c \<and> taken (Some a) h'"
  using assms by (auto simp: tee_def take_reader_def alloc_def readable_def grows_def taken_def nth_append Let_def)

lemma cf_capture_request_spec:
  assumes "holds h (rq_body req) c"
  shows "\<exists>cr rq h'. cf_capture_request req h = Inr ((cr, rq), h') \<and>
    grows (set_option (rq_body req)) h h' \<and> same_request cr req \<and> same_request rq req \<and>
    apart (rq_body cr) (rq_body rq) \<and> taken (rq_body req) h' \<and>
    holds h' (rq_body cr) (map_option id c) \<and> holds h' (rq_body rq) c"
proof (cases "rq_body req")
  case (Some a)
  then obtain d where "c = Some d" "readable h a d" using assms by (cases c) auto
  with tee_spec [of h a d] Some show ?thesis
    by (auto simp: cf_capture_request_def with_body_def same_request_def apart_def)
qed (use assms in \<open>simp add: cf_capture_request_def apart_def\<close>)

lemma cf_capture_response_spec:
  assumes "holds h (rs_body resp) c" and "body_allowed resp"
  shows "\<exists>cs rs h'. cf_capture_response resp h = Inr ((cs, rs), h') \<and>
    grows (set_option (rs_body resp)) h h' \<and> same_response cs resp \<and> same_response rs resp \<and>
    apart (rs_body cs) (rs_body rs) \<and> holds h' (rs_body cs) (map_option id c) \<and> holds h' (rs_body rs) c"
proof (cases "rs_body resp")
  case (Some a)
  then obtain d where "c = Some d" "readable h a d" using assms(1) by (cases c) auto
  with tee_spec [of h a d] Some assms(2) show ?thesis
    by (auto simp: cf_capture_response_def new_Response_def same_response_def body_allowed_def apart_def)
qed (use assms in \<open>simp add: cf_capture_response_def apart_def\<close>)

lemma cf_capture_response_url:
  "cf_capture_response resp h = Inr ((cs, rs), h') \<Longrightarrow>
   rs_url rs = (if rs_body resp = None then rs_url resp else [])"
  by (auto simp: cf_capture_response_def new_Response_def bindE_def split: option.splits sum.splits if_splits)

lemma clone_request_spec:
  assumes "holds h (rq_body req) c"
  shows "\<exists>cr rq h'. clone_request req h = Inr ((cr, rq), h') \<and>
    grows (set_option (rq_body req)) h h' \<and> same_request cr req \<and> same_request rq req \<and>
    apart (rq_body cr) (rq_body rq) \<and> taken (rq_body req) h' \<and>
    holds h' (rq_body cr) (map_option id c) \<and> holds h' (rq_body rq) c"
proof (cases "rq_body req")
  case (Some a)
  then obtain d where "c = Some d" "readable h a d" using assms by (cases c) auto
  with tee_spec [of h a d] Some show ?thesis
    by (auto simp: clone_request_def same_request_def apart_def)
qed (use assms in \<open>simp add: clone_request_def apart_def\<close>)

lemma clone_response_spec:
  assumes "holds h (rs_body resp) c"
  shows "\<exists>cs rs h'. clone_response resp h = Inr ((cs, rs), h') \<and>
    grows (set_option (rs_body resp)) h h' \<and> same_response cs resp \<and> same_response rs resp \<and>
    apart (rs_body cs) (rs_body rs) \<and> holds h' (rs_body cs) (map_option id c) \<and> holds h' (rs_body rs) c"
proof (cases "rs_body resp")
  case (Some a)
  then obtain d where "c = Some d" "readable h a d" using assms(1) by (cases c) auto
  with tee_spec [of h a d] Some show ?thesis
    by (auto simp: clone_response_def same_response_def apart_def)
qed (use assms in \<open>simp add: clone_response_def apart_def\<close>)

lemma clone_response_url: "clone_response resp h = Inr ((cs, rs), h') \<Longrightarrow> rs_url rs = rs_url resp"
  by (auto simp: clone_response_def bindE_def split: option.splits sum.splits)

interpretation cf_capture: body_capture cf_capture_request cf_capture_response id
  by unfold_locales (simp_all add: cf_capture_request_spec [simplified] cf_capture_response_spec [simplified]
      cf_capture_response_url)

interpretation cf_clone: body_copy clone_request clone_response id "\<lambda>_. True"
  by unfold_locales (simp_all add: clone_request_spec [simplified] clone_response_spec [simplified])

text \<open>\<open>bytes()\<close> on a readable body.\<close>

definition body_bytes :: "content option \<Rightarrow> byte list result option" where
  "body_bytes c = (case c of None \<Rightarrow> Some (Inr []) | Some d \<Rightarrow> read_all d)"

lemma bytes_spec:
  "holds h b c \<Longrightarrow> \<exists>h'. bytes b h = (body_bytes c, h') \<and> grows (set_option b) h h'"
  by (cases b; cases c)
    (auto simp: bytes_def body_bytes_def take_reader_def readable_def grows_def)

lemma holds_apart:
  "holds h b c \<Longrightarrow> grows (set_option b') h h' \<Longrightarrow> apart b' b \<Longrightarrow> holds h' b c"
  by (erule holds_grows, assumption) (auto simp: apart_def)

section \<open>The events a call should publish\<close>

definition first_tags :: "moment \<Rightarrow> string jsobj" where
  "first_tags m = [(''event_id'', eventId m), (''time'', startDate m)]"

text \<open>The event of a request, and of a request with its response, without their bodies.\<close>

definition requested :: "platform \<Rightarrow> moment \<Rightarrow> string list \<Rightarrow> jsval \<Rightarrow> request \<Rightarrow> cf_event" where
  "requested P m skipped cf req =
     \<lparr>event_tags = obj_build (first_tags m) (cf_tags P ''request.cf.'' skipped cf),
      har_id = eventId m, startedDateTime = startDate m, event_time = duration m,
      request_method = rq_method req, request_url = rq_url req, request_headers = rq_headers req,
      postData_text = [], response_status = 0, response_statusText = [], response_headers = [],
      content_size = 0, content_mimeType = [], content_text = [], redirectURL = [], response_error = None\<rparr>"

definition exchanged ::
  "platform \<Rightarrow> moment \<Rightarrow> string list \<Rightarrow> jsval \<Rightarrow> request \<Rightarrow> response \<Rightarrow> jsval \<Rightarrow> cf_event" where
  "exchanged P m skipped cf req resp resp_cf =
     \<lparr>event_tags = obj_build (first_tags m)
        (cf_tags P ''request.cf.'' skipped cf @ cf_tags P ''response.cf.'' [] resp_cf),
      har_id = eventId m, startedDateTime = startDate m, event_time = duration m,
      request_method = rq_method req, request_url = rq_url req, request_headers = rq_headers req,
      postData_text = [], response_status = rs_status resp, response_statusText = rs_statusText resp,
      response_headers = rs_headers resp, content_size = 0,
      content_mimeType = (case map_of (rs_headers resp) ''content-type'' of None \<Rightarrow> [] | Some t \<Rightarrow> t),
      content_text = [], redirectURL = rs_url resp, response_error = None\<rparr>"

lemma describe_request_requested:
  "same_request req req' \<Longrightarrow>
   describe_request req ((newEvent (eventId m) (startDate m))
     \<lparr>event_tags := obj_build (event_tags (newEvent (eventId m) (startDate m)))
        (cf_tags P ''request.cf.'' skipped cf)\<rparr>)\<lparr>event_time := duration m\<rparr> =
   requested P m skipped cf req'"
  by (simp add: describe_request_def newEvent_def requested_def first_tags_def same_request_def)

lemma describe_response_exchanged:
  "tags_ok P [] resp_cf \<Longrightarrow>
   describe_response P resp resp_cf (requested P m skipped cf req) =
     Inr (exchanged P m skipped cf req resp resp_cf)"
  by (simp add: describe_response_def add_cf_tags_Inr requested_def exchanged_def obj_build_append
      split: option.split)

lemma describe_response_throws:
  "\<not> tags_ok P [] resp_cf \<Longrightarrow> \<exists>e. \<forall>ev. describe_response P resp resp_cf ev = Inl e"
  using add_cf_tags_Inl [of P "[]" resp_cf] by (auto simp: describe_response_def)

lemma exchanged_same:
  "same_response resp resp' \<Longrightarrow> rs_url resp = rs_url resp' \<Longrightarrow>
   exchanged P m skipped cf req resp resp_cf = exchanged P m skipped cf req resp' resp_cf"
  by (simp add: exchanged_def same_response_def)

section \<open>Responding\<close>

lemma respond_throws:
  assumes "\<not> tags_ok P [] cf"
  shows "\<exists>e. respond copy P requestBytes ev resp cf h = (Inl (Exn e), [])"
  using describe_response_throws [OF assms, of resp] by (auto simp: respond_def)

lemma clone_respond:
  assumes "holds h (rs_body resp) d" and "tags_ok P [] resp_cf"
  shows "\<exists>resp' h'. same_response resp' resp \<and> rs_url resp' = rs_url resp \<and> holds h' (rs_body resp') d \<and>
    respond clone_response P requestBytes (requested P m skipped cf req) resp resp_cf h =
      (Inr (resp', h'), [Publish_bodies requestBytes (body_bytes d) (exchanged P m skipped cf req resp resp_cf)])"
proof -
  obtain cs rs h1 where clone: "clone_response resp h = Inr ((cs, rs), h1)" "same_response rs resp"
      "apart (rs_body cs) (rs_body rs)" "holds h1 (rs_body cs) d" "holds h1 (rs_body rs) d"
    using cf_clone.capture_response [OF assms(1)] by (auto simp: option.map_id)
  obtain h2 where b: "bytes (rs_body cs) h1 = (body_bytes d, h2)" "grows (set_option (rs_body cs)) h1 h2"
    using bytes_spec [OF clone(4)] by blast
  have "holds h2 (rs_body rs) d"
    by (rule holds_apart [OF clone(5) b(2) clone(3)])
  then show ?thesis
    using clone(1,2) clone_response_url [OF clone(1)] b(1) assms(2)
    by (intro exI [of _ rs] exI [of _ h2]) (simp add: respond_def describe_response_exchanged)
qed

section \<open>Examples\<close>

definition cf_sample :: cf_platform where
  "cf_sample = web.extend sample_web \<lparr>exn_stack = (\<lambda>_. ''at main'')\<rparr>"

definition sample_moment :: moment where
  "sample_moment = \<lparr>eventId = ''id1'', startDate = ''now'', duration = of_n 7\<rparr>"

definition plain_request :: request where
  "plain_request = \<lparr>rq_method = ''GET'', rq_url = ''http://a/'', rq_headers = [(''accept'', ''x'')], rq_body = None\<rparr>"

definition sample_cf :: jsval where
  "sample_cf = JObj [(''tlsClientAuth'', JObj []), (''country'', JStr ''US''), (''asn'', JNum (of_n 7))]"

definition throwing_handler :: cf_handler where
  "throwing_handler rq h = Some (Inl (Exn (Error ''boom'')))"

lemma sample_cf_ok: "tags_ok (conversions cf_sample) tls_entries sample_cf"
  by (simp add: tags_ok_iff sample_cf_def cf_entries_def js_entries_def isSet_def convertible_def
      to_string_method_def tls_entries_def)

text \<open>A handler that answers with the bytes \<open>1 2\<close> and a \<open>cf\<close> of its own.\<close>

definition answering_handler :: "jsval \<Rightarrow> cf_handler" where
  "answering_handler resp_cf rq h =
     Some (Inr (\<lparr>rs_status = 200, rs_statusText = ''OK'', rs_url = [],
         rs_headers = [(''content-type'', ''text/html'')], rs_body = Some (length h)\<rparr>, resp_cf,
       h @ [\<lparr>contents = ([Chunk [1, 2]], Ended), locked = False\<rparr>]))"

lemma answering_handler_body:
  "answering_handler resp_cf rq h = Some (Inr (resp, cf, h')) \<Longrightarrow>
   cf = resp_cf \<and> holds h' (rs_body resp) (Some ([Chunk [1, 2]], Ended))"
  by (auto simp: answering_handler_def readable_def nth_append)

section \<open>The wrapped handler\<close>

text \<open>Up to the handler's call: the request it gets and the bytes to come.\<close>

lemma subtrace_start:
  assumes "holds h (rq_body req) c" and "tags_ok (conversions X) tls_entries cf"
  shows "\<exists>rq h1. same_request rq req \<and> holds h1 (rq_body rq) c \<and>
    subtrace X m handler req cf h =
      map_option (\<lambda>res. case res of
          Inl err \<Rightarrow> (Inl err, [Publish (describe_error X err (requested (conversions X) m tls_entries cf req))])
        | Inr (resp, resp_cf, h) \<Rightarrow>
            respond clone_response (conversions X) (body_bytes c)
              (requested (conversions X) m tls_entries cf req) resp resp_cf h)
        (handler rq h1)"
proof -
  obtain cr rq h' where clone: "clone_request req h = Inr ((cr, rq), h')"
      "same_request rq req" "apart (rq_body cr) (rq_body rq)" "holds h' (rq_body cr) c" "holds h' (rq_body rq) c"
    using cf_clone.capture_request [OF assms(1)] by (auto simp: option.map_id)
  obtain h1 where b: "bytes (rq_body cr) h' = (body_bytes c, h1)" "grows (set_option (rq_body cr)) h' h1"
    using bytes_spec [OF clone(4)] by blast
  have "holds h1 (rq_body rq) c"
    by (rule holds_apart [OF clone(5) b(2) clone(3)])
  with clone(1,2) b(1) assms(2) show ?thesis
    by (intro exI [of _ rq] exI [of _ h1])
      (simp add: subtrace_def Let_def add_cf_tags_Inr describe_request_requested
        split: option.split sum.split)
qed

text \<open>C9: a handler wrapped by \<open>subtrace\<close> sees the request it would see without it, body
  included. What it throws is thrown on, and its response is returned with status, headers,
  URL and body unchanged; each call leaves one job, whose event describes the exchange.
  This holds when the \<open>cf\<close> objects have no entry without a \<open>toString\<close>.\<close>

theorem subtrace_is_transparent:
  assumes "holds h (rq_body req) c" and "tags_ok (conversions X) tls_entries cf"
    and "\<And>rq h resp resp_cf h'. handler rq h = Some (Inr (resp, resp_cf, h')) \<Longrightarrow>
      tags_ok (conversions X) [] resp_cf \<and> (\<exists>d. holds h' (rs_body resp) d)"
  shows "\<exists>rq h1. same_request rq req \<and> holds h1 (rq_body rq) c \<and>
    (case handler rq h1 of
       None \<Rightarrow> subtrace X m handler req cf h = None
     | Some (Inl err) \<Rightarrow> subtrace X m handler req cf h =
         Some (Inl err, [Publish (describe_error X err (requested (conversions X) m tls_entries cf req))])
     | Some (Inr (resp, resp_cf, h2)) \<Rightarrow>
         (\<exists>resp' h3 d. same_response resp' resp \<and> rs_url resp' = rs_url resp \<and>
            holds h2 (rs_body resp) d \<and> holds h3 (rs_body resp') d \<and>
            subtrace X m handler req cf h =
              Some (Inr (resp', h3), [Publish_bodies (body_bytes c) (body_bytes d)
                (exchanged (conversions X) m tls_entries cf req resp resp_cf)])))"
proof -
  obtain rq h1 where rq: "same_request rq req" "holds h1 (rq_body rq) c"
    and run: "subtrace X m handler req cf h =
      map_option (\<lambda>res. case res of
          Inl err \<Rightarrow> (Inl err, [Publish (describe_error X err (requested (conversions X) m tls_entries cf req))])
        | Inr (resp, resp_cf, h) \<Rightarrow>
            respond clone_response (conversions X) (body_bytes c)
              (requested (conversions X) m tls_entries cf req) resp resp_cf h)
        (handler rq h1)"
    using subtrace_start [OF assms(1,2)] by blast
  show ?thesis
  proof (cases "\<exists>resp resp_cf h2. handler rq h1 = Some (Inr (resp, resp_cf, h2))")
    case False
    with rq run show ?thesis
      by (intro exI [of _ rq] exI [of _ h1]) (auto split: option.split sum.split)
  next
    case True
    then obtain resp resp_cf h2 where eq: "handler rq h1 = Some (Inr (resp, resp_cf, h2))" by blast
    with assms(3) obtain d where d: "tags_ok (conversions X) [] resp_cf" "holds h2 (rs_body resp) d" by blast
    from clone_respond [OF d(2,1)] rq run eq d(2) show ?thesis
      by (intro exI [of _ rq] exI [of _ h1]) fastforce
  qed
qed

theorem subtrace_is_transparent_witness:
  "\<exists>rq h1. same_request rq plain_request \<and> holds h1 (rq_body rq) None \<and>
    (case answering_handler JNull rq h1 of
       None \<Rightarrow> subtrace cf_sample sample_moment (answering_handler JNull) plain_request sample_cf [] = None
     | Some (Inl err) \<Rightarrow> subtrace cf_sample sample_moment (answering_handler JNull) plain_request sample_cf [] =
         Some (Inl err, [Publish (describe_error cf_sample err
           (requested (conversions cf_sample) sample_moment tls_entries sample_cf plain_request))])
     | Some (Inr (resp, resp_cf, h2)) \<Rightarrow>
         (\<exists>resp' h3 d. same_response resp' resp \<and> rs_url resp' = rs_url resp \<and>
            holds h2 (rs_body resp) d \<and> holds h3 (rs_body resp') d \<and>
            subtrace cf_sample sample_moment (answering_handler JNull) plain_request sample_cf [] =
              Some (Inr (resp', h3), [Publish_bodies (body_bytes None) (body_bytes d)
                (exchanged (conversions cf_sample) sample_moment tls_entries sample_cf plain_request resp resp_cf)])))"
proof (rule subtrace_is_transparent [OF _ sample_cf_ok])
  show "holds [] (rq_body plain_request) None"
    by (simp add: plain_request_def)
  show "tags_ok (conversions cf_sample) [] resp_cf \<and> (\<exists>d. holds h' (rs_body resp) d)"
    if "answering_handler JNull rq h = Some (Inr (resp, resp_cf, h'))" for rq h resp resp_cf h'
    using answering_handler_body [OF that]
    by (auto simp: tags_ok_iff cf_entries_def js_entries_def isSet_def)
qed

text \<open>C33: an entry of the request's \<open>cf\<close> that is \<open>null\<close> or \<open>undefined\<close> makes the wrapper fail
  with an exception before it calls the handler, whatever the handler would do, and no
  event is published.\<close>

theorem null_cf_entry_blocks_handler:
  assumes "(k, v) \<in> set (cf_entries cf)" and "k \<notin> set tls_entries" and "\<not> isSet v"
  shows "\<exists>e. \<forall>handler. subtrace X m handler req cf h = Some (Inl (Exn e), [])"
proof -
  from add_cf_tags_Inl [OF nullish_not_tags_ok [where P = "conversions X", OF assms]] show ?thesis by (auto simp: subtrace_def)
qed

theorem null_cf_entry_blocks_handler_witness:
  "\<exists>e. \<forall>handler. subtrace cf_sample sample_moment handler plain_request
     (JObj [(''country'', JStr ''US''), (''botManagement'', JNull)]) [] = Some (Inl (Exn e), [])"
  by (rule null_cf_entry_blocks_handler [where k = "''botManagement''" and v = JNull])
    (simp_all add: cf_entries_def js_entries_def isSet_def tls_entries_def)

text \<open>When the \<open>cf\<close> of the handler's response has an entry that is \<open>null\<close> or
  \<open>undefined\<close>, the response is lost: the wrapper throws instead, and no event is
  published.\<close>

theorem null_response_cf_loses_response:
  assumes "holds h (rq_body req) c" and "tags_ok (conversions X) tls_entries cf"
    and "\<And>rq h. \<exists>resp resp_cf h'. handler rq h = Some (Inr (resp, resp_cf, h')) \<and>
      (\<exists>k v. (k, v) \<in> set (cf_entries resp_cf) \<and> \<not> isSet v)"
  shows "\<exists>e. subtrace X m handler req cf h = Some (Inl (Exn e), [])"
proof -
  obtain rq h1 where run: "subtrace X m handler req cf h =
      map_option (\<lambda>res. case res of
          Inl err \<Rightarrow> (Inl err, [Publish (describe_error X err (requested (conversions X) m tls_entries cf req))])
        | Inr (resp, resp_cf, h) \<Rightarrow>
            respond clone_response (conversions X) (body_bytes c)
              (requested (conversions X) m tls_entries cf req) resp resp_cf h)
        (handler rq h1)"
    using subtrace_start [OF assms(1,2)] by blast
  obtain resp resp_cf h' k v where answer: "handler rq h1 = Some (Inr (resp, resp_cf, h'))"
      "(k, v) \<in> set (cf_entries resp_cf)" "\<not> isSet v"
    using assms(3) by blast
  then have "\<not> tags_ok (conversions X) [] resp_cf"
    by (simp add: nullish_not_tags_ok)
  from respond_throws [OF this] run answer(1) show ?thesis by auto
qed

theorem null_response_cf_loses_response_witness:
  "\<exists>e. subtrace cf_sample sample_moment (answering_handler (JObj [(''cacheTtl'', JNull)])) plain_request sample_cf [] =
     Some (Inl (Exn e), [])"
  by (rule null_response_cf_loses_response [where c = None, OF _ sample_cf_ok])
    (simp_all add: plain_request_def answering_handler_def cf_entries_def js_entries_def isSet_def)

section \<open>The patched fetch\<close>

text \<open>The head of the network's answer.\<close>

definition reply_head :: "reply \<Rightarrow> response" where
  "reply_head rp = \<lparr>rs_status = rp_status rp, rs_statusText = rp_statusText rp, rs_url = rp_url rp,
     rs_headers = rp_headers rp, rs_body = None\<rparr>"

lemma fetch_respond:
  assumes "new_Request (parse_url X) (Url u) init h = Inr (req, h1)"
    and "\<And>s. in_body init \<noteq> Some (BodyStream s)" and "holds h1 (rq_body req) c"
    and "net (rq_method req) (rq_url req) (rq_headers req) c = Some (Inr rp)"
    and "rp_body rp = None \<or> 200 \<le> rp_status rp \<and> rp_status rp \<le> 599 \<and> rp_status rp \<notin> {204, 205, 304}"
    and "tags_ok P [] resp_cf"
  shows "\<exists>resp h3 resp' h'. fetch_request (parse_url X) net (Url u) init h2 = Some (Inr (resp, h3)) \<and>
    same_response resp' (reply_head rp) \<and>
    rs_url resp' = (if rp_body rp = None then rp_url rp else []) \<and> holds h' (rs_body resp') (rp_body rp) \<and>
    respond cf_capture_response P requestBytes (requested P m skipped cf req) resp resp_cf h3 =
      (Inr (resp', h'), [Publish_bodies requestBytes (body_bytes (rp_body rp))
         (exchanged P m skipped cf req (reply_head rp) resp_cf)])"
proof -
  obtain resp h3 cs rs h4 where f: "fetch_request (parse_url X) net (Url u) init h2 = Some (Inr (resp, h3))"
    "cf_capture_response resp h3 = Inr ((cs, rs), h4)"
    "rs_status resp = rp_status rp" "rs_statusText resp = rp_statusText rp"
    "rs_url resp = rp_url rp" "rs_headers resp = rp_headers rp"
    "same_response rs resp" "apart (rs_body cs) (rs_body rs)"
    "rs_url rs = (if rp_body rp = None then rp_url rp else [])"
    "holds h4 (rs_body cs) (rp_body rp)" "holds h4 (rs_body rs) (rp_body rp)"
    using cf_capture.fetched_response [where net = net and ?h2.0 = h2, OF assms(1) body_stream_Url [OF assms(2)] assms(3-5)]
    by (auto simp: option.map_id)
  obtain h5 where b: "bytes (rs_body cs) h4 = (body_bytes (rp_body rp), h5)"
      "grows (set_option (rs_body cs)) h4 h5"
    using bytes_spec [OF f(10)] by blast
  have "holds h5 (rs_body rs) (rp_body rp)"
    by (rule holds_apart [OF f(11) b(2) f(8)])
  moreover have "same_response resp (reply_head rp)" "rs_url resp = rs_url (reply_head rp)"
    using f(3-6) by (simp_all add: same_response_def reply_head_def)
  moreover from this have "exchanged P m skipped cf req resp resp_cf =
      exchanged P m skipped cf req (reply_head rp) resp_cf"
    by (rule exchanged_same)
  ultimately show ?thesis
    using f b(1) assms(6)
    by (intro exI [of _ resp] exI [of _ h3] exI [of _ rs] exI [of _ h5])
      (auto simp: respond_def describe_response_exchanged same_response_def)
qed

text \<open>C18: for a URL and a body given as bytes, the patched \<open>fetch\<close> answers as soon as the
  network has, with its status, status text, headers and body, and leaves one job with an
  event that describes the exchange. Only the response's URL is lost, when there is a
  body. The \<open>cf\<close> objects have no entry without a \<open>toString\<close>.\<close>

theorem cf_fetch_is_transparent:
  assumes "new_Request (parse_url X) (Url u) init h = Inr (req, h1)"
    and "\<And>s. in_body init \<noteq> Some (BodyStream s)" and "holds h1 (rq_body req) c"
    and "net (rq_method req) (rq_url req) (rq_headers req) c = Some (Inr rp)"
    and "rp_body rp = None \<or> 200 \<le> rp_status rp \<and> rp_status rp \<le> 599 \<and> rp_status rp \<notin> {204, 205, 304}"
    and "tags_ok (conversions X) [] cf" and "tags_ok (conversions X) [] resp_cf"
  shows "\<exists>resp h'. cf_patched_fetch X net m (Url u) init cf resp_cf h =
      Some (Inr (resp, h'), [Publish_bodies (body_bytes c) (body_bytes (rp_body rp))
        (exchanged (conversions X) m [] cf req (reply_head rp) resp_cf)]) \<and>
    same_response resp (reply_head rp) \<and>
    rs_url resp = (if rp_body rp = None then rp_url rp else []) \<and> holds h' (rs_body resp) (rp_body rp)"
proof -
  obtain cr rq h2 where req: "cf_capture_request req h1 = Inr ((cr, rq), h2)" "same_request rq req"
      "holds h2 (rq_body cr) c"
    using cf_capture.capture_request [OF assms(3)] by (auto simp: option.map_id)
  obtain h2' where b: "bytes (rq_body cr) h2 = (body_bytes c, h2')"
    using bytes_spec [OF req(3)] by blast
  from fetch_respond [where net = net and m = m and requestBytes = "body_bytes c" and ?h2.0 = h2' and skipped = "[]"
      and cf = cf, OF assms(1-5,7)]
  obtain resp h3 resp' h' where f: "fetch_request (parse_url X) net (Url u) init h2' = Some (Inr (resp, h3))"
    "same_response resp' (reply_head rp)"
    "rs_url resp' = (if rp_body rp = None then rp_url rp else [])" "holds h' (rs_body resp') (rp_body rp)"
    "respond cf_capture_response (conversions X) (body_bytes c) (requested (conversions X) m [] cf req) resp resp_cf h3 =
      (Inr (resp', h'), [Publish_bodies (body_bytes c) (body_bytes (rp_body rp))
         (exchanged (conversions X) m [] cf req (reply_head rp) resp_cf)])"
    by blast
  then show ?thesis
    using assms(1,6) req(1) b
    by (intro exI [of _ resp'] exI [of _ h'])
      (simp add: cf_patched_fetch_def Let_def add_cf_tags_Inr describe_request_requested [OF req(2)])
qed

lemma no_cf_ok [simp]: "tags_ok P skipped JUndef"
  by (simp add: tags_ok_iff cf_entries_def isSet_def js_entries_def)

lemma sample_parse_url [simp]: "parse_url cf_sample = parse_url sample_web"
  by (simp add: cf_sample_def sample_web_def web.defs)

theorem cf_fetch_is_transparent_witness:
  "\<exists>resp h'. cf_patched_fetch cf_sample sample_net sample_moment (Url ''u'') post_init JUndef JUndef [] =
      Some (Inr (resp, h'), [Publish_bodies (body_bytes (Some ([Chunk [7, 8, 9]], Ended)))
        (body_bytes (rp_body sample_reply))
        (exchanged (conversions cf_sample) sample_moment [] JUndef post_req (reply_head sample_reply) JUndef)]) \<and>
    same_response resp (reply_head sample_reply) \<and>
    rs_url resp = (if rp_body sample_reply = None then rp_url sample_reply else []) \<and>
    holds h' (rs_body resp) (rp_body sample_reply)"
proof (rule cf_fetch_is_transparent [OF _ _ sample_holds])
  show "new_Request (parse_url cf_sample) (Url ''u'') post_init [] = Inr (post_req, post_heap)"
    by (simp add: sample_new_Request)
qed (simp_all add: sample_net_def sample_reply_def post_init_def)

text \<open>C32: calling the patched \<open>fetch\<close> with a body that is a stream, that of a \<open>Request\<close>
  object or one given in \<open>init\<close>, always fails with a \<open>TypeError\<close>, the network is never
  asked, and an event with status 500 is published for a request that was never sent. The
  \<open>cf\<close> of the call has no entry without a \<open>toString\<close>.\<close>

theorem cf_fetch_rejects_requests_with_body:
  assumes "new_Request (parse_url X) input init h = Inr (req, h1)" and "body_stream input init = Some a"
    and "tags_ok (conversions X) [] cf"
  shows "cf_patched_fetch X net m input init cf resp_cf h =
    Some (Inl (Exn unusable),
      [Publish (describe_error X (Exn unusable) (requested (conversions X) m [] cf req))])"
proof -
  obtain c cr rq h2 where new: "cf_capture_request req h1 = Inr ((cr, rq), h2)" "same_request rq req"
    and fails: "locks h2 h3 \<Longrightarrow> fetch_request (parse_url X) net input init h3 = Some (Inl unusable)" for h3
    using cf_capture.stream_body_taken [where net = net, OF assms(1,2)] by auto
  obtain x h3 where b: "bytes (rq_body cr) h2 = (x, h3)" by force
  then have "locks h2 h3"
    by (auto simp: bytes_def locks_def take_reader_def nth_list_update split: option.splits sum.splits if_splits)
  with new b assms(1,3) show ?thesis
    by (simp add: cf_patched_fetch_def Let_def add_cf_tags_Inr fails describe_request_requested)
qed

theorem cf_fetch_rejects_requests_with_body_witness:
  "cf_patched_fetch cf_sample sample_net sample_moment (Req post_req) no_init JUndef JUndef post_heap =
    Some (Inl (Exn unusable), [Publish (describe_error cf_sample (Exn unusable)
      (requested (conversions cf_sample) sample_moment [] JUndef (post_req\<lparr>rq_body := Some 1\<rparr>)))])"
proof (rule cf_fetch_rejects_requests_with_body [where a = 0])
  show "new_Request (parse_url cf_sample) (Req post_req) no_init post_heap =
     Inr (post_req\<lparr>rq_body := Some 1\<rparr>,
       [\<lparr>contents = ([Chunk [7, 8, 9]], Ended), locked = True\<rparr>,
        \<lparr>contents = ([Chunk [7, 8, 9]], Ended), locked = False\<rparr>])"
    by (simp only: sample_parse_url post_req_again)
qed (simp_all add: body_stream_def no_init_def post_req_def)

end
