(* ===== verification/CfPublish.thy ===== *)
theory CfPublish
  imports CfProps
begin

text \<open>
  What the published events contain, for every run of the wrapped handler and the patched
  \<open>fetch\<close>, and what \<open>publishEvent\<close> makes of them.
\<close>

section \<open>The tags of an event\<close>

text \<open>A well-formed object whose keys are in \<open>K\<close>.\<close>

definition good_tags :: "string set \<Rightarrow> string jsobj \<Rightarrow> bool" where
  "good_tags K ts \<longleftrightarrow> obj_ok ts \<and> fst ` set ts \<subseteq> K"

lemma obj_insert_keys: "fst ` set (obj_insert k v ps) = insert k (fst ` set ps)"
  by (induction k v ps rule: obj_insert.induct) auto

lemma obj_replace_keys: "fst ` set (obj_replace k v ps) = fst ` set ps"
  by (induction k v ps rule: obj_replace.induct) auto

lemma obj_set_keys: "fst ` set (obj_set k v ps) \<subseteq> insert k (fst ` set ps)"
  by (simp add: obj_set_def obj_insert_keys obj_replace_keys subset_insertI)

lemma good_tags_set: "good_tags K ts \<Longrightarrow> k \<in> K \<Longrightarrow> good_tags K (obj_set k v ts)"
  using obj_set_keys [of k v ts] by (auto simp: good_tags_def obj_ok_set)

lemma add_entries_good:
  "add_entries P prefix skipped kvs ev = Inr ev' \<Longrightarrow> good_tags K (event_tags ev) \<Longrightarrow>
   (\<And>k. k \<notin> set skipped \<Longrightarrow> prefix @ k \<in> K) \<Longrightarrow> good_tags K (event_tags ev')"
  by (induction kvs arbitrary: ev)
    (auto simp: add_entries_simps bindE_eq_Inr good_tags_set split: if_splits)

lemma add_cf_tags_good:
  "add_cf_tags P prefix skipped cf ev = Inr ev' \<Longrightarrow> good_tags K (event_tags ev) \<Longrightarrow>
   (\<And>k. k \<notin> set skipped \<Longrightarrow> prefix @ k \<in> K) \<Longrightarrow> good_tags K (event_tags ev')"
  unfolding add_cf_tags_def by (rule add_entries_good)

lemma describe_tags [simp]:
  "event_tags (describe_request req ev) = event_tags ev"
  "event_tags (describe_bodies a b ev) = event_tags ev"
  "event_tags (newEvent i t) = [(''event_id'', i), (''time'', t)]"
  by (simp_all add: describe_request_def describe_bodies_def newEvent_def)

lemma describe_error_good:
  "good_tags K (event_tags ev) \<Longrightarrow> ''exception.stack'' \<in> K \<Longrightarrow> good_tags K (event_tags (describe_error X err ev))"
  by (auto simp: describe_error_def Let_def good_tags_set split: thrown.split sum.split)

lemma describe_response_good:
  "describe_response P resp cf ev = Inr ev' \<Longrightarrow> good_tags K (event_tags ev) \<Longrightarrow>
   (\<And>k. ''response.cf.'' @ k \<in> K) \<Longrightarrow> good_tags K (event_tags ev')"
  by (auto simp: describe_response_def bindE_eq_Inr split: option.splits
      elim!: add_cf_tags_good [where prefix = "''response.cf.''" and skipped = "[]"])

lemma first_tags_ok: "obj_ok [(''event_id'', i), (''time'', t)]"
  by (simp add: obj_ok_def proto_key_def key_before_def array_index_def is_digit_def)

lemma job_event_tags:
  "job_event j = Some (Inr ev) \<Longrightarrow>
   (\<forall>ev'. j = Publish ev' \<or> (\<exists>a b. j = Publish_bodies a b ev') \<longrightarrow> good_tags K (event_tags ev')) \<Longrightarrow>
   good_tags K (event_tags ev)"
  by (cases j) (auto simp: job_event_def split: option.splits sum.splits)

lemma respond_good:
  "respond copy P b ev resp cf h = (r, jobs) \<Longrightarrow> j \<in> set jobs \<Longrightarrow> job_event j = Some (Inr ev') \<Longrightarrow>
   good_tags K (event_tags ev) \<Longrightarrow> (\<And>k. ''response.cf.'' @ k \<in> K) \<Longrightarrow> good_tags K (event_tags ev')"
  by (erule job_event_tags)
    (auto simp: respond_def bindE_eq_Inr split: sum.splits prod.splits elim!: describe_response_good)

text \<open>The keys the wrapped handler can write.\<close>

definition handler_keys :: "string set" where
  "handler_keys =
     {''event_id'', ''time'', ''exception.stack''} \<union> {''request.cf.'' @ k | k. k \<notin> set tls_entries}
     \<union> range ((@) ''response.cf.'')"

lemma handler_keys [simp]:
  "''event_id'' \<in> handler_keys" "''time'' \<in> handler_keys" "''exception.stack'' \<in> handler_keys"
  "k \<notin> set tls_entries \<Longrightarrow> ''request.cf.'' @ k \<in> handler_keys" "''response.cf.'' @ k \<in> handler_keys"
  unfolding handler_keys_def by blast+

lemmas handler_keys_unfolded [simp] = handler_keys(4,5) [unfolded append.simps]

lemma tls_not_handler_key: "t \<in> set tls_entries \<Longrightarrow> ''request.cf.'' @ t \<notin> handler_keys"
  by (auto simp: handler_keys_def)

lemma subtrace_good:
  assumes "subtrace X m handler req cf h = Some (r, jobs)" and "j \<in> set jobs"
    and "job_event j = Some (Inr ev)"
  shows "good_tags handler_keys (event_tags ev)"
proof (cases "add_cf_tags (conversions X) ''request.cf.'' tls_entries cf (newEvent (eventId m) (startDate m))")
  case (Inr ev')
  have "good_tags handler_keys (event_tags ev')"
    by (rule add_cf_tags_good [OF Inr]) (simp_all add: good_tags_def first_tags_ok)
  with assms Inr show ?thesis
    by (auto simp: subtrace_def Let_def bindE_def job_event_def [of "Publish e" for e] describe_error_good
        split: sum.splits option.splits prod.splits elim!: respond_good)
qed (use assms in \<open>simp add: subtrace_def\<close>)

section \<open>Publishing\<close>

text \<open>What is left to do when the server has answered.\<close>

definition publish_outcome :: "cf_platform \<Rightarrow> reply \<Rightarrow> (unit result \<times> console_line list) option" where
  "publish_outcome X rp =
     (if rp_status rp = 200 then Some (Inr (), [])
      else map_option (\<lambda>res. case res of
             Inl e \<Rightarrow> (Inl e, [])
           | Inr bs \<Rightarrow> (Inr (), [Err (publish_error (conversions X) (rp_status rp) (rp_statusText rp) (text_decode X bs))]))
           (body_bytes (rp_body rp)))"

lemma new_reply_text:
  "new_reply rp h = (resp, h') \<Longrightarrow>
   rs_status resp = rp_status rp \<and> rs_statusText resp = rp_statusText rp \<and>
   body_text X (rs_body resp) h' = map_option (map_sum id (text_decode X)) (body_bytes (rp_body rp))"
  by (auto simp: new_reply_def alloc_def Let_def body_text_def body_read_def body_bytes_def
      split: option.splits)

lemma publishEvent_fetched:
  assumes "publish_init (conversions X) (JStr token) ev = Inr init"
    and "fetch_request (parse_url X) net (Url publish_url) init h =
      map_option (\<lambda>res. bindE res (\<lambda>rp. Inr (new_reply rp h'))) answer"
  shows "publishEvent X net (JStr token) ev h =
    (case answer of
       None \<Rightarrow> None
     | Some (Inl e) \<Rightarrow> Some (Inl e, [])
     | Some (Inr rp) \<Rightarrow> publish_outcome X rp)"
proof (cases "\<exists>rp. answer = Some (Inr rp)")
  case True
  then obtain rp where rp: "answer = Some (Inr rp)" by blast
  obtain resp h2 where resp: "new_reply rp h' = (resp, h2)" by force
  from new_reply_text [OF resp, of "web.truncate X"] have
      "rs_status resp = rp_status rp" "rs_statusText resp = rp_statusText rp"
      "body_text (web.truncate X) (rs_body resp) h2 =
        map_option (map_sum id (text_decode X)) (body_bytes (rp_body rp))"
    by (simp_all add: web.truncate_def)
  with assms rp resp show ?thesis
    by (auto simp: publishEvent_def publish_outcome_def option.map_comp comp_def
        intro!: option.map_cong0 split: sum.split)
qed (use assms in \<open>auto simp: publishEvent_def split: option.split sum.split\<close>)

lemma publishEvent_posts:
  assumes "parse_url X publish_url = Some url"
  shows "publishEvent X net (JStr token) ev h =
    (case net ''POST'' url
        [(''authorization'', ''Bearer '' @ token), (''content-type'', ''text/plain;charset=UTF-8'')]
        (Some ([Chunk (utf8 (the (json_text (conversions X)
           (PublishEvents_Request_toJSON (conversions X) (publish_message (conversions X) ev)))))], Ended)) of
       None \<Rightarrow> None
     | Some (Inl e) \<Rightarrow> Some (Inl e, [])
     | Some (Inr rp) \<Rightarrow> publish_outcome X rp)"
proof -
  let ?body = "utf8 (the (json_text (conversions X)
     (PublishEvents_Request_toJSON (conversions X) (publish_message (conversions X) ev))))"
  let ?init = "\<lparr>in_method = Some ''POST'', in_headers = Some [(''authorization'', ''Bearer '' @ token)],
     in_body = Some (BodyBytes ?body (Some ''text/plain;charset=UTF-8''))\<rparr>"
  have hs: "init_headers ?init =
      [(''authorization'', ''Bearer '' @ token), (''content-type'', ''text/plain;charset=UTF-8'')]"
    by (simp add: init_headers_def body_type_header_def)
  have m: "init_method ?init = Inr ''POST''"
    by (simp add: init_method_def)
  obtain h' where "fetch_request (parse_url X) net (Url publish_url) ?init h =
      map_option (\<lambda>res. bindE res (\<lambda>rp. Inr (new_reply rp h')))
        (net ''POST'' url (init_headers ?init) (Some ([Chunk ?body], Ended)))"
    using fetch_request_bytes [where parse = "parse_url X" and net = net and init = ?init and h = h, OF assms _ m]
    by auto
  moreover have "publish_init (conversions X) (JStr token) ev = Inr ?init"
    by (simp add: publish_init_def)
  ultimately show ?thesis
    unfolding hs by (intro publishEvent_fetched)
qed

section \<open>Properties\<close>

lemma publish_message_wf: "obj_ok (event_tags ev) \<Longrightarrow> PublishEvents_Request_wf (publish_message P ev)"
  by (simp add: PublishEvents_Request_wf_def Event_wf_def Event_V1_wf_def publish_message_def)

lemma job_posts:
  assumes "buffer_ok (conversions X)" and "parse_url X publish_url = Some url"
    and "job_event j = Some (Inr ev)" and "obj_ok (event_tags ev)"
  shows "\<exists>v text. json_text (conversions X) v = Some text \<and>
    PublishEvents_Request_fromJSON (conversions X) v = Inr (publish_message (conversions X) ev) \<and>
    run_job X net (JStr token) h' j =
      (case net ''POST'' url
          [(''authorization'', ''Bearer '' @ token), (''content-type'', ''text/plain;charset=UTF-8'')]
          (Some ([Chunk (utf8 text)], Ended)) of
         None \<Rightarrow> None
       | Some (Inl e) \<Rightarrow> Some (Inl e, [])
       | Some (Inr rp) \<Rightarrow> publish_outcome X rp)"
proof -
  define v where "v = PublishEvents_Request_toJSON (conversions X) (publish_message (conversions X) ev)"
  obtain ps where "v = JObj ps"
    using PublishEvents_Request_toJSON_object unfolding v_def by blast
  then have "json_text (conversions X) v = Some (the (json_text (conversions X) v))" by simp
  moreover have "PublishEvents_Request_fromJSON (conversions X) v = Inr (publish_message (conversions X) ev)"
    unfolding v_def by (intro PublishEvents_Request_json assms(1) publish_message_wf assms(4))
  moreover have "run_job X net (JStr token) h' j = publishEvent X net (JStr token) ev h'"
    by (simp add: run_job_def assms(3))
  ultimately show ?thesis
    unfolding v_def publishEvent_posts [OF assms(2)] by blast
qed

text \<open>C10: every event a wrapped handler gives rise to is sent, once a string token is known, as
  one authorized \<open>POST\<close> whose body is the JSON text of a value that the server's decoder
  \<open>PublishEvents_Request.fromJSON\<close> reads as exactly the event's tags and HAR entry; a status
  other than 200 is reported on the console.\<close>

theorem published_event_is_posted:
  assumes "buffer_ok (conversions X)" and "parse_url X publish_url = Some url"
    and "subtrace X m handler req cf h = Some (r, jobs)" and "j \<in> set jobs"
    and "job_event j = Some (Inr ev)"
  shows "\<exists>v text. json_text (conversions X) v = Some text \<and>
    PublishEvents_Request_fromJSON (conversions X) v = Inr (publish_message (conversions X) ev) \<and>
    run_job X net (JStr token) h' j =
      (case net ''POST'' url
          [(''authorization'', ''Bearer '' @ token), (''content-type'', ''text/plain;charset=UTF-8'')]
          (Some ([Chunk (utf8 text)], Ended)) of
         None \<Rightarrow> None
       | Some (Inl e) \<Rightarrow> Some (Inl e, [])
       | Some (Inr rp) \<Rightarrow> publish_outcome X rp)"
  using subtrace_good [OF assms(3-5)] by (intro job_posts assms) (simp add: good_tags_def)

definition failed_event :: cf_event where
  "failed_event = describe_error cf_sample (Exn (Error ''boom''))
     (requested (conversions cf_sample) sample_moment tls_entries sample_cf plain_request)"

lemma sample_run:
  "subtrace cf_sample sample_moment throwing_handler plain_request sample_cf [] =
     Some (Inl (Exn (Error ''boom'')), [Publish failed_event])"
  using subtrace_start [of "[]" plain_request None cf_sample sample_cf sample_moment throwing_handler,
      OF _ sample_cf_ok]
  by (auto simp: plain_request_def throwing_handler_def failed_event_def)

lemma sample_job: "job_event (Publish failed_event) = Some (Inr failed_event)"
  by (simp add: job_event_def)

lemma cf_sample_ok: "buffer_ok (conversions cf_sample)" "parse_url cf_sample publish_url = Some publish_url"
  by (simp_all add: buffer_ok_def cf_sample_def sample_web_def web.defs publish_url_def)

theorem published_event_is_posted_witness:
  "\<exists>v text. json_text (conversions cf_sample) v = Some text \<and>
    PublishEvents_Request_fromJSON (conversions cf_sample) v = Inr (publish_message (conversions cf_sample) failed_event) \<and>
    run_job cf_sample (\<lambda>_ _ _ _. Some (Inl (TypeError ''no network''))) (JStr ''tok'') [] (Publish failed_event) =
      (case Some (Inl (TypeError ''no network'')) of
         None \<Rightarrow> None
       | Some (Inl e) \<Rightarrow> Some (Inl e, [])
       | Some (Inr rp) \<Rightarrow> publish_outcome cf_sample rp)"
  by (rule published_event_is_posted [OF cf_sample_ok sample_run _ sample_job]) simp

text \<open>C29: the TLS client material in the request's \<open>cf\<close> is never published: no event of a
  wrapped handler has a tag for \<open>tlsClientAuth\<close>, \<open>tlsClientRandom\<close> or
  \<open>tlsExportedAuthenticator\<close>, whatever the request, the handler and its response are.\<close>

theorem tls_material_is_never_published:
  assumes "subtrace X m handler req cf h = Some (r, jobs)" and "j \<in> set jobs"
    and "job_event j = Some (Inr ev)"
  shows "fst ` set (event_tags ev) \<inter>
    {''request.cf.tlsClientAuth'', ''request.cf.tlsClientRandom'', ''request.cf.tlsExportedAuthenticator''} = {}"
  using subtrace_good [OF assms] tls_not_handler_key [of "''tlsClientAuth''"]
    tls_not_handler_key [of "''tlsClientRandom''"] tls_not_handler_key [of "''tlsExportedAuthenticator''"]
  by (auto simp: good_tags_def tls_entries_def)

theorem tls_material_is_never_published_witness:
  "fst ` set (event_tags failed_event) \<inter>
    {''request.cf.tlsClientAuth'', ''request.cf.tlsClientRandom'', ''request.cf.tlsExportedAuthenticator''} = {}"
  by (rule tls_material_is_never_published [OF sample_run _ sample_job]) simp

section \<open>A handler that answers\<close>

lemma body_bytes_ended: "body_bytes c = Some (Inr bs) \<longleftrightarrow> ended c \<and> bs = bytes_of c"
  by (auto simp: body_bytes_def ended_def bytes_of_def read_all_def split: option.splits ending.splits)

lemma job_event_bodies:
  "job_event (Publish_bodies (body_bytes c) (body_bytes d) ev) = Some (Inr ev') \<longleftrightarrow>
     ended c \<and> ended d \<and> ev' = describe_bodies (bytes_of c) (bytes_of d) ev"
  using body_bytes_ended [of c] body_bytes_ended [of d]
  by (cases "body_bytes c"; cases "body_bytes d") (auto simp: job_event_def split: sum.splits)

text \<open>
  The handler answers a request like \<open>req\<close> with body \<open>c\<close>, in whatever store that body is,
  with the status, headers, URL and body of \<open>rp\<close>; where it puts the body is its own affair.
\<close>

definition answers :: "cf_handler \<Rightarrow> request \<Rightarrow> content option \<Rightarrow> reply \<Rightarrow> jsval \<Rightarrow> bool" where
  "answers handler req c rp resp_cf \<longleftrightarrow>
     (\<forall>rq h. same_request rq req \<and> holds h (rq_body rq) c \<longrightarrow>
        (\<exists>resp h'. handler rq h = Some (Inr (resp, resp_cf, h')) \<and> same_response resp (reply_head rp) \<and>
           rs_url resp = rp_url rp \<and> holds h' (rs_body resp) (rp_body rp)))"

lemma subtrace_answered:
  assumes "holds h (rq_body req) c" and "tags_ok (conversions X) tls_entries cf"
    and "answers handler req c rp resp_cf"
    and "tags_ok (conversions X) [] resp_cf"
  shows "\<exists>resp' h'. subtrace X m handler req cf h =
      Some (Inr (resp', h'), [Publish_bodies (body_bytes c) (body_bytes (rp_body rp))
        (exchanged (conversions X) m tls_entries cf req (reply_head rp) resp_cf)]) \<and>
    same_response resp' (reply_head rp) \<and> rs_url resp' = rp_url rp \<and> holds h' (rs_body resp') (rp_body rp)"
proof -
  obtain rq h1 where rq: "same_request rq req" "holds h1 (rq_body rq) c"
    and run: "subtrace X m handler req cf h =
      map_option (\<lambda>res. case res of
          Inl err \<Rightarrow> (Inl err, [Publish (describe_error X err (requested (conversions X) m tls_entries cf req))])
        | Inr (resp, resp_cf, h) \<Rightarrow>
            respond clone_response (conversions X) (body_bytes c)
              (requested (conversions X) m tls_entries cf req) resp resp_cf h)
        (handler rq h1)"
    using subtrace_start [OF assms(1,2)] by blast
  obtain resp h2 where answer: "handler rq h1 = Some (Inr (resp, resp_cf, h2))" "same_response resp (reply_head rp)"
      "rs_url resp = rp_url rp" "holds h2 (rs_body resp) (rp_body rp)"
    using assms(3) rq unfolding answers_def by blast
  have same: "exchanged (conversions X) m tls_entries cf req resp resp_cf =
      exchanged (conversions X) m tls_entries cf req (reply_head rp) resp_cf"
    using answer(2,3) by (intro exchanged_same) (simp_all add: reply_head_def)
  from clone_respond [OF answer(4) assms(4), of "body_bytes c" m tls_entries cf req] run answer(1-3)
  show ?thesis unfolding same by (auto simp: same_response_def)
qed

text \<open>A handler that answers with a reply, whose body it puts into the store.\<close>

definition serving :: "reply \<Rightarrow> jsval \<Rightarrow> cf_handler" where
  "serving rp resp_cf rq h = (case new_reply rp h of (resp, h) \<Rightarrow> Some (Inr (resp, resp_cf, h)))"

lemma serving_answers: "answers (serving rp resp_cf) req c rp resp_cf"
  by (auto simp: answers_def serving_def new_reply_def alloc_def readable_def nth_append same_response_def
      reply_head_def split: option.split)

text \<open>C28: when the handler answers, the caller gets its response and one job is left, which
  publishes the event, with both bodies in base64, exactly when both bodies end; a body that
  fails or never ends drops it. The response does not wait for either of them.\<close>

theorem event_published_iff_bodies_end:
  assumes "holds h (rq_body req) c" and "tags_ok (conversions X) tls_entries cf"
    and "answers handler req c rp resp_cf"
    and "tags_ok (conversions X) [] resp_cf"
  shows "\<exists>resp' h' j. subtrace X m handler req cf h = Some (Inr (resp', h'), [j]) \<and>
    same_response resp' (reply_head rp) \<and> rs_url resp' = rp_url rp \<and> holds h' (rs_body resp') (rp_body rp) \<and>
    (\<forall>ev. job_event j = Some (Inr ev) \<longleftrightarrow>
       ended c \<and> ended (rp_body rp) \<and>
       ev = describe_bodies (bytes_of c) (bytes_of (rp_body rp))
         (exchanged (conversions X) m tls_entries cf req (reply_head rp) resp_cf))"
proof -
  from subtrace_answered [where m = m, OF assms] obtain resp' h' where
      "subtrace X m handler req cf h =
        Some (Inr (resp', h'), [Publish_bodies (body_bytes c) (body_bytes (rp_body rp))
          (exchanged (conversions X) m tls_entries cf req (reply_head rp) resp_cf)])"
      "same_response resp' (reply_head rp)" "rs_url resp' = rp_url rp" "holds h' (rs_body resp') (rp_body rp)"
    by blast
  with job_event_bodies show ?thesis by blast
qed

text \<open>A response whose body never ends: the caller gets it, the event is never published.\<close>

definition endless_reply :: reply where
  "endless_reply = sample_reply\<lparr>rp_body := Some ([Chunk [1]], Stalled)\<rparr>"

theorem event_published_iff_bodies_end_witness:
  "\<exists>resp' h' j. subtrace cf_sample sample_moment (serving endless_reply JNull) plain_request sample_cf [] =
      Some (Inr (resp', h'), [j]) \<and>
    same_response resp' (reply_head endless_reply) \<and> rs_url resp' = rp_url endless_reply \<and>
    holds h' (rs_body resp') (rp_body endless_reply) \<and>
    (\<forall>ev. job_event j = Some (Inr ev) \<longleftrightarrow>
       ended None \<and> ended (rp_body endless_reply) \<and>
       ev = describe_bodies (bytes_of None) (bytes_of (rp_body endless_reply))
         (exchanged (conversions cf_sample) sample_moment tls_entries sample_cf plain_request (reply_head endless_reply) JNull))"
  by (rule event_published_iff_bodies_end [OF _ sample_cf_ok serving_answers])
    (simp_all add: plain_request_def tags_ok_iff cf_entries_def js_entries_def isSet_def)

end
