(* ===== verification/CfWorker.thy ===== *)
theory CfWorker
  imports CfPublish "HOL-Library.Multiset"
begin

text \<open>
  A worker of \<open>subtrace-cloudflare/index.ts\<close> over its lifetime: requests to the wrapped
  handler, calls of the patched \<open>fetch\<close> and the jobs they hand to \<open>waitUntil\<close>, in any order,
  around the one variable they share, \<open>SUBTRACE_TOKEN\<close>.
\<close>

section \<open>The state\<close>

text \<open>
  The module; the number of requests the wrapped handler has not answered yet; the jobs not
  run so far; and as a record of the past the environments of the requests, all jobs made,
  and the jobs run with the token they found and their outcome.
\<close>

record worker =
  wk_module :: cf_module
  wk_open :: nat
  wk_pending :: "job list"
  wk_envs :: "jsval jsobj list"
  wk_made :: "job list"
  wk_ran :: "(jsval \<times> job \<times> (unit result \<times> console_line list) option) list"

definition worker_start :: "bool \<Rightarrow> worker" where
  "worker_start has_fetch =
     \<lparr>wk_module = cf_init has_fetch cf_start, wk_open = 0, wk_pending = [], wk_envs = [], wk_made = [], wk_ran = []\<rparr>"

text \<open>The first statement of the wrapped handler, which runs to its end before any other code.\<close>

definition enter :: "jsval jsobj \<Rightarrow> worker \<Rightarrow> worker" where
  "enter env w = w\<lparr>wk_module := (wk_module w)\<lparr>cf_token := adopt_token env (cf_token (wk_module w))\<rparr>,
     wk_open := wk_open w + 1, wk_envs := wk_envs w @ [env]\<rparr>"

definition add_jobs :: "job list \<Rightarrow> worker \<Rightarrow> worker" where
  "add_jobs js w = w\<lparr>wk_pending := wk_pending w @ js, wk_made := wk_made w @ js\<rparr>"

text \<open>A job publishes with the token it finds.\<close>

definition run_pending :: "cf_platform \<Rightarrow> network \<Rightarrow> heap \<Rightarrow> nat \<Rightarrow> worker \<Rightarrow> worker" where
  "run_pending X net h i w =
     (let j = wk_pending w ! i; token = cf_token (wk_module w)
      in w\<lparr>wk_pending := take i (wk_pending w) @ drop (Suc i) (wk_pending w),
           wk_ran := wk_ran w @ [(token, j, run_job X net token h j)]\<rparr>)"

inductive worker_step :: "cf_platform \<Rightarrow> network \<Rightarrow> worker \<Rightarrow> worker \<Rightarrow> bool" for X net where
  enters: "worker_step X net w (enter env w)"
| answers: "0 < wk_open w \<Longrightarrow> subtrace X m handler request cf h = Some (r, js) \<Longrightarrow>
    worker_step X net w (add_jobs js (w\<lparr>wk_open := wk_open w - 1\<rparr>))"
| fetches: "cf_patched (wk_module w) \<Longrightarrow> cf_patched_fetch X net m input init cf resp_cf h = Some (r, js) \<Longrightarrow>
    worker_step X net w (add_jobs js w)"
| publishes: "i < length (wk_pending w) \<Longrightarrow> worker_step X net w (run_pending X net h i w)"

section \<open>The token\<close>

text \<open>The token of the first environment that has one other than \<open>null\<close>, and \<open>null\<close> if none has.\<close>

definition env_token :: "jsval jsobj \<Rightarrow> jsval" where
  "env_token env = (case obj_get env ''SUBTRACE_TOKEN'' of None \<Rightarrow> JNull | Some v \<Rightarrow> v)"

fun first_token :: "jsval jsobj list \<Rightarrow> jsval" where
  "first_token [] = JNull"
| "first_token (env # envs) = (if env_token env \<noteq> JNull then env_token env else first_token envs)"

lemma first_token_snoc: "first_token (envs @ [env]) = adopt_token env (first_token envs)"
  by (induction envs) (auto simp: adopt_token_def env_token_def split: option.splits)

lemma adopt_token_kept: "token \<noteq> JNull \<Longrightarrow> adopt_token env token = token"
  by (simp add: adopt_token_def split: option.split)

section \<open>The invariant\<close>

definition ran_ok :: "cf_platform \<Rightarrow> network \<Rightarrow> jsval \<Rightarrow> jsval \<times> job \<times> (unit result \<times> console_line list) option \<Rightarrow> bool" where
  "ran_ok X net token r \<longleftrightarrow>
     (case r of (t, j, out) \<Rightarrow> (t = JNull \<or> t = token) \<and> (\<exists>h. out = run_job X net t h j))"

lemma ran_ok_adopt: "ran_ok X net token r \<Longrightarrow> ran_ok X net (adopt_token env token) r"
  using adopt_token_kept [of token env] by (cases "token = JNull") (auto simp: ran_ok_def)

definition worker_ok :: "cf_platform \<Rightarrow> network \<Rightarrow> worker \<Rightarrow> bool" where
  "worker_ok X net w \<longleftrightarrow>
     cf_token (wk_module w) = first_token (wk_envs w) \<and>
     mset (wk_made w) = mset (wk_pending w) + mset (map (fst \<circ> snd) (wk_ran w)) \<and>
     list_all (ran_ok X net (first_token (wk_envs w))) (wk_ran w)"

lemma worker_ok_start: "worker_ok X net (worker_start has_fetch)"
  by (simp add: worker_ok_def worker_start_def cf_init_def cf_patchFetch_def cf_start_def Let_def)

lemma worker_ok_enter: "worker_ok X net w \<Longrightarrow> worker_ok X net (enter env w)"
  by (auto simp: worker_ok_def enter_def first_token_snoc list_all_iff intro: ran_ok_adopt)

lemma worker_ok_add_jobs: "worker_ok X net w \<Longrightarrow> worker_ok X net (add_jobs js w)"
  by (simp add: worker_ok_def add_jobs_def)

lemma mset_remove_nth:
  assumes "i < length xs"
  shows "mset xs = mset (take i xs @ drop (Suc i) xs) + {# xs ! i #}"
proof -
  have "mset xs = mset (take i xs @ xs ! i # drop (Suc i) xs)"
    by (simp only: id_take_nth_drop [OF assms, symmetric])
  then show ?thesis by simp
qed

lemma worker_ok_run_pending:
  assumes "worker_ok X net w" and "i < length (wk_pending w)"
  shows "worker_ok X net (run_pending X net h i w)"
  using assms(1) mset_remove_nth [OF assms(2)]
  by (auto simp: worker_ok_def run_pending_def ran_ok_def Let_def)

lemma worker_step_ok: "worker_step X net w w' \<Longrightarrow> worker_ok X net w \<Longrightarrow> worker_ok X net w'"
proof (induction rule: worker_step.induct)
  case (answers w m handler request cf h r js)
  then have "worker_ok X net (w\<lparr>wk_open := wk_open w - 1\<rparr>)" by (simp add: worker_ok_def)
  then show ?case by (rule worker_ok_add_jobs)
qed (simp_all add: worker_ok_enter worker_ok_add_jobs worker_ok_run_pending)

lemma worker_run_ok:
  "(worker_step X net)\<^sup>*\<^sup>* (worker_start has_fetch) w \<Longrightarrow> worker_ok X net w"
  by (induction rule: rtranclp_induct) (auto intro: worker_ok_start worker_step_ok)

section \<open>Properties\<close>

text \<open>C12: in every order of requests, calls of \<open>fetch\<close> and jobs, the worker publishes with one
  token only, that of the first environment that has one: the check and the assignment of
  \<open>SUBTRACE_TOKEN\<close> cannot be interrupted. Every job made is run at most once and until then
  still to be run. What is published before there is a token only goes to the console, whatever
  the network.\<close>

theorem worker_uses_first_token:
  assumes "(worker_step X net)\<^sup>*\<^sup>* (worker_start has_fetch) w"
  shows "cf_token (wk_module w) = first_token (wk_envs w) \<and>
    mset (wk_made w) = mset (wk_pending w) + mset (map (fst \<circ> snd) (wk_ran w)) \<and>
    list_all (\<lambda>(t, j, out).
      t = first_token (wk_envs w) \<and> (\<exists>h. out = run_job X net t h j) \<or>
      t = JNull \<and> (\<exists>h. out = run_job X net' t h j)) (wk_ran w)"
proof -
  have ok: "worker_ok X net w" by (rule worker_run_ok [OF assms])
  have "run_job X net JNull h j = run_job X net' JNull h j" for h j
    by (simp add: run_job_def publishEvent_def split: option.split sum.split)
  with ok show ?thesis
    by (fastforce simp: worker_ok_def ran_ok_def list_all_iff)
qed

text \<open>A worker whose first request has no token and whose second has one.\<close>

definition token_env :: "jsval jsobj" where
  "token_env = [(''SUBTRACE_TOKEN'', JStr ''t'')]"

lemma failing_request:
  "\<exists>ev. subtrace cf_sample m (\<lambda>_ _. Some (Inl (Val JNull))) plain_request JUndef [] =
     Some (Inl (Val JNull), [Publish ev])"
  by (simp add: subtrace_def add_cf_tags_def add_entries_def cf_entries_def isSet_def js_entries_def
      clone_request_def plain_request_def bytes_def Let_def)

theorem worker_uses_first_token_witness:
  "\<exists>w :: worker. wk_envs w = [[], token_env] \<and> cf_token (wk_module w) = JStr ''t'' \<and> length (wk_ran w) = 1"
proof -
  obtain ev where js: "subtrace cf_sample sample_moment (\<lambda>_ _. Some (Inl (Val JNull))) plain_request JUndef [] =
      Some (Inl (Val JNull), [Publish ev])"
    using failing_request by blast
  let ?w1 = "enter [] (worker_start True)"
  let ?w2 = "add_jobs [Publish ev] (?w1\<lparr>wk_open := wk_open ?w1 - 1\<rparr>)"
  let ?w3 = "run_pending cf_sample sample_net [] 0 ?w2"
  let ?w4 = "enter token_env ?w3"
  have "worker_step cf_sample sample_net ?w1 ?w2"
    by (rule answers [OF _ js]) (simp add: enter_def)
  moreover have "worker_step cf_sample sample_net ?w2 ?w3"
    by (rule publishes) (simp add: add_jobs_def)
  ultimately have "(worker_step cf_sample sample_net)\<^sup>*\<^sup>* (worker_start True) ?w4"
    by (meson enters rtranclp.rtrancl_into_rtrancl rtranclp.rtrancl_refl)
  from conjunct1 [OF worker_uses_first_token [OF this, where net' = sample_net]]
  have "cf_token (wk_module ?w4) = first_token (wk_envs ?w4)" .
  moreover have "first_token [[], token_env] = JStr ''t''"
    by (simp add: env_token_def token_env_def)
  moreover have "wk_envs ?w4 = [[], token_env]" "length (wk_ran ?w4) = 1"
    by (simp_all add: enter_def worker_start_def add_jobs_def run_pending_def Let_def)
  ultimately show ?thesis by metis
qed

end
