(* ===== verification/DevMutex.thy ===== *)
theory DevMutex
  imports Prelude
begin

text \<open>
  The class \<open>Mutex\<close> of \<open>devtools/init.js\<close>, in both its forms: a byte of shared memory
  where the page may use one, and a boolean otherwise. What its users rely on is the locale
  \<open>lock\<close>, which both forms implement; the observer of \<open>init\<close> is one of them.
\<close>

section \<open>The class\<close>

text \<open>\<open>mutex_shared\<close> is the single element of the \<open>Uint8Array\<close>.\<close>

record Mutex =
  mutex_counter :: nat
  mutex_shared :: "byte option"
  mutex_locked :: bool
  mutex_useSab :: bool

text \<open>The constructor: is the page isolated, and does \<open>new SharedArrayBuffer\<close> succeed?\<close>

definition new_Mutex :: "bool \<Rightarrow> bool \<Rightarrow> Mutex" where
  "new_Mutex crossOriginIsolated sab =
     (let m = \<lparr>mutex_counter = 1, mutex_shared = None, mutex_locked = False, mutex_useSab = False\<rparr>
      in if crossOriginIsolated
         then (if sab then m\<lparr>mutex_shared := Some 0, mutex_useSab := True\<rparr> else m\<lparr>mutex_useSab := False\<rparr>)
         else m\<lparr>mutex_useSab := False\<rparr>)"

text \<open>
  \<open>Atomics.compareExchange\<close> on a byte: the value to store is taken modulo 256, and the old
  value is returned.
\<close>

definition compareExchange :: "byte \<Rightarrow> byte \<Rightarrow> nat \<Rightarrow> byte \<times> byte" where
  "compareExchange cell expected replacement =
     (cell, if cell = expected then of_nat replacement else cell)"

definition load :: "Mutex \<Rightarrow> byte" where
  "load m = (case mutex_shared m of None \<Rightarrow> 0 | Some b \<Rightarrow> b)"

definition tryLock :: "Mutex \<Rightarrow> bool \<times> Mutex" where
  "tryLock m =
     (if mutex_useSab m
      then (if load m \<noteq> 0 then (False, m)
            else case compareExchange (load m) 0 (mutex_counter m) of (old, cell) \<Rightarrow>
              (old = 0, m\<lparr>mutex_shared := Some cell, mutex_counter := mutex_counter m + 1\<rparr>))
      else if mutex_locked m then (False, m)
      else (True, m\<lparr>mutex_locked := True\<rparr>))"

definition unlock :: "Mutex \<Rightarrow> Mutex result" where
  "unlock m =
     (if mutex_useSab m
      then (let l = load m in
            if l = 0 then Inl (Error ''error: unlock of unlocked mutex: load=0'')
            else case compareExchange (load m) l 0 of (cas, cell) \<Rightarrow>
              if cas \<noteq> l then Inl (Error ''error: mutex value changed in the middle of an unlock'')
              else Inr (m\<lparr>mutex_shared := Some cell\<rparr>))
      else if \<not> mutex_locked m then Inl (Error ''error: unlock of unlocked mutex'')
      else Inr (m\<lparr>mutex_locked := False\<rparr>))"

section \<open>The contract of a lock\<close>

text \<open>
  \<open>good n m\<close>: the lock can be acquired \<open>n\<close> more times. Acquiring a free lock succeeds and
  makes it held, a held one is refused, and only a held one can be released.
\<close>

locale lock =
  fixes good :: "nat \<Rightarrow> 'm \<Rightarrow> bool"
    and held :: "'m \<Rightarrow> bool"
    and acquire :: "'m \<Rightarrow> bool \<times> 'm"
    and release :: "'m \<Rightarrow> 'm result"
  assumes acquire_free: "good (Suc n) m \<Longrightarrow> \<not> held m \<Longrightarrow> \<exists>m'. acquire m = (True, m') \<and> held m' \<and> good n m'"
    and acquire_held: "good n m \<Longrightarrow> held m \<Longrightarrow> acquire m = (False, m)"
    and release_held: "good n m \<Longrightarrow> held m \<Longrightarrow> \<exists>m'. release m = Inr m' \<and> \<not> held m' \<and> good n m'"
    and release_free: "good n m \<Longrightarrow> \<not> held m \<Longrightarrow> \<exists>e. release m = Inl e"
    and good_Suc: "good (Suc n) m \<Longrightarrow> good n m"

text \<open>
  Calls by any number of users: an \<open>Acquire\<close>, or a \<open>Release\<close> by one of those who hold the
  lock. The first component counts them.
\<close>

datatype lock_call = Acquire | Release

fun lock_run ::
  "('m \<Rightarrow> bool \<times> 'm) \<Rightarrow> ('m \<Rightarrow> 'm result) \<Rightarrow> lock_call list \<Rightarrow> nat \<times> 'm \<Rightarrow> nat \<times> 'm" where
  "lock_run acquire release [] s = s"
| "lock_run acquire release (Acquire # cs) (k, m) =
     (case acquire m of (b, m') \<Rightarrow> lock_run acquire release cs (if b then k + 1 else k, m'))"
| "lock_run acquire release (Release # cs) (k, m) =
     (if k = 0 then lock_run acquire release cs (k, m)
      else case release m of
             Inl e \<Rightarrow> lock_run acquire release cs (k - 1, m)
           | Inr m' \<Rightarrow> lock_run acquire release cs (k - 1, m'))"

context lock begin

lemma holders:
  "good (length (filter ((=) Acquire) cs)) m \<Longrightarrow> k = (if held m then 1 else 0) \<Longrightarrow>
   case lock_run acquire release cs (k, m) of (k', m') \<Rightarrow> k' = (if held m' then 1 else 0)"
proof (induction cs arbitrary: k m)
  case (Cons c cs)
  show ?case
  proof (cases c)
    case Acquire
    show ?thesis
    proof (cases "held m")
      case True
      with Cons Acquire acquire_held good_Suc show ?thesis by fastforce
    next
      case False
      with Cons.prems Acquire acquire_free obtain m' where
        "acquire m = (True, m')" "held m'" "good (length (filter ((=) Acquire) cs)) m'" by fastforce
      with Cons.IH [of m' 1] Cons.prems Acquire False show ?thesis by simp
    qed
  next
    case Release
    show ?thesis
    proof (cases "held m")
      case True
      with Cons.prems Release release_held obtain m' where
        "release m = Inr m'" "\<not> held m'" "good (length (filter ((=) Acquire) cs)) m'" by fastforce
      with Cons.IH [of m' 0] Cons.prems Release True show ?thesis by simp
    next
      case False
      with Cons.IH [of m 0] Cons.prems Release show ?thesis by simp
    qed
  qed
qed simp

lemma mutual_exclusion:
  assumes "good (length (filter ((=) Acquire) cs)) m" and "\<not> held m"
  shows "fst (lock_run acquire release cs (0, m)) \<le> 1"
  using holders [OF assms(1), of 0] assms(2) by (auto split: prod.splits if_splits)

end

section \<open>Both forms of the mutex\<close>

text \<open>
  The shared byte is not zero while the lock is held. It takes the value of the counter, which
  must not be a multiple of 256, so that \<open>n\<close> more acquisitions are good up to that value.
\<close>

definition mutex_held :: "Mutex \<Rightarrow> bool" where
  "mutex_held m \<longleftrightarrow> (if mutex_useSab m then load m \<noteq> 0 else mutex_locked m)"

definition mutex_good :: "nat \<Rightarrow> Mutex \<Rightarrow> bool" where
  "mutex_good n m \<longleftrightarrow> \<not> mutex_useSab m \<or> 1 \<le> mutex_counter m \<and> mutex_counter m + n \<le> 256"

lemma of_nat_byte_nonzero: "0 < n \<Longrightarrow> n < 256 \<Longrightarrow> (of_nat n :: byte) \<noteq> 0"
  by (simp add: word_of_nat_eq_0_iff) (auto dest: dvd_imp_le)

interpretation mutex: lock mutex_good mutex_held tryLock unlock
proof unfold_locales
  fix n m assume "mutex_good (Suc n) m" "\<not> mutex_held m"
  then show "\<exists>m'. tryLock m = (True, m') \<and> mutex_held m' \<and> mutex_good n m'"
    by (auto simp: tryLock_def compareExchange_def mutex_held_def mutex_good_def load_def of_nat_byte_nonzero
        split: if_splits)
qed (auto simp: tryLock_def unlock_def mutex_held_def mutex_good_def compareExchange_def load_def Let_def
    split: if_splits)

lemma new_Mutex_good [simp]: "n \<le> 255 \<Longrightarrow> mutex_good n (new_Mutex crossOriginIsolated sab)"
  "\<not> mutex_held (new_Mutex crossOriginIsolated sab)"
  by (simp_all add: new_Mutex_def mutex_good_def mutex_held_def load_def Let_def)

text \<open>Calls do not change the form of the mutex, and the counter only grows.\<close>

lemma tryLock_counter:
  "tryLock m = (b, m') \<Longrightarrow> mutex_useSab m' = mutex_useSab m \<and> mutex_counter m \<le> mutex_counter m' \<and>
     (mutex_useSab m \<and> \<not> mutex_held m \<longrightarrow> mutex_counter m' = Suc (mutex_counter m)) \<and> (b \<longleftrightarrow> \<not> mutex_held m)"
  by (auto simp: tryLock_def compareExchange_def mutex_held_def split: if_splits)

lemma unlock_counter:
  "unlock m = Inr m' \<Longrightarrow> mutex_useSab m' = mutex_useSab m \<and> mutex_counter m' = mutex_counter m"
  by (auto simp: unlock_def Let_def split: if_splits prod.splits)

lemma mutex_good_cong:
  "mutex_useSab m' = mutex_useSab m \<Longrightarrow> mutex_counter m' = mutex_counter m \<Longrightarrow> mutex_good n m' = mutex_good n m"
  by (simp add: mutex_good_def)

section \<open>Properties\<close>

text \<open>C34: whatever its users call and in whatever order, at most one of them holds the boolean
  mutex at a time; the mutex in shared memory keeps this promise for its first 255
  acquisitions.\<close>

theorem mutex_excludes:
  assumes "\<not> (crossOriginIsolated \<and> sab) \<or> length (filter ((=) Acquire) cs) \<le> 255"
  shows "fst (lock_run tryLock unlock cs (0, new_Mutex crossOriginIsolated sab)) \<le> 1"
proof (rule mutex.mutual_exclusion)
  show "mutex_good (length (filter ((=) Acquire) cs)) (new_Mutex crossOriginIsolated sab)"
    using assms by (auto simp: new_Mutex_def mutex_good_def Let_def)
qed simp

theorem mutex_excludes_witness:
  "fst (lock_run tryLock unlock [Acquire, Acquire, Release, Acquire] (0, new_Mutex True True)) \<le> 1"
  by (rule mutex_excludes) simp

lemma sab_round:
  assumes "n < 255" and "m = (new_Mutex True True)\<lparr>mutex_counter := n + 1\<rparr>"
  shows "lock_run tryLock unlock (Acquire # Release # cs) (0, m) =
    lock_run tryLock unlock cs (0, (new_Mutex True True)\<lparr>mutex_counter := n + 2\<rparr>)"
  using assms of_nat_byte_nonzero [of "Suc n"]
  by (simp add: tryLock_def unlock_def new_Mutex_def compareExchange_def load_def Let_def)

lemma sab_rounds:
  "n \<le> 255 \<Longrightarrow> lock_run tryLock unlock (concat (replicate n [Acquire, Release]) @ cs) (0, new_Mutex True True) =
     lock_run tryLock unlock cs (0, (new_Mutex True True)\<lparr>mutex_counter := n + 1\<rparr>)"
proof (induction n arbitrary: cs)
  case 0
  show ?case by (simp add: new_Mutex_def)
next
  case (Suc n)
  have "concat (replicate (Suc n) [Acquire, Release]) = concat (replicate n [Acquire, Release]) @ [Acquire, Release]"
    by (induction n) simp_all
  then show ?case
    using Suc.IH [of "Acquire # Release # cs"] Suc.prems sab_round [of n _ cs] by simp
qed

text \<open>C35: the 256th acquisition of the mutex in shared memory succeeds but stores the counter
  256 as the byte 0, so that the next caller acquires the mutex too: two hold it at once,
  and releasing it throws.\<close>

theorem mutex_in_shared_memory_wraps:
  "\<exists>m. lock_run tryLock unlock (concat (replicate 255 [Acquire, Release]) @ [Acquire])
        (0, new_Mutex True True) = (1, m) \<and>
     tryLock m = (True, m\<lparr>mutex_shared := Some 1, mutex_counter := 258\<rparr>) \<and>
     unlock m = Inl (Error ''error: unlock of unlocked mutex: load=0'')"
  using sab_rounds [of 255 "[Acquire]"]
  by (simp add: tryLock_def unlock_def new_Mutex_def compareExchange_def load_def Let_def)

section \<open>The observer\<close>

text \<open>
  The callback \<open>init\<close> registers: once the page has its \<open>InspectorView\<close> it runs \<open>main\<close>,
  under the mutex, and stops observing. \<open>main_ok\<close> says whether \<open>main\<close> returns.
\<close>

record observer =
  obs_done :: bool
  obs_mutex :: Mutex
  obs_observing :: bool
  obs_mains :: nat

definition new_observer :: "bool \<Rightarrow> bool \<Rightarrow> observer" where
  "new_observer crossOriginIsolated sab =
     \<lparr>obs_done = False, obs_mutex = new_Mutex crossOriginIsolated sab, obs_observing = True, obs_mains = 0\<rparr>"

definition observer_callback :: "bool \<Rightarrow> bool \<Rightarrow> observer \<Rightarrow> observer" where
  "observer_callback inspectorView main_ok ob =
     (if \<not> obs_observing ob then ob
      else if inspectorView \<and> \<not> obs_done ob
      then (case tryLock (obs_mutex ob) of (b, m) \<Rightarrow>
        let ob = ob\<lparr>obs_mutex := m\<rparr> in
        if b
        then (let ob = ob\<lparr>obs_mains := obs_mains ob + 1\<rparr> in
              if \<not> main_ok then ob
              else (let ob = ob\<lparr>obs_observing := False, obs_done := True\<rparr> in
                    case unlock (obs_mutex ob) of Inl e \<Rightarrow> ob | Inr m \<Rightarrow> ob\<lparr>obs_mutex := m\<rparr>))
        else ob)
      else ob)"

definition observe :: "(bool \<times> bool) list \<Rightarrow> observer \<Rightarrow> observer" where
  "observe evs ob = foldl (\<lambda>ob (v, ok). observer_callback v ok ob) ob evs"

text \<open>Not yet run and the mutex free; or run, and over or locked for good.\<close>

definition observer_ok :: "observer \<Rightarrow> bool" where
  "observer_ok ob \<longleftrightarrow>
     obs_mains ob = 0 \<and> obs_observing ob \<and> \<not> obs_done ob \<and> \<not> mutex_held (obs_mutex ob) \<and>
       mutex_counter (obs_mutex ob) = 1
     \<or> obs_mains ob = 1 \<and> (\<not> obs_observing ob \<or> mutex_held (obs_mutex ob))"

lemma observer_callback_ok:
  assumes "observer_ok ob"
  shows "observer_ok (observer_callback v ok ob) \<and>
    (obs_mains ob = 1 \<longrightarrow> obs_mains (observer_callback v ok ob) = 1) \<and>
    (v \<longrightarrow> obs_mains (observer_callback v ok ob) = 1) \<and>
    (\<not> v \<longrightarrow> obs_mains (observer_callback v ok ob) = obs_mains ob)"
  using assms of_nat_byte_nonzero [of 1]
  by (auto simp: observer_ok_def observer_callback_def mutex_held_def tryLock_def unlock_def compareExchange_def
      load_def Let_def split: if_splits option.splits)

lemma observe_ok:
  "observer_ok ob \<Longrightarrow> observer_ok (observe evs ob) \<and>
     obs_mains (observe evs ob) = (if obs_mains ob = 1 \<or> list_ex fst evs then 1 else obs_mains ob)"
proof (induction evs arbitrary: ob)
  case (Cons e evs)
  obtain v ok where e: "e = (v, ok)" by force
  from Cons.IH [of "observer_callback v ok ob"] observer_callback_ok [OF Cons.prems, of v ok]
  show ?case by (auto simp: observe_def e)
qed (simp add: observe_def)

text \<open>Whatever the mutations of the page, \<open>main\<close> is run once if the inspector view ever
  is there at one of them, and not at all otherwise; a failure of \<open>main\<close> is not retried.\<close>

theorem main_runs_once:
  "obs_mains (observe evs (new_observer crossOriginIsolated sab)) = (if list_ex fst evs then 1 else 0)"
proof -
  have "observer_ok (new_observer crossOriginIsolated sab)"
    by (simp add: observer_ok_def new_observer_def) (simp add: new_Mutex_def Let_def)
  then show ?thesis
    using observe_ok by (simp add: new_observer_def)
qed

end
