(* ===== verification/DevManager.thy ===== *)
theory DevManager
  imports DevMutex
begin

text \<open>
  The classes \<open>Client\<close> and \<open>Manager\<close> of \<open>devtools/init.js\<close>: a WebSocket connection that
  is opened again whenever it closes. Calls of \<open>spawn\<close> wait for a socket to open and
  interleave with timers and with what happens to the sockets.
\<close>

section \<open>The state\<close>

text \<open>
  A client without a connection is what its constructor leaves behind when \<open>new WebSocket\<close>
  throws. \<open>Discard\<close> is the timer whose function mentions \<open>this.spawn\<close> without calling it.
\<close>

datatype client = Unconnected | Socket nat
datatype phase = Connecting | Opened | Closing | Shut
datatype timer = Spawn | Discard

text \<open>The phases in the order in which a socket goes through them.\<close>

instantiation phase :: linorder
begin

primrec phase_rank :: "phase \<Rightarrow> nat" where
  "phase_rank Connecting = 0"
| "phase_rank Opened = 1"
| "phase_rank Closing = 2"
| "phase_rank Shut = 3"

definition less_eq_phase :: "phase \<Rightarrow> phase \<Rightarrow> bool" where
  "p \<le> q \<longleftrightarrow> phase_rank p \<le> phase_rank q"

definition less_phase :: "phase \<Rightarrow> phase \<Rightarrow> bool" where
  "p < q \<longleftrightarrow> phase_rank p < phase_rank q"

instance
proof
  fix p q :: phase
  show "p \<le> q \<Longrightarrow> q \<le> p \<Longrightarrow> p = q"
    by (cases p; cases q) (simp_all add: less_eq_phase_def)
qed (auto simp: less_eq_phase_def less_phase_def)

end

lemma phase_le_simps [simp]: "Connecting \<le> p" "p \<le> Shut" "p \<noteq> Shut \<Longrightarrow> p \<le> Closing"
  by (cases p; simp add: less_eq_phase_def)+

text \<open>
  The fields of the \<open>Manager\<close>, the sockets by number, the timers with their delays, and the
  sockets that calls of \<open>spawn\<close> are waiting for.
\<close>

record manager =
  mg_client :: "client option"
  mg_mutex :: Mutex
  mg_backoff :: nat
  mg_sockets :: "phase list"
  mg_timers :: "(timer \<times> nat) list"
  mg_waiting :: "nat list"

section \<open>The methods\<close>

definition increaseBackoff :: "nat \<Rightarrow> nat" where
  "increaseBackoff backoff =
     (let backoff = (if backoff = 0 then 100
                     else if backoff < 1000 then backoff + 100
                     else backoff + 1000)
      in if backoff > 5000 then 5000 else backoff)"

definition setTimeout :: "timer \<Rightarrow> manager \<Rightarrow> manager" where
  "setTimeout t M = M\<lparr>mg_timers := mg_timers M @ [(t, mg_backoff M)]\<rparr>"

definition onClose :: "manager \<Rightarrow> manager" where
  "onClose M = setTimeout Spawn M"

text \<open>\<open>new Client\<close>; \<open>ok\<close> says whether \<open>new WebSocket\<close> succeeds.\<close>

definition new_Client :: "bool \<Rightarrow> manager \<Rightarrow> client \<times> manager" where
  "new_Client ok M =
     (if ok then (Socket (length (mg_sockets M)), M\<lparr>mg_sockets := mg_sockets M @ [Connecting]\<rparr>)
      else (Unconnected, onClose M))"

text \<open>\<open>client.close()\<close>: a call on \<open>undefined\<close> for a client without a connection.\<close>

definition close_client :: "client \<Rightarrow> manager \<Rightarrow> manager result" where
  "close_client c M =
     (case c of
        Unconnected \<Rightarrow> Inl (TypeError ''Cannot read properties of undefined'')
      | Socket s \<Rightarrow> Inr (if mg_sockets M ! s = Shut then M
          else M\<lparr>mg_sockets := (mg_sockets M)[s := Closing]\<rparr>))"

text \<open>\<open>spawnLocked\<close> up to its \<open>await\<close>, with what it waits for.\<close>

definition spawnLocked :: "bool \<Rightarrow> manager \<Rightarrow> client result \<times> manager" where
  "spawnLocked ok M =
     (case (case mg_client M of
              None \<Rightarrow> Inr M
            | Some c \<Rightarrow> bindE (close_client c M) (\<lambda>M. Inr (M\<lparr>mg_client := None\<rparr>))) of
        Inl e \<Rightarrow> (Inl e, M)
      | Inr M \<Rightarrow> (case new_Client ok M of (c, M) \<Rightarrow> (Inr c, M\<lparr>mg_client := Some c\<rparr>)))"

text \<open>The rest of \<open>spawn\<close>: the \<open>finally\<close> block, after the \<open>try\<close> or the \<open>catch\<close> block.\<close>

definition spawn_finally :: "manager \<Rightarrow> manager" where
  "spawn_finally M = (case unlock (mg_mutex M) of Inl e \<Rightarrow> M | Inr m \<Rightarrow> M\<lparr>mg_mutex := m\<rparr>)"

definition spawn_succeeded :: "manager \<Rightarrow> manager" where
  "spawn_succeeded M = spawn_finally (M\<lparr>mg_backoff := 0\<rparr>)"

definition spawn_failed :: "manager \<Rightarrow> manager" where
  "spawn_failed M = spawn_finally (setTimeout Spawn (M\<lparr>mg_backoff := increaseBackoff (mg_backoff M)\<rparr>))"

definition spawn :: "bool \<Rightarrow> manager \<Rightarrow> manager" where
  "spawn ok M =
     (case tryLock (mg_mutex M) of (b, m) \<Rightarrow>
        let M = M\<lparr>mg_mutex := m\<rparr> in
        if \<not> b then setTimeout Discard (M\<lparr>mg_backoff := increaseBackoff (mg_backoff M)\<rparr>)
        else (case spawnLocked ok M of
                (Inl e, M) \<Rightarrow> spawn_failed M
              | (Inr Unconnected, M) \<Rightarrow> spawn_succeeded M
              | (Inr (Socket s), M) \<Rightarrow> M\<lparr>mg_waiting := mg_waiting M @ [s]\<rparr>))"

text \<open>The constructor: the fields, then a call of \<open>spawn\<close>.\<close>

definition new_Manager :: "bool \<Rightarrow> bool \<Rightarrow> bool \<Rightarrow> manager" where
  "new_Manager crossOriginIsolated sab ok =
     spawn ok \<lparr>mg_client = None, mg_mutex = new_Mutex crossOriginIsolated sab, mg_backoff = 0,
       mg_sockets = [], mg_timers = [], mg_waiting = []\<rparr>"

section \<open>Steps\<close>

text \<open>
  A socket that opens resolves the promise of its client. One that shuts while it has never
  been open rejects it first, and is reported to \<open>onClose\<close> in any case.
\<close>

definition socket_opened :: "nat \<Rightarrow> manager \<Rightarrow> manager" where
  "socket_opened s M =
     (let M = M\<lparr>mg_sockets := (mg_sockets M)[s := Opened]\<rparr> in
      if s \<in> set (mg_waiting M)
      then spawn_succeeded (M\<lparr>mg_waiting := removeAll s (mg_waiting M)\<rparr>) else M)"

definition socket_shut :: "nat \<Rightarrow> manager \<Rightarrow> manager" where
  "socket_shut s M =
     (let M = M\<lparr>mg_sockets := (mg_sockets M)[s := Shut]\<rparr> in
      onClose (if s \<in> set (mg_waiting M)
        then spawn_failed (M\<lparr>mg_waiting := removeAll s (mg_waiting M)\<rparr>) else M))"

definition remove_timer :: "nat \<Rightarrow> manager \<Rightarrow> manager" where
  "remove_timer i M = M\<lparr>mg_timers := take i (mg_timers M) @ drop (Suc i) (mg_timers M)\<rparr>"

text \<open>Steps without a failure of the network, and the others.\<close>

inductive calm_step :: "manager \<Rightarrow> manager \<Rightarrow> bool" where
  fires: "i < length (mg_timers M) \<Longrightarrow> fst (mg_timers M ! i) = Spawn \<Longrightarrow>
    calm_step M (spawn True (remove_timer i M))"
| discards: "i < length (mg_timers M) \<Longrightarrow> fst (mg_timers M ! i) = Discard \<Longrightarrow>
    calm_step M (remove_timer i M)"
| opens: "s < length (mg_sockets M) \<Longrightarrow> mg_sockets M ! s = Connecting \<Longrightarrow>
    calm_step M (socket_opened s M)"
| closed: "s < length (mg_sockets M) \<Longrightarrow> mg_sockets M ! s = Closing \<Longrightarrow>
    calm_step M (socket_shut s M)"

inductive manager_step :: "manager \<Rightarrow> manager \<Rightarrow> bool" where
  calm: "calm_step M M' \<Longrightarrow> manager_step M M'"
| throws: "i < length (mg_timers M) \<Longrightarrow> fst (mg_timers M ! i) = Spawn \<Longrightarrow>
    manager_step M (spawn False (remove_timer i M))"
| drops: "s < length (mg_sockets M) \<Longrightarrow> mg_sockets M ! s \<noteq> Shut \<Longrightarrow>
    manager_step M (socket_shut s M)"

inductive_cases calm_stepE: "calm_step M M'"
inductive_cases manager_stepE: "manager_step M M'"

section \<open>The pause between attempts\<close>

fun iterate :: "nat \<Rightarrow> nat \<Rightarrow> nat" where
  "iterate 0 b = b"
| "iterate (Suc n) b = increaseBackoff (iterate n b)"

text \<open>The pause after \<open>n\<close> failed attempts in a row is 0.1, 0.2, ... 1 seconds, then 2, 3,
  4 and at most 5 seconds.\<close>

theorem manager_backoff_schedule:
  "iterate n 0 = (if n \<le> 10 then 100 * n else min 5000 (1000 * (n - 9)))"
proof (induction n)
  case (Suc n)
  then show ?case by (auto simp: increaseBackoff_def Let_def min_def)
qed simp

section \<open>The invariant\<close>

text \<open>
  The mutex is held exactly while a call of \<open>spawn\<close> waits for the socket of the current
  client, the only one that may be connecting or open; and unless a socket is connecting,
  open or closing there is a timer that will call \<open>spawn\<close>. For the mutex in shared memory this
  is so until it has been acquired 255 times.
\<close>

definition idle :: "manager \<Rightarrow> bool" where
  "idle M \<longleftrightarrow> \<not> mutex_held (mg_mutex M) \<and> mg_waiting M = [] \<and>
     (\<forall>s < length (mg_sockets M). mg_sockets M ! s \<noteq> Connecting \<and>
        (mg_sockets M ! s = Opened \<longrightarrow> mg_client M = Some (Socket s)))"

definition busy :: "nat \<Rightarrow> manager \<Rightarrow> bool" where
  "busy s M \<longleftrightarrow> mutex_held (mg_mutex M) \<and> mg_waiting M = [s] \<and>
     mg_client M = Some (Socket s) \<and> s < length (mg_sockets M) \<and> mg_sockets M ! s = Connecting \<and>
     (\<forall>t < length (mg_sockets M). t \<noteq> s \<longrightarrow> mg_sockets M ! t = Closing \<or> mg_sockets M ! t = Shut)"

definition manager_ok :: "manager \<Rightarrow> bool" where
  "manager_ok M \<longleftrightarrow>
     mutex_good 0 (mg_mutex M) \<and> mg_backoff M \<le> 5000 \<and>
     (\<forall>s. mg_client M = Some (Socket s) \<longrightarrow> s < length (mg_sockets M)) \<and>
     (idle M \<or> (\<exists>s. busy s M))"

definition alive :: "manager \<Rightarrow> bool" where
  "alive M \<longleftrightarrow> (\<exists>p \<in> set (mg_sockets M). p \<noteq> Shut) \<or> Spawn \<in> fst ` set (mg_timers M)"

text \<open>How often the mutex in shared memory may have been acquired: its counter starts at 1.\<close>

definition in_range :: "manager \<Rightarrow> bool" where
  "in_range M \<longleftrightarrow> \<not> mutex_useSab (mg_mutex M) \<or> mutex_counter (mg_mutex M) \<le> 256"

lemma increaseBackoff_le: "increaseBackoff b \<le> 5000"
  by (simp add: increaseBackoff_def Let_def)

text \<open>What the methods do, case by case.\<close>

lemma spawn_finally_held:
  assumes "mutex_held (mg_mutex M)" and "mutex_good 0 (mg_mutex M)"
  obtains m where "spawn_finally M = M\<lparr>mg_mutex := m\<rparr>" "\<not> mutex_held m" "mutex_good 0 m"
  using mutex.release_held [OF assms(2,1)] by (auto simp: spawn_finally_def)

lemma spawn_finally_counter [simp]:
  "mutex_counter (mg_mutex (spawn_finally M)) = mutex_counter (mg_mutex M)"
  "mutex_useSab (mg_mutex (spawn_finally M)) = mutex_useSab (mg_mutex M)"
  by (auto simp: spawn_finally_def dest: unlock_counter split: sum.split)

lemma spawn_busy:
  assumes "mutex_held (mg_mutex M)" "mutex_good 0 (mg_mutex M)"
  shows "spawn ok M = setTimeout Discard (M\<lparr>mg_backoff := increaseBackoff (mg_backoff M)\<rparr>)"
  using mutex.acquire_held [OF assms(2,1)] by (simp add: spawn_def)

lemma spawn_free:
  "tryLock (mg_mutex M) = (True, m) \<Longrightarrow> spawn ok M =
    (case spawnLocked ok (M\<lparr>mg_mutex := m\<rparr>) of
       (Inl e, M) \<Rightarrow> spawn_failed M
     | (Inr Unconnected, M) \<Rightarrow> spawn_succeeded M
     | (Inr (Socket s), M) \<Rightarrow> M\<lparr>mg_waiting := mg_waiting M @ [s]\<rparr>)"
  by (simp add: spawn_def)

text \<open>A free \<open>spawn\<close> closes the socket of the client, if there is one, and makes a new one.\<close>

definition closed_sockets :: "manager \<Rightarrow> phase list" where
  "closed_sockets M =
     (case mg_client M of
        Some (Socket s) \<Rightarrow>
          if mg_sockets M ! s = Shut then mg_sockets M else (mg_sockets M)[s := Closing]
      | _ \<Rightarrow> mg_sockets M)"

lemma length_closed_sockets [simp]: "length (closed_sockets M) = length (mg_sockets M)"
  by (simp add: closed_sockets_def split: option.split client.split)

lemma closed_sockets_nth:
  "t < length (mg_sockets M) \<Longrightarrow>
   closed_sockets M ! t = mg_sockets M ! t \<and> mg_client M \<noteq> Some (Socket t) \<or>
   closed_sockets M ! t = Closing \<or> closed_sockets M ! t = Shut"
  by (cases "mg_client M = Some (Socket t)")
    (auto simp: closed_sockets_def nth_list_update split: option.split client.split)

lemma closed_sockets_idle:
  assumes "idle M" and "t < length (mg_sockets M)"
  shows "closed_sockets M ! t = Closing \<or> closed_sockets M ! t = Shut"
  using closed_sockets_nth [OF assms(2)] assms
  by (cases "mg_sockets M ! t") (auto simp: idle_def)

lemma spawn_unconnected:
  assumes "tryLock (mg_mutex M) = (True, m)" "mg_client M = Some Unconnected"
  shows "spawn ok M = spawn_failed (M\<lparr>mg_mutex := m\<rparr>)"
  using assms by (simp add: spawn_free spawnLocked_def close_client_def)

lemma spawn_connects:
  assumes "tryLock (mg_mutex M) = (True, m)" "mg_client M \<noteq> Some Unconnected"
  shows "spawn True M = M\<lparr>mg_mutex := m, mg_sockets := closed_sockets M @ [Connecting],
    mg_client := Some (Socket (length (mg_sockets M))), mg_waiting := mg_waiting M @ [length (mg_sockets M)]\<rparr>"
  using assms
  by (cases "mg_client M")
    (auto simp: spawn_free spawnLocked_def close_client_def new_Client_def closed_sockets_def split: client.split)

lemma spawn_throws:
  assumes "tryLock (mg_mutex M) = (True, m)" "mg_client M \<noteq> Some Unconnected"
  shows "spawn False M = spawn_finally (M\<lparr>mg_mutex := m, mg_sockets := closed_sockets M,
    mg_timers := mg_timers M @ [(Spawn, mg_backoff M)], mg_client := Some Unconnected, mg_backoff := 0\<rparr>)"
  using assms
  by (cases "mg_client M")
    (auto simp: spawn_free spawnLocked_def close_client_def new_Client_def closed_sockets_def
      onClose_def setTimeout_def spawn_succeeded_def split: client.split)

section \<open>The invariant is kept\<close>

lemma setTimeout_simps [simp]:
  "mg_client (setTimeout t M) = mg_client M" "mg_backoff (setTimeout t M) = mg_backoff M"
  "mg_sockets (setTimeout t M) = mg_sockets M" "mg_mutex (setTimeout t M) = mg_mutex M"
  "mg_waiting (setTimeout t M) = mg_waiting M"
  "mg_timers (setTimeout t M) = mg_timers M @ [(t, mg_backoff M)]"
  by (simp_all add: setTimeout_def)

lemma tryLock_free:
  assumes "\<not> mutex_held m" and "mutex_good 0 m"
  obtains m' where "tryLock m = (True, m')"
    "\<not> mutex_useSab m' \<or> mutex_counter m' \<le> 256 \<Longrightarrow> mutex_held m' \<and> mutex_good 0 m'"
proof -
  obtain b m' where t: "tryLock m = (b, m')" by force
  note c = tryLock_counter [OF t]
  have "mutex_held m' \<and> mutex_good 0 m'" if "\<not> mutex_useSab m' \<or> mutex_counter m' \<le> 256"
  proof -
    have "mutex_good (Suc 0) m"
      using that c assms by (auto simp: mutex_good_def)
    from mutex.acquire_free [OF this assms(1)] t show ?thesis by auto
  qed
  with c t assms(1) that show thesis by auto
qed

lemma spawn_ok_unconnected:
  assumes "manager_ok M" "idle M" "mg_client M = Some Unconnected" and "in_range (spawn ok M)"
  shows "manager_ok (spawn ok M) \<and> alive (spawn ok M)"
proof -
  obtain m where m: "tryLock (mg_mutex M) = (True, m)"
      "\<not> mutex_useSab m \<or> mutex_counter m \<le> 256 \<Longrightarrow> mutex_held m \<and> mutex_good 0 m"
    using assms(1,2) by (auto simp: manager_ok_def idle_def elim: tryLock_free)
  let ?M = "M\<lparr>mg_mutex := m, mg_backoff := increaseBackoff (mg_backoff M), mg_timers := mg_timers M @
    [(Spawn, increaseBackoff (mg_backoff M))]\<rparr>"
  have eq: "spawn ok M = spawn_finally ?M"
    by (simp add: spawn_unconnected [OF m(1) assms(3)] spawn_failed_def setTimeout_def)
  then have "mutex_held (mg_mutex ?M)" "mutex_good 0 (mg_mutex ?M)"
    using assms(4) m(2) by (simp_all add: in_range_def)
  then obtain m' where "spawn_finally ?M = ?M\<lparr>mg_mutex := m'\<rparr>" "\<not> mutex_held m'" "mutex_good 0 m'"
    by (rule spawn_finally_held)
  then show ?thesis
    using assms(1-3) by (simp add: eq manager_ok_def idle_def alive_def increaseBackoff_le)
qed

lemma spawn_ok_throws:
  assumes "manager_ok M" "idle M" "mg_client M \<noteq> Some Unconnected" and "in_range (spawn False M)"
  shows "manager_ok (spawn False M) \<and> alive (spawn False M)"
proof -
  obtain m where m: "tryLock (mg_mutex M) = (True, m)"
      "\<not> mutex_useSab m \<or> mutex_counter m \<le> 256 \<Longrightarrow> mutex_held m \<and> mutex_good 0 m"
    using assms(1,2) by (auto simp: manager_ok_def idle_def elim: tryLock_free)
  let ?M = "M\<lparr>mg_mutex := m, mg_sockets := closed_sockets M, mg_timers := mg_timers M @ [(Spawn, mg_backoff M)],
    mg_client := Some Unconnected, mg_backoff := 0\<rparr>"
  have eq: "spawn False M = spawn_finally ?M"
    by (rule spawn_throws [OF m(1) assms(3)])
  then have "mutex_held (mg_mutex ?M)" "mutex_good 0 (mg_mutex ?M)"
    using assms(4) m(2) by (simp_all add: in_range_def)
  then obtain m' where "spawn_finally ?M = ?M\<lparr>mg_mutex := m'\<rparr>" "\<not> mutex_held m'" "mutex_good 0 m'"
    by (rule spawn_finally_held)
  moreover have "closed_sockets M ! t \<noteq> Connecting \<and> closed_sockets M ! t \<noteq> Opened" if "t < length (mg_sockets M)" for t
    using closed_sockets_idle [OF assms(2) that] by auto
  ultimately show ?thesis
    using assms(2) by (simp add: eq manager_ok_def idle_def alive_def)
qed

lemma spawn_ok_connects:
  assumes "manager_ok M" "idle M" "mg_client M \<noteq> Some Unconnected" and "in_range (spawn True M)"
  shows "manager_ok (spawn True M) \<and> alive (spawn True M)"
proof -
  obtain m where m: "tryLock (mg_mutex M) = (True, m)"
      "\<not> mutex_useSab m \<or> mutex_counter m \<le> 256 \<Longrightarrow> mutex_held m \<and> mutex_good 0 m"
    using assms(1,2) by (auto simp: manager_ok_def idle_def elim: tryLock_free)
  note eq = spawn_connects [OF m(1) assms(3)]
  have held: "mutex_held m" "mutex_good 0 m"
    using assms(4) m(2) by (simp_all add: eq in_range_def)
  have "busy (length (mg_sockets M)) (spawn True M)"
    using closed_sockets_idle [OF assms(2)] assms(2) held by (auto simp: eq busy_def idle_def nth_append)
  with assms(1) held show ?thesis by (auto simp: eq manager_ok_def alive_def)
qed

lemma spawn_ok:
  assumes "manager_ok M" and "in_range (spawn ok M)"
  shows "manager_ok (spawn ok M) \<and> alive (spawn ok M)"
proof (cases "idle M")
  case False
  with assms obtain s where s: "busy s M" "mutex_good 0 (mg_mutex M)" by (auto simp: manager_ok_def)
  then have "mutex_held (mg_mutex M)" by (simp add: busy_def)
  note eq = spawn_busy [OF this s(2)]
  have "Connecting \<in> set (mg_sockets M)"
    using s(1) nth_mem by (fastforce simp: busy_def)
  with s assms(1) show ?thesis
    by (auto simp: eq manager_ok_def busy_def alive_def increaseBackoff_le)
next
  case True
  then show ?thesis
    using assms spawn_ok_unconnected spawn_ok_connects spawn_ok_throws
    by (cases "mg_client M = Some Unconnected"; cases ok) auto
qed

lemma socket_opened_ok:
  assumes "manager_ok M" and "s < length (mg_sockets M)" and "mg_sockets M ! s = Connecting"
  shows "manager_ok (socket_opened s M) \<and> alive (socket_opened s M)"
proof -
  from assms obtain t where "busy t M" by (auto simp: manager_ok_def idle_def)
  moreover from this assms(2,3) have "t = s" by (auto simp: busy_def)
  ultimately have b: "busy s M" "mutex_good 0 (mg_mutex M)" "mutex_held (mg_mutex M)"
    using assms(1) by (auto simp: manager_ok_def busy_def)
  let ?M = "M\<lparr>mg_sockets := (mg_sockets M)[s := Opened], mg_waiting := [], mg_backoff := 0\<rparr>"
  have eq: "socket_opened s M = spawn_finally ?M"
    using b(1) by (simp add: socket_opened_def spawn_succeeded_def busy_def)
  have "mutex_held (mg_mutex ?M)" "mutex_good 0 (mg_mutex ?M)" using b by simp_all
  then obtain m where m: "spawn_finally ?M = ?M\<lparr>mg_mutex := m\<rparr>" "\<not> mutex_held m" "mutex_good 0 m"
    by (rule spawn_finally_held)
  have "idle (socket_opened s M)"
    using b(1) m by (auto simp: eq idle_def busy_def nth_list_update)
  moreover have "Opened \<in> set ((mg_sockets M)[s := Opened])"
    using assms(2) by (rule set_update_memI)
  ultimately show ?thesis
    using b(1) m by (auto simp: eq manager_ok_def busy_def alive_def)
qed

lemma socket_shut_busy_ok:
  assumes "manager_ok M" and "busy s M"
  shows "manager_ok (socket_shut s M) \<and> alive (socket_shut s M)"
proof -
  let ?b = "increaseBackoff (mg_backoff M)"
  let ?M = "M\<lparr>mg_sockets := (mg_sockets M)[s := Shut], mg_waiting := [], mg_backoff := ?b,
    mg_timers := mg_timers M @ [(Spawn, ?b)]\<rparr>"
  have eq: "socket_shut s M = onClose (spawn_finally ?M)"
    using assms(2) by (simp add: socket_shut_def spawn_failed_def setTimeout_def busy_def)
  have "mutex_held (mg_mutex ?M)" "mutex_good 0 (mg_mutex ?M)"
    using assms by (simp_all add: manager_ok_def busy_def)
  then obtain m where m: "spawn_finally ?M = ?M\<lparr>mg_mutex := m\<rparr>" "\<not> mutex_held m" "mutex_good 0 m"
    by (rule spawn_finally_held)
  have "idle (socket_shut s M)"
    using assms(2) m by (auto simp: eq idle_def busy_def nth_list_update onClose_def)
  with assms m show ?thesis
    by (auto simp: eq manager_ok_def busy_def alive_def onClose_def increaseBackoff_le)
qed

text \<open>A socket that no call of \<open>spawn\<close> waits for.\<close>

lemma socket_shut_other:
  "s \<notin> set (mg_waiting M) \<Longrightarrow>
   socket_shut s M = setTimeout Spawn (M\<lparr>mg_sockets := (mg_sockets M)[s := Shut]\<rparr>)"
  by (simp add: socket_shut_def onClose_def)

lemma socket_shut_ok:
  assumes "manager_ok M" and "s < length (mg_sockets M)"
  shows "manager_ok (socket_shut s M) \<and> alive (socket_shut s M)"
proof (cases "busy s M")
  case True
  with assms(1) show ?thesis by (rule socket_shut_busy_ok)
next
  case False
  from assms(1) consider "idle M" | t where "busy t M" by (auto simp: manager_ok_def)
  then have w: "s \<notin> set (mg_waiting M)"
  proof cases
    case 1
    then show ?thesis by (simp add: idle_def)
  next
    case 2
    with False have "t \<noteq> s" by blast
    with 2 show ?thesis by (simp add: busy_def)
  qed
  note eq = socket_shut_other [OF w]
  have shut: "(mg_sockets M)[s := Shut] ! t = (if t = s then Shut else mg_sockets M ! t)" for t
    using assms(2) by (cases "t = s") simp_all
  have "idle (socket_shut s M)" if "idle M"
    using that by (simp add: eq idle_def shut)
  moreover have "busy t (socket_shut s M)" if "busy t M" for t
    using that w by (auto simp: eq busy_def shut)
  ultimately show ?thesis
    using assms(1) by (auto simp: eq manager_ok_def alive_def)
qed

lemma remove_timer_ok [simp]: "manager_ok (remove_timer i M) \<longleftrightarrow> manager_ok M"
  by (simp add: manager_ok_def remove_timer_def idle_def busy_def)

lemma remove_discard_alive:
  assumes "i < length (mg_timers M)" and "fst (mg_timers M ! i) = Discard" and "alive M"
  shows "alive (remove_timer i M)"
proof -
  have "set (mg_timers M) = set (take i (mg_timers M) @ mg_timers M ! i # drop (Suc i) (mg_timers M))"
    using assms(1) by (simp add: id_take_nth_drop [symmetric])
  with assms(2,3) show ?thesis by (auto simp: alive_def remove_timer_def)
qed

text \<open>The counter of the mutex only grows.\<close>

lemma spawn_end_counter [simp]:
  "mutex_counter (mg_mutex (spawn_failed M)) = mutex_counter (mg_mutex M)"
  "mutex_counter (mg_mutex (spawn_succeeded M)) = mutex_counter (mg_mutex M)"
  "mutex_useSab (mg_mutex (spawn_failed M)) = mutex_useSab (mg_mutex M)"
  "mutex_useSab (mg_mutex (spawn_succeeded M)) = mutex_useSab (mg_mutex M)"
  by (simp_all add: spawn_failed_def spawn_succeeded_def)

lemma spawnLocked_mutex: "spawnLocked ok M = (res, M') \<Longrightarrow> mg_mutex M' = mg_mutex M"
  by (auto simp: spawnLocked_def close_client_def new_Client_def onClose_def split: option.splits client.splits if_splits)

lemma spawn_in_range:
  assumes "in_range (spawn ok M)"
  shows "in_range M"
proof -
  obtain b m where t: "tryLock (mg_mutex M) = (b, m)" by force
  obtain res M' where l: "spawnLocked ok (M\<lparr>mg_mutex := m\<rparr>) = (res, M')" by force
  have "mutex_useSab (mg_mutex (spawn ok M)) = mutex_useSab m" "mutex_counter (mg_mutex (spawn ok M)) = mutex_counter m"
    using t l spawnLocked_mutex [OF l]
    by (cases b; cases res; auto simp: spawn_def Let_def split: client.split)+
  with assms tryLock_counter [OF t] show ?thesis by (auto simp: in_range_def)
qed

lemma in_range_simps [simp]:
  "in_range (socket_opened s M) = in_range M" "in_range (socket_shut s M) = in_range M"
  "in_range (remove_timer i M) = in_range M"
  by (simp_all add: in_range_def socket_opened_def socket_shut_def onClose_def remove_timer_def Let_def)

lemma calm_step_in_range: "calm_step M M' \<Longrightarrow> in_range M' \<Longrightarrow> in_range M"
  by (erule calm_stepE) (auto dest: spawn_in_range)

lemma manager_step_in_range: "manager_step M M' \<Longrightarrow> in_range M' \<Longrightarrow> in_range M"
  by (erule manager_stepE) (auto dest: spawn_in_range calm_step_in_range)

lemma calm_step_ok: "calm_step M M' \<Longrightarrow> in_range M' \<Longrightarrow> manager_ok M \<and> alive M \<Longrightarrow> manager_ok M' \<and> alive M'"
  by (erule calm_stepE) (simp_all add: spawn_ok socket_opened_ok socket_shut_ok remove_discard_alive)

lemma manager_step_ok: "manager_step M M' \<Longrightarrow> in_range M' \<Longrightarrow> manager_ok M \<and> alive M \<Longrightarrow> manager_ok M' \<and> alive M'"
  by (erule manager_stepE) (simp_all add: calm_step_ok spawn_ok socket_shut_ok)

lemma new_Manager_ok:
  assumes "in_range (new_Manager crossOriginIsolated sab ok)"
  shows "manager_ok (new_Manager crossOriginIsolated sab ok) \<and> alive (new_Manager crossOriginIsolated sab ok)"
  using assms unfolding new_Manager_def
  by (intro spawn_ok) (simp_all add: manager_ok_def idle_def)

lemma manager_reachable_ok:
  assumes "manager_step\<^sup>*\<^sup>* (new_Manager crossOriginIsolated sab ok) M" and "in_range M"
  shows "manager_ok M \<and> alive M"
  using assms
proof (induction rule: rtranclp_induct)
  case base
  then show ?case by (rule new_Manager_ok)
next
  case (step M M')
  from manager_step_ok [OF step(2,4) step(3) [OF manager_step_in_range [OF step(2,4)]]] show ?case .
qed

section \<open>A connection can be made\<close>

text \<open>
  Without a further failure, unless \<open>new WebSocket\<close> has thrown: a socket that is connecting
  opens, a timer that calls \<open>spawn\<close> makes a new one, and closing sockets lead to such a timer.
\<close>

definition connected :: "manager \<Rightarrow> bool" where
  "connected M \<longleftrightarrow> (\<exists>s < length (mg_sockets M). mg_client M = Some (Socket s) \<and> mg_sockets M ! s = Opened)"

lemma spawn_end_client [simp]:
  "mg_client (spawn_finally M) = mg_client M" "mg_sockets (spawn_finally M) = mg_sockets M"
  by (simp_all add: spawn_finally_def split: sum.split)

lemma opens_connected:
  assumes "mg_client M = Some (Socket s)" "s < length (mg_sockets M)" "mg_sockets M ! s = Connecting"
  shows "calm_step M (socket_opened s M) \<and> connected (socket_opened s M)"
  using assms opens [of s M]
  by (auto simp: connected_def socket_opened_def spawn_succeeded_def Let_def)

lemma timer_connects:
  assumes "idle M" "mg_client M \<noteq> Some Unconnected" and "Spawn \<in> fst ` set (mg_timers M)"
  shows "\<exists>M'. calm_step\<^sup>*\<^sup>* M M' \<and> connected M'"
proof -
  obtain i where i: "i < length (mg_timers M)" "fst (mg_timers M ! i) = Spawn"
    using assms(3) by (auto simp: in_set_conv_nth)
  let ?M = "remove_timer i M"
  have "\<not> mutex_held (mg_mutex ?M)" "mg_client ?M \<noteq> Some Unconnected"
    using assms(1,2) by (simp_all add: idle_def remove_timer_def)
  moreover obtain b m where t: "tryLock (mg_mutex ?M) = (b, m)" by force
  ultimately have "tryLock (mg_mutex ?M) = (True, m)" using tryLock_counter [OF t] by simp
  from spawn_connects [OF this] have
      "mg_client (spawn True ?M) = Some (Socket (length (mg_sockets ?M)))"
      "mg_sockets (spawn True ?M) = closed_sockets ?M @ [Connecting]"
    using assms(2) by (simp_all add: remove_timer_def)
  then have "calm_step (spawn True ?M) (socket_opened (length (mg_sockets ?M)) (spawn True ?M)) \<and>
      connected (socket_opened (length (mg_sockets ?M)) (spawn True ?M))"
    by (intro opens_connected) (simp_all add: nth_append)
  with fires [OF i] show ?thesis by (meson converse_rtranclp_into_rtranclp rtranclp.rtrancl_refl)
qed

lemma can_connect:
  assumes "manager_ok M" "alive M" and "mg_client M \<noteq> Some Unconnected"
  shows "\<exists>M'. calm_step\<^sup>*\<^sup>* M M' \<and> connected M'"
proof (cases "idle M")
  case False
  with assms(1) obtain s where "busy s M" by (auto simp: manager_ok_def)
  with opens_connected [of M s] show ?thesis by (auto simp: busy_def)
next
  case True
  show ?thesis
  proof (cases "Spawn \<in> fst ` set (mg_timers M)")
    case True
    with timer_connects [OF \<open>idle M\<close> assms(3)] show ?thesis by blast
  next
    case False
    then obtain s where s: "s < length (mg_sockets M)" "mg_sockets M ! s \<noteq> Shut"
      using assms(2) by (auto simp: alive_def in_set_conv_nth)
    show ?thesis
    proof (cases "mg_sockets M ! s = Opened")
      case True
      with s \<open>idle M\<close> have "connected M" by (auto simp: connected_def idle_def)
      then show ?thesis by blast
    next
      case False
      with s \<open>idle M\<close> have "mg_sockets M ! s = Closing"
        by (cases "mg_sockets M ! s") (auto simp: idle_def)
      with s have step: "calm_step M (socket_shut s M)" by (intro closed)
      have "s \<notin> set (mg_waiting M)" using \<open>idle M\<close> by (simp add: idle_def)
      note eq = socket_shut_other [OF this]
      have "(mg_sockets M)[s := Shut] ! t = (if t = s then Shut else mg_sockets M ! t)" for t
        using s(1) by (cases "t = s") simp_all
      with \<open>idle M\<close> have "idle (socket_shut s M)" by (simp add: eq idle_def)
      from timer_connects [OF this] assms(3) have "\<exists>M'. calm_step\<^sup>*\<^sup>* (socket_shut s M) M' \<and> connected M'"
        by (simp add: eq)
      with step show ?thesis by (meson converse_rtranclp_into_rtranclp)
    qed
  qed
qed

section \<open>Sockets only advance\<close>

text \<open>Sockets may be added, and those there are do not go back to an earlier phase.\<close>

definition advances :: "phase list \<Rightarrow> phase list \<Rightarrow> bool" where
  "advances ps qs \<longleftrightarrow> length ps \<le> length qs \<and> (\<forall>s < length ps. ps ! s \<le> qs ! s)"

lemma advances_refl [simp]: "advances ps ps"
  by (simp add: advances_def)

lemma advances_trans:
  assumes "advances ps qs" and "advances qs rs"
  shows "advances ps rs"
  unfolding advances_def
proof (intro conjI allI impI)
  show "length ps \<le> length rs" using assms by (simp add: advances_def)
  fix s assume s: "s < length ps"
  with assms have "ps ! s \<le> qs ! s" "qs ! s \<le> rs ! s" by (simp_all add: advances_def)
  then show "ps ! s \<le> rs ! s" by (rule order_trans)
qed

lemma advances_update:
  assumes "ps ! s \<le> p"
  shows "advances ps (ps[s := p])"
  unfolding advances_def
proof (intro conjI allI impI)
  fix t assume "t < length ps"
  with assms show "ps ! t \<le> ps[s := p] ! t" by (cases "t = s") simp_all
qed simp

lemma advances_append [simp]: "advances ps (ps @ qs)"
  by (simp add: advances_def nth_append)

lemma spawn_end_sockets [simp]:
  "mg_sockets (spawn_failed M) = mg_sockets M" "mg_sockets (spawn_succeeded M) = mg_sockets M"
  "mg_sockets (onClose M) = mg_sockets M"
  by (simp_all add: spawn_failed_def spawn_succeeded_def spawn_finally_def onClose_def split: sum.split)

lemma new_Client_advances: "new_Client ok M = (c, M') \<Longrightarrow> advances (mg_sockets M) (mg_sockets M')"
  by (auto simp: new_Client_def split: if_splits)

lemma close_client_advances: "close_client c M = Inr M' \<Longrightarrow> advances (mg_sockets M) (mg_sockets M')"
  by (auto simp: close_client_def advances_update split: client.splits if_splits)

lemma spawnLocked_advances:
  assumes "spawnLocked ok M = (res, M')"
  shows "advances (mg_sockets M) (mg_sockets M')"
proof (cases "mg_client M")
  case None
  with assms show ?thesis by (auto simp: spawnLocked_def dest: new_Client_advances split: prod.splits)
next
  case (Some c)
  show ?thesis
  proof (cases "close_client c M")
    case (Inl e)
    with assms Some show ?thesis by (simp add: spawnLocked_def)
  next
    case (Inr M1)
    obtain c' M2 where "new_Client ok (M1\<lparr>mg_client := None\<rparr>) = (c', M2)" by force
    with assms Some Inr new_Client_advances [OF this] close_client_advances [OF Inr] show ?thesis
      by (auto simp: spawnLocked_def intro: advances_trans)
  qed
qed

lemma spawn_advances: "advances (mg_sockets M) (mg_sockets (spawn ok M))"
proof -
  obtain b m where t: "tryLock (mg_mutex M) = (b, m)" by force
  obtain res M' where l: "spawnLocked ok (M\<lparr>mg_mutex := m\<rparr>) = (res, M')" by force
  from spawnLocked_advances [OF l] t l show ?thesis
    by (cases b; cases res)
      (auto simp: spawn_def Let_def split: client.split)
qed

lemma socket_events_advance:
  "mg_sockets M ! s = Connecting \<Longrightarrow> advances (mg_sockets M) (mg_sockets (socket_opened s M))"
  "advances (mg_sockets M) (mg_sockets (socket_shut s M))"
  by (auto simp: socket_opened_def socket_shut_def spawn_succeeded_def spawn_failed_def spawn_finally_def
      onClose_def Let_def split: sum.split intro!: advances_update)

lemma sockets_advance: "manager_step\<^sup>*\<^sup>* M M' \<Longrightarrow> advances (mg_sockets M) (mg_sockets M')"
proof (induction rule: rtranclp_induct)
  case (step M1 M2)
  have "advances (mg_sockets (remove_timer i M1)) (mg_sockets (spawn ok (remove_timer i M1)))" for i ok
    by (rule spawn_advances)
  then have "advances (mg_sockets M1) (mg_sockets M2)"
    using step(2) socket_events_advance
    by (auto simp: remove_timer_def elim!: manager_stepE calm_stepE)
  with step(3) show ?case by (rule advances_trans)
qed simp

section \<open>Properties\<close>

text \<open>C11: in every order of timers and socket events, failures of \<open>new WebSocket\<close> included, and
  with the mutex in shared memory as long as it has been acquired at most 255 times (its
  counter starts at 1): at most
  one call of \<open>spawn\<close> waits, exactly while the mutex is held; at most one socket is
  connecting or open; the pause is at most five seconds; some socket is not shut, or a timer
  will call \<open>spawn\<close>; and unless \<open>new WebSocket\<close> has thrown, the manager can still get, without
  any further failure, to a state in which the socket of its client is open.\<close>

theorem manager_invariant:
  assumes "manager_step\<^sup>*\<^sup>* (new_Manager crossOriginIsolated sab ok) M"
    and "mutex_useSab (mg_mutex M) \<Longrightarrow> mutex_counter (mg_mutex M) \<le> 256"
  shows "length (mg_waiting M) = (if mutex_held (mg_mutex M) then 1 else 0) \<and>
    (\<exists>live. \<forall>s < length (mg_sockets M). mg_sockets M ! s \<in> {Connecting, Opened} \<longrightarrow> s = live) \<and>
    mg_backoff M \<le> 5000 \<and>
    ((\<exists>p \<in> set (mg_sockets M). p \<noteq> Shut) \<or> Spawn \<in> fst ` set (mg_timers M)) \<and>
    (mg_client M = Some Unconnected \<or>
     (\<exists>M' s. calm_step\<^sup>*\<^sup>* M M' \<and> s < length (mg_sockets M') \<and>
        mg_client M' = Some (Socket s) \<and> mg_sockets M' ! s = Opened))"
proof -
  have "in_range M" using assms(2) by (auto simp: in_range_def)
  from manager_reachable_ok [OF assms(1) this] have M: "manager_ok M" "alive M" by simp_all
  then consider "idle M" | s where "busy s M" by (auto simp: manager_ok_def)
  then have "length (mg_waiting M) = (if mutex_held (mg_mutex M) then 1 else 0) \<and>
      (\<exists>live. \<forall>s < length (mg_sockets M). mg_sockets M ! s \<in> {Connecting, Opened} \<longrightarrow> s = live)"
  proof cases
    case 1
    then show ?thesis
      by (cases "mg_client M"; cases "the (mg_client M)") (auto simp: idle_def)
  next
    case 2
    then show ?thesis
      by (auto simp: busy_def intro!: exI [of _ s])
  qed
  moreover have "mg_client M = Some Unconnected \<or> (\<exists>M' s. calm_step\<^sup>*\<^sup>* M M' \<and> s < length (mg_sockets M') \<and>
      mg_client M' = Some (Socket s) \<and> mg_sockets M' ! s = Opened)"
    using can_connect [OF M] unfolding connected_def by blast
  ultimately show ?thesis using M unfolding manager_ok_def alive_def by blast
qed

lemma sample_start:
  "new_Manager False False True =
     \<lparr>mg_client = Some (Socket 0), mg_mutex = (new_Mutex False False)\<lparr>mutex_locked := True\<rparr>, mg_backoff = 0,
      mg_sockets = [Connecting], mg_timers = [], mg_waiting = [0]\<rparr>"
  by (simp add: new_Manager_def spawn_def tryLock_def new_Mutex_def spawnLocked_def new_Client_def Let_def)

definition after_failure :: manager where
  "after_failure =
     \<lparr>mg_client = Some (Socket 0), mg_mutex = new_Mutex False False, mg_backoff = 100,
      mg_sockets = [Shut], mg_timers = [(Spawn, 100), (Spawn, 100)], mg_waiting = []\<rparr>"

lemma sample_failure: "socket_shut 0 (new_Manager False False True) = after_failure"
  by (simp add: sample_start after_failure_def socket_shut_def spawn_failed_def spawn_finally_def unlock_def
      new_Mutex_def increaseBackoff_def onClose_def setTimeout_def Let_def)

text \<open>A first attempt that fails, with the mutex in shared memory.\<close>

lemma sample_shared:
  "new_Manager True True True =
     \<lparr>mg_client = Some (Socket 0), mg_mutex = (new_Mutex True True)\<lparr>mutex_shared := Some 1, mutex_counter := 2\<rparr>,
      mg_backoff = 0, mg_sockets = [Connecting], mg_timers = [], mg_waiting = [0]\<rparr>"
  by (simp add: new_Manager_def spawn_def tryLock_def new_Mutex_def load_def compareExchange_def spawnLocked_def
      new_Client_def Let_def)

definition after_shared_failure :: manager where
  "after_shared_failure =
     \<lparr>mg_client = Some (Socket 0), mg_mutex = (new_Mutex True True)\<lparr>mutex_counter := 2\<rparr>, mg_backoff = 100,
      mg_sockets = [Shut], mg_timers = [(Spawn, 100), (Spawn, 100)], mg_waiting = []\<rparr>"

lemma sample_shared_failure: "socket_shut 0 (new_Manager True True True) = after_shared_failure"
  by (simp add: sample_shared after_shared_failure_def socket_shut_def spawn_failed_def spawn_finally_def unlock_def
      new_Mutex_def load_def compareExchange_def increaseBackoff_def onClose_def setTimeout_def Let_def)

theorem manager_invariant_witness:
  "length (mg_waiting after_shared_failure) = (if mutex_held (mg_mutex after_shared_failure) then 1 else 0) \<and>
    mg_backoff after_shared_failure \<le> 5000 \<and>
    (\<exists>M' s. calm_step\<^sup>*\<^sup>* after_shared_failure M' \<and> s < length (mg_sockets M') \<and>
       mg_client M' = Some (Socket s) \<and> mg_sockets M' ! s = Opened)"
proof -
  have "manager_step (new_Manager True True True) after_shared_failure"
    unfolding sample_shared_failure [symmetric] by (rule drops) (simp_all add: sample_shared)
  then have "manager_step\<^sup>*\<^sup>* (new_Manager True True True) after_shared_failure" by (rule r_into_rtranclp)
  from manager_invariant [OF this] show ?thesis by (simp add: after_shared_failure_def)
qed

lemma spawn_unconnected_any:
  assumes "mg_client M = Some Unconnected"
  shows "mg_client (spawn ok M) = Some Unconnected \<and> mg_sockets (spawn ok M) = mg_sockets M"
  using assms
  by (auto simp: spawn_def spawnLocked_def close_client_def spawn_failed_def spawn_finally_def Let_def
      split: prod.split sum.split)

lemma socket_events_client:
  "mg_client (socket_opened s M) = mg_client M" "length (mg_sockets (socket_opened s M)) = length (mg_sockets M)"
  "mg_client (socket_shut s M) = mg_client M" "length (mg_sockets (socket_shut s M)) = length (mg_sockets M)"
  by (simp_all add: socket_opened_def socket_shut_def spawn_succeeded_def spawn_failed_def spawn_finally_def
      onClose_def Let_def split: sum.split)

lemma remove_timer_simps [simp]:
  "mg_client (remove_timer i M) = mg_client M" "mg_sockets (remove_timer i M) = mg_sockets M"
  by (simp_all add: remove_timer_def)

lemma unconnected_stays:
  assumes "manager_step\<^sup>*\<^sup>* M M'" and "mg_client M = Some Unconnected"
  shows "mg_client M' = Some Unconnected \<and> length (mg_sockets M') = length (mg_sockets M)"
  using assms(1)
proof induction
  case (step M1 M2)
  from step(2) show ?case
    using step(3)
    by (auto simp: spawn_unconnected_any socket_events_client elim!: manager_stepE calm_stepE)
qed (use assms(2) in simp)

text \<open>C37: once \<open>new WebSocket\<close> has thrown, the manager never connects again, whatever happens:
  each further \<open>spawn\<close> fails when it closes the client that has no connection. The sockets
  there were do not go back to an earlier phase, so those that are shut stay shut.\<close>

theorem failed_constructor_is_final:
  assumes "manager_step\<^sup>*\<^sup>* M M'" and "mg_client M = Some Unconnected"
  shows "mg_client M' = Some Unconnected \<and> length (mg_sockets M') = length (mg_sockets M) \<and>
    advances (mg_sockets M) (mg_sockets M')"
  using unconnected_stays [OF assms] sockets_advance [OF assms(1)] by simp

lemma sample_unconnected:
  "new_Manager False False False =
     \<lparr>mg_client = Some Unconnected, mg_mutex = new_Mutex False False, mg_backoff = 0,
      mg_sockets = [], mg_timers = [(Spawn, 0)], mg_waiting = []\<rparr>"
  by (simp add: new_Manager_def spawn_def tryLock_def new_Mutex_def spawnLocked_def new_Client_def Let_def
      spawn_succeeded_def spawn_finally_def unlock_def onClose_def setTimeout_def)

theorem failed_constructor_is_final_witness:
  "mg_client (spawn True (remove_timer 0 (new_Manager False False False))) = Some Unconnected \<and>
   length (mg_sockets (spawn True (remove_timer 0 (new_Manager False False False)))) =
     length (mg_sockets (new_Manager False False False)) \<and>
   advances (mg_sockets (new_Manager False False False))
     (mg_sockets (spawn True (remove_timer 0 (new_Manager False False False))))"
  by (rule failed_constructor_is_final)
    (auto simp: sample_unconnected intro!: r_into_rtranclp calm fires)

definition churning :: "nat \<Rightarrow> nat \<Rightarrow> manager" where
  "churning n d =
     \<lparr>mg_client = Some (Socket n), mg_mutex = new_Mutex False False, mg_backoff = 0,
      mg_sockets = replicate n Shut @ [Opened], mg_timers = [(Spawn, d)], mg_waiting = []\<rparr>"

lemmas manager_eval = spawn_def tryLock_def new_Mutex_def spawnLocked_def new_Client_def Let_def close_client_def
  spawn_succeeded_def spawn_finally_def unlock_def onClose_def setTimeout_def remove_timer_def
  socket_opened_def socket_shut_def nth_append list_update_append

lemma churn_start: "calm_step\<^sup>*\<^sup>* after_failure (churning 1 100)"
proof -
  have "calm_step after_failure (spawn True (remove_timer 0 after_failure))"
    by (rule fires) (simp_all add: after_failure_def)
  moreover have "calm_step (spawn True (remove_timer 0 after_failure))
      (socket_opened 1 (spawn True (remove_timer 0 after_failure)))"
    by (rule opens) (simp_all add: after_failure_def manager_eval)
  moreover have "socket_opened 1 (spawn True (remove_timer 0 after_failure)) = churning 1 100"
    by (simp add: after_failure_def churning_def manager_eval)
  ultimately show ?thesis by (metis converse_rtranclp_into_rtranclp r_into_rtranclp)
qed

lemma churn_round: "calm_step\<^sup>*\<^sup>* (churning n d) (churning (Suc n) 0)"
proof -
  define M1 where "M1 = spawn True (remove_timer 0 (churning n d))"
  define M2 where "M2 = socket_opened (Suc n) M1"
  have "calm_step (churning n d) M1"
    unfolding M1_def by (rule fires) (simp_all add: churning_def)
  moreover have M1: "M1 = \<lparr>mg_client = Some (Socket (Suc n)), mg_mutex = (new_Mutex False False)\<lparr>mutex_locked := True\<rparr>,
      mg_backoff = 0, mg_sockets = replicate n Shut @ [Closing, Connecting], mg_timers = [], mg_waiting = [Suc n]\<rparr>"
    by (simp add: M1_def churning_def manager_eval)
  have "calm_step M1 M2"
    unfolding M2_def by (rule opens) (simp_all add: M1 nth_append)
  moreover have M2: "M2 = \<lparr>mg_client = Some (Socket (Suc n)), mg_mutex = new_Mutex False False,
      mg_backoff = 0, mg_sockets = replicate n Shut @ [Closing, Opened], mg_timers = [], mg_waiting = []\<rparr>"
    by (simp add: M2_def M1 manager_eval)
  have "calm_step M2 (socket_shut n M2)"
    by (rule closed) (simp_all add: M2 nth_append)
  moreover have "socket_shut n M2 = churning (Suc n) 0"
    by (simp add: M2 churning_def manager_eval replicate_append_same)
  ultimately show ?thesis
    by (metis converse_rtranclp_into_rtranclp r_into_rtranclp)
qed

text \<open>C36: one failed attempt leaves two pending calls of \<open>spawn\<close>, and the second may close the
  connection the first has opened, whose closing calls \<open>spawn\<close> again: without any further
  failure the manager can go on replacing open connections for ever, while a manager whose
  first attempt succeeds stays as it is.\<close>

theorem one_failure_can_churn_forever:
  "(\<forall>n. \<exists>M. calm_step\<^sup>*\<^sup>* (socket_shut 0 (new_Manager False False True)) M \<and>
      length (mg_sockets M) = n + 2 \<and> mg_sockets M ! (n + 1) = Opened \<and> Spawn \<in> fst ` set (mg_timers M)) \<and>
   (\<forall>M. \<not> calm_step (socket_opened 0 (new_Manager False False True)) M)"
proof (intro conjI allI)
  fix n
  have "\<exists>d. calm_step\<^sup>*\<^sup>* after_failure (churning (Suc n) d)"
  proof (induction n)
    case 0
    show ?case using churn_start by auto
  next
    case (Suc n)
    then show ?case using churn_round by (meson rtranclp_trans)
  qed
  then obtain d where "calm_step\<^sup>*\<^sup>* after_failure (churning (Suc n) d)" by blast
  then show "\<exists>M. calm_step\<^sup>*\<^sup>* (socket_shut 0 (new_Manager False False True)) M \<and>
      length (mg_sockets M) = n + 2 \<and> mg_sockets M ! (n + 1) = Opened \<and> Spawn \<in> fst ` set (mg_timers M)"
    unfolding sample_failure
    by (intro exI [of _ "churning (Suc n) d"]) (simp add: churning_def nth_append)
next
  fix M
  have "socket_opened 0 (new_Manager False False True) =
     \<lparr>mg_client = Some (Socket 0), mg_mutex = new_Mutex False False, mg_backoff = 0,
      mg_sockets = [Opened], mg_timers = [], mg_waiting = []\<rparr>"
    by (simp add: sample_start manager_eval)
  then show "\<not> calm_step (socket_opened 0 (new_Manager False False True)) M"
    by (auto elim!: calm_stepE)
qed

end
