(* ===== verification/DevTools.thy ===== *)
theory DevTools
  imports DevManager WebApi
begin

text \<open>
  The whole script \<open>devtools/init.js\<close>: \<open>onMessage\<close>, which shows a received entry in the network
  panel, \<open>main\<close>, and the observer, the manager and the messages of its sockets running
  together.
\<close>

section \<open>Messages\<close>

text \<open>
  What the script uses of the DevTools front end and of the platform's decoders; \<open>'e\<close> are its
  HAR entries, \<open>'r\<close> its requests and \<open>'l\<close> its network log.
\<close>

record ('e, 'r, 'l) devtools =
  TextDecoder_decode :: "byte list \<Rightarrow> string"
  JSON_parse :: "string \<Rightarrow> jsval result"
  new_HAREntry :: "jsval \<Rightarrow> 'e result"
  entry_request_url :: "'e \<Rightarrow> jsval result"
  createWithoutBackendRequest :: "jsval \<Rightarrow> jsval \<Rightarrow> 'r result"
  fillRequestFromHAREntry :: "'r \<Rightarrow> 'e \<Rightarrow> 'r result"
  addRequest :: "'r \<Rightarrow> 'l \<Rightarrow> 'l"
  otherTabs :: "string \<Rightarrow> string list \<Rightarrow> string list"
  closeTabs :: "string list \<Rightarrow> string list \<Rightarrow> string list"

text \<open>A message is binary, and then an \<open>ArrayBuffer\<close>, or a text, which \<open>decode\<close> does not take.\<close>

datatype ws_data = Binary "byte list" | Text string

definition message_request :: "('e, 'r, 'l) devtools \<Rightarrow> platform \<Rightarrow> ws_data \<Rightarrow> 'r result" where
  "message_request D P data =
     bindE (case data of Binary bs \<Rightarrow> Inr (TextDecoder_decode D bs)
            | Text s \<Rightarrow> Inl (TypeError ''Failed to execute decode on TextDecoder'')) (\<lambda>json.
     bindE (JSON_parse D json) (\<lambda>msg.
     bindE (get_prop msg ''_id'') (\<lambda>msg_id.
     bindE (js_String P msg_id) (\<lambda>logged.
     bindE (new_HAREntry D msg) (\<lambda>har.
     bindE (entry_request_url D har) (\<lambda>url.
     bindE (createWithoutBackendRequest D msg_id url) (\<lambda>request.
     fillRequestFromHAREntry D request har)))))))"

text \<open>An exception is that of the event handler and changes nothing.\<close>

definition onMessage :: "('e, 'r, 'l) devtools \<Rightarrow> platform \<Rightarrow> ws_data \<Rightarrow> 'l \<Rightarrow> exn option \<times> 'l" where
  "onMessage D P data netlog =
     (case message_request D P data of
        Inl e \<Rightarrow> (Some e, netlog)
      | Inr request \<Rightarrow> (None, addRequest D request netlog))"

text \<open>\<open>client.send(msg)\<close>, which nothing calls: the messages a socket has accepted grow when it is
  open, and are the same when it closes.\<close>

definition send :: "platform \<Rightarrow> jsval \<Rightarrow> client \<Rightarrow> manager \<Rightarrow> string list \<Rightarrow> string list result" where
  "send P msg c M accepted =
     (case c of
        Unconnected \<Rightarrow> Inl (TypeError ''Cannot read properties of undefined'')
      | Socket s \<Rightarrow>
          (let data = (case json_text P msg of None \<Rightarrow> ''undefined'' | Some t \<Rightarrow> t)
           in case mg_sockets M ! s of
                Connecting \<Rightarrow> Inl (Error ''InvalidStateError'')
              | Opened \<Rightarrow> Inr (accepted @ [data])
              | _ \<Rightarrow> Inr accepted))"

section \<open>The script\<close>

text \<open>The widths of the toolbar are \<open>None\<close> until they are set.\<close>

record 'l script =
  sc_observer :: observer
  sc_tabs :: "string list"
  sc_width :: "nat option"
  sc_minWidth :: "nat option"
  sc_manager :: "manager option"
  sc_log :: 'l
  sc_received :: "ws_data list"

text \<open>\<open>init()\<close> on a page with some tabs and a network log.\<close>

definition script_init :: "bool \<Rightarrow> bool \<Rightarrow> string list \<Rightarrow> 'l \<Rightarrow> 'l script" where
  "script_init crossOriginIsolated sab tabs netlog =
     \<lparr>sc_observer = new_observer crossOriginIsolated sab, sc_tabs = tabs, sc_width = None, sc_minWidth = None,
      sc_manager = None, sc_log = netlog, sc_received = []\<rparr>"

text \<open>The statements of \<open>main\<close> that change something, in their order; \<open>ok\<close> is for \<open>new WebSocket\<close>.\<close>

definition main_statements :: "('e, 'r, 'l) devtools \<Rightarrow> bool \<Rightarrow> bool \<Rightarrow> bool \<Rightarrow> ('l script \<Rightarrow> 'l script) list" where
  "main_statements D crossOriginIsolated sab ok =
     [\<lambda>S. S\<lparr>sc_tabs := closeTabs D (otherTabs D ''network'' (sc_tabs S)) (sc_tabs S)\<rparr>,
      \<lambda>S. S\<lparr>sc_width := Some 0\<rparr>,
      \<lambda>S. S\<lparr>sc_minWidth := Some 0\<rparr>,
      \<lambda>S. S\<lparr>sc_manager := Some (new_Manager crossOriginIsolated sab ok)\<rparr>]"

text \<open>\<open>main\<close>, of which the first \<open>n\<close> statements are executed: with less than all it throws.\<close>

definition main :: "('e, 'r, 'l) devtools \<Rightarrow> bool \<Rightarrow> bool \<Rightarrow> bool \<Rightarrow> nat \<Rightarrow> 'l script \<Rightarrow> bool \<times> 'l script" where
  "main D crossOriginIsolated sab ok n S =
     (let statements = main_statements D crossOriginIsolated sab ok
      in (length statements \<le> n, fold (\<lambda>statement. statement) (take n statements) S))"

text \<open>
  The page changes (with or without an inspector view), and if the observer says so \<open>main\<close>
  runs, to its end or until it throws; the manager does a step; or a message comes in on a
  socket that is open or closing.
\<close>

definition page_changes :: "('e, 'r, 'l) devtools \<Rightarrow> bool \<Rightarrow> bool \<Rightarrow> bool \<Rightarrow> nat \<Rightarrow> bool \<Rightarrow> 'l script \<Rightarrow> 'l script" where
  "page_changes D crossOriginIsolated sab view n ok S =
     (let (main_ok, S') = main D crossOriginIsolated sab ok n S;
          ob = observer_callback view main_ok (sc_observer S)
      in (if obs_mains (sc_observer S) < obs_mains ob then S' else S)\<lparr>sc_observer := ob\<rparr>)"

definition message_arrives :: "('e, 'r, 'l) devtools \<Rightarrow> platform \<Rightarrow> ws_data \<Rightarrow> 'l script \<Rightarrow> 'l script" where
  "message_arrives D P data S =
     S\<lparr>sc_log := snd (onMessage D P data (sc_log S)), sc_received := sc_received S @ [data]\<rparr>"

inductive script_step :: "('e, 'r, 'l) devtools \<Rightarrow> platform \<Rightarrow> bool \<Rightarrow> bool \<Rightarrow> 'l script \<Rightarrow> 'l script \<Rightarrow> bool"
  for D P crossOriginIsolated sab where
  mutation: "script_step D P crossOriginIsolated sab S
    (page_changes D crossOriginIsolated sab view n ok S)"
| manager: "sc_manager S = Some M \<Longrightarrow> manager_step M M' \<Longrightarrow>
    script_step D P crossOriginIsolated sab S (S\<lparr>sc_manager := Some M'\<rparr>)"
| message: "sc_manager S = Some M \<Longrightarrow> s < length (mg_sockets M) \<Longrightarrow> mg_sockets M ! s \<in> {Opened, Closing} \<Longrightarrow>
    script_step D P crossOriginIsolated sab S (message_arrives D P data S)"

section \<open>The invariant\<close>

text \<open>
  What a message shows: it is binary and its text is the JSON of an object with an \<open>_id\<close> that
  can be printed, a HAR entry can be made of it, and the request made with this \<open>_id\<close> and the
  URL of the entry is filled from the entry.
\<close>

inductive displays :: "('e, 'r, 'l) devtools \<Rightarrow> platform \<Rightarrow> ws_data \<Rightarrow> 'r \<Rightarrow> bool" for D P where
  entry: "JSON_parse D (TextDecoder_decode D bs) = Inr msg \<Longrightarrow>
    get_prop msg ''_id'' = Inr msg_id \<Longrightarrow> js_String P msg_id = Inr logged \<Longrightarrow>
    new_HAREntry D msg = Inr har \<Longrightarrow> entry_request_url D har = Inr url \<Longrightarrow>
    createWithoutBackendRequest D msg_id url = Inr request \<Longrightarrow>
    fillRequestFromHAREntry D request har = Inr filled \<Longrightarrow>
    displays D P (Binary bs) filled"

inductive_cases displaysE: "displays D P data r"
inductive_simps displays_Text: "displays D P (Text t) r"

lemma displays_message_request: "displays D P data r \<longleftrightarrow> message_request D P data = Inr r"
  by (cases data) (auto simp: message_request_def bindE_eq_Inr elim!: displaysE intro: displays.entry)

text \<open>The log after a sequence of messages: the requests of those that show one, in their order.\<close>

definition shown :: "('e, 'r, 'l) devtools \<Rightarrow> platform \<Rightarrow> ws_data list \<Rightarrow> 'r list list \<Rightarrow> bool" where
  "shown D P ds rss \<longleftrightarrow>
     list_all2 (\<lambda>d rs. (\<exists>r. displays D P d r \<and> rs = [r]) \<or> (\<forall>r. \<not> displays D P d r) \<and> rs = []) ds rss"

definition log_ok :: "('e, 'r, 'l) devtools \<Rightarrow> platform \<Rightarrow> 'l \<Rightarrow> 'l script \<Rightarrow> bool" where
  "log_ok D P netlog S \<longleftrightarrow>
     (\<exists>rss. shown D P (sc_received S) rss \<and> sc_log S = fold (addRequest D) (concat rss) netlog)"

lemma message_arrives_log_ok:
  assumes "log_ok D P netlog S"
  shows "log_ok D P netlog (message_arrives D P data S)"
proof -
  obtain rss where rss: "shown D P (sc_received S) rss" "sc_log S = fold (addRequest D) (concat rss) netlog"
    using assms by (auto simp: log_ok_def)
  define rs where "rs = (case message_request D P data of Inl e \<Rightarrow> [] | Inr r \<Rightarrow> [r])"
  have "shown D P (sc_received S @ [data]) (rss @ [rs])"
    using rss(1)
    by (auto simp: shown_def rs_def displays_message_request intro!: list_all2_appendI split: sum.split)
  moreover have "snd (onMessage D P data (sc_log S)) = fold (addRequest D) (concat (rss @ [rs])) netlog"
    using rss(2) by (simp add: onMessage_def rs_def split: sum.split)
  ultimately show ?thesis by (auto simp: log_ok_def message_arrives_def)
qed

text \<open>What \<open>main\<close> leaves behind: nothing, or part of its work, or a manager and all of it.\<close>

definition page_ok :: "('e, 'r, 'l) devtools \<Rightarrow> bool \<Rightarrow> bool \<Rightarrow> string list \<Rightarrow> 'l script \<Rightarrow> bool" where
  "page_ok D isolated sab tabs S \<longleftrightarrow>
     (let others_closed = closeTabs D (otherTabs D ''network'' tabs) tabs in
      case sc_manager S of
        None \<Rightarrow> sc_received S = [] \<and> sc_tabs S \<in> {tabs, others_closed} \<and>
          (obs_mains (sc_observer S) = 0 \<longrightarrow> sc_tabs S = tabs \<and> sc_width S = None \<and> sc_minWidth S = None)
      | Some M \<Rightarrow> obs_mains (sc_observer S) = 1 \<and> sc_tabs S = others_closed \<and>
          sc_width S = Some 0 \<and> sc_minWidth S = Some 0 \<and>
          (\<exists>ok. manager_step\<^sup>*\<^sup>* (new_Manager isolated sab ok) M))"

definition script_ok ::
  "('e, 'r, 'l) devtools \<Rightarrow> platform \<Rightarrow> bool \<Rightarrow> bool \<Rightarrow> string list \<Rightarrow> 'l \<Rightarrow> 'l script \<Rightarrow> bool" where
  "script_ok D P isolated sab tabs netlog S \<longleftrightarrow>
     observer_ok (sc_observer S) \<and> log_ok D P netlog S \<and> page_ok D isolated sab tabs S"

lemma observer_ok_mains: "observer_ok ob \<Longrightarrow> obs_mains ob \<le> 1"
  by (auto simp: observer_ok_def)

lemma main_frame [simp]:
  "sc_received (snd (main D isolated sab ok n S)) = sc_received S"
  "sc_log (snd (main D isolated sab ok n S)) = sc_log S"
  "sc_observer (snd (main D isolated sab ok n S)) = sc_observer S"
  by (auto simp: main_def main_statements_def Let_def take_Cons' )

lemma main_page:
  assumes "sc_manager S = None" "sc_received S = []" "sc_tabs S = tabs" and "obs_mains ob = 1"
  shows "page_ok D isolated sab tabs ((snd (main D isolated sab ok n S))\<lparr>sc_observer := ob\<rparr>)"
  using assms by (auto simp: page_ok_def main_def main_statements_def Let_def take_Cons')

lemma page_changes_ok:
  assumes "script_ok D P isolated sab tabs netlog S"
  shows "script_ok D P isolated sab tabs netlog (page_changes D isolated sab view n ok S)"
proof -
  let ?main = "main D isolated sab ok n S"
  let ?ob = "observer_callback view (fst ?main) (sc_observer S)"
  have old: "observer_ok (sc_observer S)" using assms by (simp add: script_ok_def)
  have ob: "observer_ok ?ob" "obs_mains ?ob \<le> 1" "obs_mains (sc_observer S) \<le> obs_mains ?ob"
    using observer_callback_ok [OF old, of view "fst ?main"] observer_ok_mains [of ?ob] observer_ok_mains [OF old]
    by (auto split: if_splits)
  have eq: "page_changes D isolated sab view n ok S =
      (if obs_mains (sc_observer S) < obs_mains ?ob then snd ?main else S)\<lparr>sc_observer := ?ob\<rparr>"
    by (simp add: page_changes_def Let_def split: prod.split)
  have logs: "log_ok D P netlog (page_changes D isolated sab view n ok S)"
    using assms by (simp add: eq script_ok_def log_ok_def)
  have "page_ok D isolated sab tabs (page_changes D isolated sab view n ok S)"
  proof (cases "obs_mains (sc_observer S) < obs_mains ?ob")
    case True
    with ob(2) have "obs_mains (sc_observer S) = 0" "obs_mains ?ob = 1" by linarith+
    moreover from this assms have "sc_manager S = None" "sc_received S = []" "sc_tabs S = tabs"
      by (auto simp: script_ok_def page_ok_def Let_def split: option.splits)
    ultimately show ?thesis using True main_page by (simp add: eq)
  next
    case False
    with ob(3) have "obs_mains ?ob = obs_mains (sc_observer S)" by linarith
    with False assms show ?thesis
      by (simp add: eq script_ok_def page_ok_def Let_def split: option.splits)
  qed
  with ob(1) logs show ?thesis by (simp add: script_ok_def eq)
qed

lemma script_step_ok:
  assumes "script_step D P isolated sab S S'" and "script_ok D P isolated sab tabs netlog S"
  shows "script_ok D P isolated sab tabs netlog S'"
  using assms(1)
proof cases
  case (mutation view n ok)
  with page_changes_ok [OF assms(2)] show ?thesis by simp
next
  case (manager M M')
  with assms(2) obtain ok where "manager_step\<^sup>*\<^sup>* (new_Manager isolated sab ok) M"
    by (auto simp: script_ok_def page_ok_def Let_def)
  then have "manager_step\<^sup>*\<^sup>* (new_Manager isolated sab ok) M'" using manager(3) by (rule rtranclp.rtrancl_into_rtrancl)
  with assms(2) manager show ?thesis by (auto simp: script_ok_def log_ok_def page_ok_def Let_def)
next
  case (message M s data)
  with assms(2) message_arrives_log_ok [of D P netlog S data] show ?thesis
    by (auto simp: script_ok_def page_ok_def message_arrives_def Let_def)
qed

lemma script_run_ok:
  "(script_step D P isolated sab)\<^sup>*\<^sup>* (script_init isolated sab tabs netlog) S \<Longrightarrow> script_ok D P isolated sab tabs netlog S"
proof (induction rule: rtranclp_induct)
  case base
  show ?case
    by (auto simp: script_ok_def log_ok_def page_ok_def script_init_def shown_def observer_ok_def new_observer_def
        intro!: exI [of _ "[]"]) (simp add: new_Mutex_def Let_def)
qed (rule script_step_ok)

section \<open>Properties\<close>

text \<open>C13: in every run of the script, whatever the page, the network and the messages do: \<open>main\<close>
  runs at most once; there is no manager until it has run to its end, with the other tabs
  closed and the toolbar's widths set, and never a second one; the network log is the
  initial one with the requests of the messages that show one, in the order in which they
  came; and the state of the manager is one that the manager reaches on its own, so that all
  that is shown of its runs holds of it.\<close>

theorem script_shows_messages:
  assumes "(script_step D P isolated sab)\<^sup>*\<^sup>* (script_init isolated sab tabs netlog) S"
  shows "obs_mains (sc_observer S) \<le> 1 \<and>
    (\<exists>rss. list_all2 (\<lambda>d rs. (\<exists>r. displays D P d r \<and> rs = [r]) \<or> (\<forall>r. \<not> displays D P d r) \<and> rs = []) (sc_received S) rss \<and>
       sc_log S = fold (addRequest D) (concat rss) netlog) \<and>
    (case sc_manager S of
       None \<Rightarrow> sc_received S = [] \<and> sc_tabs S \<in> {tabs, closeTabs D (otherTabs D ''network'' tabs) tabs} \<and>
         (obs_mains (sc_observer S) = 0 \<longrightarrow> sc_tabs S = tabs \<and> sc_width S = None \<and> sc_minWidth S = None)
     | Some M \<Rightarrow> obs_mains (sc_observer S) = 1 \<and> sc_tabs S = closeTabs D (otherTabs D ''network'' tabs) tabs \<and>
         sc_width S = Some 0 \<and> sc_minWidth S = Some 0 \<and>
         (\<exists>ok. manager_step\<^sup>*\<^sup>* (new_Manager isolated sab ok) M))"
proof -
  have ok: "script_ok D P isolated sab tabs netlog S" by (rule script_run_ok [OF assms])
  then have "obs_mains (sc_observer S) \<le> 1" by (intro observer_ok_mains) (simp add: script_ok_def)
  moreover from ok have "log_ok D P netlog S" "page_ok D isolated sab tabs S" by (simp_all add: script_ok_def)
  ultimately show ?thesis unfolding log_ok_def shown_def page_ok_def Let_def by blast
qed

text \<open>A page with two tabs, and a front end whose requests are the identifiers of the messages.\<close>

definition sample_devtools :: "(jsval, jsval, jsval list) devtools" where
  "sample_devtools =
     \<lparr>TextDecoder_decode = map (\<lambda>b. char_of (unat b)), JSON_parse = (\<lambda>s. Inr (JObj [(''_id'', JStr s)])),
      new_HAREntry = Inr, entry_request_url = (\<lambda>_. Inr (JStr ''u'')),
      createWithoutBackendRequest = (\<lambda>msg_id url. Inr msg_id), fillRequestFromHAREntry = (\<lambda>r e. Inr r),
      addRequest = (\<lambda>r l. l @ [r]), otherTabs = (\<lambda>k. filter (\<lambda>t. t \<noteq> k)),
      closeTabs = (\<lambda>ts. filter (\<lambda>t. t \<notin> set ts))\<rparr>"

theorem script_shows_messages_witness:
  "\<exists>S :: jsval list script. sc_received S = [Text ''x'', Binary [49]] \<and> sc_log S = [JStr [char_of (49 :: nat)]] \<and> sc_tabs S = [''network'']"
proof -
  let ?P = "conversions sample_web"
  let ?S0 = "script_init False False [''console'', ''network''] []"
  let ?S1 = "page_changes sample_devtools False False True 4 True ?S0"
  let ?M = "new_Manager False False True"
  let ?S2 = "?S1\<lparr>sc_manager := Some (socket_opened 0 ?M)\<rparr>"
  let ?S3 = "message_arrives sample_devtools ?P (Text ''x'') ?S2"
  let ?S4 = "message_arrives sample_devtools ?P (Binary [49]) ?S3"
  have S1: "sc_manager ?S1 = Some ?M" "sc_received ?S1 = []"
    by (simp_all add: page_changes_def observer_callback_def new_observer_def script_init_def tryLock_def
        unlock_def new_Mutex_def main_def main_statements_def Let_def)
  have M: "length (mg_sockets (socket_opened 0 ?M)) = 1" "mg_sockets (socket_opened 0 ?M) ! 0 = Opened"
    by (simp_all add: sample_start socket_opened_def Let_def)
  have "script_step sample_devtools ?P False False ?S0 ?S1" by (rule mutation)
  moreover have "manager_step ?M (socket_opened 0 ?M)"
    by (rule calm, rule opens) (simp_all add: sample_start)
  then have "script_step sample_devtools ?P False False ?S1 ?S2" by (rule manager [OF S1(1)])
  moreover have "script_step sample_devtools ?P False False ?S2 ?S3"
    by (rule message [of _ "socket_opened 0 ?M" 0]) (simp_all add: M)
  moreover have "script_step sample_devtools ?P False False ?S3 ?S4"
    by (rule message [of _ "socket_opened 0 ?M" 0]) (simp_all add: M message_arrives_def)
  ultimately have "(script_step sample_devtools ?P False False)\<^sup>*\<^sup>* ?S0 ?S4"
    by (meson converse_rtranclp_into_rtranclp rtranclp.rtrancl_refl)
  note run = script_shows_messages [OF this]
  have received: "sc_received ?S4 = [Text ''x'', Binary [49]]"
    using S1 by (simp add: message_arrives_def)
  have displayed: "displays sample_devtools ?P (Text ''x'') r \<longleftrightarrow> False"
      "displays sample_devtools ?P (Binary [49]) r \<longleftrightarrow> r = JStr [char_of (49 :: nat)]" for r
    by (simp_all add: displays_Text displays_message_request sample_devtools_def message_request_def eq_commute)
  from conjunct1 [OF conjunct2 [OF run]] have "sc_log ?S4 = [JStr [char_of (49 :: nat)]]"
    unfolding received by (auto simp: list_all2_Cons1 displayed) (simp add: sample_devtools_def)
  moreover have "sc_manager ?S4 = Some (socket_opened 0 ?M)" by (simp add: message_arrives_def)
  with conjunct2 [OF conjunct2 [OF run]] have "sc_tabs ?S4 =
      closeTabs sample_devtools (otherTabs sample_devtools ''network'' [''console'', ''network'']) [''console'', ''network'']"
    by (simp only: option.case simp_thms)
  then have "sc_tabs ?S4 = [''network'']" by (simp add: sample_devtools_def)
  ultimately show ?thesis using received by metis
qed

end
