(* ===== verification/NodeLauncher.thy ===== *)
theory NodeLauncher
  imports JsObject
begin

text \<open>
  The Node.js package: \<open>etc/node/exec.js\<close>, the command that starts the agent's binary, and
  \<open>etc/node/index.js\<close>, which loads the native module once.
\<close>

section \<open>exec.js\<close>

text \<open>What the command reads of its process and of the file system.\<close>

record node_process =
  process_platform :: string
  process_arch :: string
  process_argv :: "string list"
  dirname :: string
  path_join :: "string \<Rightarrow> string \<Rightarrow> string"
  existsSync :: "string \<Rightarrow> bool"

text \<open>
  The result of \<open>spawnSync\<close>: the message of its \<open>error\<close>, if there is one, and the exit
  status, which is \<open>null\<close> when a signal ended the child.
\<close>

record child =
  child_error :: "string option"
  child_status :: "nat option"

definition arch_name :: "string \<Rightarrow> string option" where
  "arch_name arch =
     (if arch = ''x64'' then Some ''amd64''
      else if arch = ''arm64'' then Some ''arm64''
      else None)"

text \<open>The exit code, the lines written to the error stream, and the program started with its
  arguments, if any.\<close>

definition exec_main ::
  "node_process \<Rightarrow> (string \<Rightarrow> string list \<Rightarrow> child) \<Rightarrow>
   nat \<times> string list \<times> (string \<times> string list) option" where
  "exec_main pr spawnSync =
     (if process_platform pr \<noteq> ''linux''
      then (1, [''unsupported platform: '' @ process_platform pr], None)
      else case arch_name (process_arch pr) of
        None \<Rightarrow> (1, [''unsupported arch: '' @ process_arch pr], None)
      | Some arch \<Rightarrow>
          (let bin = path_join pr (dirname pr) (''subtrace-linux-'' @ arch) in
           if \<not> existsSync pr bin then (1, [''binary '' @ bin @ '' not found''], None)
           else (let args = [''run'', ''--''] @ drop 2 (process_argv pr);
                     child = spawnSync bin args
                 in case child_error child of
                      Some msg \<Rightarrow> (1, [msg], Some (bin, args))
                    | None \<Rightarrow> ((case child_status child of Some status \<Rightarrow> status | None \<Rightarrow> 1), [],
                        Some (bin, args)))))"

text \<open>Where the binary for a supported process is.\<close>

definition agent_binary :: "node_process \<Rightarrow> string option" where
  "agent_binary pr =
     (if process_platform pr \<noteq> ''linux'' then None
      else map_option (\<lambda>arch. path_join pr (dirname pr) (''subtrace-linux-'' @ arch))
        (arch_name (process_arch pr)))"

text \<open>The command starts a program exactly when the process is a supported one and its
  binary exists; it is then that binary with \<open>run --\<close> and the command's own arguments, and
  the command exits with the child's status. Every other outcome, a child ended by a signal
  included, exits with 1, and one that starts nothing says why.\<close>

theorem exec_runs_agent:
  assumes "exec_main pr spawnSync = (code, errs, started)"
  shows "(case started of
      None \<Rightarrow> (case agent_binary pr of None \<Rightarrow> True | Some bin \<Rightarrow> \<not> existsSync pr bin) \<and>
        code = 1 \<and> length errs = 1
    | Some (bin, args) \<Rightarrow> agent_binary pr = Some bin \<and> existsSync pr bin \<and>
        args = ''run'' # ''--'' # drop 2 (process_argv pr) \<and>
        code = (if child_error (spawnSync bin args) = None
          then (case child_status (spawnSync bin args) of None \<Rightarrow> 1 | Some status \<Rightarrow> status) else 1))"
  using assms by (auto simp: exec_main_def agent_binary_def Let_def split: if_splits option.splits)

definition sample_process :: node_process where
  "sample_process = \<lparr>process_platform = ''linux'', process_arch = ''x64'',
     process_argv = [''node'', ''exec.js'', ''ls'', ''-l''], dirname = ''d'',
     path_join = (\<lambda>a b. a @ ''/'' @ b), existsSync = (\<lambda>p. p = ''d/subtrace-linux-amd64'')\<rparr>"

theorem exec_runs_agent_witness:
  "agent_binary sample_process = Some ''d/subtrace-linux-amd64'' \<and>
   existsSync sample_process ''d/subtrace-linux-amd64'' \<and>
   [''run'', ''--'', ''ls'', ''-l''] = ''run'' # ''--'' # drop 2 (process_argv sample_process)"
proof -
  have "exec_main sample_process (\<lambda>_ _. \<lparr>child_error = None, child_status = Some 3\<rparr>) =
      (3, [], Some (''d/subtrace-linux-amd64'', [''run'', ''--'', ''ls'', ''-l'']))"
    by (simp add: exec_main_def sample_process_def arch_name_def)
  from exec_runs_agent [OF this] show ?thesis by simp
qed

section \<open>index.js\<close>

text \<open>Each load of the module counts; the first calls \<open>init\<close> of the native module.\<close>

definition node_load :: "nat \<times> nat \<Rightarrow> nat \<times> nat" where
  "node_load s =
     (case s of (counter, inits) \<Rightarrow>
        let count = counter; counter = counter + 1
        in (counter, if count = 0 then inits + 1 else inits))"

lemma node_loads: "(node_load ^^ n) (0, 0) = (n, if n = 0 then 0 else 1)"
  by (induction n) (auto simp: node_load_def)

end
