(* ===== verification/Spec2Isabelle.thy ===== *)
theory Spec2Isabelle
  imports PubsubProps NextLimitRun NextRefine NextInit CfWorker DevTools NodeLauncher
begin

text \<open>
  A verification library for Subtrace's TypeScript and JavaScript code: the message codec
  \<open>pubsub.ts\<close>, the instrumentation of Next.js (\<open>src/etc/subtrace-next/index.ts\<close>) and of
  Cloudflare Workers (\<open>src/etc/subtrace-cloudflare/index.ts\<close>), the script that connects the
  browser's DevTools (\<open>src/devtools/init.js\<close>), and the Node.js launcher
  (\<open>src/etc/node/exec.js\<close> and \<open>index.js\<close>).

  The program. Both instrumentations copy the bodies of a request and its response, describe
  the exchange as a HAR entry, and send it as an event. The Next.js package encodes it in
  binary with \<open>Message.encode\<close> and sends it over a WebSocket that all calls share; the
  Cloudflare package posts the JSON of \<open>PublishEvents_Request.toJSON\<close>. \<open>pubsub.ts\<close> is
  generated code of which the repository holds two identical copies.

  Conventions. A thrown exception is a value of the sum type \<open>result\<close>, a promise that never
  settles or a loop that does not end is \<open>None\<close>. Numbers are exact rationals with infinities and
  \<open>NaN\<close>; rounding to a double is written out where it shows (\<open>LongNumber\<close>). Strings are lists
  of UTF-16 units from U+0000 to U+00FF. Objects used as dictionaries are lists in property
  order (\<open>JsObject\<close>), with \<open>__proto__\<close> as the key that assignment ignores.

  Theories, in the order of their imports:

  \<^item> \<open>Prelude\<close>: exceptions, fallible loops, numbers, UTF-8. \<open>JsObject\<close>, \<open>JsValue\<close>: objects and
    values of JavaScript with their conversions. \<open>Base64\<close>: the base64 helpers of \<open>pubsub.ts\<close>.
  \<^item> \<open>Wire\<close>: the interface of the reader and the writer as locales; \<open>WireFormat\<close>: an
    implementation that satisfies them. \<open>LongNumber\<close>: \<open>longToNumber\<close>.
  \<^item> \<open>PubsubTypes\<close>, \<open>PubsubEncode\<close>, \<open>PubsubDecode\<close>, \<open>PubsubJson\<close>, \<open>PubsubPartial\<close>, \<open>PubsubApi\<close>:
    the 21 messages with \<open>encode\<close>, \<open>decode\<close>, \<open>toJSON\<close>, \<open>fromJSON\<close>, \<open>create\<close>,
    \<open>fromPartial\<close> and the exported message objects.
  \<^item> \<open>MessageCodec\<close>, \<open>PubsubFields\<close>, \<open>PubsubMerge\<close>, \<open>PubsubCodec\<close>: a message as a sequence of
    fields, what a decoder does with them, and that every message is such a codec.
    \<open>PubsubJsonCodec\<close>, \<open>PubsubPartialCodec\<close>, \<open>PubsubInvariant\<close>: the same for JSON and partial
    values, and the well-formedness of what is decoded. \<open>PubsubProps\<close>: the properties.
  \<^item> \<open>WebApi\<close>: what the two \<open>index.ts\<close> files use of the web platform: a store of streams with
    locks, \<open>tee\<close>, \<open>Request\<close>, \<open>Response\<close>, \<open>fetch\<close>, \<open>JSON.stringify\<close>. \<open>Capture\<close>: the contract of
    copying a body (locale \<open>body_copy\<close>, extended by \<open>body_capture\<close>).
  \<^item> \<open>NextLimit\<close> (\<open>limit\<close> at once) and \<open>NextLimitRun\<close> (its \<open>pull\<close> and \<open>cancel\<close> in steps),
    \<open>NextHar\<close> (\<open>createHarEntry\<close>), \<open>NextConnect\<close> (\<open>createWebSocket\<close>, a loop that may not end),
    \<open>NextUpload\<close> (\<open>getWebSocket\<close> and \<open>upload\<close>, cut at their \<open>await\<close>s), \<open>NextConcurrency\<close> (many
    uploads as a step relation), \<open>NextRefine\<close> (an upload on its own is one of their runs),
    \<open>NextFetch\<close> (\<open>patchFetch\<close> and \<open>trace\<close>), \<open>NextInit\<close> (\<open>init\<close>).
  \<^item> \<open>CfEvent\<close> (\<open>newEvent\<close>, the members a call writes, \<open>publishEvent\<close>), \<open>CfFetch\<close> (the patched
    \<open>fetch\<close>, \<open>subtrace\<close> with the jobs given to \<open>waitUntil\<close>, \<open>init\<close>), \<open>CfProps\<close> (transparency),
    \<open>CfPublish\<close> (what the published events contain) and \<open>CfWorker\<close> (a worker over many requests).
  \<^item> \<open>DevMutex\<close> (the class \<open>Mutex\<close>, the locale \<open>lock\<close> and the observer of \<open>init\<close>), \<open>DevManager\<close>
    (\<open>Client\<close> and \<open>Manager\<close> as a step relation) and \<open>DevTools\<close> (messages, \<open>main\<close> and the whole
    script); \<open>NodeLauncher\<close>.
\<close>

text \<open>
  What is shown. For the messages: every codec round-trips in binary, in JSON and through
  \<open>fromPartial\<close>; \<open>encode\<close> refines the Protocol Buffers format; \<open>decode\<close> returns on every
  input and gives well-formed messages; unknown fields are ignored and repeated ones merged.

  For both instrumentations: the contract of copying bodies is proved once for any pair of
  operations that satisfies it, and each package's operations are shown to; from it follow
  that the patched \<open>fetch\<close> and the wrapped handlers are transparent, and where they are not
  (a body that is a stream, slow responses, \<open>cf\<close> entries that are \<open>null\<close>). For Next.js, in every
  interleaving of uploads, settling promises and closing sockets, a message is sent at most
  once, and the server can decode all it is sent; one connection is opened as long as sockets
  stay open, and one for each upload that finds its socket closed; a rejected connection is
  permanent. The two composed models rest on step relations: every run of a limited stream
  has the outcome \<open>limit\<close> gives at once and reads its source no further than the limit, and an
  upload on its own is a run of the interleaved steps. For Cloudflare, events are published
  exactly when both bodies end, never hold the TLS client material, and are read back by
  \<open>PublishEvents_Request.fromJSON\<close>; a worker publishes with the first token it was given.

  For the DevTools script: the mutex excludes (with a flag always, with a shared byte for 255
  acquisitions, and not at the 256th); for as long the manager keeps its invariant in every
  order of events, and unless \<open>new WebSocket\<close> has thrown it can still get to an open
  connection; its sockets only advance; and two ways in which its reconnecting goes wrong. In
  the whole script the manager's state is one that the manager reaches on its own, and the
  network log holds the messages that can be read, in order.

  Bounds. No fuel is used: the decoders are \<open>partial_function (option)\<close>s whose results are
  proved to exist on every input, and \<open>createWebSocket_loop\<close> is one whose result is \<open>None\<close> exactly
  when it runs for ever. The round trips hold for messages below 4 GiB.

  Parameters. \<open>BinaryReader\<close> and \<open>BinaryWriter\<close> of \<open>@bufbuild/protobuf\<close>, Node's \<open>Buffer\<close>, the
  printing of non-integral numbers, the URL parser, the query parameters, the UTF-8 decoder, the
  network, route handlers, the classes of the DevTools front end, the clock, identifiers,
  environment variables, file system and child process. Their laws, where used, are the
  assumptions of the locales of \<open>Wire\<close>, the predicate \<open>buffer_ok\<close>, and for a handler that
  responds the predicate \<open>answers\<close>; every property has an instance.

  Simplifications. A stream counts as used exactly when it is locked. An exception is its class
  and its message. Code between two \<open>await\<close>s is one step; timers fire in any order. \<open>main\<close> of
  the DevTools script may throw after any of its statements, each of which has its whole
  effect or none. The other members of \<open>Request\<close> and \<open>Response\<close> (mode, credentials, signal,
  redirected) are left out, headers are given in normal form, and \<open>cf\<close> objects are arguments
  of their own.

  Not modelled. The Go agent and its packages, the C and Python glue, the build files, and
  ambient type declarations. Of the Next.js \<open>index.ts\<close>: the timing logs of debug mode.
\<close>

section \<open>From the call to the server\<close>

text \<open>The text of a body that ends, cut to the payload limit.\<close>

definition cut :: "number \<Rightarrow> byte list \<Rightarrow> byte list" where
  "cut maxBytes bs = (case allowance maxBytes of None \<Rightarrow> bs | Some k \<Rightarrow> take k bs)"

definition captured_text :: "web \<Rightarrow> number \<Rightarrow> content option \<Rightarrow> string" where
  "captured_text X maxBytes c = text_decode X (cut maxBytes (bytes_of c))"

lemma limited_content_cut:
  assumes "whole maxBytes" and "snd d = Ended"
  shows "content_bytes (limited_content maxBytes d) = cut maxBytes (content_bytes d) \<and>
    snd (limited_content maxBytes d) = Ended"
proof -
  obtain cs e unread where p: "limit_pull maxBytes (fst d) (snd d) = (cs, e, unread)"
    by (metis prod_cases3)
  show ?thesis
    using limit_pull_spec [OF assms(1) p] p assms(2)
    by (simp add: limited_content_def cut_def content_bytes_def split: option.splits if_splits)
qed

lemma captured_body_text:
  assumes "whole maxBytes" and "holds h b (map_option (limited_content maxBytes) c)" and "ended c"
  shows "body_text X b h = Some (Inr (captured_text X maxBytes c))"
  using assms limited_content_cut [OF assms(1)]
  by (cases c) (auto simp: body_text_holds ended_def bytes_of_def captured_text_def cut_def read_all_def
      split: option.splits)

text \<open>The HAR entry of an exchange over the network.\<close>

definition exchange_har ::
  "web \<Rightarrow> number \<Rightarrow> request \<Rightarrow> content option \<Rightarrow> reply \<Rightarrow> string \<Rightarrow> number \<Rightarrow> jsval" where
  "exchange_har X maxBytes req c rp timestamp ms =
     har_object X req (reply_head rp) timestamp ms
       (captured_text X maxBytes c) (captured_text X maxBytes (rp_body rp))"

lemma har_object_same:
  assumes "same_request req req'" and "rs_status resp = rs_status resp'"
    and "rs_statusText resp = rs_statusText resp'" and "rs_headers resp = rs_headers resp'"
  shows "har_object X req resp t d a b = har_object X req' resp' t d a b"
  using assms by (simp add: har_object_def har_request_def har_response_def same_request_def)

text \<open>C1: with an open connection, a call of the patched \<open>fetch\<close> of the Next.js package whose body
  is not a stream, which the network answers and whose two bodies end, returns the network's
  response and sends exactly one message, which the server's decoder reads as the event with
  the HAR entry of this exchange: the request and the response as they were, with the texts
  of their bodies cut to the payload limit. The limit is an integer or infinite, the status
  of a response with a body is one that may have a body, and the texts of the message have
  less than \<open>2 ^ 25\<close> characters; calls whose body is a stream, and responses whose body does
  not end, are the subject of properties of their own.\<close>

theorem next_fetch_reaches_server:
  assumes "wire W stk R buf"
    and "new_Request (parse_url X) input init h = Inr (req, h1)"
    and "body_stream input init = None" and "holds h1 (rq_body req) c"
    and "net (rq_method req) (rq_url req) (rq_headers req) c = Some (Inr rp)"
    and "rp_body rp = None \<or> 200 \<le> rp_status rp \<and> rp_status rp \<le> 599 \<and> rp_status rp \<notin> {204, 205, 304}"
    and "ended c" "ended (rp_body rp)" "whole maxBytes"
    and "conn st = Created ws" "ready E ws = OPEN"
    and "event_text_size X env (exchange_har X maxBytes req c rp timestamp ms) < 2 ^ 25"
  shows "\<exists>resp h' data r.
    next_patched_fetch W X env E net maxBytes i timestamp ms input init h st =
      Some (Inr (resp, h'), st\<lparr>sent := sent st @ [(i, ws, data)]\<rparr>) \<and>
    same_response resp (reply_head rp) \<and> holds h' (rs_body resp) (rp_body rp) \<and>
    Message_decode R (IBytes data) None =
      Some (Inr (har_message X env (exchange_har X maxBytes req c rp timestamp ms), r))"
proof -
  obtain cr cs resp h' where fetch:
      "next_patched_fetch W X env E net maxBytes i timestamp ms input init h st =
        map_option (\<lambda>(r, st). (bindE r (\<lambda>_. Inr (resp, h')), st)) (upload W X env E i cr cs timestamp ms h' st)"
      "same_response resp (reply_head rp)" "holds h' (rs_body resp) (rp_body rp)" "same_request cr req"
      "rs_status cs = rp_status rp" "rs_statusText cs = rp_statusText rp" "rs_headers cs = rp_headers rp"
      "holds h' (rq_body cr) (map_option (limited_content maxBytes) c)"
      "holds h' (rs_body cs) (map_option (limited_content maxBytes) (rp_body rp))"
    using patched_fetch_result [where net = net and maxBytes = maxBytes and st = st and W = W and env = env
        and E = E and i = i and timestamp = timestamp and duration = ms, OF assms(2-6)]
    unfolding same_response_def reply_head_def by simp blast
  have "createHarEntry X cr cs timestamp ms h' = Some (exchange_har X maxBytes req c rp timestamp ms)"
    using captured_body_text [OF assms(9) fetch(8) assms(7)] captured_body_text [OF assms(9) fetch(9) assms(8)]
      har_object_same [OF fetch(4), of cs "reply_head rp"] fetch(5-7)
    by (simp add: createHarEntry_def har_bodies_def exchange_har_def reply_head_def)
  from upload_sends [OF assms(1,10,11) this assms(12), of i] obtain data r where
      "upload W X env E i cr cs timestamp ms h' st = Some (Inr (), st\<lparr>sent := sent st @ [(i, ws, data)]\<rparr>)"
      "Message_decode R (IBytes data) None =
        Some (Inr (har_message X env (exchange_har X maxBytes req c rp timestamp ms), r))"
    by blast
  with fetch(1-3) show ?thesis by auto
qed

definition sample_exchange :: jsval where
  "sample_exchange = exchange_har sample_web (of_n 2) post_req (Some ([Chunk [7, 8, 9]], Ended)) sample_reply ''now'' (of_n 5)"

lemma sample_exchange_size: "event_text_size sample_web (\<lambda>_. None) sample_exchange < 2 ^ 25"
proof -
  have "length (case json_text (conversions sample_web) sample_exchange of None \<Rightarrow> [] | Some s \<Rightarrow> s) \<le>
      json_size sample_exchange"
    by (rule json_text_length)
  moreover have "json_size sample_exchange < 2 ^ 24"
    by (simp add: sample_exchange_def exchange_har_def har_object_def har_request_def har_response_def
        captured_text_def cut_def allowance_def bytes_of_def content_bytes_def post_req_def sample_reply_def
        reply_head_def sample_web_def name_value_def header_or_def of_n_def floor_minus_one)
  moreover have "\<exists>s. json_text (conversions sample_web) sample_exchange = Some s"
    by (simp add: sample_exchange_def exchange_har_def har_object_def)
  ultimately show ?thesis by (auto simp: event_text_size_def deployment_tags_def)
qed

definition open_state :: next_state where
  "open_state = \<lparr>conn = Created 0, promises = [Fulfilled 0], sent = [], closed = []\<rparr>"

theorem next_fetch_reaches_server_witness:
  "\<exists>resp h' data r.
    next_patched_fetch format_writer sample_web (\<lambda>_. None) sample_env sample_net (of_n 2) 7 ''now'' (of_n 5)
        (Url ''u'') post_init [] open_state =
      Some (Inr (resp, h'), open_state\<lparr>sent := sent open_state @ [(7, 0, data)]\<rparr>) \<and>
    same_response resp (reply_head sample_reply) \<and> holds h' (rs_body resp) (rp_body sample_reply) \<and>
    Message_decode format_reader (IBytes data) None =
      Some (Inr (har_message sample_web (\<lambda>_. None) (exchange_har sample_web (of_n 2) post_req
        (Some ([Chunk [7, 8, 9]], Ended)) sample_reply ''now'' (of_n 5)), r))"
  by (rule next_fetch_reaches_server [OF wire_format sample_new_Request _ sample_holds _ _ _ _ _ _ _
        sample_exchange_size [unfolded sample_exchange_def]])
    (simp_all add: sample_net_def sample_reply_def post_init_def open_state_def sample_env_def
      body_stream_def ended_def whole_def of_n_def)

text \<open>What the server reads of a run's messages, in the order in which they were sent.\<close>

definition server_reads :: "'r reader_ops \<Rightarrow> world \<Rightarrow> Message option list" where
  "server_reads R w =
     map (\<lambda>(i, ws, data). case Message_decode R (IBytes data) None of
            Some (Inr (message, r)) \<Rightarrow> Some message | _ \<Rightarrow> None) (sent (global w))"

text \<open>C3: however many uploads run at once, and however they interleave with connections that
  open, fail and close, the server can read every message it is sent: they are the events of
  the HAR entries of uploads that have finished, each at most once, and no upload is cut short
  by its encoding.\<close>

theorem server_reads_each_upload_once:
  assumes "wire W stk R buf" and "\<And>i. event_text_size X env (har i) < 2 ^ 25"
    and "(world_step (\<lambda>i. upload_data W X env (har i)))\<^sup>*\<^sup>* initial w"
  shows "\<exists>ids. distinct ids \<and> list_all (\<lambda>i. i < length (tasks w) \<and> tasks w ! i = Done) ids \<and>
    server_reads R w = map (\<lambda>i. Some (har_message X env (har i))) ids"
proof (intro exI conjI)
  let ?ids = "map fst (sent (global w))"
  have ok: "sent_ok (\<lambda>i. upload_data W X env (har i)) (global w) (tasks w)"
    using reachable_ok [OF assms(3)] by (simp add: world_ok_def)
  then show "distinct ?ids" by (simp add: sent_ok_def)
  from ok show "list_all (\<lambda>i. i < length (tasks w) \<and> tasks w ! i = Done) ?ids"
    by (fastforce simp: sent_ok_def list_all_iff)
  have "(case Message_decode R (IBytes data) None of Some (Inr (message, r)) \<Rightarrow> Some message | _ \<Rightarrow> None) =
      Some (har_message X env (har i))" if "(i, ws, data) \<in> set (sent (global w))" for i ws data
    using har_message_decodes [OF assms(1,2), of i] ok that by (fastforce simp: sent_ok_def)
  then show "server_reads R w = map (\<lambda>i. Some (har_message X env (har i))) ?ids"
    by (auto simp: server_reads_def)
qed

theorem server_reads_each_upload_once_witness:
  "\<exists>w ids. length (sent (global w)) = 1 \<and> distinct ids \<and>
    server_reads format_reader w = map (\<lambda>i :: nat. Some (har_message sample_web (\<lambda>_. None) sample_har)) ids"
proof -
  obtain data where "upload_data format_writer sample_web (\<lambda>_. None) sample_har = Inr data"
    using har_message_decodes [OF wire_format sample_har_size] by blast
  from sent_world_reachable [where payload = "\<lambda>_. upload_data format_writer sample_web (\<lambda>_. None) sample_har", OF this]
  obtain w where w: "(world_step (\<lambda>_. upload_data format_writer sample_web (\<lambda>_. None) sample_har))\<^sup>*\<^sup>* initial w"
    "length (sent (global w)) = 1" by auto
  from server_reads_each_upload_once [OF wire_format sample_har_size w(1)] w(2) show ?thesis by blast
qed

text \<open>C2: a request to a handler wrapped by \<open>subtrace\<close> that the handler answers, and whose two
  bodies end, is answered with the handler's response, and its one job sends, once a string
  token is known, one authorized \<open>POST\<close> whose JSON the server's decoder reads as the event of
  this exchange, with both bodies in base64 and in full. The \<open>cf\<close> objects have no entry without a \<open>toString\<close>; the
  handler need only answer this request.\<close>

theorem worker_request_reaches_server:
  assumes "holds h (rq_body req) c" and "tags_ok (conversions X) tls_entries cf"
    and "answers handler req c rp resp_cf"
    and "tags_ok (conversions X) [] resp_cf"
    and "ended c" "ended (rp_body rp)" "buffer_ok (conversions X)" "parse_url X publish_url = Some url"
  shows "\<exists>resp' h' j v text.
    subtrace X m handler req cf h = Some (Inr (resp', h'), [j]) \<and>
    same_response resp' (reply_head rp) \<and> rs_url resp' = rp_url rp \<and> holds h' (rs_body resp') (rp_body rp) \<and>
    json_text (conversions X) v = Some text \<and>
    PublishEvents_Request_fromJSON (conversions X) v =
      Inr (publish_message (conversions X) (describe_bodies (bytes_of c) (bytes_of (rp_body rp))
        (exchanged (conversions X) m tls_entries cf req (reply_head rp) resp_cf))) \<and>
    run_job X net (JStr token) h'' j =
      (case net ''POST'' url
          [(''authorization'', ''Bearer '' @ token), (''content-type'', ''text/plain;charset=UTF-8'')]
          (Some ([Chunk (utf8 text)], Ended)) of
         None \<Rightarrow> None
       | Some (Inl e) \<Rightarrow> Some (Inl e, [])
       | Some (Inr reply) \<Rightarrow> publish_outcome X reply)"
proof -
  let ?ev = "exchanged (conversions X) m tls_entries cf req (reply_head rp) resp_cf"
  let ?j = "Publish_bodies (body_bytes c) (body_bytes (rp_body rp)) ?ev"
  from subtrace_answered [where m = m, OF assms(1-4)]
  obtain resp' h' where s: "subtrace X m handler req cf h = Some (Inr (resp', h'), [?j])"
      "same_response resp' (reply_head rp)" "rs_url resp' = rp_url rp" "holds h' (rs_body resp') (rp_body rp)"
    by blast
  have j: "job_event ?j = Some (Inr (describe_bodies (bytes_of c) (bytes_of (rp_body rp)) ?ev))"
    using assms(5,6) by (simp add: job_event_bodies)
  have "obj_ok (event_tags (describe_bodies (bytes_of c) (bytes_of (rp_body rp)) ?ev))"
    using subtrace_good [OF s(1) _ j] by (simp add: good_tags_def)
  from job_posts [OF assms(7,8) j this, of net token h''] s show ?thesis by blast
qed

theorem worker_request_reaches_server_witness:
  "\<exists>resp' h' j v text.
    subtrace cf_sample sample_moment (serving sample_reply JNull) post_req sample_cf post_heap =
      Some (Inr (resp', h'), [j]) \<and>
    same_response resp' (reply_head sample_reply) \<and> rs_url resp' = rp_url sample_reply \<and>
    holds h' (rs_body resp') (rp_body sample_reply) \<and>
    json_text (conversions cf_sample) v = Some text \<and>
    PublishEvents_Request_fromJSON (conversions cf_sample) v =
      Inr (publish_message (conversions cf_sample) (describe_bodies (bytes_of (Some ([Chunk [7, 8, 9]], Ended)))
        (bytes_of (rp_body sample_reply))
        (exchanged (conversions cf_sample) sample_moment tls_entries sample_cf post_req
          (reply_head sample_reply) JNull))) \<and>
    run_job cf_sample sample_net (JStr ''tok'') [] j =
      (case sample_net ''POST'' publish_url
          [(''authorization'', ''Bearer '' @ ''tok''), (''content-type'', ''text/plain;charset=UTF-8'')]
          (Some ([Chunk (utf8 text)], Ended)) of
         None \<Rightarrow> None
       | Some (Inl e) \<Rightarrow> Some (Inl e, [])
       | Some (Inr reply) \<Rightarrow> publish_outcome cf_sample reply)"
  by (rule worker_request_reaches_server [OF sample_holds sample_cf_ok serving_answers _ _ _ cf_sample_ok])
    (simp_all add: sample_reply_def ended_def tags_ok_iff cf_entries_def js_entries_def
      isSet_def)

end
